(* ===== verification/Prelude.thy ===== *)
theory Prelude
  imports Main "HOL-Library.Char_ord"
begin

text \<open>
  Shared vocabulary of the development: Go strings as byte lists, the functions of Go's
  package strings that the sources use, the outcome of code that may panic, and the generic
  lemmas that the components share.

  A Go string is a sequence of bytes; here it is HOL's \<^verbatim>\<open>string\<close> (a list of 8-bit
  characters).  \<^verbatim>\<open>to_lower\<close> and \<^verbatim>\<open>to_upper\<close> are the ASCII
  branch of strings.ToLower, bytes.ToLower and their ToUpper twins: every name, header, token
  and tag the sources pass to them is ASCII.
\<close>

named_theorems string_simps "facts about the functions of package strings"

text \<open>The result of code that either returns or panics.\<close>

datatype 'a outcome = Returns 'a | Panics string

fun bind_outcome :: "'a outcome \<Rightarrow> ('a \<Rightarrow> 'b outcome) \<Rightarrow> 'b outcome" where
  "bind_outcome (Returns x) f = f x"
| "bind_outcome (Panics p) f = Panics p"

fun map_sum_right :: "('a \<Rightarrow> 'b) \<Rightarrow> 'e + 'a \<Rightarrow> 'e + 'b" where
  "map_sum_right f (Inl e) = Inl e"
| "map_sum_right f (Inr x) = Inr (f x)"


section \<open>ASCII letters\<close>

definition is_upper :: "char \<Rightarrow> bool" where
  "is_upper c \<longleftrightarrow> 65 \<le> (of_char c :: nat) \<and> (of_char c :: nat) \<le> 90"

definition is_lower :: "char \<Rightarrow> bool" where
  "is_lower c \<longleftrightarrow> 97 \<le> (of_char c :: nat) \<and> (of_char c :: nat) \<le> 122"

definition is_digit :: "char \<Rightarrow> bool" where
  "is_digit c \<longleftrightarrow> 48 \<le> (of_char c :: nat) \<and> (of_char c :: nat) \<le> 57"

definition lower_char :: "char \<Rightarrow> char" where
  "lower_char c = (if is_upper c then char_of (of_char c + (32 :: nat)) else c)"

definition upper_char :: "char \<Rightarrow> char" where
  "upper_char c = (if is_lower c then char_of (of_char c - (32 :: nat)) else c)"

definition to_lower :: "string \<Rightarrow> string" where
  "to_lower s = map lower_char s"

definition to_upper :: "string \<Rightarrow> string" where
  "to_upper s = map upper_char s"

lemma of_char_lt [simp]: "(of_char c :: nat) < 256"
  by (cases c) (simp add: of_char_def horner_sum_bit_eq_take_bit)

lemma of_lower_char:
  "(of_char (lower_char c) :: nat) = (if is_upper c then of_char c + 32 else of_char c)"
  by (auto simp: lower_char_def is_upper_def)

lemma of_upper_char:
  "(of_char (upper_char c) :: nat) = (if is_lower c then of_char c - 32 else of_char c)"
  by (auto simp: upper_char_def is_lower_def)

lemma char_eq_of_char: "c = d \<longleftrightarrow> (of_char c :: nat) = of_char d"
  by simp

lemma not_upper_lower_char [simp, string_simps]: "\<not> is_upper (lower_char c)"
  by (auto simp: of_lower_char is_upper_def split: if_splits)

lemma lower_char_id [simp, string_simps]: "\<not> is_upper c \<Longrightarrow> lower_char c = c"
  by (simp add: lower_char_def)

lemma upper_char_id [simp, string_simps]: "\<not> is_lower c \<Longrightarrow> upper_char c = c"
  by (simp add: upper_char_def)

lemma is_lower_lower_char: "is_upper c \<Longrightarrow> is_lower (lower_char c)"
  by (auto simp: of_lower_char is_upper_def is_lower_def)

lemma upper_not_lower: "is_upper c \<Longrightarrow> \<not> is_lower c"
  by (auto simp: is_upper_def is_lower_def)

lemma upper_char_lower_char: "is_upper c \<Longrightarrow> upper_char (lower_char c) = c"
  by (simp only: char_eq_of_char of_upper_char of_lower_char is_lower_lower_char if_True)

lemma lower_char_upper_char: "is_lower c \<Longrightarrow> lower_char (upper_char c) = c"
  unfolding char_eq_of_char by (auto simp: of_lower_char of_upper_char is_upper_def is_lower_def)

lemma lower_char_underscore [simp, string_simps]: "lower_char c = CHR ''_'' \<longleftrightarrow> c = CHR ''_''"
  unfolding char_eq_of_char by (auto simp: of_lower_char is_upper_def)

lemma is_upper_underscore [simp]: "\<not> is_upper CHR ''_''" "\<not> is_lower CHR ''_''"
  by (simp_all add: is_upper_def is_lower_def)

lemma to_lower_no_upper [string_simps]: "c \<in> set (to_lower s) \<Longrightarrow> \<not> is_upper c"
  by (auto simp: to_lower_def)

lemma to_lower_id [string_simps]: "list_all (\<lambda>c. \<not> is_upper c) s \<Longrightarrow> to_lower s = s"
  by (induction s) (auto simp: to_lower_def)

lemma to_lower_idem [simp, string_simps]: "to_lower (to_lower s) = to_lower s"
  by (rule to_lower_id) (auto simp: list_all_iff to_lower_no_upper)

lemma length_to_lower [simp, string_simps]: "length (to_lower s) = length s"
  by (simp add: to_lower_def)

lemma to_lower_to_upper: "list_all (\<lambda>c. \<not> is_upper c) s \<Longrightarrow> to_lower (to_upper s) = s"
  unfolding to_lower_def to_upper_def
proof (induction s)
  case (Cons c s)
  have "lower_char (upper_char c) = c"
    using Cons.prems by (cases "is_lower c") (simp_all add: lower_char_upper_char)
  with Cons show ?case by simp
qed simp


section \<open>Splitting and joining\<close>

text \<open>
  strings.Split with a one-byte separator, strings.SplitN with the limit 2 and strings.Join.
  Split always returns at least one piece.
\<close>

fun go_split :: "char \<Rightarrow> string \<Rightarrow> string list" where
  "go_split sep [] = [[]]"
| "go_split sep (c # cs) =
     (if c = sep then [] # go_split sep cs
      else (case go_split sep cs of [] \<Rightarrow> [[c]] | p # ps \<Rightarrow> (c # p) # ps))"

fun go_splitN2 :: "char \<Rightarrow> string \<Rightarrow> string list" where
  "go_splitN2 sep [] = [[]]"
| "go_splitN2 sep (c # cs) =
     (if c = sep then [[], cs]
      else (case go_splitN2 sep cs of [] \<Rightarrow> [[c]] | p # ps \<Rightarrow> (c # p) # ps))"

fun go_join :: "string list \<Rightarrow> string \<Rightarrow> string" where
  "go_join [] sep = []"
| "go_join [p] sep = p"
| "go_join (p # ps) sep = p @ sep @ go_join ps sep"

lemma go_split_nonempty [simp]: "go_split sep s \<noteq> []"
  by (induction s) (auto split: list.splits)

lemma go_splitN2_cases: "\<exists>p. go_splitN2 sep s = [p] \<and> sep \<notin> set p \<and> s = p
    \<or> (\<exists>q. go_splitN2 sep s = [p, q] \<and> sep \<notin> set p \<and> s = p @ sep # q)"
  by (induction s) auto

lemma go_splitN2_none: "sep \<notin> set s \<Longrightarrow> go_splitN2 sep s = [s]"
  by (induction s) auto

lemma go_splitN2_found: "sep \<notin> set p \<Longrightarrow> go_splitN2 sep (p @ sep # q) = [p, q]"
  by (induction p) auto

lemma length_go_splitN2_iff: "length (go_splitN2 sep s) = 2 \<longleftrightarrow> sep \<in> set s"
proof (cases "sep \<in> set s")
  case True
  then obtain p q where "s = p @ sep # q" "sep \<notin> set p" by (meson split_list_first)
  then show ?thesis by (simp add: go_splitN2_found)
qed (simp add: go_splitN2_none)

lemma go_join_Cons_char: "go_join ((c # p) # ps) sep = c # go_join (p # ps) sep"
  by (cases ps) simp_all

lemma go_join_go_split [simp, string_simps]: "go_join (go_split sep s) [sep] = s"
proof (induction s)
  case (Cons c s)
  then show ?case
    by (cases "go_split sep s") (auto simp: go_join_Cons_char)
qed simp

lemma go_split_pieces: "p \<in> set (go_split sep s) \<Longrightarrow> sep \<notin> set p"
  by (induction s arbitrary: p) (auto split: if_splits list.splits)

lemma go_split_none: "sep \<notin> set s \<Longrightarrow> go_split sep s = [s]"
  by (induction s) auto

lemma go_split_append: "sep \<notin> set p \<Longrightarrow> go_split sep (p @ sep # s) = p # go_split sep s"
  by (induction p) auto

lemma go_split_go_join:
  "ps \<noteq> [] \<Longrightarrow> list_all (\<lambda>p. sep \<notin> set p) ps \<Longrightarrow> go_split sep (go_join ps [sep]) = ps"
  by (induction ps "[sep]" rule: go_join.induct) (auto simp: go_split_none go_split_append)


section \<open>Search, replace, trim\<close>

text \<open>strings.HasPrefix, strings.Contains, strings.Replace with limit -1 (old nonempty), strings.TrimSpace (ASCII).\<close>

definition has_prefix :: "string \<Rightarrow> string \<Rightarrow> bool" where
  "has_prefix s p \<longleftrightarrow> take (length p) s = p"

fun contains :: "string \<Rightarrow> string \<Rightarrow> bool" where
  "contains [] p = (p = [])"
| "contains (c # cs) p = (has_prefix (c # cs) p \<or> contains cs p)"

function replace_all :: "string \<Rightarrow> string \<Rightarrow> string \<Rightarrow> string" where
  "replace_all [] old new = []"
| "replace_all (c # cs) old new =
     (if old \<noteq> [] \<and> has_prefix (c # cs) old
      then new @ replace_all (drop (length old) (c # cs)) old new
      else c # replace_all cs old new)"
  by pat_completeness auto
termination by (relation "measure (\<lambda>(s, old, new). length s)") (auto simp: length_greater_0_conv)

definition is_space :: "char \<Rightarrow> bool" where
  "is_space c \<longleftrightarrow> (of_char c :: nat) \<in> {9, 10, 11, 12, 13, 32}"

definition trim_left :: "string \<Rightarrow> string" where
  "trim_left s = dropWhile is_space s"

definition trim_space :: "string \<Rightarrow> string" where
  "trim_space s = rev (dropWhile is_space (rev (dropWhile is_space s)))"

lemma replace_all_absent: "\<not> contains s old \<Longrightarrow> replace_all s old new = s"
  by (induction s old new rule: replace_all.induct) auto

lemma contains_iff: "contains s p \<longleftrightarrow> (\<exists>a b. s = a @ p @ b)"
proof (induction s)
  case (Cons c s)
  have "has_prefix (c # s) p \<longleftrightarrow> (\<exists>b. c # s = p @ b)"
    unfolding has_prefix_def by (metis append_eq_conv_conj append_take_drop_id)
  with Cons show ?case
    by (auto simp: Cons_eq_append_conv)
qed simp

end
