(* ===== verification/J2rpc_Names.thy ===== *)
theory J2rpc_Names
  imports Prelude
begin

text \<open>
  Name conversion of package j2rpc (src/j2rpc/functions.go, src/j2rpc/middleware.go,
  formatName of src/j2rpc/j2rpc.go): CamelCase to snake_case, back, and segment-wise on a
  dotted path.  The byte loops of the source are accumulator recursions with the source's
  flags; the lemmas free them from the accumulator and give the facts dispatch rests on:
  a snake name is a fixed point, and camel case survives the round trip.
\<close>

section \<open>The conversions\<close>

fun snake_loop :: "bool \<Rightarrow> string \<Rightarrow> string \<Rightarrow> string" where
  "snake_loop j data [] = data"
| "snake_loop j data (d # ds) =
     (if is_upper d then
        (if j then snake_loop False (data @ [CHR ''_''] @ [d]) ds
         else snake_loop j (data @ [d]) ds)
      else if d \<noteq> CHR ''_'' then snake_loop True (data @ [d]) ds
      else snake_loop j (data @ [d]) ds)"

definition SnakeString :: "string \<Rightarrow> string" where
  "SnakeString s = to_lower (snake_loop False [] s)"

fun camel_loop :: "bool \<Rightarrow> bool \<Rightarrow> string \<Rightarrow> string \<Rightarrow> string" where
  "camel_loop j k data [] = data"
| "camel_loop j k data (d # ds) =
     (let k1 = (if \<not> k \<and> is_upper d then True else k);
          cap = (is_lower d \<and> (j \<or> \<not> k1));
          d1 = (if cap then upper_char d else d);
          j1 = (if cap then False else j);
          k2 = (if cap then True else k1)
      in if k2 \<and> d1 = CHR ''_'' \<and> ds \<noteq> [] \<and> is_lower (hd ds)
         then camel_loop True k2 data ds
         else camel_loop j1 k2 (data @ [d1]) ds)"

definition CamelString :: "string \<Rightarrow> string" where
  "CamelString s = camel_loop False False [] s"

definition snakePath :: "string \<Rightarrow> string" where
  "snakePath str = go_join (map SnakeString (go_split CHR ''.'' str)) ''.''"

text \<open>Method \<^verbatim>\<open>formatName\<close> of the server: only the SnakeNamespace option decides.\<close>

definition formatName :: "bool \<Rightarrow> string \<Rightarrow> string" where
  "formatName snakeNamespace name = (if snakeNamespace then SnakeString name else name)"


section \<open>Facts about the loops\<close>

lemma snake_loop_acc: "snake_loop j data s = data @ snake_loop j [] s"
proof (induction s arbitrary: j data)
  case (Cons d ds)
  show ?case
    by (simp only: snake_loop.simps) (auto simp: Cons [of _ "data @ _"] Cons [of _ "[_]"] Cons [of _ "[_, _]"] Cons [of _ "data @ _ # _"])
qed simp

lemma snake_loop_Cons:
  "snake_loop j [] (d # ds) =
     (if is_upper d then (if j then [CHR ''_'', d] @ snake_loop False [] ds else d # snake_loop j [] ds)
      else d # snake_loop (if d = CHR ''_'' then j else True) [] ds)"
  by (auto simp: snake_loop_acc [of _ "[_]"] snake_loop_acc [of _ "[_, _]"])

lemma camel_loop_acc: "camel_loop j k data s = data @ camel_loop j k [] s"
proof (induction s arbitrary: j k data)
  case (Cons d ds)
  show ?case
    by (simp only: camel_loop.simps Let_def)
      (simp add: Cons [of _ _ "data @ [_]"] Cons [of _ _ "[_]"] Cons [of _ _ data])
qed simp

declare snake_loop.simps(2) [simp del] camel_loop.simps(2) [simp del]

lemma camel_loop_skip:
  "d \<noteq> [] \<Longrightarrow> is_lower (hd d) \<Longrightarrow> camel_loop j True [] (CHR ''_'' # d) = camel_loop True True [] d"
  by (simp add: camel_loop.simps(2))

lemma camel_loop_capital:
  assumes "is_lower d" "j \<or> \<not> k"
  shows "camel_loop j k [] (d # ds) = upper_char d # camel_loop False True [] ds"
proof -
  have "upper_char d \<noteq> CHR ''_''"
    using assms(1) unfolding char_eq_of_char by (auto simp: of_upper_char is_lower_def)
  moreover have "\<not> is_upper d" using assms(1) upper_not_lower by blast
  ultimately show ?thesis
    using assms by (simp add: camel_loop.simps(2) camel_loop_acc [of _ _ "[_]"])
qed

lemma camel_loop_keep:
  "d \<noteq> CHR ''_'' \<Longrightarrow> \<not> is_upper d \<Longrightarrow> camel_loop False True [] (d # ds) = d # camel_loop False True [] ds"
  by (simp add: camel_loop.simps(2) camel_loop_acc [of _ _ "[_]"])

lemma snake_loop_no_upper: "list_all (\<lambda>c. \<not> is_upper c) s \<Longrightarrow> snake_loop j [] s = s"
  by (induction s arbitrary: j) (auto simp: snake_loop_Cons)

lemma SnakeString_id: "list_all (\<lambda>c. \<not> is_upper c) s \<Longrightarrow> SnakeString s = s"
  by (simp add: SnakeString_def snake_loop_no_upper to_lower_id)

lemma SnakeString_no_upper: "list_all (\<lambda>c. \<not> is_upper c) (SnakeString s)"
  by (auto simp: SnakeString_def list_all_iff to_lower_no_upper)

lemma SnakeString_fixed_iff: "SnakeString s = s \<longleftrightarrow> list_all (\<lambda>c. \<not> is_upper c) s"
  by (metis SnakeString_id SnakeString_no_upper)

lemma SnakeString_idem_aux: "SnakeString (SnakeString s) = SnakeString s"
  by (rule SnakeString_id) (rule SnakeString_no_upper)

lemma formatName_idem [simp]: "formatName b (formatName b s) = formatName b s"
  by (simp add: formatName_def SnakeString_idem_aux)

lemma snake_loop_filter:
  "filter (\<lambda>c. c \<noteq> CHR ''_'') (snake_loop j [] s) = filter (\<lambda>c. c \<noteq> CHR ''_'') s"
  by (induction s arbitrary: j) (auto simp: snake_loop_Cons)

lemma set_snake_loop: "set (snake_loop j [] s) \<subseteq> insert CHR ''_'' (set s)"
  by (induction s arbitrary: j)
    (auto simp: snake_loop_Cons split: if_splits)

lemma lower_char_eq_dot: "lower_char c = CHR ''.'' \<longleftrightarrow> c = CHR ''.''"
  unfolding char_eq_of_char by (auto simp: of_lower_char is_upper_def)

lemma SnakeString_no_dot: "CHR ''.'' \<notin> set s \<Longrightarrow> CHR ''.'' \<notin> set (SnakeString s)"
proof -
  assume "CHR ''.'' \<notin> set s"
  then have "CHR ''.'' \<notin> set (snake_loop False [] s)"
    using set_snake_loop [of False s] by auto
  then show ?thesis by (auto simp: SnakeString_def to_lower_def lower_char_eq_dot dest: sym)
qed

lemma length_snake_loop:
  "length (snake_loop j [] s) + (if j then 0 else if s = [] then 0 else 1) \<le> 2 * length s"
proof (induction s arbitrary: j)
  case (Cons d ds)
  show ?case
    using Cons [of True] Cons [of False] Cons [of j]
    by (auto simp: snake_loop_Cons split: if_splits)
qed simp

lemma snakePath_two: 
  assumes "CHR ''.'' \<notin> set a" "CHR ''.'' \<notin> set b"
  shows "snakePath (a @ ''.'' @ b) = SnakeString a @ ''.'' @ SnakeString b"
  using assms by (simp add: snakePath_def go_split_append go_split_none)


text \<open>
  A well-formed Go exported name in camel case: an upper-case head, no underscore, and no two
  adjacent upper-case letters (the snake loop writes an underscore only after a character that
  is not upper case).
\<close>

fun no_adjacent_upper :: "bool \<Rightarrow> string \<Rightarrow> bool" where
  "no_adjacent_upper prev [] = True"
| "no_adjacent_upper prev (c # cs) = ((prev \<longrightarrow> \<not> is_upper c) \<and> no_adjacent_upper (is_upper c) cs)"

definition camel_name :: "string \<Rightarrow> bool" where
  "camel_name s \<longleftrightarrow> s \<noteq> [] \<and> is_upper (hd s) \<and> CHR ''_'' \<notin> set s \<and> no_adjacent_upper False s"

lemma camel_snake_tail:
  assumes "CHR ''_'' \<notin> set s" "no_adjacent_upper prev s"
  shows "camel_loop False True [] (to_lower (snake_loop (\<not> prev) [] s)) = s"
  using assms
proof (induction s arbitrary: prev)
  case Nil
  then show ?case by (simp add: to_lower_def)
next
  case (Cons d ds)
  show ?case
  proof (cases "is_upper d")
    case True
    with Cons.prems have "\<not> prev" and wf: "CHR ''_'' \<notin> set ds" "no_adjacent_upper True ds"
      by auto
    have "camel_loop False True [] (to_lower (snake_loop (\<not> prev) [] (d # ds)))
        = camel_loop True True [] (lower_char d # to_lower (snake_loop False [] ds))"
      using True \<open>\<not> prev\<close>
      by (simp add: snake_loop_Cons to_lower_def camel_loop_skip is_lower_lower_char)
    also have "\<dots> = d # camel_loop False True [] (to_lower (snake_loop False [] ds))"
      using True by (simp add: camel_loop_capital is_lower_lower_char upper_char_lower_char)
    finally show ?thesis using Cons.IH [OF wf] by simp
  next
    case False
    with Cons.prems have wf: "CHR ''_'' \<notin> set ds" "no_adjacent_upper False ds" and "d \<noteq> CHR ''_''"
      by auto
    have "camel_loop False True [] (to_lower (snake_loop (\<not> prev) [] (d # ds)))
        = d # camel_loop False True [] (to_lower (snake_loop True [] ds))"
      using False \<open>d \<noteq> CHR ''_''\<close>
      by (simp add: snake_loop_Cons to_lower_def camel_loop_keep)
    with Cons.IH [OF wf] show ?thesis by simp
  qed
qed

lemma camel_snake: "camel_name s \<Longrightarrow> CamelString (SnakeString s) = s"
proof -
  assume wf: "camel_name s"
  then obtain c cs where s: "s = c # cs" "is_upper c" "c \<noteq> CHR ''_''"
      "CHR ''_'' \<notin> set cs" "no_adjacent_upper True cs"
    by (cases s) (auto simp: camel_name_def)
  have "CamelString (SnakeString s) = camel_loop False False [] (lower_char c # to_lower (snake_loop False [] cs))"
    using s by (simp add: CamelString_def SnakeString_def snake_loop_Cons to_lower_def)
  also have "\<dots> = c # camel_loop False True [] (to_lower (snake_loop False [] cs))"
    using s by (simp add: camel_loop_capital is_lower_lower_char upper_char_lower_char)
  finally show ?thesis using camel_snake_tail [of cs True] s by simp
qed

end
