(* ===== verification/Json_Value.thy ===== *)
theory Json_Value
  imports Decimal
begin

text \<open>
  JSON values as the packages behind src/json (encoding/json, jsoniter, go-json, chosen by a
  build tag) hand them to the program.  A json.RawMessage holds the exact text of one value,
  without surrounding white space; the program only ever looks at its length and first byte, so
  it is modelled by the value itself (\<^verbatim>\<open>None\<close> for the empty RawMessage) and
  \<^verbatim>\<open>raw_head\<close> is the first byte of its text.  The byte-level scanner and printer of
  the chosen package are parameters of the definitions that use them.
\<close>

datatype json =
    JNull
  | JBool bool
  | JNum string
  | JStr string
  | JArr "json list"
  | JObj "(string \<times> json) list"

type_synonym raw_message = "json option"

fun raw_head :: "json \<Rightarrow> char" where
  "raw_head JNull = CHR ''n''"
| "raw_head (JBool b) = (if b then CHR ''t'' else CHR ''f'')"
| "raw_head (JNum s) = (case s of [] \<Rightarrow> CHR ''0'' | c # _ \<Rightarrow> c)"
| "raw_head (JStr s) = CHR 0x22"
| "raw_head (JArr vs) = CHR ''[''"
| "raw_head (JObj ms) = CHR ''{''"

text \<open>The text of a number starts with a digit or a minus sign.\<close>

fun json_wf :: "json \<Rightarrow> bool" where
  "json_wf (JNum s) = (s \<noteq> [] \<and> (hd s = CHR ''-'' \<or> is_digit (hd s)))"
| "json_wf (JArr vs) = list_all json_wf vs"
| "json_wf (JObj ms) = list_all (\<lambda>m. json_wf (snd m)) ms"
| "json_wf v = True"

text \<open>Struct decoding matches object keys with struct fields regardless of ASCII case.\<close>

definition key_matches :: "string \<Rightarrow> string \<Rightarrow> bool" where
  "key_matches field k \<longleftrightarrow> to_lower k = field"

text \<open>Decoding goes on after a value of the wrong type and reports the first such error.\<close>

fun save_error :: "string \<Rightarrow> string option \<Rightarrow> string option" where
  "save_error e None = Some e"
| "save_error e (Some e0) = Some e0"

lemma save_error_Some [simp]: "save_error e old \<noteq> None"
  by (cases old) auto

lemma raw_head_object_iff:
  "json_wf v \<Longrightarrow> raw_head v = CHR ''{'' \<longleftrightarrow> (\<exists>ms. v = JObj ms)"
  "json_wf v \<Longrightarrow> raw_head v = CHR ''['' \<longleftrightarrow> (\<exists>vs. v = JArr vs)"
  by (cases v; auto simp: is_digit_def split: list.splits)+

end
