(* ===== verification/Byte_Sink.thy ===== *)
theory Byte_Sink
  imports Prelude "HOL-Library.Sublist"
begin

text \<open>
  The contract of an io.Writer as the loggers and handlers rely on it: while it is open it takes
  every text in order, and when the system underneath answers without faults it holds exactly
  what it was given.  The log files and the response of package http provide it.
\<close>

locale byte_sink =
  fixes put :: "'a \<Rightarrow> string \<Rightarrow> 's \<Rightarrow> 's"
    and got :: "'s \<Rightarrow> string"
    and is_open :: "'s \<Rightarrow> bool"
    and calm :: "'a \<Rightarrow> bool"
  assumes put_open: "is_open s \<Longrightarrow> is_open (put a p s)"
    and put_keeps: "is_open s \<Longrightarrow> subseq (got s @ p) (got (put a p s))"
    and put_exact: "is_open s \<Longrightarrow> calm a \<Longrightarrow> got (put a p s) = got s @ p"
begin

text \<open>A sequence of writes, each with what the system answers to it.\<close>

lemma puts_open: "is_open s \<Longrightarrow> is_open (fold (\<lambda>(a, p). put a p) xs s)"
  by (induction xs arbitrary: s) (auto simp: put_open)

lemma puts_keep:
  assumes "is_open s"
  shows "subseq (got s @ concat (map snd xs)) (got (fold (\<lambda>(a, p). put a p) xs s))"
  using assms
proof (induction xs arbitrary: s)
  case (Cons x xs)
  obtain a p where x: "x = (a, p)" by (cases x)
  have "subseq ((got s @ p) @ concat (map snd xs)) (got (put a p s) @ concat (map snd xs))"
    using put_keeps Cons.prems by (intro list_emb_append_mono) auto
  also have "subseq (got (put a p s) @ concat (map snd xs)) (got (fold (\<lambda>(a, p). put a p) xs (put a p s)))"
    using Cons.IH put_open Cons.prems by blast
  finally show ?case by (simp add: x)
qed simp

lemma puts_exact:
  assumes "is_open s" "\<forall>x \<in> set xs. calm (fst x)"
  shows "got (fold (\<lambda>(a, p). put a p) xs s) = got s @ concat (map snd xs)"
  using assms by (induction xs arbitrary: s) (auto simp: put_open put_exact)

end

end
