(* ===== verification/Http_Writer.thy ===== *)
theory Http_Writer
  imports Byte_Sink
begin

text \<open>
  The http.ResponseWriter of package net/http as the sources use it: a header map under
  canonical keys, a status line that the first WriteHeader commits together with a snapshot of
  the header map (a later WriteHeader is ignored), and a body that commits status 200 when
  nothing was committed before.  On top of it the two functions of src/j2rpc/functions.go that
  write responses.
\<close>

text \<open>textproto.CanonicalMIMEHeaderKey: upper case at the start and after a hyphen.\<close>

fun canon_loop :: "bool \<Rightarrow> string \<Rightarrow> string" where
  "canon_loop up [] = []"
| "canon_loop up (c # cs) =
     (if up then upper_char c else lower_char c) # canon_loop (c = CHR ''-'') cs"

definition canonical_key :: "string \<Rightarrow> string" where
  "canonical_key k = canon_loop True k"

record response_writer =
  hdr :: "string \<rightharpoonup> string"
  committed :: "(int \<times> (string \<rightharpoonup> string)) option"
  resp_body :: string

definition fresh_writer :: response_writer where
  "fresh_writer = \<lparr>hdr = Map.empty, committed = None, resp_body = []\<rparr>"

definition header_get :: "response_writer \<Rightarrow> string \<Rightarrow> string" where
  "header_get w k = (case hdr w (canonical_key k) of None \<Rightarrow> [] | Some v \<Rightarrow> v)"

definition header_set :: "string \<Rightarrow> string \<Rightarrow> response_writer \<Rightarrow> response_writer" where
  "header_set k v w = w\<lparr>hdr := (hdr w)(canonical_key k \<mapsto> v)\<rparr>"

definition write_header :: "int \<Rightarrow> response_writer \<Rightarrow> response_writer" where
  "write_header code w =
     (case committed w of None \<Rightarrow> w\<lparr>committed := Some (code, hdr w)\<rparr> | Some _ \<Rightarrow> w)"

definition write_body :: "string \<Rightarrow> response_writer \<Rightarrow> response_writer" where
  "write_body b w = (let w1 = write_header 200 w in w1\<lparr>resp_body := resp_body w1 @ b\<rparr>)"

text \<open>The status the client sees, if anything was committed.\<close>

definition status_of :: "response_writer \<Rightarrow> int option" where
  "status_of w = map_option fst (committed w)"

text \<open>http.Error of net/http (Go 1.24), with the headers it removes and sets.\<close>

definition http_Error :: "string \<Rightarrow> int \<Rightarrow> response_writer \<Rightarrow> response_writer" where
  "http_Error msg code w =
     (let w1 = w\<lparr>hdr := (hdr w)(''Content-Length'' := None)\<rparr>;
          w2 = header_set ''Content-Type'' ''text/plain; charset=utf-8'' w1;
          w3 = header_set ''X-Content-Type-Options'' ''nosniff'' w2
      in write_body (msg @ [CHR 0x0A]) (write_header code w3))"

definition AbortWriteHeader :: "int \<Rightarrow> response_writer \<Rightarrow> response_writer" where
  "AbortWriteHeader code w = header_set ''Status-Written'' ''1'' (write_header code w)"

definition writeError :: "int \<Rightarrow> string \<Rightarrow> response_writer \<Rightarrow> response_writer" where
  "writeError status msg w =
     write_body msg (AbortWriteHeader status (header_set ''Content-Type'' ''text/plain; charset=utf-8'' w))"

text \<open>The guard both Handler and writeResponse open with.\<close>

definition status_written :: "response_writer \<Rightarrow> bool" where
  "status_written w \<longleftrightarrow> header_get w ''Status-Written'' \<noteq> []"

lemma status_written_canonical:
  "status_written w \<longleftrightarrow> (\<exists>v. hdr w ''Status-Written'' = Some v \<and> v \<noteq> [])"
  by (auto simp: status_written_def header_get_def canonical_key_def upper_char_def lower_char_def
      is_upper_def is_lower_def split: option.splits)

lemma status_written_abort [simp]: "status_written (AbortWriteHeader code w)"
  by (simp add: status_written_def header_get_def AbortWriteHeader_def header_set_def)

lemma hdr_write [simp]:
  "hdr (write_header c w) = hdr w" "hdr (write_body b w) = hdr w"
  by (auto simp: write_header_def write_body_def Let_def split: option.splits)

lemma committed_header_set [simp]: "committed (header_set k v w) = committed w"
  by (simp add: header_set_def)

lemma resp_body_simps [simp]:
  "resp_body (header_set k v w) = resp_body w"
  "resp_body (write_header c w) = resp_body w"
  "resp_body (write_body b w) = resp_body w @ b"
  "resp_body (AbortWriteHeader c w) = resp_body w"
  by (auto simp: header_set_def write_header_def write_body_def AbortWriteHeader_def Let_def split: option.splits)

lemma status_of_simps [simp]:
  "status_of (header_set k v w) = status_of w"
  "status_of (write_header c w) = (case status_of w of None \<Rightarrow> Some c | Some s \<Rightarrow> Some s)"
  "status_of (write_body b w) = (case status_of w of None \<Rightarrow> Some 200 | Some s \<Rightarrow> Some s)"
  "status_of (AbortWriteHeader c w) = (case status_of w of None \<Rightarrow> Some c | Some s \<Rightarrow> Some s)"
  by (auto simp: status_of_def header_set_def write_header_def write_body_def AbortWriteHeader_def
      Let_def split: option.splits)

lemma status_of_fresh [simp]: "status_of fresh_writer = None" "\<not> status_written fresh_writer"
  by (simp_all add: status_of_def fresh_writer_def status_written_def header_get_def)

lemma status_written_cong: "hdr v = hdr w \<Longrightarrow> status_written v = status_written w"
  by (simp add: status_written_def header_get_def)

lemma writeError_simps [simp]:
  "resp_body (writeError s m w) = resp_body w @ m"
  "status_of (writeError s m w) = (case status_of w of None \<Rightarrow> Some s | Some t \<Rightarrow> Some t)"
  "status_written (writeError s m w)"
  by (simp_all add: writeError_def split: option.splits)
    (simp add: status_written_cong [OF hdr_write(2)])

lemma http_Error_simps:
  "resp_body (http_Error m c w) = resp_body w @ m @ [CHR 0x0A]"
  "status_of (http_Error m c w) = (case status_of w of None \<Rightarrow> Some c | Some t \<Rightarrow> Some t)"
  by (auto simp: http_Error_def Let_def status_of_def header_set_def write_header_def write_body_def
      split: option.splits)

text \<open>The body of a response is a writer that no answer of the system disturbs.\<close>

interpretation body_sink: byte_sink "\<lambda>u b w. write_body b w" resp_body "\<lambda>w. True" "\<lambda>u. True"
  by unfold_locales simp_all

end
