(* ===== verification/J2rpc_Message.thy ===== *)
theory J2rpc_Message
  imports Json_Value Http_Writer
begin

text \<open>
  Errors and messages of package j2rpc (src/j2rpc/error.go, src/j2rpc/message.go): the error
  codes and the three error types, RPCMessage with its struct decoding, the validity of an id,
  the method split, the conversion of any Go error into an error member, and the response
  writer.  The text of a decoding error (\<^verbatim>\<open>terr\<close>) and the byte printer of
  json.Marshal (\<^verbatim>\<open>render\<close>) are parameters.
\<close>

section \<open>Errors\<close>

type_synonym error_code = int

definition ErrParse :: error_code where "ErrParse = -32700"
definition ErrInvalidRequest :: error_code where "ErrInvalidRequest = -32600"
definition ErrNoMethod :: error_code where "ErrNoMethod = -32601"
definition ErrBadParams :: error_code where "ErrBadParams = -32602"
definition ErrInternal :: error_code where "ErrInternal = -32603"
definition ErrServer :: error_code where "ErrServer = -32000"
definition ErrAuthorization :: error_code where "ErrAuthorization = 401"
definition ErrForbidden :: error_code where "ErrForbidden = 403"

lemmas error_codes =
  ErrParse_def ErrInvalidRequest_def ErrNoMethod_def ErrBadParams_def ErrInternal_def
  ErrServer_def ErrAuthorization_def ErrForbidden_def

record rpc_error =
  err_code :: error_code
  err_message :: string
  err_data :: "json option"

text \<open>A Go value of type error, by the dynamic types that setError distinguishes.\<close>

datatype go_error =
    RpcError rpc_error
  | TokenError string
  | ForbiddenError string
  | OtherError string

definition NewError :: "error_code \<Rightarrow> string \<Rightarrow> json list \<Rightarrow> rpc_error" where
  "NewError code msg data =
     \<lparr>err_code = code, err_message = msg, err_data = (case data of [] \<Rightarrow> None | d # _ \<Rightarrow> Some d)\<rparr>"

fun error_text :: "go_error \<Rightarrow> string" where
  "error_text (RpcError e) = err_message e"
| "error_text (TokenError t) = t"
| "error_text (ForbiddenError t) = t"
| "error_text (OtherError t) = t"


section \<open>Messages\<close>

record rpc_message =
  mID :: raw_message
  mVersion :: string
  mMethod :: string
  mParams :: raw_message
  mResult :: raw_message
  mError :: "rpc_error option"

definition empty_message :: rpc_message where
  "empty_message = \<lparr>mID = None, mVersion = [], mMethod = [], mParams = None, mResult = None, mError = None\<rparr>"

definition vsn :: string where "vsn = ''2.0''"

text \<open>Decoding of one member of an Error object, of a string field, and of one message member.\<close>

fun decode_error_member ::
  "(string \<Rightarrow> json \<Rightarrow> string) \<Rightarrow> string \<times> json \<Rightarrow> rpc_error \<times> string option \<Rightarrow> rpc_error \<times> string option" where
  "decode_error_member terr (k, v) (e, er) =
     (if key_matches ''code'' k then
        (case v of
           JNull \<Rightarrow> (e, er)
         | JNum s \<Rightarrow> (case parse_int64 s of
                        Some i \<Rightarrow> (e\<lparr>err_code := i\<rparr>, er)
                      | None \<Rightarrow> (e, save_error (terr ''code'' v) er))
         | _ \<Rightarrow> (e, save_error (terr ''code'' v) er))
      else if key_matches ''message'' k then
        (case v of
           JNull \<Rightarrow> (e, er)
         | JStr s \<Rightarrow> (e\<lparr>err_message := s\<rparr>, er)
         | _ \<Rightarrow> (e, save_error (terr ''message'' v) er))
      else if key_matches ''data'' k then
        (e\<lparr>err_data := (if v = JNull then None else Some v)\<rparr>, er)
      else (e, er))"

definition zero_error :: rpc_error where
  "zero_error = \<lparr>err_code = 0, err_message = [], err_data = None\<rparr>"

fun decode_member ::
  "(string \<Rightarrow> json \<Rightarrow> string) \<Rightarrow> string \<times> json \<Rightarrow> rpc_message \<times> string option \<Rightarrow> rpc_message \<times> string option" where
  "decode_member terr (k, v) (m, er) =
     (if key_matches ''id'' k then (m\<lparr>mID := Some v\<rparr>, er)
      else if key_matches ''jsonrpc'' k then
        (case v of JNull \<Rightarrow> (m, er) | JStr s \<Rightarrow> (m\<lparr>mVersion := s\<rparr>, er)
                 | _ \<Rightarrow> (m, save_error (terr ''jsonrpc'' v) er))
      else if key_matches ''method'' k then
        (case v of JNull \<Rightarrow> (m, er) | JStr s \<Rightarrow> (m\<lparr>mMethod := s\<rparr>, er)
                 | _ \<Rightarrow> (m, save_error (terr ''method'' v) er))
      else if key_matches ''params'' k then (m\<lparr>mParams := Some v\<rparr>, er)
      else if key_matches ''result'' k then (m\<lparr>mResult := Some v\<rparr>, er)
      else if key_matches ''error'' k then
        (case v of
           JNull \<Rightarrow> (m\<lparr>mError := None\<rparr>, er)
         | JObj ms \<Rightarrow>
             (let (e, er') = fold (decode_error_member terr) ms
                (case mError m of None \<Rightarrow> zero_error | Some e0 \<Rightarrow> e0, er)
              in (m\<lparr>mError := Some e\<rparr>, er'))
         | _ \<Rightarrow> (m\<lparr>mError := Some (case mError m of None \<Rightarrow> zero_error | Some e0 \<Rightarrow> e0)\<rparr>,
                 save_error (terr ''error'' v) er))
      else (m, er))"

text \<open>json Decode of the request body into an RPCMessage, once the body was scanned.\<close>

definition decode_message :: "(string \<Rightarrow> json \<Rightarrow> string) \<Rightarrow> json \<Rightarrow> rpc_message \<Rightarrow> rpc_message \<times> string option" where
  "decode_message terr j m =
     (case j of
        JNull \<Rightarrow> (m, None)
      | JObj ms \<Rightarrow> fold (decode_member terr) ms (m, None)
      | _ \<Rightarrow> (m, Some (terr ''RPCMessage'' j)))"

definition hasValidID :: "rpc_message \<Rightarrow> bool" where
  "hasValidID r =
     (case mID r of None \<Rightarrow> False | Some v \<Rightarrow> raw_head v \<noteq> CHR ''{'' \<and> raw_head v \<noteq> CHR ''['')"

definition methods :: "rpc_message \<Rightarrow> go_error + string list" where
  "methods r =
     (let elem = go_splitN2 CHR ''.'' (mMethod r)
      in if length elem \<noteq> 2 then Inl (RpcError (NewError ErrNoMethod ''wrong method'' [])) else Inr elem)"

definition output_message :: "rpc_message \<Rightarrow> rpc_message" where
  "output_message r =
     (let r1 = (if mID r = None then r\<lparr>mID := Some (JNum ''1'')\<rparr> else r)
      in r1\<lparr>mVersion := vsn, mMethod := [], mParams := None\<rparr>)"

definition setError :: "go_error option \<Rightarrow> rpc_message \<Rightarrow> rpc_message" where
  "setError err r =
     (case err of
        None \<Rightarrow> r
      | Some er \<Rightarrow>
          (let e = (case er of
                      RpcError e0 \<Rightarrow> e0
                    | TokenError t \<Rightarrow> NewError ErrAuthorization t []
                    | ForbiddenError t \<Rightarrow> NewError ErrForbidden t []
                    | OtherError t \<Rightarrow> NewError ErrServer t [])
           in r\<lparr>mError := Some e\<rparr>))"

text \<open>The JSON object json.Marshal prints: struct order, empty fields left out.\<close>

definition opt_member :: "string \<Rightarrow> json option \<Rightarrow> (string \<times> json) list" where
  "opt_member k v = (case v of None \<Rightarrow> [] | Some j \<Rightarrow> [(k, j)])"

definition str_member :: "string \<Rightarrow> string \<Rightarrow> (string \<times> json) list" where
  "str_member k s = (if s = [] then [] else [(k, JStr s)])"

definition error_json :: "rpc_error \<Rightarrow> json" where
  "error_json e =
     JObj ([(''code'', JNum (show_int (err_code e))), (''message'', JStr (err_message e))]
           @ opt_member ''data'' (err_data e))"

definition message_json :: "rpc_message \<Rightarrow> json" where
  "message_json r =
     JObj (opt_member ''id'' (mID r) @ str_member ''jsonrpc'' (mVersion r)
           @ str_member ''method'' (mMethod r) @ opt_member ''params'' (mParams r)
           @ opt_member ''result'' (mResult r) @ opt_member ''error'' (map_option error_json (mError r)))"

definition writeResponse ::
  "(json \<Rightarrow> string + string) \<Rightarrow> rpc_message \<Rightarrow> response_writer \<Rightarrow> response_writer" where
  "writeResponse render r w =
     (if status_written w then w
      else case render (message_json r) of
             Inl e \<Rightarrow> writeError 500 e w
           | Inr bts \<Rightarrow>
               write_body bts
                 (AbortWriteHeader 200 (header_set ''Content-Type'' ''application/json; charset=utf-8'' w)))"

end
