(* ===== verification/Go_Reflect.thy ===== *)
theory Go_Reflect
  imports J2rpc_Message
begin

text \<open>
  The part of package reflect that j2rpc drives handlers with: static types, the method-set
  facts of a program (which types implement error or context.Context, which values convert or
  assign to which parameter types, the dynamic types of the exchange's values) as a type environment, the argument and result values of a
  reflective call, and the error classification isErrorType / value2err of
  src/j2rpc/functions.go and src/j2rpc/callback.go.
\<close>

datatype gtype = TNamed string | TIface string | TPtr gtype | TSlice gtype

record type_env =
  implements_error :: "gtype \<Rightarrow> bool"
  implements_context :: "gtype \<Rightarrow> bool"
  convertible :: "gtype \<Rightarrow> gtype \<Rightarrow> bool"
  assignable :: "gtype \<Rightarrow> gtype \<Rightarrow> bool"
  dyn_context :: gtype
  dyn_writer :: gtype
  dyn_request :: gtype

fun is_ptr :: "gtype \<Rightarrow> bool" where
  "is_ptr (TPtr t) = True"
| "is_ptr t = False"

fun type_elem :: "gtype \<Rightarrow> gtype" where
  "type_elem (TPtr t) = t"
| "type_elem (TSlice t) = t"
| "type_elem t = t"

text \<open>The loop of isErrorType: element types until the kind is no pointer.\<close>

fun strip_ptr :: "gtype \<Rightarrow> gtype" where
  "strip_ptr (TPtr t) = strip_ptr t"
| "strip_ptr t = t"

definition isErrorType :: "type_env \<Rightarrow> gtype \<Rightarrow> bool" where
  "isErrorType env t = implements_error env (strip_ptr t)"

text \<open>
  Arguments of a reflective call: the receiver, the context, a decoded JSON value, the zero
  value of a type, a pointer to a fresh zero value.
\<close>

datatype garg =
    ArgReceiver
  | ArgContext
  | ArgMethod string
  | ArgWriter
  | ArgRequest
  | ArgDecoded gtype json
  | ArgZero gtype
  | ArgNew gtype

text \<open>
  A result: nil, a zero value of a non-nil kind, an error, or any other value, given by what
  json.Marshal makes of it: text of an error, a JSON value, or a panic of a MarshalJSON method.
\<close>

datatype gres = ResNil | ResZero | ResErr go_error | ResVal "string + json" | ResPanics string

datatype call_result = CallPanic string | CallReturns "gres list"

text \<open>json.Marshal of a result: the exported fields of an *Error, the text of the two string
  types, the empty object for an error struct without exported fields.\<close>

fun marshal_res :: "gres \<Rightarrow> (string + json) outcome" where
  "marshal_res ResNil = Returns (Inr JNull)"
| "marshal_res ResZero = Returns (Inr JNull)"
| "marshal_res (ResErr (RpcError e)) = Returns (Inr (error_json e))"
| "marshal_res (ResErr (TokenError t)) = Returns (Inr (JStr t))"
| "marshal_res (ResErr (ForbiddenError t)) = Returns (Inr (JStr t))"
| "marshal_res (ResErr (OtherError t)) = Returns (Inr (JObj []))"
| "marshal_res (ResVal v) = Returns v"
| "marshal_res (ResPanics p) = Panics p"

definition res_is_zero :: "gres \<Rightarrow> bool" where
  "res_is_zero r \<longleftrightarrow> r = ResNil \<or> r = ResZero"

text \<open>value2err: the assertion to the error interface panics on any other value.\<close>

definition value2err :: "type_env \<Rightarrow> gtype \<Rightarrow> gres \<Rightarrow> go_error option outcome" where
  "value2err env t val =
     (if \<not> isErrorType env t then Returns None
      else if res_is_zero val then Returns None
      else case val of ResErr e \<Rightarrow> Returns (Some e) | _ \<Rightarrow> Panics ''interface conversion'')"

lemma strip_ptr_not_ptr [simp]: "\<not> is_ptr (strip_ptr t)"
  by (induction t) auto

lemma isErrorType_ptr [simp]: "isErrorType env (TPtr t) = isErrorType env t"
  by (simp add: isErrorType_def)

end
