(* ===== verification/J2rpc_Middleware.thy ===== *)
theory J2rpc_Middleware
  imports J2rpc_Names Go_Reflect
begin

text \<open>
  The before-middlewares of package j2rpc (src/j2rpc/middleware.go, src/j2rpc/option.go).
  A pattern is compared with the request's method literally, in snake case, and as a regular
  expression; \<^verbatim>\<open>mc\<close> is regexp.MustCompile followed by MatchString
  (\<^verbatim>\<open>None\<close> for a pattern that does not compile, where MustCompile panics).
  A middleware is any Go value; when it is a function, it runs on the state
  \<^verbatim>\<open>'w\<close> of the exchange.
\<close>

type_synonym matcher = "string \<Rightarrow> (string \<Rightarrow> bool) option"

text \<open>What a middleware returned first: nothing, nil, a non-nillable value (IsNil panics), or a
  value of a static type that is an error or not.\<close>

datatype mid_result =
    MidPanic string
  | MidNothing
  | MidNil
  | MidNotNillable
  | MidValue gtype "go_error option"

datatype 'w mid_fn =
    NilFn
  | NotFunc
  | Func "gtype list" "garg list \<Rightarrow> 'w \<Rightarrow> 'w \<times> mid_result"

record 'w middle_info =
  mi_method :: "string list"
  mi_excludes :: "string list"
  mi_function :: "'w mid_fn"
  mi_all :: bool

record 'w rpc_option =
  SnakeNamespace :: bool
  BeforeMid :: "'w middle_info list"

definition methodPathEqual :: "matcher \<Rightarrow> string \<Rightarrow> string \<Rightarrow> bool outcome" where
  "methodPathEqual mc s method =
     (if s = method then Returns True
      else if snakePath s = method then Returns True
      else case mc s of None \<Rightarrow> Panics (''regexp: Compile: '' @ s)
                      | Some f \<Rightarrow> Returns (f method))"

text \<open>The loops over excludes and methods: true at the first pattern that matches.\<close>

fun any_path :: "matcher \<Rightarrow> string list \<Rightarrow> string \<Rightarrow> bool outcome" where
  "any_path mc [] method = Returns False"
| "any_path mc (s # ss) method =
     bind_outcome (methodPathEqual mc s method) (\<lambda>b. if b then Returns True else any_path mc ss method)"

definition getMatchFunction :: "matcher \<Rightarrow> 'w middle_info \<Rightarrow> string \<Rightarrow> 'w mid_fn outcome" where
  "getMatchFunction mc m method =
     (if mi_all m then Returns (mi_function m)
      else bind_outcome (any_path mc (mi_excludes m) method) (\<lambda>ex.
             if ex then Returns NilFn
             else bind_outcome (any_path mc (mi_method m) method) (\<lambda>inc.
                    if inc then Returns (mi_function m) else Returns NilFn)))"

text \<open>
  AddBeforeMiddleware: no list means all methods, one list the included patterns, and every
  further list the excluded ones.
\<close>

definition AddBeforeMiddleware ::
  "'w mid_fn \<Rightarrow> string list list \<Rightarrow> 'w rpc_option \<Rightarrow> 'w rpc_option" where
  "AddBeforeMiddleware fn ls opt =
     (let (al, method, excludes) =
        (case ls of
           [] \<Rightarrow> (True, [], [])
         | [m] \<Rightarrow> (False, m, [])
         | m # e # rest \<Rightarrow> (False, m, fold (\<lambda>l acc. acc @ l) rest e));
          info = \<lparr>mi_method = method, mi_excludes = excludes, mi_function = fn, mi_all = al\<rparr>
      in opt\<lparr>BeforeMid := BeforeMid opt @ [info]\<rparr>)"

text \<open>The call arguments: cut to the parameter count, zero values where no conversion exists.\<close>

definition convert_args :: "type_env \<Rightarrow> (gtype \<times> garg) list \<Rightarrow> gtype list \<Rightarrow> (gtype \<times> garg) list" where
  "convert_args env args ins =
     map (\<lambda>((t, a), ctp). if convertible env t ctp then (t, a) else (ctp, ArgZero ctp))
       (zip (take (length ins) args) ins)"

definition beforeMiddlewareFuncAction ::
  "type_env \<Rightarrow> 'w mid_fn \<Rightarrow> (gtype \<times> garg) list \<Rightarrow> 'w \<Rightarrow> 'w \<times> go_error option outcome" where
  "beforeMiddlewareFuncAction env fn args w =
     (case fn of
        NilFn \<Rightarrow> (w, Returns None)
      | NotFunc \<Rightarrow> (w, Returns None)
      | Func ins run \<Rightarrow>
          if length ins > length args then (w, Panics ''slice bounds out of range'')
          else
            let callArgs = convert_args env args ins
            in if list_all2 (\<lambda>t ctp. t = ctp \<or> assignable env t ctp) (map fst callArgs) ins then
                 (case run (map snd callArgs) w of
                    (w', MidPanic p) \<Rightarrow> (w', Panics p)
                  | (w', MidNothing) \<Rightarrow> (w', Returns None)
                  | (w', MidNil) \<Rightarrow> (w', Returns None)
                  | (w', MidNotNillable) \<Rightarrow> (w', Panics ''reflect: call of reflect.Value.IsNil'')
                  | (w', MidValue t e) \<Rightarrow> (w', Returns (if isErrorType env t then e else None)))
               else (w, Panics ''reflect: Call using argument type''))"

fun run_before ::
  "type_env \<Rightarrow> matcher \<Rightarrow> 'w middle_info list \<Rightarrow> string \<Rightarrow> (gtype \<times> garg) list \<Rightarrow> 'w
     \<Rightarrow> 'w \<times> go_error option outcome" where
  "run_before env mc [] method args w = (w, Returns None)"
| "run_before env mc (info # infos) method args w =
     (case getMatchFunction mc info method of
        Panics p \<Rightarrow> (w, Panics p)
      | Returns NilFn \<Rightarrow> run_before env mc infos method args w
      | Returns fn \<Rightarrow>
          (case beforeMiddlewareFuncAction env fn args w of
             (w', Panics p) \<Rightarrow> (w', Panics p)
           | (w', Returns (Some e)) \<Rightarrow> (w', Returns (Some e))
           | (w', Returns None) \<Rightarrow> run_before env mc infos method args w'))"

text \<open>The arguments are the context, the method, the writer and the request, in this order.\<close>

definition beforeMiddlewareAction ::
  "type_env \<Rightarrow> matcher \<Rightarrow> 'w rpc_option \<Rightarrow> (gtype \<times> garg) list \<Rightarrow> string \<Rightarrow> 'w
     \<Rightarrow> 'w \<times> go_error option outcome" where
  "beforeMiddlewareAction env mc opt args method w =
     (if BeforeMid opt = [] then (w, Returns None) else run_before env mc (BeforeMid opt) method args w)"

end
