(* ===== verification/J2rpc_Callback.thy ===== *)
theory J2rpc_Callback
  imports Go_Reflect
begin

text \<open>
  Callbacks of package j2rpc (src/j2rpc/callback.go and the argument parser of
  src/j2rpc/functions.go): which methods are suitable, how positional parameters become
  arguments, and one reflective call with its panics turned into errors.  Decoding a JSON value
  into a Go type (\<^verbatim>\<open>dec\<close>, \<^verbatim>\<open>Some\<close> the error text when it fails)
  is a parameter.
\<close>

record 'w callback =
  cb_methodName :: string
  cb_rcv_valid :: bool
  cb_ins :: "gtype list"
  cb_outs :: "gtype list"
  cb_fn :: "garg list \<Rightarrow> 'w \<Rightarrow> 'w \<times> call_result"
  cb_argTypes :: "gtype list"
  cb_hasCtx :: bool
  cb_errPos :: int

text \<open>stack: the error a recovered panic becomes (the log line is not modelled).\<close>

definition stack_error :: "string \<Rightarrow> string \<Rightarrow> go_error" where
  "stack_error p methodName =
     RpcError (NewError ErrInternal (''RPC method '' @ methodName @ '' handler crashed: '' @ p) [])"

text \<open>makeArgTypes: the callback with its derived fields, or None when the method is unsuitable.\<close>

definition out_err_pos :: "type_env \<Rightarrow> gtype list \<Rightarrow> int \<Rightarrow> int option" where
  "out_err_pos env outs errPos =
     (if length outs > 2 then None
      else if length outs = 1 \<and> isErrorType env (outs ! 0) then Some 0
      else if length outs = 2 then
        (if isErrorType env (outs ! 0) \<or> \<not> isErrorType env (outs ! 1) then None else Some 1)
      else Some errPos)"

definition makeArgTypes :: "type_env \<Rightarrow> 'w callback \<Rightarrow> 'w callback option" where
  "makeArgTypes env c =
     (case out_err_pos env (cb_outs c) (cb_errPos c) of
        None \<Rightarrow> None
      | Some pos \<Rightarrow>
          let firstArg = (if cb_rcv_valid c then 1 else 0);
              ctx = (length (cb_ins c) > firstArg \<and> implements_context env (cb_ins c ! firstArg));
              firstArg = (if ctx then firstArg + 1 else firstArg)
          in Some (c\<lparr>cb_errPos := pos, cb_hasCtx := (ctx \<or> cb_hasCtx c),
                     cb_argTypes := drop firstArg (cb_ins c)\<rparr>))"

text \<open>
  parseArgumentArray from index \<^verbatim>\<open>i\<close> on.  The pointer that reflect.New returns is
  never nil, so the test for a missing value never fires; it is kept as the source has it.
\<close>

definition reflect_New_is_nil :: "gtype \<Rightarrow> bool" where
  "reflect_New_is_nil t = False"

fun parseArgumentArray ::
  "(gtype \<Rightarrow> json \<Rightarrow> string option) \<Rightarrow> gtype list \<Rightarrow> nat \<Rightarrow> json list \<Rightarrow> garg list \<Rightarrow> string + garg list" where
  "parseArgumentArray dec types i [] args = Inr args"
| "parseArgumentArray dec types i (v # vs) args =
     (if i \<ge> length types
      then Inl (''too many arguments, want at most '' @ show_nat (length types))
      else case dec (types ! i) v of
             Some e \<Rightarrow> Inl (''invalid argument '' @ show_nat i @ '': '' @ e)
           | None \<Rightarrow>
               if reflect_New_is_nil (types ! i) \<and> \<not> is_ptr (types ! i)
               then Inl (''missing value for required argument '' @ show_nat i)
               else parseArgumentArray dec types (Suc i) vs (args @ [ArgDecoded (types ! i) v]))"

definition missing_arg :: "gtype \<Rightarrow> garg" where
  "missing_arg t = (if is_ptr t then ArgNew (type_elem t) else ArgZero t)"

definition parsePositionalArguments ::
  "(gtype \<Rightarrow> json \<Rightarrow> string option) \<Rightarrow> raw_message \<Rightarrow> gtype list \<Rightarrow> string + garg list" where
  "parsePositionalArguments dec rawArgs types =
     (let parsed = (case rawArgs of
                      None \<Rightarrow> Inr []
                    | Some JNull \<Rightarrow> Inr []
                    | Some (JArr vs) \<Rightarrow> parseArgumentArray dec types 0 vs []
                    | Some _ \<Rightarrow> Inl ''non-array args'')
      in case parsed of
           Inl e \<Rightarrow> Inl e
         | Inr args \<Rightarrow> Inr (args @ map missing_arg (drop (length args) types)))"

text \<open>
  call: the result value with the error, after the deferred recover.  A result list shorter than
  the error position cannot come from a function of the declared type.
\<close>

definition full_args :: "'w callback \<Rightarrow> garg list \<Rightarrow> garg list" where
  "full_args c args =
     (if cb_rcv_valid c then [ArgReceiver] else []) @ (if cb_hasCtx c then [ArgContext] else []) @ args"

definition callback_call ::
  "type_env \<Rightarrow> 'w callback \<Rightarrow> garg list \<Rightarrow> 'w \<Rightarrow> 'w \<times> gres \<times> go_error option" where
  "callback_call env c args w =
     (case cb_fn c (full_args c args) w of
        (w', CallPanic p) \<Rightarrow> (w', ResNil, Some (stack_error p (cb_methodName c)))
      | (w', CallReturns []) \<Rightarrow> (w', ResNil, None)
      | (w', CallReturns (r0 # rs)) \<Rightarrow>
          if cb_errPos c \<ge> 0 then
            (case value2err env (cb_outs c ! nat (cb_errPos c)) ((r0 # rs) ! nat (cb_errPos c)) of
               Panics p \<Rightarrow> (w', ResNil, Some (stack_error p (cb_methodName c)))
             | Returns (Some e) \<Rightarrow> (w', ResNil, Some e)
             | Returns None \<Rightarrow> (w', r0, None))
          else (w', r0, None))"


section \<open>Facts\<close>

lemma parse_array_ok:
  "parseArgumentArray dec types i vs args = Inr out \<Longrightarrow> length args = i \<Longrightarrow>
     out = args @ map (\<lambda>(t, v). ArgDecoded t v) (zip (drop i types) vs)
     \<and> i + length vs \<le> max i (length types)
     \<and> list_all2 (\<lambda>t v. dec t v = None) (take (length vs) (drop i types)) vs"
proof (induction vs arbitrary: i args)
  case (Cons v vs)
  from Cons.prems have i: "i < length types" and dec: "dec (types ! i) v = None"
    and rest: "parseArgumentArray dec types (Suc i) vs (args @ [ArgDecoded (types ! i) v]) = Inr out"
    by (auto split: if_splits option.splits simp: reflect_New_is_nil_def)
  from Cons.IH [OF rest] Cons.prems(2) i dec show ?case
    by (auto simp: Cons_nth_drop_Suc [symmetric])
qed simp

lemma parse_array_complete:
  "i + length vs \<le> length types \<Longrightarrow> list_all2 (\<lambda>t v. dec t v = None) (take (length vs) (drop i types)) vs \<Longrightarrow>
     parseArgumentArray dec types i vs args = Inr (args @ map2 ArgDecoded (drop i types) vs)"
proof (induction vs arbitrary: i args)
  case (Cons v vs)
  then have i: "i < length types" by simp
  with Cons.prems(2) have "dec (types ! i) v = None"
    "list_all2 (\<lambda>t v. dec t v = None) (take (length vs) (drop (Suc i) types)) vs"
    by (auto simp: Cons_nth_drop_Suc [symmetric])
  with Cons.IH [of "Suc i"] Cons.prems(1) i show ?case
    by (simp add: Cons_nth_drop_Suc [symmetric] reflect_New_is_nil_def)
qed simp

lemma parse_array_no_missing_error:
  "parseArgumentArray dec types i vs args \<noteq> Inl (''missing value for required argument '' @ s)"
proof (induction vs arbitrary: i args)
  case (Cons v vs)
  then show ?case by (auto split: option.splits simp: reflect_New_is_nil_def)
qed simp

lemma parsePositional_length:
  "parsePositionalArguments dec raw types = Inr args \<Longrightarrow> length args = length types"
proof -
  assume ok: "parsePositionalArguments dec raw types = Inr args"
  have "\<exists>pre. args = pre @ map missing_arg (drop (length pre) types) \<and> length pre \<le> length types"
    using ok unfolding parsePositionalArguments_def Let_def
    by (auto split: option.splits json.splits sum.splits dest!: parse_array_ok intro: exI [of _ "[]"])
  then show ?thesis by auto
qed

lemma makeArgTypes_lengths:
  assumes "makeArgTypes env c = Some c'" "\<not> cb_hasCtx c" "cb_rcv_valid c \<Longrightarrow> cb_ins c \<noteq> []"
  shows "(if cb_rcv_valid c' then 1 else 0) + (if cb_hasCtx c' then 1 else 0) + length (cb_argTypes c')
     = length (cb_ins c')"
  using assms by (auto simp: makeArgTypes_def Let_def split: option.splits)

lemma makeArgTypes_errPos:
  assumes "makeArgTypes env c = Some c'" "cb_errPos c = -1"
  shows "cb_outs c' = cb_outs c" "length (cb_outs c') \<le> 2" "cb_errPos c' < int (length (cb_outs c'))"
    "cb_errPos c' \<ge> 0 \<Longrightarrow> isErrorType env (cb_outs c' ! nat (cb_errPos c'))"
    "cb_errPos c' = -1 \<Longrightarrow> length (cb_outs c') \<le> 1"
  using assms by (auto simp: makeArgTypes_def out_err_pos_def Let_def split: option.splits if_splits)

end
