(* ===== verification/Go_Mime.thy ===== *)
theory Go_Mime
  imports Prelude
begin

text \<open>
  mime.ParseMediaType of Go's standard library, as far as validateRequest of package j2rpc reads
  it: whether the header parses, and the media type.  The parameters are parsed in full, because
  a malformed or contradictory parameter makes the whole header an error.
\<close>

definition token_specials :: string where
  "token_specials = [CHR ''!'', CHR ''#'', CHR ''$'', CHR ''%'', CHR ''&'', CHR 0x27, CHR ''*'', CHR ''+'',
     CHR ''-'', CHR ''.'', CHR ''^'', CHR ''_'', CHR 0x60, CHR ''|'', CHR ''~'']"

definition is_token_char :: "char \<Rightarrow> bool" where
  "is_token_char c \<longleftrightarrow> is_upper c \<or> is_lower c \<or> is_digit c \<or> c \<in> set token_specials"

definition is_tspecial :: "char \<Rightarrow> bool" where
  "is_tspecial c \<longleftrightarrow> c \<in> set [CHR ''('', CHR '')'', CHR ''<'', CHR ''>'', CHR ''@'', CHR '','', CHR '';'', CHR '':'',
     CHR 0x5C, CHR 0x22, CHR ''/'', CHR ''['', CHR '']'', CHR ''?'', CHR ''='']"

definition consume_token :: "string \<Rightarrow> string \<times> string" where
  "consume_token v = (takeWhile is_token_char v, dropWhile is_token_char v)"

fun quoted_rest :: "string \<Rightarrow> string \<Rightarrow> (string \<times> string) option" where
  "quoted_rest buf [] = None"
| "quoted_rest buf (c # cs) =
     (if c = CHR 0x22 then Some (buf, cs)
      else if c = CHR 0x5C \<and> cs \<noteq> [] \<and> is_tspecial (hd cs)
        then (case cs of [] \<Rightarrow> None | d # ds \<Rightarrow> quoted_rest (buf @ [d]) ds)
      else if c = CHR 0x0D \<or> c = CHR 0x0A then None
      else quoted_rest (buf @ [c]) cs)"

definition consume_value :: "string \<Rightarrow> string \<times> string" where
  "consume_value v =
     (case v of
        [] \<Rightarrow> ([], [])
      | c # cs \<Rightarrow>
          if c \<noteq> CHR 0x22 then consume_token v
          else (case quoted_rest [] cs of Some r \<Rightarrow> r | None \<Rightarrow> ([], v)))"

text \<open>consumeMediaParam: None where the source returns an empty parameter name (the rest is then
  the whole input).\<close>

definition consume_media_param :: "string \<Rightarrow> (string \<times> string \<times> string) option" where
  "consume_media_param v =
     (let r0 = trim_left v in
      if \<not> has_prefix r0 '';'' then None
      else
        let (param, r2) = consume_token (trim_left (tl r0));
            r3 = trim_left r2
        in if param = [] then None
           else if \<not> has_prefix r3 ''='' then None
           else
             let r4 = trim_left (tl r3);
                 (value, r5) = consume_value r4
             in if value = [] \<and> r5 = r4 then None else Some (to_lower param, value, r5))"

definition check_media_type :: "string \<Rightarrow> bool" where
  "check_media_type s =
     (let (typ, rest) = consume_token s in
      if typ = [] then False
      else if rest = [] then True
      else if \<not> has_prefix rest ''/'' then False
      else let (sub, rest2) = consume_token (tl rest) in sub \<noteq> [] \<and> rest2 = [])"

text \<open>
  The parameter loop: True when no error is found.  Every parameter consumes input, so the length
  test before the recursive call never stops it early; it is what makes the recursion evidently
  terminating.
\<close>

function media_params_ok :: "(string \<times> string) list \<Rightarrow> string \<Rightarrow> bool" where
  "media_params_ok seen v =
     (let v1 = trim_left v in
      if v1 = [] then True
      else case consume_media_param v1 of
             None \<Rightarrow> trim_space v1 = '';''
           | Some (key, value, rest) \<Rightarrow>
               if (case map_of seen key of None \<Rightarrow> False | Some old \<Rightarrow> old \<noteq> value) then False
               else if length rest < length v then media_params_ok ((key, value) # seen) rest
               else False)"
  by pat_completeness auto
termination by (relation "measure (\<lambda>(seen, v). length v)") auto

declare media_params_ok.simps [simp del]

definition parse_media_type :: "string \<Rightarrow> string option" where
  "parse_media_type v =
     (let base = takeWhile (\<lambda>c. c \<noteq> CHR '';'') v;
          mt = trim_space (to_lower base)
      in if \<not> check_media_type mt then None
         else if media_params_ok [] (drop (length base) v) then Some mt else None)"

lemma length_trim_left [simp]: "length (trim_left v) \<le> length v"
  by (simp add: trim_left_def length_dropWhile_le)

lemma quoted_rest_shorter: "quoted_rest buf s = Some (b, r) \<Longrightarrow> length r < length s"
  by (induction buf s rule: quoted_rest.induct) (fastforce split: if_splits list.splits)+

lemma consume_value_shorter: "length (snd (consume_value v)) \<le> length v"
  using length_dropWhile_le [of is_token_char "tl v"]
  by (auto simp: consume_value_def consume_token_def split: list.splits option.splits dest: quoted_rest_shorter)

text \<open>The length test of the loop is always true.\<close>

lemma consume_media_param_shorter:
  assumes "consume_media_param v = Some (k, x, r)"
  shows "length r < length v"
proof -
  define r0 where "r0 = trim_left v"
  define t where "t = trim_left (tl r0)"
  define r3 where "r3 = trim_left (dropWhile is_token_char t)"
  define r4 where "r4 = trim_left (tl r3)"
  from assms have "r0 \<noteq> []" and r: "r = snd (consume_value r4)"
    by (auto simp: consume_media_param_def Let_def consume_token_def has_prefix_def r0_def t_def r3_def r4_def
        split: if_splits prod.splits)
  have "length r \<le> length r4" using r consume_value_shorter by simp
  also have "\<dots> \<le> length r3" unfolding r4_def using length_trim_left [of "tl r3"] by simp
  also have "\<dots> \<le> length t" unfolding r3_def
    using length_trim_left length_dropWhile_le by (rule le_trans)
  also have "\<dots> \<le> length (tl r0)" unfolding t_def by (rule length_trim_left)
  also have "\<dots> < length r0" using \<open>r0 \<noteq> []\<close> by (cases r0) auto
  also have "\<dots> \<le> length v" by (simp add: r0_def)
  finally show ?thesis .
qed

lemma media_params_ok_unfold:
  "media_params_ok seen v =
     (let v1 = trim_left v in
      if v1 = [] then True
      else case consume_media_param v1 of
             None \<Rightarrow> trim_space v1 = '';''
           | Some (key, value, rest) \<Rightarrow>
               (case map_of seen key of None \<Rightarrow> True | Some old \<Rightarrow> old = value)
               \<and> media_params_ok ((key, value) # seen) rest)"
  by (subst media_params_ok.simps)
    (auto simp: Let_def dest!: consume_media_param_shorter intro: less_le_trans split: option.splits)

end
