(* ===== verification/J2rpc_Server.thy ===== *)
theory J2rpc_Server
  imports J2rpc_Middleware J2rpc_Callback Go_Mime
begin

text \<open>
  The server of package j2rpc (src/j2rpc/j2rpc.go with validateRequest of
  src/j2rpc/functions.go): registration of receivers, method lookup, one request from the HTTP
  guard to the written response.  An exchange carries the response writer and the state of the
  application that middlewares and methods act on.  \<^verbatim>\<open>codec\<close> gathers what the
  JSON package chosen at build time does with bytes: scanning the body, the error text of a
  mistyped field, decoding into a Go type, printing.
\<close>

record codec =
  lib_scan :: "string \<Rightarrow> string + json"
  lib_terr :: "string \<Rightarrow> json \<Rightarrow> string"
  lib_dec :: "gtype \<Rightarrow> json \<Rightarrow> string option"
  lib_render :: "json \<Rightarrow> string + string"

record 's exchange =
  ex_writer :: response_writer
  ex_app :: 's

record http_request =
  rq_method :: string
  rq_content_length :: int
  rq_raw_query :: string
  rq_content_type :: string
  rq_body :: string

record 'w service =
  sv_name :: string
  sv_callbacks :: "string \<rightharpoonup> 'w callback"

record 'w server =
  srv_run :: int
  srv_opt :: "'w rpc_option"
  srv_services :: "string \<rightharpoonup> 'w service"
  srv_excludeMethods :: "string list"

text \<open>A receiver as reflect shows it: methods in reflect's order, and the optional interfaces.\<close>

record 'w rmethod =
  rm_name :: string
  rm_pkg_path :: string
  rm_ins :: "gtype list"
  rm_outs :: "gtype list"
  rm_fn :: "garg list \<Rightarrow> 'w \<Rightarrow> 'w \<times> call_result"

record 'w receiver =
  rc_type_name :: string
  rc_methods :: "'w rmethod list"
  rc_exclude :: "string list option"
  rc_namespace :: "string option"


section \<open>Registration\<close>

definition new_server :: "'w rpc_option option \<Rightarrow> 'w server" where
  "new_server opts =
     \<lparr>srv_run = 1,
      srv_opt = (case opts of Some o1 \<Rightarrow> o1 | None \<Rightarrow> \<lparr>SnakeNamespace = True, BeforeMid = []\<rparr>),
      srv_services = Map.empty, srv_excludeMethods = []\<rparr>"

definition Stop :: "'w server \<Rightarrow> 'w server" where
  "Stop s = (if srv_run s = 1 then s\<lparr>srv_run := 0\<rparr> else s)"

definition srv_format :: "'w server \<Rightarrow> string \<Rightarrow> string" where
  "srv_format s name = formatName (SnakeNamespace (srv_opt s)) name"

definition skip_methods :: "'w server \<Rightarrow> 'w receiver \<Rightarrow> string list" where
  "skip_methods s rc =
     [''Constructor'', ''ExcludeMethod''] @ srv_excludeMethods s
     @ (case rc_exclude rc of Some ms \<Rightarrow> ms | None \<Rightarrow> [])"

definition append_method ::
  "type_env \<Rightarrow> 'w server \<Rightarrow> 'w receiver \<Rightarrow> 'w rmethod \<Rightarrow> (string \<rightharpoonup> 'w callback) \<Rightarrow> (string \<rightharpoonup> 'w callback)" where
  "append_method env s rc m callbacks =
     (if rm_pkg_path m \<noteq> [] then callbacks
      else if rm_name m \<in> set (skip_methods s rc) then callbacks
      else case makeArgTypes env
                 \<lparr>cb_methodName = rm_name m, cb_rcv_valid = True, cb_ins = rm_ins m, cb_outs = rm_outs m,
                  cb_fn = rm_fn m, cb_argTypes = [], cb_hasCtx = False, cb_errPos = -1\<rparr> of
             None \<Rightarrow> callbacks
           | Some c \<Rightarrow> callbacks(srv_format s (rm_name m) \<mapsto> c))"

definition suitableCallbacks ::
  "type_env \<Rightarrow> 'w server \<Rightarrow> 'w receiver \<Rightarrow> (string \<rightharpoonup> 'w callback)" where
  "suitableCallbacks env s rc = fold (append_method env s rc) (rc_methods rc) Map.empty"

definition service_name :: "'w server \<Rightarrow> 'w receiver \<Rightarrow> string list \<Rightarrow> string" where
  "service_name s rc names =
     (let name = (case names of n # _ \<Rightarrow> n | [] \<Rightarrow> []);
          name = (case rc_namespace rc of Some n \<Rightarrow> n | None \<Rightarrow> name)
      in if name = [] then srv_format s (rc_type_name rc) else name)"

text \<open>
  Register: \<^verbatim>\<open>ctor\<close> is what the receiver's Constructor does to it (the identity for
  a receiver without one).  The callback map is a HOL map; that it is empty is read off the
  methods that were considered.
\<close>

definition no_callbacks :: "'w receiver \<Rightarrow> 'w server \<Rightarrow> (string \<rightharpoonup> 'w callback) \<Rightarrow> bool" where
  "no_callbacks rc s cbs \<longleftrightarrow> list_all (\<lambda>m. cbs (srv_format s (rm_name m)) = None) (rc_methods rc)"

definition Register ::
  "type_env \<Rightarrow> ('w receiver \<Rightarrow> 'w receiver) \<Rightarrow> 'w receiver \<Rightarrow> string list \<Rightarrow> 'w server \<Rightarrow> 'w server outcome" where
  "Register env ctor rc names s =
     (let name = service_name s rc names;
          rc1 = ctor rc;
          callbacks = suitableCallbacks env s rc1
      in if no_callbacks rc1 s callbacks then Returns s
         else case srv_services s name of
                Some _ \<Rightarrow> Panics (''namespace ['' @ name @ ''] exists'')
              | None \<Rightarrow>
                  Returns (s\<lparr>srv_services :=
                    (srv_services s)(name \<mapsto> \<lparr>sv_name = name, sv_callbacks = callbacks\<rparr>)\<rparr>))"

fun register_all ::
  "type_env \<Rightarrow> ('w receiver \<Rightarrow> 'w receiver) \<Rightarrow> 'w receiver list \<Rightarrow> 'w server \<Rightarrow> 'w server outcome" where
  "register_all env ctor [] s = Returns s"
| "register_all env ctor (rc # rcs) s =
     bind_outcome (Register env ctor rc [] s) (register_all env ctor rcs)"

text \<open>RegisterForApp: the app's ExcludeMethod list, then every instance with the j2rpc tag.\<close>

definition RegisterForApp ::
  "type_env \<Rightarrow> ('w receiver \<Rightarrow> 'w receiver) \<Rightarrow> string list option \<Rightarrow> 'w receiver list \<Rightarrow> 'w server \<Rightarrow> 'w server outcome" where
  "RegisterForApp env ctor app_exclude namespaces s =
     register_all env ctor namespaces
       (case app_exclude of Some ms \<Rightarrow> s\<lparr>srv_excludeMethods := ms\<rparr> | None \<Rightarrow> s)"

definition getCallBack :: "'w server \<Rightarrow> string list \<Rightarrow> go_error + 'w callback" where
  "getCallBack s elem =
     (case srv_services s (elem ! 0) of
        None \<Rightarrow> Inl (RpcError (NewError ErrNoMethod ''no namespace'' []))
      | Some svs \<Rightarrow>
          (case sv_callbacks svs (elem ! 1) of
             None \<Rightarrow> Inl (RpcError (NewError ErrNoMethod ''no method'' []))
           | Some c \<Rightarrow> Inr c))"


section \<open>One request\<close>

definition maxRequestContentLength :: int where "maxRequestContentLength = 1024 * 1024 * 5"

definition acceptedContentTypes :: "string list" where
  "acceptedContentTypes = [''application/json'', ''application/json-rpc'', ''application/jsonrequest'']"

definition validateRequest :: "http_request \<Rightarrow> (int \<times> string) option" where
  "validateRequest r =
     (if rq_method r = ''PUT'' \<or> rq_method r = ''DELETE'' then Some (405, ''method not allowed'')
      else if rq_content_length r > maxRequestContentLength then
        Some (413, ''content length too large ('' @ show_int (rq_content_length r) @ ''>''
                   @ show_int maxRequestContentLength @ '')'')
      else if rq_method r = ''OPTIONS'' then None
      else if (case parse_media_type (rq_content_type r) of None \<Rightarrow> False
               | Some mt \<Rightarrow> mt \<in> set acceptedContentTypes) then None
      else Some (415, ''invalid content type, only application/json is supported''))"

definition mid_args :: "type_env \<Rightarrow> string \<Rightarrow> (gtype \<times> garg) list" where
  "mid_args env method =
     [(dyn_context env, ArgContext), (TNamed ''string'', ArgMethod method),
      (dyn_writer env, ArgWriter), (dyn_request env, ArgRequest)]"

text \<open>handle, from the deferred recover on: arguments, call, result.\<close>

definition invoke ::
  "type_env \<Rightarrow> codec \<Rightarrow> 'w callback \<Rightarrow> rpc_message \<Rightarrow> 'w \<Rightarrow> 'w \<times> rpc_message \<times> go_error option" where
  "invoke env lib cbk msg x =
     (case parsePositionalArguments (lib_dec lib) (mParams msg) (cb_argTypes cbk) of
        Inl e \<Rightarrow> (x, msg, Some (RpcError (NewError ErrBadParams e [])))
      | Inr callArgs \<Rightarrow>
          (case callback_call env cbk callArgs x of
             (x1, res, Some e) \<Rightarrow> (x1, msg, Some e)
           | (x1, res, None) \<Rightarrow>
               if res_is_zero res then (x1, msg, None)
               else (case marshal_res res of
                       Panics p \<Rightarrow> (x1, msg, Some (stack_error p (cb_methodName cbk)))
                     | Returns (Inl e) \<Rightarrow> (x1, msg, Some (OtherError e))
                     | Returns (Inr answer) \<Rightarrow> (x1, msg\<lparr>mResult := Some answer\<rparr>, None))))"

definition handle ::
  "type_env \<Rightarrow> matcher \<Rightarrow> codec \<Rightarrow> 'w server \<Rightarrow> http_request \<Rightarrow> rpc_message \<Rightarrow> 'w
     \<Rightarrow> 'w \<times> rpc_message \<times> go_error option outcome" where
  "handle env mc lib s r msg0 x =
     (case lib_scan lib (rq_body r) of
        Inl e \<Rightarrow> (x, msg0, Returns (Some (RpcError (NewError ErrParse e []))))
      | Inr j \<Rightarrow>
          (case decode_message (lib_terr lib) j msg0 of
             (msg, Some e) \<Rightarrow> (x, msg, Returns (Some (RpcError (NewError ErrParse e []))))
           | (msg, None) \<Rightarrow>
               if \<not> hasValidID msg
               then (x, msg, Returns (Some (RpcError (NewError ErrInvalidRequest ''id is invalid'' []))))
               else case methods msg of
                 Inl e \<Rightarrow> (x, msg, Returns (Some e))
               | Inr elem0 \<Rightarrow>
                   let elem = map (srv_format s) elem0;
                       msg1 = msg\<lparr>mMethod := go_join elem ''.''\<rparr>
                   in case getCallBack s elem of
                        Inl e \<Rightarrow> (x, msg1, Returns (Some e))
                      | Inr cbk \<Rightarrow>
                          (case beforeMiddlewareAction env mc (srv_opt s) (mid_args env (mMethod msg1)) (mMethod msg1) x of
                             (x1, Panics p) \<Rightarrow> (x1, msg1, Panics p)
                           | (x1, Returns (Some e)) \<Rightarrow> (x1, msg1, Returns (Some e))
                           | (x1, Returns None) \<Rightarrow>
                               (case invoke env lib cbk msg1 x1 of (x2, msg2, err) \<Rightarrow> (x2, msg2, Returns err)))))"

definition upd_writer :: "(response_writer \<Rightarrow> response_writer) \<Rightarrow> 's exchange \<Rightarrow> 's exchange" where
  "upd_writer f x = x\<lparr>ex_writer := f (ex_writer x)\<rparr>"

definition Handler ::
  "type_env \<Rightarrow> matcher \<Rightarrow> codec \<Rightarrow> 's exchange server \<Rightarrow> http_request \<Rightarrow> 's exchange \<Rightarrow> 's exchange \<times> unit outcome" where
  "Handler env mc lib s r x =
     (if srv_run s = 0 then (x, Returns ())
      else if status_written (ex_writer x) then (x, Returns ())
      else case validateRequest r of
        Some (code, e) \<Rightarrow> (upd_writer (http_Error e code) x, Returns ())
      | None \<Rightarrow>
          (case handle env mc lib s r empty_message
                  (upd_writer (header_set ''x-content-type-options'' ''nosniff'') x) of
             (x1, msg, Panics p) \<Rightarrow> (x1, Panics p)
           | (x1, msg, Returns err) \<Rightarrow>
               (upd_writer (writeResponse (lib_render lib) (output_message (setError err msg))) x1, Returns ())))"

definition ServeHTTP ::
  "type_env \<Rightarrow> matcher \<Rightarrow> codec \<Rightarrow> 's exchange server \<Rightarrow> http_request \<Rightarrow> 's exchange \<Rightarrow> 's exchange \<times> unit outcome" where
  "ServeHTTP env mc lib s r x =
     (if rq_method r = ''GET'' \<and> rq_content_length r = 0 \<and> rq_raw_query r = []
      then (upd_writer (write_header 200) x, Returns ())
      else Handler env mc lib s r x)"

end
