(* ===== verification/J2rpc_Dispatch.thy ===== *)
theory J2rpc_Dispatch
  imports J2rpc_Server
begin

text \<open>
  What the j2rpc server guarantees.  The locale \<^verbatim>\<open>name_normaliser\<close> is the
  interface between dispatch and the name conversion: dispatch only needs that formatting a
  name twice changes nothing.  The invariant \<^verbatim>\<open>srv_wf\<close> says what registration
  stores; the lemmas after it follow one request stage by stage.
\<close>

section \<open>The contract of name formatting\<close>

locale name_normaliser =
  fixes fmt :: "string \<Rightarrow> string"
  assumes fmt_idem: "fmt (fmt s) = fmt s"
begin

lemma fixed_iff: "fmt k = k \<longleftrightarrow> (\<exists>s. k = fmt s)"
  by (metis fmt_idem)

lemma lookup_normal: "m (fmt s) = Some v \<Longrightarrow> \<exists>k. m k = Some v \<and> fmt k = k"
  using fmt_idem by blast

text \<open>An entry stored under a name that formatting changes is never found.\<close>

lemma shadowed: "fmt k \<noteq> k \<Longrightarrow> fmt s \<noteq> k"
  using fixed_iff by blast

lemma normal_lookup_upd: "fmt k \<noteq> k \<Longrightarrow> (m(k \<mapsto> v)) (fmt s) = m (fmt s)"
  by (auto simp: shadowed)

end

interpretation fmt: name_normaliser "formatName b"
  by unfold_locales simp

interpretation srv_fmt: name_normaliser "srv_format s"
  by unfold_locales (simp add: srv_format_def)


section \<open>What registration stores\<close>

definition cb_wf :: "type_env \<Rightarrow> 'w callback \<Rightarrow> bool" where
  "cb_wf env c \<longleftrightarrow>
     cb_rcv_valid c
     \<and> 1 + (if cb_hasCtx c then 1 else 0) + length (cb_argTypes c) = length (cb_ins c)
     \<and> length (cb_outs c) \<le> 2 \<and> -1 \<le> cb_errPos c \<and> cb_errPos c < int (length (cb_outs c))
     \<and> (0 \<le> cb_errPos c \<longrightarrow> isErrorType env (cb_outs c ! nat (cb_errPos c)))"

definition reserved_names :: "string list" where
  "reserved_names = [''Constructor'', ''ExcludeMethod'']"

definition srv_wf :: "type_env \<Rightarrow> 'w server \<Rightarrow> bool" where
  "srv_wf env s \<longleftrightarrow>
     (\<forall>name svs. srv_services s name = Some svs \<longrightarrow>
        sv_name svs = name \<and> sv_callbacks svs \<noteq> Map.empty
        \<and> (\<forall>key c. sv_callbacks svs key = Some c \<longrightarrow>
              cb_wf env c \<and> key = srv_format s (cb_methodName c) \<and> cb_methodName c \<notin> set reserved_names))"

definition receiver_wf :: "'w receiver \<Rightarrow> bool" where
  "receiver_wf rc \<longleftrightarrow> list_all (\<lambda>m. rm_ins m \<noteq> []) (rc_methods rc)"

definition callbacks_wf :: "type_env \<Rightarrow> 'w server \<Rightarrow> (string \<rightharpoonup> 'w callback) \<Rightarrow> bool" where
  "callbacks_wf env s cbs \<longleftrightarrow>
     (\<forall>key c. cbs key = Some c \<longrightarrow>
        cb_wf env c \<and> key = srv_format s (cb_methodName c) \<and> cb_methodName c \<notin> set reserved_names)"

lemma makeArgTypes_wf:
  assumes "makeArgTypes env c = Some c'" "cb_rcv_valid c" "\<not> cb_hasCtx c" "cb_ins c \<noteq> []" "cb_errPos c = -1"
  shows "cb_wf env c' \<and> cb_methodName c' = cb_methodName c"
  using assms makeArgTypes_errPos [OF assms(1,5)] makeArgTypes_lengths [OF assms(1,3)]
  by (auto simp: cb_wf_def makeArgTypes_def out_err_pos_def Let_def split: option.splits if_splits)

lemma append_method_wf:
  assumes "callbacks_wf env s cbs" "rm_ins m \<noteq> []"
  shows "callbacks_wf env s (append_method env s rc m cbs)"
  using assms unfolding callbacks_wf_def append_method_def
  by (auto simp: skip_methods_def reserved_names_def split: option.splits if_splits
      dest!: makeArgTypes_wf)

lemma fold_append_wf:
  "callbacks_wf env s cbs \<Longrightarrow> list_all (\<lambda>m. rm_ins m \<noteq> []) ms \<Longrightarrow>
     callbacks_wf env s (fold (append_method env s rc) ms cbs)"
  by (induction ms arbitrary: cbs) (auto intro: append_method_wf)

lemma suitableCallbacks_wf: "receiver_wf rc \<Longrightarrow> callbacks_wf env s (suitableCallbacks env s rc)"
  unfolding suitableCallbacks_def receiver_wf_def
  by (rule fold_append_wf) (auto simp: callbacks_wf_def)

lemma dom_append_method: "dom (append_method env s rc m cbs) \<subseteq> insert (srv_format s (rm_name m)) (dom cbs)"
  by (auto simp: append_method_def split: option.splits if_splits)

lemma dom_fold_append:
  "dom (fold (append_method env s rc) ms cbs) \<subseteq> (\<lambda>m. srv_format s (rm_name m)) ` set ms \<union> dom cbs"
proof (induction ms arbitrary: cbs)
  case (Cons m ms)
  let ?I = "(\<lambda>m. srv_format s (rm_name m)) ` set ms"
  have "dom (fold (append_method env s rc) (m # ms) cbs) \<subseteq> ?I \<union> dom (append_method env s rc m cbs)"
    using Cons by simp
  also have "\<dots> \<subseteq> ?I \<union> insert (srv_format s (rm_name m)) (dom cbs)"
    using dom_append_method by (rule Un_mono [OF subset_refl])
  finally show ?case by (simp add: insert_commute)
qed simp

text \<open>The emptiness test of Register is the test that the map is empty.\<close>

lemma no_callbacks_iff:
  "no_callbacks rc s (suitableCallbacks env s rc) \<longleftrightarrow> suitableCallbacks env s rc = Map.empty"
proof
  assume none: "no_callbacks rc s (suitableCallbacks env s rc)"
  have "dom (suitableCallbacks env s rc) = {}"
    using none dom_fold_append [of env s rc "rc_methods rc" Map.empty]
    by (force simp: no_callbacks_def list_all_iff suitableCallbacks_def dom_def)
  then show "suitableCallbacks env s rc = Map.empty" by simp
qed (auto simp: no_callbacks_def list_all_iff)

lemma new_server_wf: "srv_wf env (new_server opts)"
  by (simp add: srv_wf_def new_server_def)

lemma Register_wf:
  assumes "Register env ctor rc names s = Returns s'" "srv_wf env s" "receiver_wf (ctor rc)"
  shows "srv_wf env s'"
proof -
  have cbs: "callbacks_wf env s (suitableCallbacks env s (ctor rc))"
    using assms(3) by (rule suitableCallbacks_wf)
  from assms(1,2) cbs show ?thesis
    unfolding Register_def Let_def no_callbacks_iff
    by (auto simp: srv_wf_def callbacks_wf_def srv_format_def split: if_splits option.splits)
qed

lemma register_all_wf:
  assumes "\<And>rc. receiver_wf rc \<Longrightarrow> receiver_wf (ctor rc)"
  shows "register_all env ctor rcs s = Returns s' \<Longrightarrow> srv_wf env s \<Longrightarrow> list_all receiver_wf rcs \<Longrightarrow> srv_wf env s'"
proof (induction rcs arbitrary: s)
  case (Cons rc rcs)
  then obtain s1 where "Register env ctor rc [] s = Returns s1" "register_all env ctor rcs s1 = Returns s'"
    by (cases "Register env ctor rc [] s") auto
  with Cons assms show ?case by (auto intro: Register_wf)
qed simp

lemma getCallBack_wf:
  assumes "srv_wf env s" "getCallBack s elem = Inr c"
  shows "cb_wf env c \<and> elem ! 1 = srv_format s (cb_methodName c) \<and> cb_methodName c \<notin> set reserved_names"
  using assms by (auto simp: getCallBack_def srv_wf_def split: option.splits)

text \<open>What a successful registration makes reachable.\<close>

lemma Register_finds:
  assumes "Register env ctor rc names s = Returns s'"
    and "m \<in> set (rc_methods (ctor rc))" "rm_pkg_path m = []"
    and "rm_name m \<notin> set (skip_methods s (ctor rc))"
    and "makeArgTypes env
           \<lparr>cb_methodName = rm_name m, cb_rcv_valid = True, cb_ins = rm_ins m, cb_outs = rm_outs m,
            cb_fn = rm_fn m, cb_argTypes = [], cb_hasCtx = False, cb_errPos = -1\<rparr> = Some c"
    and "distinct (map (\<lambda>m. srv_format s (rm_name m)) (rc_methods (ctor rc)))"
  shows "getCallBack s' [service_name s rc names, srv_format s (rm_name m)] = Inr c"
proof -
  let ?add = "append_method env s (ctor rc)"
  have other: "fold ?add ms cbs (srv_format s (rm_name m)) = cbs (srv_format s (rm_name m))"
    if "srv_format s (rm_name m) \<notin> (\<lambda>m. srv_format s (rm_name m)) ` set ms" for ms cbs
    using that by (induction ms arbitrary: cbs) (auto simp: append_method_def split: option.splits)
  have added: "?add m cbs (srv_format s (rm_name m)) = Some c" for cbs
    using assms(3-5) by (simp add: append_method_def)
  obtain ys zs where split: "rc_methods (ctor rc) = ys @ m # zs"
    using assms(2) by (meson split_list)
  with assms(6) have "srv_format s (rm_name m) \<notin> (\<lambda>m. srv_format s (rm_name m)) ` set zs" by auto
  then have cb: "suitableCallbacks env s (ctor rc) (srv_format s (rm_name m)) = Some c"
    by (simp add: suitableCallbacks_def split other added)
  then have "\<not> no_callbacks (ctor rc) s (suitableCallbacks env s (ctor rc))"
    unfolding no_callbacks_iff by auto
  with assms(1) cb show ?thesis
    by (auto simp: Register_def Let_def getCallBack_def split: option.splits)
qed

lemma makeArgTypes_fn:
  "makeArgTypes env c = Some c' \<Longrightarrow> cb_fn c' = cb_fn c \<and> cb_methodName c' = cb_methodName c"
  by (auto simp: makeArgTypes_def Let_def split: option.splits)

end
