(* ===== verification/J2rpc_Requests.thy ===== *)
theory J2rpc_Requests
  imports J2rpc_Dispatch
begin

text \<open>
  Lemmas that follow one request through the j2rpc server: the middleware chain, the stages of
  handle, and the response that Handler writes.  The properties of J2rpc_Properties are short
  consequences.
\<close>

section \<open>Middlewares\<close>

lemma run_before_append:
  "run_before env mc (xs @ ys) method args w =
     (case run_before env mc xs method args w of
        (w', Returns None) \<Rightarrow> run_before env mc ys method args w'
      | r \<Rightarrow> r)"
  by (induction xs arbitrary: w)
    (auto split: outcome.splits mid_fn.splits option.splits prod.splits)

lemma any_path_hit:
  "list_all (\<lambda>p. mc p \<noteq> None) ss \<Longrightarrow> s \<in> set ss \<Longrightarrow> methodPathEqual mc s method = Returns True
     \<Longrightarrow> any_path mc ss method = Returns True"
proof (induction ss)
  case (Cons p ss)
  then show ?case by (auto simp: methodPathEqual_def split: option.splits if_splits)
qed simp

lemma any_path_total:
  "list_all (\<lambda>p. mc p \<noteq> None) ss \<Longrightarrow> \<exists>b. any_path mc ss method = Returns b"
  by (induction ss) (auto simp: methodPathEqual_def split: option.splits)

lemma fold_append_concat: "fold (\<lambda>l acc. acc @ l) ls a = a @ concat ls"
  by (induction ls arbitrary: a) auto

lemma AddBeforeMiddleware_lists:
  "BeforeMid (AddBeforeMiddleware fn (m # e # rest) opt) =
     BeforeMid opt @ [\<lparr>mi_method = m, mi_excludes = concat (e # rest), mi_function = fn, mi_all = False\<rparr>]"
  by (simp add: AddBeforeMiddleware_def fold_append_concat)

lemma AddBeforeMiddleware_snoc:
  "\<exists>info. BeforeMid (AddBeforeMiddleware fn ls opt) = BeforeMid opt @ [info]"
  by (cases ls; cases "tl ls") (auto simp: AddBeforeMiddleware_def)

lemma SnakeNamespace_AddBeforeMiddleware [simp]:
  "SnakeNamespace (AddBeforeMiddleware fn ls opt) = SnakeNamespace opt"
  by (cases ls; cases "tl ls") (auto simp: AddBeforeMiddleware_def)

text \<open>A pattern written like the Go names matches the request in snake case.\<close>

lemma methodPathEqual_camel:
  assumes "CHR ''.'' \<notin> set a" "CHR ''.'' \<notin> set b"
  shows "methodPathEqual mc (a @ ''.'' @ b) (SnakeString a @ ''.'' @ SnakeString b) = Returns True"
  using assms snakePath_two [OF assms] by (simp add: methodPathEqual_def)

lemma beforeMiddlewareAction_run:
  "beforeMiddlewareAction env mc opt args method w = run_before env mc (BeforeMid opt) method args w"
  by (simp add: beforeMiddlewareAction_def)


section \<open>Stages of handle\<close>

definition accepted_request :: "codec \<Rightarrow> 'w server \<Rightarrow> http_request \<Rightarrow> rpc_message \<Rightarrow> rpc_message \<Rightarrow> 'w callback \<Rightarrow> bool" where
  "accepted_request lib s r msg0 msg1 cbk \<longleftrightarrow>
     (\<exists>j msg elem. lib_scan lib (rq_body r) = Inr j
        \<and> decode_message (lib_terr lib) j msg0 = (msg, None)
        \<and> hasValidID msg \<and> methods msg = Inr elem
        \<and> msg1 = msg\<lparr>mMethod := go_join (map (srv_format s) elem) ''.''\<rparr>
        \<and> getCallBack s (map (srv_format s) elem) = Inr cbk)"

lemma srv_format_opt [simp]:
  "SnakeNamespace opt = SnakeNamespace (srv_opt s) \<Longrightarrow> srv_format (s\<lparr>srv_opt := opt\<rparr>) = srv_format s"
  by (simp add: srv_format_def fun_eq_iff)

lemma accepted_request_opt:
  "SnakeNamespace opt = SnakeNamespace (srv_opt s) \<Longrightarrow>
     accepted_request lib (s\<lparr>srv_opt := opt\<rparr>) r msg0 msg1 cbk = accepted_request lib s r msg0 msg1 cbk"
  by (simp add: accepted_request_def getCallBack_def)

lemma handle_accepted:
  assumes "accepted_request lib s r msg0 msg1 cbk"
  shows "handle env mc lib s r msg0 x =
     (case beforeMiddlewareAction env mc (srv_opt s) (mid_args env (mMethod msg1)) (mMethod msg1) x of
        (x1, Panics p) \<Rightarrow> (x1, msg1, Panics p)
      | (x1, Returns (Some e)) \<Rightarrow> (x1, msg1, Returns (Some e))
      | (x1, Returns None) \<Rightarrow> (case invoke env lib cbk msg1 x1 of (x2, msg2, err) \<Rightarrow> (x2, msg2, Returns err)))"
  using assms by (auto simp: accepted_request_def handle_def Let_def)

definition rejection_codes :: "error_code list" where
  "rejection_codes = [ErrParse, ErrInvalidRequest, ErrNoMethod]"

lemma handle_rejected:
  assumes "\<nexists>msg1 cbk. accepted_request lib s r msg0 msg1 cbk"
  shows "\<exists>msg e. handle env mc lib s r msg0 x = (x, msg, Returns (Some (RpcError e)))
           \<and> err_code e \<in> set rejection_codes"
proof (cases "lib_scan lib (rq_body r)")
  case (Inl e)
  then show ?thesis by (simp add: handle_def NewError_def rejection_codes_def)
next
  case (Inr j)
  obtain msg er where dec: "decode_message (lib_terr lib) j msg0 = (msg, er)" by fastforce
  show ?thesis
  proof (cases er)
    case (Some e)
    with Inr dec show ?thesis by (simp add: handle_def NewError_def rejection_codes_def)
  next
    case None
    show ?thesis
    proof (cases "hasValidID msg")
      case False
      with Inr dec None show ?thesis by (simp add: handle_def NewError_def rejection_codes_def)
    next
      case True
      show ?thesis
      proof (cases "methods msg")
        case (Inl e)
        with Inr dec None True show ?thesis
          by (auto simp: handle_def methods_def Let_def NewError_def rejection_codes_def split: if_splits)
      next
        case (Inr elem)
        have "\<exists>e. getCallBack s (map (srv_format s) elem) = Inl e"
          using assms \<open>lib_scan lib (rq_body r) = Inr j\<close> dec None True Inr
          unfolding accepted_request_def by (metis sum.exhaust_sel sum.collapse(1) sum.collapse(2))
        then obtain e where e: "getCallBack s (map (srv_format s) elem) = Inl e" ..
        then have "\<exists>e'. e = RpcError e' \<and> err_code e' = ErrNoMethod"
          by (auto simp: getCallBack_def NewError_def split: option.splits)
        with e \<open>lib_scan lib (rq_body r) = Inr j\<close> dec None True Inr show ?thesis
          by (auto simp: handle_def Let_def rejection_codes_def)
      qed
    qed
  qed
qed

lemma hasValidID_some: "hasValidID m \<Longrightarrow> mID m \<noteq> None"
  by (auto simp: hasValidID_def split: option.splits)

text \<open>Everything from the recover point on is an error value, never a panic.\<close>

lemma invoke_error_code:
  assumes "invoke env lib cbk msg x = (x', msg', err)"
  shows "mID msg' = mID msg \<and> (err \<noteq> None \<longrightarrow> mResult msg' = mResult msg)"
  using assms by (auto simp: invoke_def split: sum.splits prod.splits option.splits if_splits outcome.splits)

lemma invoke_panic:
  assumes "parsePositionalArguments (lib_dec lib) (mParams msg) (cb_argTypes cbk) = Inr args"
    "cb_fn cbk (full_args cbk args) x = (x', CallPanic p)"
  shows "invoke env lib cbk msg x = (x', msg, Some (stack_error p (cb_methodName cbk)))"
  using assms by (simp add: invoke_def callback_call_def)

lemma invoke_value:
  assumes "parsePositionalArguments (lib_dec lib) (mParams msg) (cb_argTypes cbk) = Inr args"
    "callback_call env cbk args x = (x', ResVal (Inr v), None)"
  shows "invoke env lib cbk msg x = (x', msg\<lparr>mResult := Some v\<rparr>, None)"
  using assms by (simp add: invoke_def res_is_zero_def)

lemma invoke_void:
  assumes "parsePositionalArguments (lib_dec lib) (mParams msg) (cb_argTypes cbk) = Inr args"
    "callback_call env cbk args x = (x', res, None)" "res_is_zero res"
  shows "invoke env lib cbk msg x = (x', msg, None)"
  using assms by (simp add: invoke_def)


section \<open>The written response\<close>

lemma output_message_simps [simp]:
  "mVersion (output_message m) = ''2.0''"
  "mMethod (output_message m) = []"
  "mParams (output_message m) = None"
  "mResult (output_message m) = mResult m"
  "mError (output_message m) = mError m"
  "mID (output_message m) = (case mID m of None \<Rightarrow> Some (JNum ''1'') | Some v \<Rightarrow> Some v)"
  by (auto simp: output_message_def vsn_def Let_def split: option.splits)

lemma setError_simps [simp]:
  "mID (setError err m) = mID m" "mResult (setError err m) = mResult m"
  "mError (setError None m) = mError m"
  "mError (setError (Some (RpcError e)) m) = Some e"
  "mError (setError (Some (TokenError t)) m) = Some (NewError ErrAuthorization t [])"
  "mError (setError (Some (ForbiddenError t)) m) = Some (NewError ErrForbidden t [])"
  "mError (setError (Some (OtherError t)) m) = Some (NewError ErrServer t [])"
  by (auto simp: setError_def Let_def split: option.splits)

lemma writeResponse_ok:
  assumes "\<not> status_written w" "status_of w = None" "render (message_json m) = Inr bts"
  shows "status_of (writeResponse render m w) = Some 200"
    "resp_body (writeResponse render m w) = resp_body w @ bts"
  using assms by (simp_all add: writeResponse_def)

lemma Handler_runs:
  assumes "srv_run s \<noteq> 0" "\<not> status_written (ex_writer x)" "validateRequest r = None"
    "handle env mc lib s r empty_message (upd_writer (header_set ''x-content-type-options'' ''nosniff'') x)
       = (x1, msg, Returns err)"
  shows "Handler env mc lib s r x
       = (upd_writer (writeResponse (lib_render lib) (output_message (setError err msg))) x1, Returns ())"
  using assms by (simp add: Handler_def)

end
