(* ===== verification/Example_Fast.thy ===== *)
theory Example_Fast
  imports J2rpc_Requests
begin

text \<open>
  The service of src/examples/fast/main.go (the program of README.md): five methods over a
  key-value cache, registered under the tag j2rpc.  The cache is the state of the application.
  It is the concrete program on which the properties of the server are instantiated.
\<close>

type_synonym api_state = "string \<rightharpoonup> string"

definition t_string :: gtype where "t_string = TNamed ''string''"
definition t_error :: gtype where "t_error = TIface ''error''"
definition t_any :: gtype where "t_any = TIface ''interface{}''"
definition t_api :: gtype where "t_api = TPtr (TNamed ''api'')"

definition fast_env :: type_env where
  "fast_env = \<lparr>implements_error = (\<lambda>t. t = t_error), implements_context = (\<lambda>t. t = TIface ''context.Context''),
     convertible = (\<lambda>t u. t = u), assignable = (\<lambda>t u. t = u),
     dyn_context = TPtr (TNamed ''gin.Context''), dyn_writer = TPtr (TNamed ''gin.responseWriter''),
     dyn_request = TPtr (TNamed ''http.Request'')\<rparr>"

fun arg_string :: "garg \<Rightarrow> string" where
  "arg_string (ArgDecoded t (JStr s)) = s"
| "arg_string a = []"

text \<open>strings as results: the empty string is the zero value.\<close>

definition res_string :: "string \<Rightarrow> gres" where
  "res_string s = (if s = [] then ResZero else ResVal (Inr (JStr s)))"

definition api_AddCache :: "garg list \<Rightarrow> api_state exchange \<Rightarrow> api_state exchange \<times> call_result" where
  "api_AddCache args x =
     (x\<lparr>ex_app := (ex_app x)(arg_string (args ! 1) \<mapsto> arg_string (args ! 2))\<rparr>, CallReturns [ResNil])"

definition api_FlushCache :: "garg list \<Rightarrow> api_state exchange \<Rightarrow> api_state exchange \<times> call_result" where
  "api_FlushCache args x = (x\<lparr>ex_app := Map.empty\<rparr>, CallReturns [ResNil])"

definition api_Get :: "garg list \<Rightarrow> api_state exchange \<Rightarrow> api_state exchange \<times> call_result" where
  "api_Get args x =
     (case ex_app x (arg_string (args ! 1)) of
        None \<Rightarrow> (x, CallReturns [ResNil, ResErr (OtherError ''item not found'')])
      | Some s \<Rightarrow> (x, CallReturns [res_string s, ResNil]))"

definition api_String :: "garg list \<Rightarrow> api_state exchange \<Rightarrow> api_state exchange \<times> call_result" where
  "api_String args x = (x, CallReturns [res_string ''ledis''])"

definition api_receiver :: "api_state exchange receiver" where
  "api_receiver =
     \<lparr>rc_type_name = ''api'',
      rc_methods =
        [\<lparr>rm_name = ''AddCache'', rm_pkg_path = [], rm_ins = [t_api, t_string, t_string], rm_outs = [t_error],
          rm_fn = api_AddCache\<rparr>,
         \<lparr>rm_name = ''FlushCache'', rm_pkg_path = [], rm_ins = [t_api], rm_outs = [t_error],
          rm_fn = api_FlushCache\<rparr>,
         \<lparr>rm_name = ''Get'', rm_pkg_path = [], rm_ins = [t_api, t_string], rm_outs = [t_any, t_error],
          rm_fn = api_Get\<rparr>,
         \<lparr>rm_name = ''String'', rm_pkg_path = [], rm_ins = [t_api], rm_outs = [t_string],
          rm_fn = api_String\<rparr>],
      rc_exclude = None, rc_namespace = None\<rparr>"

text \<open>The README's requests, as documents the body scans to, and a printer that never fails.\<close>

definition dec_string :: "gtype \<Rightarrow> json \<Rightarrow> string option" where
  "dec_string t v = (case v of JStr s \<Rightarrow> None | JNull \<Rightarrow> None | _ \<Rightarrow> Some ''json: cannot unmarshal'')"

definition fast_codec :: "json \<Rightarrow> codec" where
  "fast_codec doc = \<lparr>lib_scan = (\<lambda>b. Inr doc), lib_terr = (\<lambda>f v. ''json: cannot unmarshal'' @ f),
     lib_dec = dec_string, lib_render = (\<lambda>j. Inr ''{}'')\<rparr>"

definition fast_request :: http_request where
  "fast_request = \<lparr>rq_method = ''POST'', rq_content_length = 58, rq_raw_query = [],
     rq_content_type = ''application/json'', rq_body = ''body''\<rparr>"

definition add_doc :: json where
  "add_doc = JObj [(''id'', JNum ''1''), (''method'', JStr ''api.add_cache''),
                   (''params'', JArr [JStr ''key'', JStr ''value''])]"

definition get_doc :: json where
  "get_doc = JObj [(''id'', JNum ''1''), (''method'', JStr ''api.get''), (''params'', JArr [JStr ''key''])]"

definition fast_server :: "api_state exchange server" where
  "fast_server = (case RegisterForApp fast_env (\<lambda>rc. rc) None [api_receiver] (new_server None) of
                    Returns s \<Rightarrow> s | Panics p \<Rightarrow> new_server None)"

definition fast_start :: "api_state exchange" where
  "fast_start = \<lparr>ex_writer = fresh_writer, ex_app = Map.empty\<rparr>"

definition no_matcher :: matcher where
  "no_matcher p = None"

definition run_doc :: "json \<Rightarrow> api_state exchange \<Rightarrow> api_state exchange \<times> rpc_message \<times> go_error option outcome" where
  "run_doc doc x = handle fast_env no_matcher (fast_codec doc) fast_server fast_request empty_message x"

text \<open>The Get request of the README is accepted and finds the registered method.\<close>

lemma fast_registered: "Register fast_env (\<lambda>rc. rc) api_receiver [] (new_server None) = Returns fast_server"
proof -
  let ?s = "new_server None :: api_state exchange server"
  have "case RegisterForApp fast_env (\<lambda>rc. rc) None [api_receiver] ?s of Returns s \<Rightarrow> True | Panics p \<Rightarrow> False"
    by code_simp
  then show ?thesis
    unfolding fast_server_def RegisterForApp_def
    by (cases "Register fast_env (\<lambda>rc. rc) api_receiver [] ?s") auto
qed

lemma fast_server_wf: "srv_wf fast_env fast_server"
proof -
  have "receiver_wf (api_receiver :: api_state exchange receiver)" by code_simp
  with Register_wf [OF fast_registered new_server_wf] show ?thesis by simp
qed

text \<open>Every method of the receiver is found under its snake-case name.\<close>

lemma fast_lookup:
  assumes "m \<in> set (rc_methods api_receiver)"
  shows "\<exists>c. getCallBack fast_server [''api'', SnakeString (rm_name m)] = Inr c \<and> cb_fn c = rm_fn m
     \<and> cb_methodName c = rm_name m"
proof -
  let ?s = "new_server None :: api_state exchange server"
  let ?c0 = "\<lambda>m. \<lparr>cb_methodName = rm_name m, cb_rcv_valid = True, cb_ins = rm_ins m, cb_outs = rm_outs m,
            cb_fn = rm_fn m, cb_argTypes = [], cb_hasCtx = False, cb_errPos = -1\<rparr>"
  have "list_all (\<lambda>m. makeArgTypes fast_env (?c0 m) \<noteq> None \<and> rm_pkg_path m = []
      \<and> rm_name m \<notin> set (skip_methods ?s api_receiver)) (rc_methods api_receiver)"
    by code_simp
  with assms have ok: "rm_pkg_path m = []" "rm_name m \<notin> set (skip_methods ?s api_receiver)"
    and "makeArgTypes fast_env (?c0 m) \<noteq> None"
    by (auto simp: list_all_iff)
  then obtain c where c: "makeArgTypes fast_env (?c0 m) = Some c" by blast
  have "distinct (map (\<lambda>m. srv_format ?s (rm_name m)) (rc_methods api_receiver))" by code_simp
  with Register_finds [OF fast_registered assms ok c]
  have "getCallBack fast_server [service_name ?s api_receiver [], srv_format ?s (rm_name m)] = Inr c" by simp
  moreover have "service_name ?s api_receiver [] = ''api''" by code_simp
  moreover have "srv_format ?s (rm_name m) = SnakeString (rm_name m)"
    by (simp add: srv_format_def new_server_def formatName_def)
  ultimately show ?thesis using makeArgTypes_fn [OF c] by auto
qed

definition get_msg :: rpc_message where
  "get_msg = \<lparr>mID = Some (JNum ''1''), mVersion = [], mMethod = ''api.get'',
     mParams = Some (JArr [JStr ''key'']), mResult = None, mError = None\<rparr>"

definition get_cb :: "api_state exchange callback" where
  "get_cb = projr (getCallBack fast_server [''api'', ''get''])"

definition full_start :: "api_state exchange" where
  "full_start = \<lparr>ex_writer = fresh_writer, ex_app = [''key'' \<mapsto> ''value'']\<rparr>"

lemma get_cb: "getCallBack fast_server [''api'', ''get''] = Inr get_cb"
proof -
  have "\<not> isl (getCallBack fast_server [''api'', ''get''])" by code_simp
  then show ?thesis by (simp add: get_cb_def sum.collapse(2))
qed

lemma get_cb_fn: "cb_fn get_cb = api_Get"
proof -
  have m: "rc_methods api_receiver ! 2 \<in> set (rc_methods api_receiver)" by (simp add: api_receiver_def)
  have "SnakeString (rm_name (rc_methods (api_receiver :: api_state exchange receiver) ! 2)) = ''get''" by code_simp
  with fast_lookup [OF m] show ?thesis by (auto simp: get_cb_def api_receiver_def)
qed

lemma get_accepted: "accepted_request (fast_codec get_doc) fast_server fast_request empty_message get_msg get_cb"
proof -
  have "decode_message (lib_terr (fast_codec get_doc)) get_doc empty_message = (get_msg, None)" by code_simp
  moreover have "methods get_msg = Inr [''api'', ''get'']" "hasValidID get_msg" by code_simp+
  moreover have "map (srv_format fast_server) [''api'', ''get''] = [''api'', ''get'']" by code_simp
  moreover have "get_msg\<lparr>mMethod := go_join [''api'', ''get''] ''.''\<rparr> = get_msg" by code_simp
  ultimately show ?thesis
    using get_cb unfolding accepted_request_def
    by (intro exI [of _ get_doc] exI [of _ get_msg] exI [of _ "[''api'', ''get'']"]) (simp add: fast_codec_def)
qed

lemma fast_no_middleware: "BeforeMid (srv_opt fast_server) = []"
proof -
  have "length (BeforeMid (srv_opt fast_server)) = 0" by code_simp
  then show ?thesis by simp
qed

text \<open>A FlushCache request that smuggles in a result member of its own.\<close>

definition forged_doc :: json where
  "forged_doc = JObj [(''id'', JNum ''7''), (''method'', JStr ''api.flush_cache''), (''result'', JStr ''forged'')]"

definition forged_msg :: rpc_message where
  "forged_msg = \<lparr>mID = Some (JNum ''7''), mVersion = [], mMethod = ''api.flush_cache'',
     mParams = None, mResult = Some (JStr ''forged''), mError = None\<rparr>"

definition flush_cb :: "api_state exchange callback" where
  "flush_cb = projr (getCallBack fast_server [''api'', ''flush_cache''])"

lemma flush_cb: "getCallBack fast_server [''api'', ''flush_cache''] = Inr flush_cb" "cb_fn flush_cb = api_FlushCache"
proof -
  have m: "rc_methods api_receiver ! 1 \<in> set (rc_methods api_receiver)" by (simp add: api_receiver_def)
  have "SnakeString (rm_name (rc_methods (api_receiver :: api_state exchange receiver) ! 1)) = ''flush_cache''" by code_simp
  with fast_lookup [OF m]
  show "getCallBack fast_server [''api'', ''flush_cache''] = Inr flush_cb" "cb_fn flush_cb = api_FlushCache"
    by (auto simp: flush_cb_def api_receiver_def)
qed

lemma forged_accepted:
  "accepted_request (fast_codec forged_doc) fast_server fast_request empty_message forged_msg flush_cb"
proof -
  have "decode_message (lib_terr (fast_codec forged_doc)) forged_doc empty_message = (forged_msg, None)" by code_simp
  moreover have "methods forged_msg = Inr [''api'', ''flush_cache'']" "hasValidID forged_msg" by code_simp+
  moreover have "map (srv_format fast_server) [''api'', ''flush_cache''] = [''api'', ''flush_cache'']" by code_simp
  moreover have "forged_msg\<lparr>mMethod := go_join [''api'', ''flush_cache''] ''.''\<rparr> = forged_msg" by code_simp
  ultimately show ?thesis
    using flush_cb(1) unfolding accepted_request_def
    by (intro exI [of _ forged_doc] exI [of _ forged_msg] exI [of _ "[''api'', ''flush_cache'']"])
      (simp add: fast_codec_def)
qed

end
