(* ===== verification/J2rpc_Properties.thy ===== *)
theory J2rpc_Properties
  imports Example_Fast
begin

text \<open>
  The properties of package j2rpc: names, registration, dispatch, middlewares, arguments,
  error containment and the written response, each with an instance on the example service.
\<close>

section \<open>Names\<close>

text \<open>Camel-case Go names (upper-case head, no underscore, no two adjacent capitals) survive
  the round trip through snake case: CamelString undoes SnakeString.\<close>

theorem camel_of_snake: "camel_name s \<Longrightarrow> CamelString (SnakeString s) = s"
  by (rule camel_snake)

theorem camel_of_snake_witness:
  "camel_name ''AddCache2Go'' \<and> CamelString (SnakeString ''AddCache2Go'') = ''AddCache2Go''"
proof -
  have "camel_name ''AddCache2Go''" by code_simp
  then show ?thesis using camel_of_snake by blast
qed

text \<open>SnakeString is a normal form: applying it again changes nothing, its output has no
  upper-case letter, it only inserts underscores and lowers letters, and the output fits the
  capacity of twice the input that the source reserves.\<close>

theorem snake_normal_form:
  "SnakeString (SnakeString s) = SnakeString s
   \<and> list_all (\<lambda>c. \<not> is_upper c) (SnakeString s)
   \<and> filter (\<lambda>c. c \<noteq> CHR ''_'') (SnakeString s) = to_lower (filter (\<lambda>c. c \<noteq> CHR ''_'') s)
   \<and> length (SnakeString s) \<le> length s * 2"
proof -
  have "filter (\<lambda>c. c \<noteq> CHR ''_'') (to_lower t) = to_lower (filter (\<lambda>c. c \<noteq> CHR ''_'') t)" for t
    unfolding to_lower_def by (induction t) auto
  then have "filter (\<lambda>c. c \<noteq> CHR ''_'') (SnakeString s) = to_lower (filter (\<lambda>c. c \<noteq> CHR ''_'') s)"
    by (simp add: SnakeString_def snake_loop_filter)
  moreover have "length (SnakeString s) \<le> length s * 2"
    using length_snake_loop [of False s] by (simp add: SnakeString_def mult.commute split: if_splits)
  ultimately show ?thesis by (simp add: SnakeString_idem_aux SnakeString_no_upper)
qed


section \<open>Registration\<close>

text \<open>C14. Registration keeps the server well formed: whatever receivers an application registers on
  a well-formed server, every stored callback sits under the formatted name of its method, takes
  as many arguments as its function has parameters, reports its error in a position that exists
  and has an error type, and is neither Constructor nor ExcludeMethod.\<close>

theorem RegisterForApp_wf:
  assumes "RegisterForApp env ctor app_exclude namespaces s = Returns s'" "srv_wf env s"
    "list_all receiver_wf namespaces" "\<And>rc. receiver_wf rc \<Longrightarrow> receiver_wf (ctor rc)"
  shows "srv_wf env s'"
proof -
  have "srv_wf env (s\<lparr>srv_excludeMethods := ms\<rparr>)" for ms
    using assms(2) by (simp add: srv_wf_def srv_format_def)
  then show ?thesis
    using assms register_all_wf [of ctor env namespaces _ s'] unfolding RegisterForApp_def
    by (auto split: option.splits)
qed

theorem RegisterForApp_wf_witness:
  "RegisterForApp fast_env (\<lambda>rc. rc) None [api_receiver] (new_server None) = Returns fast_server
   \<and> srv_wf fast_env fast_server"
proof -
  have reg: "RegisterForApp fast_env (\<lambda>rc. rc) None [api_receiver] (new_server None) = Returns fast_server"
    by (simp add: RegisterForApp_def fast_registered)
  have "list_all receiver_wf [api_receiver :: api_state exchange receiver]" by code_simp
  with RegisterForApp_wf [OF reg new_server_wf] reg show ?thesis by simp
qed



text \<open>A service registered under a name that formatting changes is unreachable: with
  SnakeNamespace set, a custom name with an upper-case letter is stored as given while every
  request's namespace is put into snake case, so the registration changes no dispatch at all.\<close>

theorem Register_unreachable:
  assumes "Register env ctor rc names s = Returns s'"
    and "srv_format s (service_name s rc names) \<noteq> service_name s rc names"
  shows "getCallBack s' (map (srv_format s') [ns, meth]) = getCallBack s (map (srv_format s) [ns, meth])"
proof -
  from assms(1) have "srv_format s' = srv_format s"
    by (auto simp: Register_def Let_def srv_format_def fun_eq_iff split: if_splits option.splits)
  moreover have "srv_services s' (srv_format s ns) = srv_services s (srv_format s ns)"
    using assms(1) srv_fmt.shadowed [OF assms(2)]
    by (auto simp: Register_def Let_def split: if_splits option.splits)
  ultimately show ?thesis by (simp add: getCallBack_def)
qed

theorem Register_unreachable_witness:
  "\<exists>s'. Register fast_env (\<lambda>rc. rc) api_receiver [''MyApi''] (new_server None) = Returns s'
     \<and> srv_services s' ''MyApi'' \<noteq> None
     \<and> getCallBack s' (map (srv_format s') [''MyApi'', ''Get'']) =
       getCallBack (new_server None) (map (srv_format (new_server None :: api_state exchange server)) [''MyApi'', ''Get''])"
proof -
  let ?s = "new_server None :: api_state exchange server"
  have "case Register fast_env (\<lambda>rc. rc) api_receiver [''MyApi''] ?s of
          Returns s \<Rightarrow> srv_services s ''MyApi'' \<noteq> None | Panics p \<Rightarrow> False"
    by code_simp
  then obtain s' where reg: "Register fast_env (\<lambda>rc. rc) api_receiver [''MyApi''] ?s = Returns s'"
      and "srv_services s' ''MyApi'' \<noteq> None"
    by (auto split: outcome.splits)
  moreover have "srv_format ?s (service_name ?s api_receiver [''MyApi'']) \<noteq> service_name ?s api_receiver [''MyApi'']"
    by code_simp
  ultimately show ?thesis using Register_unreachable [OF reg] by blast
qed


section \<open>Requests\<close>



text \<open>Panics of registered methods never leave the server: whatever a method does, handle
  panics only when a middleware (or its pattern) panics, because the deferred recover is
  installed after the middlewares ran.\<close>

theorem handle_panics_only_in_middleware:
  assumes "handle env mc lib s r msg0 x = (x', msg', Panics p)"
  shows "\<exists>meth. beforeMiddlewareAction env mc (srv_opt s) (mid_args env meth) meth x = (x', Panics p)"
proof (cases "\<exists>msg1 cbk. accepted_request lib s r msg0 msg1 cbk")
  case True
  then obtain msg1 cbk where acc: "accepted_request lib s r msg0 msg1 cbk" by blast
  from assms show ?thesis
    unfolding handle_accepted [OF acc]
    by (auto split: outcome.splits option.splits prod.splits)
next
  case False
  from handle_rejected [OF this]
  obtain msg e where "handle env mc lib s r msg0 x = (x, msg, Returns (Some (RpcError e)))"
    by blast
  with assms show ?thesis by simp
qed

text \<open>A middleware that panics, registered for every method.\<close>

definition panicking_server :: "api_state exchange server" where
  "panicking_server = fast_server\<lparr>srv_opt :=
     AddBeforeMiddleware (Func [] (\<lambda>args x. (x, MidPanic ''boom''))) [] (srv_opt fast_server)\<rparr>"

lemma panicking_accepted:
  "accepted_request (fast_codec get_doc) panicking_server fast_request empty_message get_msg get_cb"
  using get_accepted by (simp add: panicking_server_def accepted_request_opt)

theorem handle_panics_only_in_middleware_witness:
  "\<exists>x' msg'. handle fast_env no_matcher (fast_codec get_doc) panicking_server fast_request empty_message full_start
       = (x', msg', Panics ''boom'')
     \<and> (\<exists>meth. beforeMiddlewareAction fast_env no_matcher (srv_opt panicking_server) (mid_args fast_env meth) meth full_start
          = (x', Panics ''boom''))"
proof -
  have "handle fast_env no_matcher (fast_codec get_doc) panicking_server fast_request empty_message full_start
      = (full_start, get_msg, Panics ''boom'')"
    unfolding handle_accepted [OF panicking_accepted]
    by (simp add: beforeMiddlewareAction_def panicking_server_def AddBeforeMiddleware_def fast_no_middleware
        getMatchFunction_def beforeMiddlewareFuncAction_def convert_args_def)
  with handle_panics_only_in_middleware [OF this] show ?thesis by blast
qed

text \<open>C11. Requests that are not accepted (unscannable or mistyped body, invalid id, no dot in the
  method, unknown namespace or method) leave the exchange untouched and are answered with one of
  the codes -32700, -32600 and -32601; no middleware and no method runs.\<close>

theorem handle_rejects:
  assumes "\<nexists>msg1 cbk. accepted_request lib s r msg0 msg1 cbk"
  shows "\<exists>msg e. handle env mc lib s r msg0 x = (x, msg, Returns (Some (RpcError e)))
           \<and> err_code e \<in> {-32700, -32600, -32601}"
  using handle_rejected [OF assms, of env mc x]
  by (simp add: rejection_codes_def ErrParse_def ErrInvalidRequest_def ErrNoMethod_def)

theorem handle_rejects_witness:
  "\<exists>msg e. handle fast_env no_matcher (fast_codec (JObj [(''id'', JNum ''1''), (''method'', JStr ''get'')]))
       fast_server fast_request empty_message full_start = (full_start, msg, Returns (Some (RpcError e)))
     \<and> err_code e \<in> {-32700, -32600, -32601}"
proof -
  let ?doc = "JObj [(''id'', JNum ''1''), (''method'', JStr ''get'')]"
  have "methods (fst (decode_message (lib_terr (fast_codec ?doc)) ?doc empty_message))
      = Inl (RpcError (NewError ErrNoMethod ''wrong method'' []))"
    by code_simp
  then have "\<nexists>msg1 cbk. accepted_request (fast_codec ?doc) fast_server fast_request empty_message msg1 cbk"
    by (auto simp: accepted_request_def fast_codec_def)
  from handle_rejects [OF this] show ?thesis .
qed

text \<open>Middlewares run in the order they were added, and each later one runs only after all
  earlier ones returned nil: running the list with one more middleware is running the list and,
  if that neither failed nor panicked, the new one, in the state the others left.\<close>

theorem middlewares_in_order:
  "beforeMiddlewareAction env mc (AddBeforeMiddleware fn ls opt) args method w =
     (case beforeMiddlewareAction env mc opt args method w of
        (w', Returns None) \<Rightarrow>
          (case getMatchFunction mc (last (BeforeMid (AddBeforeMiddleware fn ls opt))) method of
             Panics p \<Rightarrow> (w', Panics p)
           | Returns f \<Rightarrow> beforeMiddlewareFuncAction env f args w')
      | r \<Rightarrow> r)"
proof -
  obtain info where info: "BeforeMid (AddBeforeMiddleware fn ls opt) = BeforeMid opt @ [info]"
    using AddBeforeMiddleware_snoc by blast
  show ?thesis
    unfolding beforeMiddlewareAction_run info run_before_append
    by (auto simp: beforeMiddlewareFuncAction_def
        split: prod.splits outcome.splits option.splits mid_fn.splits mid_result.splits)
qed

text \<open>Excludes win over includes, in either spelling: a middleware added with an exclude list
  that names the method as a Go name or in snake case is not selected for the snake-case request,
  whatever its include list says (all exclude patterns being valid regular expressions).\<close>

theorem excluded_method_skips:
  assumes "CHR ''.'' \<notin> set ns" "CHR ''.'' \<notin> set meth"
    and "ns @ ''.'' @ meth \<in> set (concat (exc # excs))"
    and "list_all (\<lambda>p. mc p \<noteq> None) (concat (exc # excs))"
  shows "getMatchFunction mc (last (BeforeMid (AddBeforeMiddleware fn (inc # exc # excs) opt)))
           (SnakeString ns @ ''.'' @ SnakeString meth) = Returns NilFn"
  unfolding AddBeforeMiddleware_lists
  using any_path_hit [OF assms(4,3) methodPathEqual_camel [OF assms(1,2)]]
  by (simp add: getMatchFunction_def)

theorem excluded_method_skips_witness:
  "getMatchFunction (\<lambda>p. Some (\<lambda>m. p = m))
     (last (BeforeMid (AddBeforeMiddleware (NotFunc :: api_state exchange mid_fn)
        [[''^.*$''], [''API.Get''], [''API.AddCache'']] \<lparr>SnakeNamespace = True, BeforeMid = []\<rparr>)))
     ''api.add_cache'' = Returns NilFn"
proof -
  have "SnakeString ''API'' @ ''.'' @ SnakeString ''AddCache'' = ''api.add_cache''" by code_simp
  with excluded_method_skips [of "''API''" "''AddCache''" "[''API.Get'']" "[[''API.AddCache'']]"
      "\<lambda>p. Some (\<lambda>m. p = m)" "NotFunc :: api_state exchange mid_fn" "[''^.*$'']"
      "\<lparr>SnakeNamespace = True, BeforeMid = []\<rparr>"]
  show ?thesis by simp
qed

section \<open>Arguments\<close>

text \<open>Positional parameters: an array is accepted exactly when it has at most as many values as
  the method has parameters and every value decodes into its parameter's type; then the values
  come first, in order, and each missing one is a pointer to a fresh zero value for a pointer type
  and the zero value otherwise.  An absent or null params member gives the missing values alone.\<close>

theorem positional_arguments:
  "(parsePositionalArguments dec (Some (JArr vs)) types =
      Inr (map2 ArgDecoded types vs @ map missing_arg (drop (length vs) types)))
     = (length vs \<le> length types \<and> list_all2 (\<lambda>t v. dec t v = None) (take (length vs) types) vs)
   \<and> parsePositionalArguments dec None types = Inr (map missing_arg types)
   \<and> parsePositionalArguments dec (Some JNull) types = Inr (map missing_arg types)"
proof -
  have "parsePositionalArguments dec (Some (JArr vs)) types =
      Inr (map2 ArgDecoded types vs @ map missing_arg (drop (length vs) types))"
    if "length vs \<le> length types" "list_all2 (\<lambda>t v. dec t v = None) (take (length vs) types) vs"
    using parse_array_complete [of 0 vs types dec "[]"] that
    by (simp add: parsePositionalArguments_def)
  moreover have "length vs \<le> length types \<and> list_all2 (\<lambda>t v. dec t v = None) (take (length vs) types) vs"
    if "parsePositionalArguments dec (Some (JArr vs)) types = Inr out" for out
    using that by (auto simp: parsePositionalArguments_def split: sum.splits dest!: parse_array_ok)
  ultimately show ?thesis by (auto simp: parsePositionalArguments_def)
qed

text \<open>C36. Arity safety: on a well-formed server every call that passes the parameter parser hands the
  method's function exactly as many arguments as it has parameters, so reflect's Call never fails
  on the argument count.\<close>

theorem call_arity:
  assumes "srv_wf env s" "getCallBack s elem = Inr c"
    and "parsePositionalArguments dec raw (cb_argTypes c) = Inr args"
  shows "length (full_args c args) = length (cb_ins c)"
  using getCallBack_wf [OF assms(1,2)] parsePositional_length [OF assms(3)]
  by (auto simp: cb_wf_def full_args_def)

theorem call_arity_witness:
  "srv_wf fast_env fast_server
   \<and> parsePositionalArguments dec_string None (cb_argTypes get_cb) = Inr [ArgZero t_string]
   \<and> length (full_args get_cb [ArgZero t_string]) = length (cb_ins get_cb)"
proof -
  have wf: "srv_wf fast_env fast_server" by (rule fast_server_wf)
  have p: "parsePositionalArguments dec_string None (cb_argTypes get_cb) = Inr [ArgZero t_string]" by code_simp
  from call_arity [OF wf get_cb p] wf p show ?thesis by simp
qed

text \<open>No parameter is ever reported missing: although parseArgumentArray tests for it, a null (or
  absent) value for a required, non-pointer parameter is accepted, because the pointer tested is
  the one reflect.New made.\<close>

theorem required_argument_null_accepted:
  "parsePositionalArguments dec raw types \<noteq> Inl (''missing value for required argument '' @ show_nat i)"
  using parse_array_no_missing_error [of dec types 0 _ "[]"]
  by (auto simp: parsePositionalArguments_def Let_def split: option.splits json.splits sum.splits)


section \<open>Error types\<close>

text \<open>isErrorType looks through pointers, so an error type whose methods have pointer receivers
  (j2rpc's own *Error is one) is not seen as an error: a method returning a value and such a
  pointer is not callable at all, and a method returning only such a pointer is registered as
  one that cannot fail.\<close>

theorem pointer_error_not_recognised:
  assumes "implements_error env (TPtr T)" "\<not> is_ptr T" "\<not> implements_error env T"
  shows "makeArgTypes env (c\<lparr>cb_outs := [v, TPtr T]\<rparr>) = None
    \<and> (cb_errPos c = -1 \<longrightarrow> map_option cb_errPos (makeArgTypes env (c\<lparr>cb_outs := [TPtr T]\<rparr>)) = Some (-1))"
proof -
  have "strip_ptr T = T" using assms(2) by (cases T) auto
  then have "\<not> isErrorType env (TPtr T)" using assms(3) by (simp add: isErrorType_def)
  then show ?thesis by (simp add: makeArgTypes_def out_err_pos_def Let_def)
qed

definition rpc_error_env :: type_env where
  "rpc_error_env = fast_env\<lparr>implements_error := (\<lambda>t. t = t_error \<or> t = TPtr (TNamed ''j2rpc.Error''))\<rparr>"

theorem pointer_error_not_recognised_witness:
  "implements_error rpc_error_env (TPtr (TNamed ''j2rpc.Error''))
   \<and> makeArgTypes rpc_error_env (get_cb\<lparr>cb_outs := [t_string, TPtr (TNamed ''j2rpc.Error'')]\<rparr>) = None"
proof -
  have h: "implements_error rpc_error_env (TPtr (TNamed ''j2rpc.Error''))" "\<not> is_ptr (TNamed ''j2rpc.Error'')"
    "\<not> implements_error rpc_error_env (TNamed ''j2rpc.Error'')"
    by (simp_all add: rpc_error_env_def t_error_def)
  from pointer_error_not_recognised [OF h] h(1) show ?thesis by blast
qed


section \<open>Responses\<close>



text \<open>Silence: a stopped server leaves every exchange as it is, and so does a running one once a
  Status-Written header marks the response as written (which AbortWriteHeader does); Stop stops.\<close>

theorem Handler_silent:
  assumes "srv_run s \<in> {0, 1}"
  shows "Handler env mc lib (Stop s) r x = (x, Returns ())
    \<and> Handler env mc lib s r (upd_writer (AbortWriteHeader code) x) = (upd_writer (AbortWriteHeader code) x, Returns ())"
  using assms by (auto simp: Handler_def Stop_def upd_writer_def)

theorem Handler_silent_witness:
  "srv_run fast_server \<in> {0, 1}
   \<and> Handler fast_env no_matcher (fast_codec get_doc) (Stop fast_server) fast_request full_start = (full_start, Returns ())"
proof -
  have "srv_run fast_server \<in> {0, 1}" by code_simp
  with Handler_silent [OF this] show ?thesis by blast
qed

text \<open>Whatever result member a request carries comes back when the method returns nothing: a
  method whose result is nil or a zero value leaves the message's result untouched, and that is
  the client's own.  The response then claims a result no method produced.\<close>

theorem void_result_echoed:
  assumes "accepted_request lib s r msg0 msg1 cbk"
    and "beforeMiddlewareAction env mc (srv_opt s) (mid_args env (mMethod msg1)) (mMethod msg1) x = (x1, Returns None)"
    and "parsePositionalArguments (lib_dec lib) (mParams msg1) (cb_argTypes cbk) = Inr args"
    and "callback_call env cbk args x1 = (x2, res, None)" "res_is_zero res"
  shows "\<exists>x' m. handle env mc lib s r msg0 x = (x', m, Returns None)
     \<and> mResult (output_message (setError None m)) = mResult msg1"
  using invoke_void [OF assms(3-5)] by (simp add: handle_accepted [OF assms(1)] assms(2) setError_def)

theorem void_result_echoed_witness:
  "\<exists>x' m. handle fast_env no_matcher (fast_codec forged_doc) fast_server fast_request empty_message full_start
       = (x', m, Returns None)
     \<and> mResult (output_message (setError None m)) = Some (JStr ''forged'')"
proof -
  have mid: "beforeMiddlewareAction fast_env no_matcher (srv_opt fast_server) (mid_args fast_env (mMethod forged_msg))
      (mMethod forged_msg) full_start = (full_start, Returns None)"
    by (simp add: beforeMiddlewareAction_def fast_no_middleware)
  have args: "parsePositionalArguments (lib_dec (fast_codec forged_doc)) (mParams forged_msg) (cb_argTypes flush_cb) = Inr []"
    by code_simp
  have pos: "cb_errPos flush_cb = 0" by code_simp
  have "callback_call fast_env flush_cb [] full_start = (full_start\<lparr>ex_app := Map.empty\<rparr>, ResNil, None)"
    by (simp add: callback_call_def flush_cb(2) pos api_FlushCache_def value2err_def res_is_zero_def)
  from void_result_echoed [OF forged_accepted mid args this] show ?thesis
    by (simp add: res_is_zero_def forged_msg_def)
qed

end
