(* ===== verification/Cache_Store.thy ===== *)
theory Cache_Store
  imports Prelude
begin

text \<open>
  The byte caches of src/g2cache: the interface ItfCache, its four adapters (bigcache,
  go-cache, ledis, ristretto), the registry of package store and the forwarding Instance.
  Each adapter's state carries the methods of the library object it wraps; what the libraries
  document about them is stated once, as a predicate on those methods.

  The locale \<^verbatim>\<open>cache\<close> is the contract of ItfCache: \<^verbatim>\<open>view\<close> gives the
  bytes a Get may return, and an operation never makes up a value.  \<^verbatim>\<open>exact_cache\<close>
  adds that nothing is evicted.  Each adapter is an interpretation.
\<close>

datatype cache_error = ErrNotFound | CacheError string

text \<open>An interface value: its methods on the state \<^verbatim>\<open>'c\<close>.  A method may end the process.\<close>

record 'c itf_cache =
  ic_String :: "'c \<Rightarrow> string"
  ic_Set :: "string \<Rightarrow> string \<Rightarrow> 'c \<Rightarrow> ('c \<times> cache_error option) outcome"
  ic_Get :: "string \<Rightarrow> 'c \<Rightarrow> ('c \<times> string \<times> cache_error option) outcome"
  ic_Delete :: "string \<Rightarrow> 'c \<Rightarrow> ('c \<times> cache_error option) outcome"
  ic_Reset :: "'c \<Rightarrow> ('c \<times> cache_error option) outcome"


section \<open>The contract\<close>

locale cache =
  fixes ic :: "'c itf_cache"
    and inv :: "'c \<Rightarrow> bool"
    and view :: "'c \<Rightarrow> string \<Rightarrow> string option"
  assumes get_law: "inv c \<Longrightarrow>
      \<exists>c' d e. ic_Get ic k c = Returns (c', d, e) \<and> inv c' \<and> view c' \<subseteq>\<^sub>m view c \<and> (e = None \<longrightarrow> view c k = Some d)"
    and set_law: "inv c \<Longrightarrow>
      \<exists>c' e. ic_Set ic k d c = Returns (c', e) \<and> inv c'
        \<and> (view c' \<subseteq>\<^sub>m (view c)(k \<mapsto> d) \<or> e \<noteq> None \<and> view c' \<subseteq>\<^sub>m view c)"
    and delete_law: "inv c \<Longrightarrow>
      \<exists>c' e. ic_Delete ic k c = Returns (c', e) \<and> inv c' \<and> view c' \<subseteq>\<^sub>m view c \<and> (e = None \<longrightarrow> view c' k = None)"
    and reset_law: "inv c \<Longrightarrow>
      \<exists>c' e. ic_Reset ic c = Returns (c', e) \<and> inv c' \<and> view c' \<subseteq>\<^sub>m view c \<and> (e = None \<longrightarrow> view c' = Map.empty)"
begin

lemma get_sound:
  assumes "inv c" "ic_Get ic k c = Returns (c', d, e)"
  shows "inv c'" "view c' \<subseteq>\<^sub>m view c" "e = None \<Longrightarrow> view c k = Some d"
  using get_law [OF assms(1), of k] assms(2) by auto

lemma get_returns: "inv c \<Longrightarrow> \<exists>c' d e. ic_Get ic k c = Returns (c', d, e)"
  using get_law by blast

lemma set_returns: "inv c \<Longrightarrow> \<exists>c' e. ic_Set ic k d c = Returns (c', e)"
  using set_law by blast

lemma set_sound:
  assumes "inv c" "ic_Set ic k d c = Returns (c', e)"
  shows "inv c'" "k' \<noteq> k \<Longrightarrow> view c' k' = Some v \<Longrightarrow> view c k' = Some v"
    "view c' k = Some v \<Longrightarrow> v = d \<or> view c k = Some v"
    "e = None \<Longrightarrow> view c' \<subseteq>\<^sub>m (view c)(k \<mapsto> d)"
proof -
  have *: "inv c' \<and> (view c' \<subseteq>\<^sub>m (view c)(k \<mapsto> d) \<or> e \<noteq> None \<and> view c' \<subseteq>\<^sub>m view c)"
    using set_law [OF assms(1), of k d] assms(2) by auto
  then show "inv c'" by blast
  show "view c k' = Some v" if "k' \<noteq> k" "view c' k' = Some v"
    using * that by (metis (no_types) fun_upd_other map_le_def domI)
  show "v = d \<or> view c k = Some v" if "view c' k = Some v"
    using * that by (metis (no_types) fun_upd_same map_le_def domI option.sel)
  show "view c' \<subseteq>\<^sub>m (view c)(k \<mapsto> d)" if "e = None" using * that by blast
qed

lemma delete_sound:
  assumes "inv c" "ic_Delete ic k c = Returns (c', e)"
  shows "inv c'" "view c' \<subseteq>\<^sub>m view c" "e = None \<Longrightarrow> view c' k = None"
  using delete_law [OF assms(1), of k] assms(2) by auto

lemma delete_returns: "inv c \<Longrightarrow> \<exists>c' e. ic_Delete ic k c = Returns (c', e)"
  using delete_law by blast

lemma get_absent:
  assumes "inv c" "view c k = None" "ic_Get ic k c = Returns (c', d, e)"
  shows "e \<noteq> None \<and> view c' k = None"
proof -
  have "view c' k = None"
  proof (rule ccontr)
    assume "view c' k \<noteq> None"
    then have "view c' k = view c k" using get_sound(2) [OF assms(1,3)] by (auto simp: map_le_def)
    with assms(2) \<open>view c' k \<noteq> None\<close> show False by simp
  qed
  with get_sound(3) [OF assms(1,3)] assms(2) show ?thesis by auto
qed

end

text \<open>A cache that evicts nothing and whose reads do not change it.\<close>

locale exact_cache = cache +
  assumes get_exact: "inv c \<Longrightarrow> view c k = Some d \<Longrightarrow> \<exists>c'. ic_Get ic k c = Returns (c', d, None) \<and> view c' = view c"
    and set_exact: "inv c \<Longrightarrow> ic_Set ic k d c = Returns (c', None) \<Longrightarrow> view c' = (view c)(k \<mapsto> d)"
begin

lemma get_after_set:
  assumes "inv c" "ic_Set ic k d c = Returns (c', None)"
  shows "\<exists>c''. ic_Get ic k c' = Returns (c'', d, None)"
  using get_exact [OF set_sound(1) [OF assms], of k d] set_exact [OF assms] by auto

end


section \<open>go-cache\<close>

text \<open>A stored value: a Go string, a byte slice, or anything else with its json.Marshal result.\<close>

datatype cval = CString string | CBytes string | COther "string + string"

fun cval_get :: "cval \<Rightarrow> string \<times> cache_error option" where
  "cval_get (CString d) = (d, None)"
| "cval_get (CBytes d) = (d, None)"
| "cval_get (COther (Inr d)) = (d, None)"
| "cval_get (COther (Inl e)) = ([], Some (CacheError e))"

record 'd gocache =
  gl_get :: "string \<Rightarrow> 'd \<Rightarrow> cval option"
  gl_set :: "string \<Rightarrow> cval \<Rightarrow> 'd \<Rightarrow> 'd"
  gl_delete :: "string \<Rightarrow> 'd \<Rightarrow> 'd"
  gl_flush :: "'d \<Rightarrow> 'd"
  gc_inc :: 'd

definition GoCache_Get :: "string \<Rightarrow> 'd gocache \<Rightarrow> ('d gocache \<times> string \<times> cache_error option) outcome" where
  "GoCache_Get key g =
     (case gl_get g key (gc_inc g) of
        None \<Rightarrow> Returns (g, [], Some ErrNotFound)
      | Some v \<Rightarrow> Returns (g, cval_get v))"

definition GoCache_Set :: "string \<Rightarrow> string \<Rightarrow> 'd gocache \<Rightarrow> ('d gocache \<times> cache_error option) outcome" where
  "GoCache_Set key data g = Returns (g\<lparr>gc_inc := gl_set g key (CBytes data) (gc_inc g)\<rparr>, None)"

definition GoCache_Delete :: "string \<Rightarrow> 'd gocache \<Rightarrow> ('d gocache \<times> cache_error option) outcome" where
  "GoCache_Delete key g = Returns (g\<lparr>gc_inc := gl_delete g key (gc_inc g)\<rparr>, None)"

definition GoCache_Reset :: "'d gocache \<Rightarrow> ('d gocache \<times> cache_error option) outcome" where
  "GoCache_Reset g = Returns (g\<lparr>gc_inc := gl_flush g (gc_inc g)\<rparr>, None)"

text \<open>Constructor: the library's new cache replaces the one held.\<close>

definition GoCache_Constructor :: "'d \<Rightarrow> 'd gocache \<Rightarrow> 'd gocache" where
  "GoCache_Constructor new_cache g = g\<lparr>gc_inc := new_cache\<rparr>"

definition GoCache_String :: "'d gocache \<Rightarrow> string" where
  "GoCache_String g = ''gocache''"

definition gocache_itf :: "'d gocache itf_cache" where
  "gocache_itf = \<lparr>ic_String = GoCache_String, ic_Set = GoCache_Set, ic_Get = GoCache_Get,
                  ic_Delete = GoCache_Delete, ic_Reset = GoCache_Reset\<rparr>"

text \<open>What go-cache documents: a map, and entries without expiration stay.\<close>

definition gocache_documented :: "'d gocache \<Rightarrow> bool" where
  "gocache_documented g \<longleftrightarrow>
     (\<forall>k v d. gl_get g k (gl_set g k v d) = Some v)
   \<and> (\<forall>k k' v d. k' \<noteq> k \<longrightarrow> gl_get g k' (gl_set g k v d) = gl_get g k' d)
   \<and> (\<forall>k d. gl_get g k (gl_delete g k d) = None)
   \<and> (\<forall>k k' d. k' \<noteq> k \<longrightarrow> gl_get g k' (gl_delete g k d) = gl_get g k' d)
   \<and> (\<forall>k d. gl_get g k (gl_flush g d) = None)"

definition cval_view :: "cval option \<Rightarrow> string option" where
  "cval_view v = (case v of None \<Rightarrow> None | Some x \<Rightarrow> (if snd (cval_get x) = None then Some (fst (cval_get x)) else None))"

definition gocache_view :: "'d gocache \<Rightarrow> string \<Rightarrow> string option" where
  "gocache_view g k = cval_view (gl_get g k (gc_inc g))"

lemma gocache_sel [simp]:
  "ic_Set gocache_itf = GoCache_Set" "ic_Get gocache_itf = GoCache_Get"
  "ic_Delete gocache_itf = GoCache_Delete" "ic_Reset gocache_itf = GoCache_Reset"
  by (simp_all add: gocache_itf_def)

lemma cval_view_simps [simp]:
  "cval_view None = None" "cval_view (Some (CBytes d)) = Some d"
  by (simp_all add: cval_view_def)

lemma gocache_view_set:
  assumes "gocache_documented g"
  shows "gocache_view (g\<lparr>gc_inc := gl_set g k (CBytes d) (gc_inc g)\<rparr>) = (gocache_view g)(k \<mapsto> d)"
proof
  fix k' show "gocache_view (g\<lparr>gc_inc := gl_set g k (CBytes d) (gc_inc g)\<rparr>) k' = ((gocache_view g)(k \<mapsto> d)) k'"
    using assms by (cases "k' = k") (auto simp: gocache_view_def gocache_documented_def)
qed

interpretation gocache: exact_cache gocache_itf gocache_documented gocache_view
proof unfold_locales
  fix g :: "'a gocache" and k d :: string
  assume g: "gocache_documented g"
  show "\<exists>c' d e. ic_Get gocache_itf k g = Returns (c', d, e) \<and> gocache_documented c' \<and> gocache_view c' \<subseteq>\<^sub>m gocache_view g
      \<and> (e = None \<longrightarrow> gocache_view g k = Some d)"
    using g by (auto simp: GoCache_Get_def gocache_view_def cval_view_def prod_eq_iff split: option.splits)
  show "\<exists>c' e. ic_Set gocache_itf k d g = Returns (c', e) \<and> gocache_documented c'
        \<and> (gocache_view c' \<subseteq>\<^sub>m (gocache_view g)(k \<mapsto> d) \<or> e \<noteq> None \<and> gocache_view c' \<subseteq>\<^sub>m gocache_view g)"
    using g gocache_view_set [OF g] by (auto simp: GoCache_Set_def gocache_documented_def)
  show "\<exists>c' e. ic_Delete gocache_itf k g = Returns (c', e) \<and> gocache_documented c' \<and> gocache_view c' \<subseteq>\<^sub>m gocache_view g
      \<and> (e = None \<longrightarrow> gocache_view c' k = None)"
    using g unfolding map_le_def
    by (auto simp: GoCache_Delete_def gocache_documented_def gocache_view_def)
       (metis cval_view_simps(1) option.distinct(1) domIff)
  show "\<exists>c' e. ic_Reset gocache_itf g = Returns (c', e) \<and> gocache_documented c' \<and> gocache_view c' \<subseteq>\<^sub>m gocache_view g
      \<and> (e = None \<longrightarrow> gocache_view c' = Map.empty)"
    using g by (auto simp: GoCache_Reset_def gocache_documented_def gocache_view_def map_le_def)
  show "\<exists>c'. ic_Get gocache_itf k g = Returns (c', d, None) \<and> gocache_view c' = gocache_view g"
    if "gocache_view g k = Some d"
    using that by (auto simp: GoCache_Get_def gocache_view_def cval_view_def prod_eq_iff split: option.splits if_splits)
  show "gocache_view c' = (gocache_view g)(k \<mapsto> d)" if "ic_Set gocache_itf k d g = Returns (c', None)" for c'
    using that gocache_view_set [OF g] by (auto simp: GoCache_Set_def)
qed


section \<open>bigcache\<close>

record 'd bigcache =
  bl_get :: "string \<Rightarrow> 'd \<Rightarrow> string + string"
  bl_set :: "string \<Rightarrow> string \<Rightarrow> 'd \<Rightarrow> 'd \<times> string option"
  bl_delete :: "string \<Rightarrow> 'd \<Rightarrow> 'd \<times> string option"
  bl_reset :: "'d \<Rightarrow> 'd \<times> string option"
  bc_inc :: 'd

definition BigCache_Get :: "string \<Rightarrow> 'd bigcache \<Rightarrow> ('d bigcache \<times> string \<times> cache_error option) outcome" where
  "BigCache_Get key b =
     (case bl_get b key (bc_inc b) of
        Inl e \<Rightarrow> Returns (b, [], Some ErrNotFound)
      | Inr d \<Rightarrow> Returns (b, d, None))"

definition BigCache_Set :: "string \<Rightarrow> string \<Rightarrow> 'd bigcache \<Rightarrow> ('d bigcache \<times> cache_error option) outcome" where
  "BigCache_Set key data b =
     (case bl_set b key data (bc_inc b) of (d, e) \<Rightarrow> Returns (b\<lparr>bc_inc := d\<rparr>, map_option CacheError e))"

definition BigCache_Delete :: "string \<Rightarrow> 'd bigcache \<Rightarrow> ('d bigcache \<times> cache_error option) outcome" where
  "BigCache_Delete key b =
     (case bl_delete b key (bc_inc b) of (d, e) \<Rightarrow> Returns (b\<lparr>bc_inc := d\<rparr>, map_option CacheError e))"

definition BigCache_Reset :: "'d bigcache \<Rightarrow> ('d bigcache \<times> cache_error option) outcome" where
  "BigCache_Reset b =
     (case bl_reset b (bc_inc b) of (d, e) \<Rightarrow> Returns (b\<lparr>bc_inc := d\<rparr>, map_option CacheError e))"

definition BigCache_Constructor :: "string + 'd \<Rightarrow> 'd bigcache \<Rightarrow> 'd bigcache outcome" where
  "BigCache_Constructor new_cache b =
     (case new_cache of Inl err \<Rightarrow> Panics err | Inr inc \<Rightarrow> Returns (b\<lparr>bc_inc := inc\<rparr>))"

definition BigCache_String :: "'d bigcache \<Rightarrow> string" where
  "BigCache_String b = ''big''"

definition bigcache_itf :: "'d bigcache itf_cache" where
  "bigcache_itf = \<lparr>ic_String = BigCache_String, ic_Set = BigCache_Set, ic_Get = BigCache_Get,
                  ic_Delete = BigCache_Delete, ic_Reset = BigCache_Reset\<rparr>"

definition bigcache_content :: "'d bigcache \<Rightarrow> 'd \<Rightarrow> string \<Rightarrow> string option" where
  "bigcache_content b d k = (case bl_get b k d of Inl e \<Rightarrow> None | Inr v \<Rightarrow> Some v)"

text \<open>bigcache may evict old entries, refuses entries that are too big, and reports a missing key.\<close>

definition bigcache_documented :: "'d bigcache \<Rightarrow> bool" where
  "bigcache_documented b \<longleftrightarrow>
     (\<forall>k v d d' e. bl_set b k v d = (d', e) \<longrightarrow>
         bigcache_content b d' \<subseteq>\<^sub>m (bigcache_content b d)(k \<mapsto> v)
       \<or> e \<noteq> None \<and> bigcache_content b d' \<subseteq>\<^sub>m bigcache_content b d)
   \<and> (\<forall>k d d' e. bl_delete b k d = (d', e) \<longrightarrow>
         bigcache_content b d' \<subseteq>\<^sub>m bigcache_content b d \<and> (e = None \<longrightarrow> bigcache_content b d' k = None))
   \<and> (\<forall>d d' e. bl_reset b d = (d', e) \<longrightarrow>
         bigcache_content b d' \<subseteq>\<^sub>m bigcache_content b d \<and> (e = None \<longrightarrow> bigcache_content b d' = Map.empty))"

definition bigcache_view :: "'d bigcache \<Rightarrow> string \<Rightarrow> string option" where
  "bigcache_view b = bigcache_content b (bc_inc b)"

lemma bigcache_sel [simp]:
  "ic_Set bigcache_itf = BigCache_Set" "ic_Get bigcache_itf = BigCache_Get"
  "ic_Delete bigcache_itf = BigCache_Delete" "ic_Reset bigcache_itf = BigCache_Reset"
  by (simp_all add: bigcache_itf_def)

lemma bigcache_content_upd [simp]: "bigcache_content (b\<lparr>bc_inc := d\<rparr>) = bigcache_content b"
  by (simp add: bigcache_content_def fun_eq_iff)

lemma bigcache_upd [simp]:
  "bigcache_documented (b\<lparr>bc_inc := d\<rparr>) = bigcache_documented b"
  "bigcache_view (b\<lparr>bc_inc := d\<rparr>) = bigcache_content b d"
  by (simp_all add: bigcache_documented_def bigcache_view_def)

interpretation bigcache: cache bigcache_itf bigcache_documented bigcache_view
proof unfold_locales
  fix b :: "'a bigcache" and k d :: string
  assume b: "bigcache_documented b"
  show "\<exists>c' d e. ic_Get bigcache_itf k b = Returns (c', d, e) \<and> bigcache_documented c' \<and> bigcache_view c' \<subseteq>\<^sub>m bigcache_view b
      \<and> (e = None \<longrightarrow> bigcache_view b k = Some d)"
    using b by (auto simp: BigCache_Get_def bigcache_view_def bigcache_content_def split: sum.splits)
  show "\<exists>c' e. ic_Set bigcache_itf k d b = Returns (c', e) \<and> bigcache_documented c'
        \<and> (bigcache_view c' \<subseteq>\<^sub>m (bigcache_view b)(k \<mapsto> d) \<or> e \<noteq> None \<and> bigcache_view c' \<subseteq>\<^sub>m bigcache_view b)"
    using b by (cases "bl_set b k d (bc_inc b)")
      (auto simp: BigCache_Set_def bigcache_documented_def bigcache_view_def [of b])
  show "\<exists>c' e. ic_Delete bigcache_itf k b = Returns (c', e) \<and> bigcache_documented c' \<and> bigcache_view c' \<subseteq>\<^sub>m bigcache_view b
      \<and> (e = None \<longrightarrow> bigcache_view c' k = None)"
    using b by (cases "bl_delete b k (bc_inc b)")
      (auto simp: BigCache_Delete_def bigcache_documented_def bigcache_view_def [of b])
  show "\<exists>c' e. ic_Reset bigcache_itf b = Returns (c', e) \<and> bigcache_documented c' \<and> bigcache_view c' \<subseteq>\<^sub>m bigcache_view b
      \<and> (e = None \<longrightarrow> bigcache_view c' = Map.empty)"
    using b by (cases "bl_reset b (bc_inc b)")
      (auto simp: BigCache_Reset_def bigcache_documented_def bigcache_view_def [of b])
qed


section \<open>ristretto\<close>

record 'd ristretto =
  rl_get :: "string \<Rightarrow> 'd \<Rightarrow> cval option"
  rl_set_ttl :: "string \<Rightarrow> cval \<Rightarrow> int \<Rightarrow> int \<Rightarrow> 'd \<Rightarrow> 'd \<times> bool"
  rl_del :: "string \<Rightarrow> 'd \<Rightarrow> 'd"
  rl_clear :: "'d \<Rightarrow> 'd"
  rs_inc :: 'd

definition Ristretto_Get :: "string \<Rightarrow> 'd ristretto \<Rightarrow> ('d ristretto \<times> string \<times> cache_error option) outcome" where
  "Ristretto_Get key r =
     (case rl_get r key (rs_inc r) of
        None \<Rightarrow> Returns (r, [], Some ErrNotFound)
      | Some v \<Rightarrow> Returns (r, cval_get v))"

text \<open>The bool of SetWithTTL, false when the entry was dropped, is ignored.\<close>

definition Ristretto_Set :: "string \<Rightarrow> string \<Rightarrow> 'd ristretto \<Rightarrow> ('d ristretto \<times> cache_error option) outcome" where
  "Ristretto_Set key data r =
     Returns (r\<lparr>rs_inc := fst (rl_set_ttl r key (CBytes data) (int (length data)) 0 (rs_inc r))\<rparr>, None)"

definition Ristretto_Delete :: "string \<Rightarrow> 'd ristretto \<Rightarrow> ('d ristretto \<times> cache_error option) outcome" where
  "Ristretto_Delete key r = Returns (r\<lparr>rs_inc := rl_del r key (rs_inc r)\<rparr>, None)"

definition Ristretto_Reset :: "'d ristretto \<Rightarrow> ('d ristretto \<times> cache_error option) outcome" where
  "Ristretto_Reset r = Returns (r\<lparr>rs_inc := rl_clear r (rs_inc r)\<rparr>, None)"

definition Ristretto_Constructor :: "string + 'd \<Rightarrow> 'd ristretto \<Rightarrow> 'd ristretto outcome" where
  "Ristretto_Constructor new_cache r =
     (case new_cache of Inl err \<Rightarrow> Panics err | Inr inc \<Rightarrow> Returns (r\<lparr>rs_inc := inc\<rparr>))"

definition Ristretto_String :: "'d ristretto \<Rightarrow> string" where
  "Ristretto_String r = ''ristretto''"

definition ristretto_itf :: "'d ristretto itf_cache" where
  "ristretto_itf = \<lparr>ic_String = Ristretto_String, ic_Set = Ristretto_Set, ic_Get = Ristretto_Get,
                   ic_Delete = Ristretto_Delete, ic_Reset = Ristretto_Reset\<rparr>"

definition ristretto_content :: "'d ristretto \<Rightarrow> 'd \<Rightarrow> string \<Rightarrow> string option" where
  "ristretto_content r d k = cval_view (rl_get r k d)"

text \<open>ristretto admits, rejects and evicts as its policy likes; a deleted key is gone.\<close>

definition ristretto_documented :: "'d ristretto \<Rightarrow> bool" where
  "ristretto_documented r \<longleftrightarrow>
     (\<forall>k v c t d. ristretto_content r (fst (rl_set_ttl r k (CBytes v) c t d)) \<subseteq>\<^sub>m (ristretto_content r d)(k \<mapsto> v))
   \<and> (\<forall>k d. ristretto_content r (rl_del r k d) \<subseteq>\<^sub>m (ristretto_content r d)(k := None))
   \<and> (\<forall>d. ristretto_content r (rl_clear r d) = Map.empty)"

definition ristretto_view :: "'d ristretto \<Rightarrow> string \<Rightarrow> string option" where
  "ristretto_view r = ristretto_content r (rs_inc r)"

lemma ristretto_sel [simp]:
  "ic_Set ristretto_itf = Ristretto_Set" "ic_Get ristretto_itf = Ristretto_Get"
  "ic_Delete ristretto_itf = Ristretto_Delete" "ic_Reset ristretto_itf = Ristretto_Reset"
  by (simp_all add: ristretto_itf_def)

lemma ristretto_content_upd [simp]: "ristretto_content (r\<lparr>rs_inc := d\<rparr>) = ristretto_content r"
  by (simp add: ristretto_content_def fun_eq_iff)

lemma ristretto_upd [simp]:
  "ristretto_documented (r\<lparr>rs_inc := d\<rparr>) = ristretto_documented r"
  "ristretto_view (r\<lparr>rs_inc := d\<rparr>) = ristretto_content r d"
  by (simp_all add: ristretto_documented_def ristretto_view_def)

lemma map_le_delete: "m' \<subseteq>\<^sub>m m(k := None) \<Longrightarrow> m' \<subseteq>\<^sub>m m \<and> m' k = None"
  unfolding map_le_def by (metis domI fun_upd_apply not_None_eq domIff)

interpretation ristretto: cache ristretto_itf ristretto_documented ristretto_view
proof unfold_locales
  fix r :: "'a ristretto" and k d :: string
  assume r: "ristretto_documented r"
  show "\<exists>c' d e. ic_Get ristretto_itf k r = Returns (c', d, e) \<and> ristretto_documented c' \<and> ristretto_view c' \<subseteq>\<^sub>m ristretto_view r
      \<and> (e = None \<longrightarrow> ristretto_view r k = Some d)"
    using r by (auto simp: Ristretto_Get_def ristretto_view_def ristretto_content_def cval_view_def prod_eq_iff split: option.splits)
  show "\<exists>c' e. ic_Set ristretto_itf k d r = Returns (c', e) \<and> ristretto_documented c'
        \<and> (ristretto_view c' \<subseteq>\<^sub>m (ristretto_view r)(k \<mapsto> d) \<or> e \<noteq> None \<and> ristretto_view c' \<subseteq>\<^sub>m ristretto_view r)"
    using r by (auto simp: Ristretto_Set_def ristretto_documented_def ristretto_view_def [of r])
  show "\<exists>c' e. ic_Delete ristretto_itf k r = Returns (c', e) \<and> ristretto_documented c' \<and> ristretto_view c' \<subseteq>\<^sub>m ristretto_view r
      \<and> (e = None \<longrightarrow> ristretto_view c' k = None)"
  proof -
    have "ristretto_content r (rl_del r k (rs_inc r)) \<subseteq>\<^sub>m (ristretto_content r (rs_inc r))(k := None)"
      using r by (simp add: ristretto_documented_def)
    from map_le_delete [OF this] show ?thesis using r by (simp add: Ristretto_Delete_def ristretto_view_def [of r])
  qed
  show "\<exists>c' e. ic_Reset ristretto_itf r = Returns (c', e) \<and> ristretto_documented c' \<and> ristretto_view c' \<subseteq>\<^sub>m ristretto_view r
      \<and> (e = None \<longrightarrow> ristretto_view c' = Map.empty)"
    using r by (auto simp: Ristretto_Reset_def ristretto_documented_def ristretto_view_def [of r])
qed


section \<open>ledis\<close>

text \<open>
  The adapter opens its database on first use.  \<^verbatim>\<open>ll_default\<close> is the configuration
  SetInstance builds for a nil argument (the default one with the data directory under
  StoreRoot).  A failing default open ends the process (log.Fatalf).
\<close>

record ('f, 'i, 'd) ledis =
  ll_default :: 'f
  ll_open :: "'f \<Rightarrow> string + 'i"
  ll_select0 :: "'i \<Rightarrow> string + 'd"
  ll_get :: "string \<Rightarrow> 'd \<Rightarrow> string option \<times> string option"
  ll_set :: "string \<Rightarrow> string \<Rightarrow> 'd \<Rightarrow> 'd \<times> string option"
  ll_del :: "string \<Rightarrow> 'd \<Rightarrow> 'd \<times> string option"
  ll_flush_all :: "'d \<Rightarrow> 'd \<times> string option"
  ld_cfg :: "'f option"
  ld_inc :: "'i option"
  ld_db :: "'d option"
  ld_once :: bool

definition LeDis_SetInstance :: "'f option \<Rightarrow> ('f, 'i, 'd) ledis \<Rightarrow> ('f, 'i, 'd) ledis \<times> string option" where
  "LeDis_SetInstance cfg l =
     (let cfg1 = (case cfg of None \<Rightarrow> ll_default l | Some f \<Rightarrow> f);
          l1 = l\<lparr>ld_cfg := Some cfg1\<rparr>
      in case ll_open l cfg1 of
           Inl e \<Rightarrow> (l1\<lparr>ld_inc := None\<rparr>, Some (''open: '' @ e))
         | Inr i \<Rightarrow>
             (case ll_select0 l i of
                Inl e \<Rightarrow> (l1\<lparr>ld_inc := Some i, ld_db := None\<rparr>, Some (''select: '' @ e))
              | Inr d \<Rightarrow> (l1\<lparr>ld_inc := Some i, ld_db := Some d\<rparr>, None)))"

text \<open>Instance: once.Do around SetInstance(nil).\<close>

definition LeDis_Instance :: "('f, 'i, 'd) ledis \<Rightarrow> ('f, 'i, 'd) ledis outcome" where
  "LeDis_Instance l =
     (if ld_once l then Returns l
      else case LeDis_SetInstance None (l\<lparr>ld_once := True\<rparr>) of
             (l1, None) \<Rightarrow> Returns l1
           | (l1, Some e) \<Rightarrow> Panics (''load ledis: '' @ e))"

definition LeDis_SetDB :: "'d option \<Rightarrow> ('f, 'i, 'd) ledis \<Rightarrow> ('f, 'i, 'd) ledis" where
  "LeDis_SetDB db l = l\<lparr>ld_db := db\<rparr>"

definition LeDis_SetCfg :: "'f option \<Rightarrow> ('f, 'i, 'd) ledis \<Rightarrow> ('f, 'i, 'd) ledis" where
  "LeDis_SetCfg cfg l = l\<lparr>ld_cfg := cfg\<rparr>"

definition LeDis_SetInc :: "'i option \<Rightarrow> ('f, 'i, 'd) ledis \<Rightarrow> ('f, 'i, 'd) ledis" where
  "LeDis_SetInc inc l = l\<lparr>ld_inc := inc\<rparr>"

text \<open>DB and a call of one of its methods; a nil database is dereferenced.\<close>

definition LeDis_DB :: "('f, 'i, 'd) ledis \<Rightarrow> (('f, 'i, 'd) ledis \<times> 'd) outcome" where
  "LeDis_DB l =
     bind_outcome (LeDis_Instance l) (\<lambda>l1.
       case ld_db l1 of None \<Rightarrow> Panics ''nil pointer dereference'' | Some d \<Rightarrow> Returns (l1, d))"

definition LeDis_Get :: "string \<Rightarrow> ('f, 'i, 'd) ledis \<Rightarrow> (('f, 'i, 'd) ledis \<times> string \<times> cache_error option) outcome" where
  "LeDis_Get key l =
     bind_outcome (LeDis_DB l) (\<lambda>(l1, d).
       case ll_get l key d of
         (data, Some e) \<Rightarrow> Returns (l1, case_option [] id data, Some (CacheError e))
       | (None, None) \<Rightarrow> Returns (l1, [], Some ErrNotFound)
       | (Some data, None) \<Rightarrow> Returns (l1, data, None))"

definition LeDis_Set :: "string \<Rightarrow> string \<Rightarrow> ('f, 'i, 'd) ledis \<Rightarrow> (('f, 'i, 'd) ledis \<times> cache_error option) outcome" where
  "LeDis_Set key data l =
     bind_outcome (LeDis_DB l) (\<lambda>(l1, d).
       case ll_set l key data d of (d1, e) \<Rightarrow> Returns (l1\<lparr>ld_db := Some d1\<rparr>, map_option CacheError e))"

definition LeDis_Delete :: "string \<Rightarrow> ('f, 'i, 'd) ledis \<Rightarrow> (('f, 'i, 'd) ledis \<times> cache_error option) outcome" where
  "LeDis_Delete key l =
     bind_outcome (LeDis_DB l) (\<lambda>(l1, d).
       case ll_del l key d of (d1, e) \<Rightarrow> Returns (l1\<lparr>ld_db := Some d1\<rparr>, map_option CacheError e))"

definition LeDis_Reset :: "('f, 'i, 'd) ledis \<Rightarrow> (('f, 'i, 'd) ledis \<times> cache_error option) outcome" where
  "LeDis_Reset l =
     bind_outcome (LeDis_DB l) (\<lambda>(l1, d).
       case ll_flush_all l d of (d1, e) \<Rightarrow> Returns (l1\<lparr>ld_db := Some d1\<rparr>, map_option CacheError e))"

definition LeDis_String :: "('f, 'i, 'd) ledis \<Rightarrow> string" where
  "LeDis_String l = ''ledis''"

definition ledis_itf :: "('f, 'i, 'd) ledis itf_cache" where
  "ledis_itf = \<lparr>ic_String = LeDis_String, ic_Set = LeDis_Set, ic_Get = LeDis_Get,
                ic_Delete = LeDis_Delete, ic_Reset = LeDis_Reset\<rparr>"

definition ledis_content :: "('f, 'i, 'd) ledis \<Rightarrow> 'd \<Rightarrow> string \<Rightarrow> string option" where
  "ledis_content l d k = (case ll_get l k d of (Some v, None) \<Rightarrow> Some v | _ \<Rightarrow> None)"

definition ledis_documented :: "('f, 'i, 'd) ledis \<Rightarrow> bool" where
  "ledis_documented l \<longleftrightarrow>
     (\<forall>k v d d' e. ll_set l k v d = (d', e) \<longrightarrow>
        ledis_content l d' = (if e = None then (ledis_content l d)(k \<mapsto> v) else ledis_content l d))
   \<and> (\<forall>k d d' e. ll_del l k d = (d', e) \<longrightarrow>
        ledis_content l d' = (if e = None then (ledis_content l d)(k := None) else ledis_content l d))
   \<and> (\<forall>d d' e. ll_flush_all l d = (d', e) \<longrightarrow>
        ledis_content l d' = (if e = None then Map.empty else ledis_content l d))"

text \<open>The database in use, or the one the first use opens.\<close>

definition ledis_db :: "('f, 'i, 'd) ledis \<Rightarrow> 'd option" where
  "ledis_db l =
     (if ld_once l then ld_db l
      else case ll_open l (ll_default l) of
             Inl e \<Rightarrow> None
           | Inr i \<Rightarrow> (case ll_select0 l i of Inl e \<Rightarrow> None | Inr d \<Rightarrow> Some d))"

definition ledis_ok :: "('f, 'i, 'd) ledis \<Rightarrow> bool" where
  "ledis_ok l \<longleftrightarrow> ledis_documented l \<and> ledis_db l \<noteq> None"

definition ledis_view :: "('f, 'i, 'd) ledis \<Rightarrow> string \<Rightarrow> string option" where
  "ledis_view l = (case ledis_db l of None \<Rightarrow> Map.empty | Some d \<Rightarrow> ledis_content l d)"

lemma ledis_sel [simp]:
  "ic_Set ledis_itf = LeDis_Set" "ic_Get ledis_itf = LeDis_Get"
  "ic_Delete ledis_itf = LeDis_Delete" "ic_Reset ledis_itf = LeDis_Reset"
  by (simp_all add: ledis_itf_def)

text \<open>The first use: the library's methods stay, the state becomes the opened database.\<close>

definition same_lib :: "('f, 'i, 'd) ledis \<Rightarrow> ('f, 'i, 'd) ledis \<Rightarrow> bool" where
  "same_lib l l' \<longleftrightarrow> ll_get l' = ll_get l \<and> ll_set l' = ll_set l \<and> ll_del l' = ll_del l \<and> ll_flush_all l' = ll_flush_all l"

lemma same_lib_facts:
  assumes "same_lib l l'"
  shows "ledis_content l' = ledis_content l" "ledis_documented l' = ledis_documented l"
proof -
  show *: "ledis_content l' = ledis_content l"
    using assms by (simp add: ledis_content_def same_lib_def fun_eq_iff)
  show "ledis_documented l' = ledis_documented l"
    using assms by (simp add: ledis_documented_def * same_lib_def)
qed

lemma LeDis_DB_open:
  assumes "ledis_db l = Some d"
  shows "\<exists>l1. LeDis_DB l = Returns (l1, d) \<and> same_lib l l1 \<and> ld_once l1 \<and> ld_db l1 = Some d"
  using assms
  by (auto simp: LeDis_DB_def LeDis_Instance_def LeDis_SetInstance_def ledis_db_def same_lib_def Let_def
      split: sum.splits if_splits option.splits)

lemma ledis_after:
  assumes "same_lib l l1" "ld_once l1" "ledis_documented l"
  shows "ledis_ok (l1\<lparr>ld_db := Some d\<rparr>)" "ledis_view (l1\<lparr>ld_db := Some d\<rparr>) = ledis_content l d"
proof -
  have "same_lib l (l1\<lparr>ld_db := Some d\<rparr>)" "ledis_db (l1\<lparr>ld_db := Some d\<rparr>) = Some d"
    using assms(1,2) by (simp_all add: same_lib_def ledis_db_def)
  with assms(3) show "ledis_ok (l1\<lparr>ld_db := Some d\<rparr>)" "ledis_view (l1\<lparr>ld_db := Some d\<rparr>) = ledis_content l d"
    by (simp_all add: ledis_ok_def ledis_view_def same_lib_facts)
qed

lemma LeDis_op:
  assumes "ledis_ok l"
  obtains d l1 where "ledis_db l = Some d" "ledis_view l = ledis_content l d"
    "LeDis_DB l = Returns (l1, d)" "same_lib l l1" "ld_once l1"
    "l1\<lparr>ld_db := Some d\<rparr> = l1" "ledis_documented l"
proof -
  obtain d where d: "ledis_db l = Some d" using assms by (auto simp: ledis_ok_def)
  from LeDis_DB_open [OF d] obtain l1 where
    "LeDis_DB l = Returns (l1, d)" "same_lib l l1" "ld_once l1" "ld_db l1 = Some d" by blast
  with d that assms show thesis by (auto simp: ledis_view_def ledis_ok_def)
qed

lemma map_le_del [simp]: "m(k := None) \<subseteq>\<^sub>m m"
  by (auto simp: map_le_def)

lemma LeDis_Get_cases:
  assumes "ledis_ok l"
  shows "\<exists>c' d e. LeDis_Get k l = Returns (c', d, e) \<and> ledis_ok c' \<and> ledis_view c' = ledis_view l
    \<and> (e = None \<longleftrightarrow> ledis_view l k = Some d) \<and> (ledis_view l k \<noteq> None \<longrightarrow> e = None)"
proof -
  from assms obtain d l1 where l1: "ledis_view l = ledis_content l d" "LeDis_DB l = Returns (l1, d)"
    "same_lib l l1" "ld_once l1" "l1\<lparr>ld_db := Some d\<rparr> = l1" "ledis_documented l" by (rule LeDis_op)
  from ledis_after [OF l1(3,4,6), of d] l1(5) have "ledis_ok l1" "ledis_view l1 = ledis_view l" using l1(1) by simp_all
  with l1(1,2) show ?thesis
    by (cases "ll_get l k d")
      (auto simp: LeDis_Get_def ledis_content_def split: option.splits)
qed

lemma ledis_set_law:
  assumes "ledis_ok l"
  shows "\<exists>c' e. LeDis_Set k v l = Returns (c', e) \<and> ledis_ok c'
    \<and> ledis_view c' = (if e = None then (ledis_view l)(k \<mapsto> v) else ledis_view l)"
proof -
  from assms obtain d l1 where l1: "ledis_view l = ledis_content l d" "LeDis_DB l = Returns (l1, d)"
    "same_lib l l1" "ld_once l1" "l1\<lparr>ld_db := Some d\<rparr> = l1" "ledis_documented l" by (rule LeDis_op)
  obtain d1 e where set: "ll_set l k v d = (d1, e)" by fastforce
  then have "ledis_content l d1 = (if e = None then (ledis_content l d)(k \<mapsto> v) else ledis_content l d)"
    using l1(6) by (simp add: ledis_documented_def)
  with l1 set ledis_after [OF l1(3,4,6), of d1] show ?thesis by (simp add: LeDis_Set_def)
qed

lemma ledis_delete_law:
  assumes "ledis_ok l"
  shows "\<exists>c' e. LeDis_Delete k l = Returns (c', e) \<and> ledis_ok c'
    \<and> ledis_view c' = (if e = None then (ledis_view l)(k := None) else ledis_view l)"
proof -
  from assms obtain d l1 where l1: "ledis_view l = ledis_content l d" "LeDis_DB l = Returns (l1, d)"
    "same_lib l l1" "ld_once l1" "l1\<lparr>ld_db := Some d\<rparr> = l1" "ledis_documented l" by (rule LeDis_op)
  obtain d1 e where del: "ll_del l k d = (d1, e)" by fastforce
  then have "ledis_content l d1 = (if e = None then (ledis_content l d)(k := None) else ledis_content l d)"
    using l1(6) by (simp add: ledis_documented_def)
  with l1 del ledis_after [OF l1(3,4,6), of d1] show ?thesis by (simp add: LeDis_Delete_def)
qed

lemma ledis_reset_law:
  assumes "ledis_ok l"
  shows "\<exists>c' e. LeDis_Reset l = Returns (c', e) \<and> ledis_ok c'
    \<and> ledis_view c' = (if e = None then Map.empty else ledis_view l)"
proof -
  from assms obtain d l1 where l1: "ledis_view l = ledis_content l d" "LeDis_DB l = Returns (l1, d)"
    "same_lib l l1" "ld_once l1" "l1\<lparr>ld_db := Some d\<rparr> = l1" "ledis_documented l" by (rule LeDis_op)
  obtain d1 e where fl: "ll_flush_all l d = (d1, e)" by fastforce
  then have "ledis_content l d1 = (if e = None then Map.empty else ledis_content l d)"
    using l1(6) by (simp add: ledis_documented_def)
  with l1 fl ledis_after [OF l1(3,4,6), of d1] show ?thesis by (simp add: LeDis_Reset_def)
qed

interpretation ledis: exact_cache ledis_itf ledis_ok ledis_view
proof unfold_locales
  fix l :: "('a, 'b, 'c) ledis" and k d :: string
  assume l: "ledis_ok l"
  show "\<exists>c' d e. ic_Get ledis_itf k l = Returns (c', d, e) \<and> ledis_ok c' \<and> ledis_view c' \<subseteq>\<^sub>m ledis_view l
      \<and> (e = None \<longrightarrow> ledis_view l k = Some d)"
    using LeDis_Get_cases [OF l, of k] by fastforce
  show "\<exists>c' e. ic_Set ledis_itf k d l = Returns (c', e) \<and> ledis_ok c'
        \<and> (ledis_view c' \<subseteq>\<^sub>m (ledis_view l)(k \<mapsto> d) \<or> e \<noteq> None \<and> ledis_view c' \<subseteq>\<^sub>m ledis_view l)"
    using ledis_set_law [OF l, of k d] by (fastforce split: if_splits)
  show "\<exists>c' e. ic_Delete ledis_itf k l = Returns (c', e) \<and> ledis_ok c' \<and> ledis_view c' \<subseteq>\<^sub>m ledis_view l
      \<and> (e = None \<longrightarrow> ledis_view c' k = None)"
    using ledis_delete_law [OF l, of k] by (fastforce split: if_splits)
  show "\<exists>c' e. ic_Reset ledis_itf l = Returns (c', e) \<and> ledis_ok c' \<and> ledis_view c' \<subseteq>\<^sub>m ledis_view l
      \<and> (e = None \<longrightarrow> ledis_view c' = Map.empty)"
    using ledis_reset_law [OF l] by (fastforce split: if_splits)
  show "\<exists>c'. ic_Get ledis_itf k l = Returns (c', d, None) \<and> ledis_view c' = ledis_view l"
    if "ledis_view l k = Some d"
    using LeDis_Get_cases [OF l, of k] that by auto
  show "ledis_view c' = (ledis_view l)(k \<mapsto> d)" if "ic_Set ledis_itf k d l = Returns (c', None)" for c'
    using ledis_set_law [OF l, of k d] that by auto
qed

end
