(* ===== verification/Cache_Registry.thy ===== *)
theory Cache_Registry
  imports Cache_Store
begin

text \<open>
  The registry of src/g2cache/store/store.go and the forwarding Instance of
  src/g2cache/cache.go.  A registered cache is one of the four adapters; calling an interface
  method dispatches on it.  The registry holds the adapter objects that the packages' init
  functions create; Instance takes one of them over.
\<close>

datatype ('b, 'g, 'f, 'i, 'l, 'r) store_cache =
    InBig "'b bigcache"
  | InGo "'g gocache"
  | InLedis "('f, 'i, 'l) ledis"
  | InRistretto "'r ristretto"

fun in_cache :: "('a \<Rightarrow> 'c) \<Rightarrow> ('a \<times> 'x) outcome \<Rightarrow> ('c \<times> 'x) outcome" where
  "in_cache f (Returns (c, x)) = Returns (f c, x)"
| "in_cache f (Panics p) = Panics p"

fun store_String :: "('b, 'g, 'f, 'i, 'l, 'r) store_cache \<Rightarrow> string" where
  "store_String (InBig c) = BigCache_String c"
| "store_String (InGo c) = GoCache_String c"
| "store_String (InLedis c) = LeDis_String c"
| "store_String (InRistretto c) = Ristretto_String c"

fun store_Set :: "string \<Rightarrow> string \<Rightarrow> ('b, 'g, 'f, 'i, 'l, 'r) store_cache
    \<Rightarrow> (('b, 'g, 'f, 'i, 'l, 'r) store_cache \<times> cache_error option) outcome" where
  "store_Set k d (InBig c) = in_cache InBig (BigCache_Set k d c)"
| "store_Set k d (InGo c) = in_cache InGo (GoCache_Set k d c)"
| "store_Set k d (InLedis c) = in_cache InLedis (LeDis_Set k d c)"
| "store_Set k d (InRistretto c) = in_cache InRistretto (Ristretto_Set k d c)"

fun store_Get :: "string \<Rightarrow> ('b, 'g, 'f, 'i, 'l, 'r) store_cache
    \<Rightarrow> (('b, 'g, 'f, 'i, 'l, 'r) store_cache \<times> string \<times> cache_error option) outcome" where
  "store_Get k (InBig c) = in_cache InBig (BigCache_Get k c)"
| "store_Get k (InGo c) = in_cache InGo (GoCache_Get k c)"
| "store_Get k (InLedis c) = in_cache InLedis (LeDis_Get k c)"
| "store_Get k (InRistretto c) = in_cache InRistretto (Ristretto_Get k c)"

fun store_Delete :: "string \<Rightarrow> ('b, 'g, 'f, 'i, 'l, 'r) store_cache
    \<Rightarrow> (('b, 'g, 'f, 'i, 'l, 'r) store_cache \<times> cache_error option) outcome" where
  "store_Delete k (InBig c) = in_cache InBig (BigCache_Delete k c)"
| "store_Delete k (InGo c) = in_cache InGo (GoCache_Delete k c)"
| "store_Delete k (InLedis c) = in_cache InLedis (LeDis_Delete k c)"
| "store_Delete k (InRistretto c) = in_cache InRistretto (Ristretto_Delete k c)"

fun store_Reset :: "('b, 'g, 'f, 'i, 'l, 'r) store_cache
    \<Rightarrow> (('b, 'g, 'f, 'i, 'l, 'r) store_cache \<times> cache_error option) outcome" where
  "store_Reset (InBig c) = in_cache InBig (BigCache_Reset c)"
| "store_Reset (InGo c) = in_cache InGo (GoCache_Reset c)"
| "store_Reset (InLedis c) = in_cache InLedis (LeDis_Reset c)"
| "store_Reset (InRistretto c) = in_cache InRistretto (Ristretto_Reset c)"

definition store_itf :: "('b, 'g, 'f, 'i, 'l, 'r) store_cache itf_cache" where
  "store_itf = \<lparr>ic_String = store_String, ic_Set = store_Set, ic_Get = store_Get,
                ic_Delete = store_Delete, ic_Reset = store_Reset\<rparr>"

lemma store_sel [simp]:
  "ic_Set store_itf = store_Set" "ic_Get store_itf = store_Get" "ic_Delete store_itf = store_Delete"
  "ic_Reset store_itf = store_Reset" "ic_String store_itf = store_String"
  by (simp_all add: store_itf_def)

fun store_ok :: "('b, 'g, 'f, 'i, 'l, 'r) store_cache \<Rightarrow> bool" where
  "store_ok (InBig c) = bigcache_documented c"
| "store_ok (InGo c) = gocache_documented c"
| "store_ok (InLedis c) = ledis_ok c"
| "store_ok (InRistretto c) = ristretto_documented c"

fun store_view :: "('b, 'g, 'f, 'i, 'l, 'r) store_cache \<Rightarrow> string \<Rightarrow> string option" where
  "store_view (InBig c) = bigcache_view c"
| "store_view (InGo c) = gocache_view c"
| "store_view (InLedis c) = ledis_view c"
| "store_view (InRistretto c) = ristretto_view c"

interpretation store: cache store_itf store_ok store_view
proof unfold_locales
  fix c :: "('a, 'b, 'c, 'd, 'e, 'f) store_cache" and k d :: string
  assume c: "store_ok c"
  show "\<exists>c' d e. ic_Get store_itf k c = Returns (c', d, e) \<and> store_ok c' \<and> store_view c' \<subseteq>\<^sub>m store_view c
      \<and> (e = None \<longrightarrow> store_view c k = Some d)"
  proof (cases c)
    case (InBig x)
    with c bigcache.get_law [of x k] show ?thesis by auto
  next
    case (InGo x)
    with c gocache.get_law [of x k] show ?thesis by auto
  next
    case (InLedis x)
    with c ledis.get_law [of x k] show ?thesis by auto
  next
    case (InRistretto x)
    with c ristretto.get_law [of x k] show ?thesis by auto
  qed
  show "\<exists>c' e. ic_Set store_itf k d c = Returns (c', e) \<and> store_ok c'
        \<and> (store_view c' \<subseteq>\<^sub>m (store_view c)(k \<mapsto> d) \<or> e \<noteq> None \<and> store_view c' \<subseteq>\<^sub>m store_view c)"
  proof (cases c)
    case (InBig x)
    with c bigcache.set_law [of x k d] show ?thesis by auto
  next
    case (InGo x)
    with c gocache.set_law [of x k d] show ?thesis by auto
  next
    case (InLedis x)
    with c ledis.set_law [of x k d] show ?thesis by auto
  next
    case (InRistretto x)
    with c ristretto.set_law [of x k d] show ?thesis by auto
  qed
  show "\<exists>c' e. ic_Delete store_itf k c = Returns (c', e) \<and> store_ok c' \<and> store_view c' \<subseteq>\<^sub>m store_view c
      \<and> (e = None \<longrightarrow> store_view c' k = None)"
  proof (cases c)
    case (InBig x)
    with c bigcache.delete_law [of x k] show ?thesis by auto
  next
    case (InGo x)
    with c gocache.delete_law [of x k] show ?thesis by auto
  next
    case (InLedis x)
    with c ledis.delete_law [of x k] show ?thesis by auto
  next
    case (InRistretto x)
    with c ristretto.delete_law [of x k] show ?thesis by auto
  qed
  show "\<exists>c' e. ic_Reset store_itf c = Returns (c', e) \<and> store_ok c' \<and> store_view c' \<subseteq>\<^sub>m store_view c
      \<and> (e = None \<longrightarrow> store_view c' = Map.empty)"
  proof (cases c)
    case (InBig x)
    with c bigcache.reset_law [of x] show ?thesis by auto
  next
    case (InGo x)
    with c gocache.reset_law [of x] show ?thesis by auto
  next
    case (InLedis x)
    with c ledis.reset_law [of x] show ?thesis by auto
  next
    case (InRistretto x)
    with c ristretto.reset_law [of x] show ?thesis by auto
  qed
qed


section \<open>The registry\<close>

type_synonym 'c registry = "string \<rightharpoonup> 'c"

definition store_Register :: "'c itf_cache \<Rightarrow> 'c \<Rightarrow> 'c registry \<Rightarrow> 'c registry" where
  "store_Register ic s ins =
     (let name = ic_String ic s
      in case ins name of Some _ \<Rightarrow> ins | None \<Rightarrow> ins(name \<mapsto> s))"

definition GetStore :: "string list \<Rightarrow> 'c registry \<Rightarrow> string + 'c" where
  "GetStore names ins =
     (let name = (case names of n # _ \<Rightarrow> n | [] \<Rightarrow> ''ledis'')
      in case ins name of None \<Rightarrow> Inl (''store '' @ name @ '' is not registered'') | Some s \<Rightarrow> Inr s)"

text \<open>The init functions that the blank imports of src/g2cache/cache.go run, in import order.\<close>

definition init_stores ::
  "'b bigcache \<Rightarrow> 'g gocache \<Rightarrow> ('f, 'i, 'l) ledis \<Rightarrow> 'r ristretto \<Rightarrow> ('b, 'g, 'f, 'i, 'l, 'r) store_cache registry" where
  "init_stores b g l r =
     fold (store_Register store_itf) [InBig b, InGo g, InLedis l, InRistretto r] Map.empty"

lemma Register_keeps: "ins n = Some s \<Longrightarrow> store_Register ic c ins n = Some s"
  by (auto simp: store_Register_def Let_def split: option.splits)

lemma fold_Register_keeps: "ins n = Some s \<Longrightarrow> fold (store_Register ic) cs ins n = Some s"
  by (induction cs arbitrary: ins) (auto simp: Register_keeps)

lemma Register_other: "n \<noteq> ic_String ic c \<Longrightarrow> store_Register ic c ins n = ins n"
  by (auto simp: store_Register_def Let_def split: option.splits)

lemma fold_Register_first:
  "fold (store_Register ic) cs ins n =
     (case ins n of Some s \<Rightarrow> Some s | None \<Rightarrow> find (\<lambda>c. ic_String ic c = n) cs)"
proof (induction cs arbitrary: ins)
  case (Cons c cs)
  then show ?case
    by (cases "ic_String ic c = n") (auto simp: store_Register_def Let_def split: option.splits)
qed (simp split: option.splits)


section \<open>Instance\<close>

text \<open>Constructor takes the default store and ignores the error: the interface stays nil then.\<close>

definition Instance_Constructor :: "'c registry \<Rightarrow> 'c option" where
  "Instance_Constructor ins = (case GetStore [] ins of Inl e \<Rightarrow> None | Inr s \<Rightarrow> Some s)"

definition Instance_SetInstance :: "'c \<Rightarrow> 'c option \<Rightarrow> 'c option" where
  "Instance_SetInstance inc i = Some inc"

text \<open>CacheInstance: every adapter answers itself.\<close>

definition Instance_CacheInstance :: "'c option \<Rightarrow> 'c outcome" where
  "Instance_CacheInstance i = (case i of None \<Rightarrow> Panics ''nil pointer dereference'' | Some c \<Rightarrow> Returns c)"

fun on_instance :: "('c \<Rightarrow> ('c \<times> 'x) outcome) \<Rightarrow> 'c option \<Rightarrow> ('c option \<times> 'x) outcome" where
  "on_instance f None = Panics ''nil pointer dereference''"
| "on_instance f (Some c) = in_cache Some (f c)"

definition Instance_Set where "Instance_Set ic key data = on_instance (ic_Set ic key data)"
definition Instance_Get where "Instance_Get ic key = on_instance (ic_Get ic key)"
definition Instance_Delete where "Instance_Delete ic key = on_instance (ic_Delete ic key)"
definition Instance_Reset where "Instance_Reset ic = on_instance (ic_Reset ic)"

definition Instance_String :: "'c itf_cache \<Rightarrow> 'c option \<Rightarrow> string outcome" where
  "Instance_String ic i =
     (case i of None \<Rightarrow> Panics ''nil pointer dereference'' | Some c \<Rightarrow> Returns (ic_String ic c))"

text \<open>As an interface value an Instance holds a store; the name of one without is not asked for.\<close>

definition instance_name :: "'c itf_cache \<Rightarrow> 'c option \<Rightarrow> string" where
  "instance_name ic i = (case Instance_String ic i of Panics p \<Rightarrow> [] | Returns n \<Rightarrow> n)"

definition instance_itf :: "'c itf_cache \<Rightarrow> 'c option itf_cache" where
  "instance_itf ic = \<lparr>ic_String = instance_name ic, ic_Set = Instance_Set ic, ic_Get = Instance_Get ic,
                      ic_Delete = Instance_Delete ic, ic_Reset = Instance_Reset ic\<rparr>"

lemma instance_sel [simp]:
  "ic_Set (instance_itf ic) = Instance_Set ic" "ic_Get (instance_itf ic) = Instance_Get ic"
  "ic_Delete (instance_itf ic) = Instance_Delete ic" "ic_Reset (instance_itf ic) = Instance_Reset ic"
  "ic_String (instance_itf ic) = instance_name ic"
  by (simp_all add: instance_itf_def)

lemmas Instance_defs = Instance_Set_def Instance_Get_def Instance_Delete_def Instance_Reset_def

definition instance_ok :: "('c \<Rightarrow> bool) \<Rightarrow> 'c option \<Rightarrow> bool" where
  "instance_ok ok i = (case i of None \<Rightarrow> False | Some c \<Rightarrow> ok c)"

definition instance_view :: "('c \<Rightarrow> string \<Rightarrow> string option) \<Rightarrow> 'c option \<Rightarrow> string \<Rightarrow> string option" where
  "instance_view view i = (case i of None \<Rightarrow> Map.empty | Some c \<Rightarrow> view c)"

text \<open>Forwarding keeps the contract.\<close>

context cache begin

lemma forwards: "cache (instance_itf ic) (instance_ok inv) (instance_view view)"
proof unfold_locales
  fix i k d
  assume i: "instance_ok inv i"
  then obtain c where c: "i = Some c" "inv c" by (auto simp: instance_ok_def split: option.splits)
  show "\<exists>c' d e. ic_Get (instance_itf ic) k i = Returns (c', d, e) \<and> instance_ok inv c'
      \<and> instance_view view c' \<subseteq>\<^sub>m instance_view view i \<and> (e = None \<longrightarrow> instance_view view i k = Some d)"
    using c get_law [OF c(2), of k] by (fastforce simp: Instance_defs instance_ok_def instance_view_def)
  show "\<exists>c' e. ic_Set (instance_itf ic) k d i = Returns (c', e) \<and> instance_ok inv c'
      \<and> (instance_view view c' \<subseteq>\<^sub>m (instance_view view i)(k \<mapsto> d) \<or> e \<noteq> None \<and> instance_view view c' \<subseteq>\<^sub>m instance_view view i)"
    using c set_law [OF c(2), of k d] by (fastforce simp: Instance_defs instance_ok_def instance_view_def)
  show "\<exists>c' e. ic_Delete (instance_itf ic) k i = Returns (c', e) \<and> instance_ok inv c'
      \<and> instance_view view c' \<subseteq>\<^sub>m instance_view view i \<and> (e = None \<longrightarrow> instance_view view c' k = None)"
    using c delete_law [OF c(2), of k] by (fastforce simp: Instance_defs instance_ok_def instance_view_def)
  show "\<exists>c' e. ic_Reset (instance_itf ic) i = Returns (c', e) \<and> instance_ok inv c'
      \<and> instance_view view c' \<subseteq>\<^sub>m instance_view view i \<and> (e = None \<longrightarrow> instance_view view c' = Map.empty)"
    using c reset_law [OF c(2)] by (fastforce simp: Instance_defs instance_ok_def instance_view_def)
qed

end

interpretation inst: cache "instance_itf store_itf" "instance_ok store_ok" "instance_view store_view"
  by (rule store.forwards)

end
