(* ===== verification/Cache_Mem.thy ===== *)
theory Cache_Mem
  imports Cache_Registry Json_Value
begin

text \<open>
  The read-through cache of src/g2db/cache.go with its per-key locks (src/g2db/atomic.go): one
  goroutine's view of GetOrStore, Delete and the two handlers of deletion messages.
  \<^verbatim>\<open>mem_held\<close> are the names of the locks some goroutine holds, \<^verbatim>\<open>mem_timers\<close>
  the payloads whose second deletion is scheduled, and \<^verbatim>\<open>mem_world\<close> what the callback
  of GetOrStore reads: the database or Redis.
\<close>

datatype 'a effect = Done 'a | Blocks | Crashes string

record ('c, 'w) cache_mem =
  mem_cache :: 'c
  mem_held :: "string set"
  mem_timers :: "raw_message list"
  mem_world :: 'w

text \<open>The name Atomic looks its lock up under.\<close>

definition lock_name :: "string \<Rightarrow> string" where
  "lock_name key = ''cacheMem:Atomic:'' @ key"

text \<open>Atomic: Unlock is not deferred, so a panic of the function leaves the lock held.\<close>

definition mem_Atomic ::
  "string \<Rightarrow> (('c, 'w) cache_mem \<Rightarrow> ('c, 'w) cache_mem \<times> 'a effect) \<Rightarrow> ('c, 'w) cache_mem
     \<Rightarrow> ('c, 'w) cache_mem \<times> 'a effect" where
  "mem_Atomic key fn m =
     (let n = lock_name key
      in if n \<in> mem_held m then (m, Blocks)
         else case fn (m\<lparr>mem_held := insert n (mem_held m)\<rparr>) of
                (m1, Done x) \<Rightarrow> (m1\<lparr>mem_held := mem_held m1 - {n}\<rparr>, Done x)
              | r \<Rightarrow> r)"

definition getOrStore ::
  "'c itf_cache \<Rightarrow> string \<Rightarrow> ('w \<Rightarrow> 'w \<times> (string \<times> cache_error option) outcome) \<Rightarrow> ('c, 'w) cache_mem
     \<Rightarrow> ('c, 'w) cache_mem \<times> (string \<times> cache_error option) effect" where
  "getOrStore ic key fn m =
     (case ic_Get ic key (mem_cache m) of
        Panics p \<Rightarrow> (m, Crashes p)
      | Returns (c1, data, err) \<Rightarrow>
          let m1 = m\<lparr>mem_cache := c1\<rparr>
          in if err \<noteq> Some ErrNotFound then (m1, Done (data, err))
             else (case fn (mem_world m1) of
                     (w1, Panics p) \<Rightarrow> (m1\<lparr>mem_world := w1\<rparr>, Crashes p)
                   | (w1, Returns (data1, Some e)) \<Rightarrow> (m1\<lparr>mem_world := w1\<rparr>, Done (data1, Some e))
                   | (w1, Returns (data1, None)) \<Rightarrow>
                       (case ic_Set ic key data1 c1 of
                          Panics p \<Rightarrow> (m1\<lparr>mem_world := w1\<rparr>, Crashes p)
                        | Returns (c2, err1) \<Rightarrow> (m1\<lparr>mem_world := w1, mem_cache := c2\<rparr>, Done (data1, err1)))))"

definition GetOrStore ::
  "'c itf_cache \<Rightarrow> string \<Rightarrow> ('w \<Rightarrow> 'w \<times> (string \<times> cache_error option) outcome) \<Rightarrow> ('c, 'w) cache_mem
     \<Rightarrow> ('c, 'w) cache_mem \<times> (string \<times> cache_error option) effect" where
  "GetOrStore ic key fn m = mem_Atomic key (getOrStore ic key fn) m"

definition raw_delete :: "'c itf_cache \<Rightarrow> string \<Rightarrow> ('c, 'w) cache_mem \<Rightarrow> ('c, 'w) cache_mem \<times> cache_error option effect" where
  "raw_delete ic key m =
     (case ic_Delete ic key (mem_cache m) of
        Panics p \<Rightarrow> (m, Crashes p)
      | Returns (c1, e) \<Rightarrow> (m\<lparr>mem_cache := c1\<rparr>, Done e))"

definition mem_Delete :: "'c itf_cache \<Rightarrow> string \<Rightarrow> ('c, 'w) cache_mem \<Rightarrow> ('c, 'w) cache_mem \<times> cache_error option effect" where
  "mem_Delete ic key m = mem_Atomic key (raw_delete ic key) m"

text \<open>A deletion payload is a JSON array of strings; null decodes into no keys.\<close>

fun json_string_item :: "json \<Rightarrow> string option" where
  "json_string_item (JStr s) = Some s"
| "json_string_item JNull = Some []"
| "json_string_item _ = None"

fun decode_keys :: "raw_message \<Rightarrow> string list option" where
  "decode_keys (Some JNull) = Some []"
| "decode_keys (Some (JArr vs)) = those (map json_string_item vs)"
| "decode_keys _ = None"

text \<open>The loop of _fnDel: a plain deletion, whose error is logged, then one under the lock.\<close>

fun del_keys :: "'c itf_cache \<Rightarrow> string list \<Rightarrow> ('c, 'w) cache_mem \<Rightarrow> ('c, 'w) cache_mem \<times> unit effect" where
  "del_keys ic [] m = (m, Done ())"
| "del_keys ic (key # keys) m =
     (case raw_delete ic key m of
        (m1, Done e) \<Rightarrow>
          (case mem_Delete ic key m1 of
             (m2, Done e') \<Rightarrow> del_keys ic keys m2
           | (m2, Blocks) \<Rightarrow> (m2, Blocks)
           | (m2, Crashes p) \<Rightarrow> (m2, Crashes p))
      | (m1, Blocks) \<Rightarrow> (m1, Blocks)
      | (m1, Crashes p) \<Rightarrow> (m1, Crashes p))"

definition fnDel :: "'c itf_cache \<Rightarrow> raw_message \<Rightarrow> ('c, 'w) cache_mem \<Rightarrow> ('c, 'w) cache_mem \<times> bool effect" where
  "fnDel ic p m =
     (case decode_keys p of
        None \<Rightarrow> (m, Done False)
      | Some keys \<Rightarrow>
          (case del_keys ic keys m of
             (m1, Done u) \<Rightarrow> (m1, Done True)
           | (m1, Blocks) \<Rightarrow> (m1, Blocks)
           | (m1, Crashes q) \<Rightarrow> (m1, Crashes q)))"

definition RedisSubDelCache :: "'c itf_cache \<Rightarrow> raw_message \<Rightarrow> ('c, 'w) cache_mem \<Rightarrow> ('c, 'w) cache_mem \<times> unit effect" where
  "RedisSubDelCache ic payload m =
     (case fnDel ic payload m of
        (m1, Done ok) \<Rightarrow> ((if ok then m1\<lparr>mem_timers := mem_timers m1 @ [payload]\<rparr> else m1), Done ())
      | (m1, Blocks) \<Rightarrow> (m1, Blocks)
      | (m1, Crashes q) \<Rightarrow> (m1, Crashes q))"

text \<open>A scheduled deletion fires.\<close>

definition fire_timer :: "'c itf_cache \<Rightarrow> ('c, 'w) cache_mem \<Rightarrow> ('c, 'w) cache_mem \<times> bool effect" where
  "fire_timer ic m =
     (case mem_timers m of
        [] \<Rightarrow> (m, Done False)
      | p # ps \<Rightarrow> fnDel ic p (m\<lparr>mem_timers := ps\<rparr>))"

definition RedisSubDelMemAll :: "'c itf_cache \<Rightarrow> raw_message \<Rightarrow> ('c, 'w) cache_mem \<Rightarrow> ('c, 'w) cache_mem \<times> unit effect" where
  "RedisSubDelMemAll ic payload m =
     (case ic_Reset ic (mem_cache m) of
        Panics p \<Rightarrow> (m, Crashes p)
      | Returns (c1, e) \<Rightarrow> (m\<lparr>mem_cache := c1\<rparr>, Done ()))"


section \<open>Facts\<close>

text \<open>A panic under Atomic blocks the key for good.\<close>

lemma Atomic_blocks: "lock_name key \<in> mem_held m \<Longrightarrow> mem_Atomic key fn m = (m, Blocks)"
  by (simp add: mem_Atomic_def)

lemma Atomic_free:
  assumes "lock_name key \<notin> mem_held m"
    and "fn (m\<lparr>mem_held := insert (lock_name key) (mem_held m)\<rparr>) = (m1, Done x)"
  shows "mem_Atomic key fn m = (m1\<lparr>mem_held := mem_held m1 - {lock_name key}\<rparr>, Done x)"
  using assms by (simp add: mem_Atomic_def)

lemma getOrStore_held:
  "getOrStore ic key fn m = (m1, r) \<Longrightarrow> mem_held m1 = mem_held m \<and> mem_timers m1 = mem_timers m"
  by (auto simp: getOrStore_def Let_def split: outcome.splits prod.splits if_splits option.splits)

lemma raw_delete_held:
  "raw_delete ic key m = (m1, r) \<Longrightarrow>
     mem_held m1 = mem_held m \<and> mem_timers m1 = mem_timers m \<and> mem_world m1 = mem_world m"
  by (auto simp: raw_delete_def split: outcome.splits)

lemma mem_Delete_free:
  assumes "lock_name key \<notin> mem_held m" "ic_Delete ic key (mem_cache m) = Returns (c1, e)"
  shows "mem_Delete ic key m = (m\<lparr>mem_cache := c1\<rparr>, Done e)"
  using assms by (simp add: mem_Delete_def mem_Atomic_def raw_delete_def Let_def)

context cache begin

text \<open>Whatever GetOrStore hands out without an error is the cached value or the callback's.\<close>

lemma getOrStore_value:
  assumes "inv (mem_cache m)" "getOrStore ic key fn m = (m1, Done (d, None))"
  shows "inv (mem_cache m1)"
    "view (mem_cache m) key = Some d \<and> mem_world m1 = mem_world m
     \<or> fn (mem_world m) = (mem_world m1, Returns (d, None))"
    "view (mem_cache m1) key \<in> {None, Some d}"
proof -
  obtain c1 d1 e1 where g: "ic_Get ic key (mem_cache m) = Returns (c1, d1, e1)"
    using get_returns [OF assms(1)] by blast
  note c1 = get_sound [OF assms(1) g]
  have "inv (mem_cache m1)
      \<and> (view (mem_cache m) key = Some d \<and> mem_world m1 = mem_world m
         \<or> fn (mem_world m) = (mem_world m1, Returns (d, None)))
      \<and> view (mem_cache m1) key \<in> {None, Some d}"
  proof (cases "e1 = Some ErrNotFound")
    case False
    with g assms(2) have "e1 = None" "d1 = d" "m1 = m\<lparr>mem_cache := c1\<rparr>" by (auto simp: getOrStore_def)
    moreover from this c1 have "view (mem_cache m) key = Some d" by simp
    moreover from this c1(2) have "view c1 key \<in> {None, Some d}"
      unfolding map_le_def by (cases "view c1 key") (auto simp: dom_def)
    ultimately show ?thesis using c1(1) by simp
  next
    case True
    obtain w r where f: "fn (mem_world m) = (w, r)" by fastforce
    from True g assms(2) f have r: "r = Returns (d, None)" and w: "mem_world m1 = w"
      by (auto simp: getOrStore_def Let_def split: outcome.splits option.splits)
    obtain c2 e2 where s: "ic_Set ic key d c1 = Returns (c2, e2)" using set_returns [OF c1(1)] by blast
    with True g assms(2) f r have "e2 = None" and m1: "mem_cache m1 = c2"
      by (auto simp: getOrStore_def Let_def)
    with s have "inv c2" "view c2 \<subseteq>\<^sub>m (view c1)(key \<mapsto> d)"
      using set_sound [OF c1(1) s] by auto
    moreover from this(2) have "view c2 key \<in> {None, Some d}"
      unfolding map_le_def by (cases "view c2 key") (auto simp: dom_def)
    ultimately show ?thesis using f r w m1 by simp
  qed
  then show "inv (mem_cache m1)" "view (mem_cache m) key = Some d \<and> mem_world m1 = mem_world m
     \<or> fn (mem_world m) = (mem_world m1, Returns (d, None))" "view (mem_cache m1) key \<in> {None, Some d}"
    by blast+
qed

text \<open>A key whose view is empty is loaded afresh: no old value comes back.\<close>

lemma getOrStore_reload:
  assumes "inv (mem_cache m)" "view (mem_cache m) key = None" "getOrStore ic key fn m = (m1, Done (d, None))"
  shows "fn (mem_world m) = (mem_world m1, Returns (d, None))"
  using getOrStore_value(2) [OF assms(1,3)] assms(2) by simp

lemma raw_delete_effect:
  assumes "inv (mem_cache m)"
  shows "\<exists>m1 e. raw_delete ic key m = (m1, Done e) \<and> inv (mem_cache m1)
     \<and> view (mem_cache m1) \<subseteq>\<^sub>m view (mem_cache m) \<and> (e = None \<longrightarrow> view (mem_cache m1) key = None)
     \<and> mem_held m1 = mem_held m \<and> mem_timers m1 = mem_timers m \<and> mem_world m1 = mem_world m"
  using delete_law [OF assms, of key] by (auto simp: raw_delete_def)

lemma mem_Delete_effect:
  assumes "inv (mem_cache m)" "lock_name key \<notin> mem_held m"
  shows "\<exists>m1 e. mem_Delete ic key m = (m1, Done e) \<and> inv (mem_cache m1)
     \<and> view (mem_cache m1) \<subseteq>\<^sub>m view (mem_cache m) \<and> (e = None \<longrightarrow> view (mem_cache m1) key = None)
     \<and> mem_held m1 = mem_held m \<and> mem_timers m1 = mem_timers m \<and> mem_world m1 = mem_world m"
proof -
  obtain c1 e where "ic_Delete ic key (mem_cache m) = Returns (c1, e)" "inv c1"
    "view c1 \<subseteq>\<^sub>m view (mem_cache m)" "e = None \<longrightarrow> view c1 key = None"
    using delete_law [OF assms(1), of key] by blast
  with mem_Delete_free [OF assms(2)] show ?thesis by simp
qed

end

text \<open>A cache whose Delete reports no error once the key is gone.\<close>

locale clean_cache = cache +
  assumes delete_ok: "inv c \<Longrightarrow> ic_Delete ic k c = Returns (c', e) \<Longrightarrow> view c' k = None"
begin

lemma map_le_None: "m' \<subseteq>\<^sub>m m \<Longrightarrow> m k = None \<Longrightarrow> m' k = None"
  unfolding map_le_def by (metis domIff)

lemma raw_delete_clean:
  assumes "inv (mem_cache m)" "raw_delete ic key m = (m1, Done e)"
  shows "view (mem_cache m1) key = None"
  using assms delete_ok by (auto simp: raw_delete_def split: outcome.splits)

lemma del_keys_clean:
  assumes "inv (mem_cache m)" "\<forall>k \<in> set keys. lock_name k \<notin> mem_held m"
  shows "\<exists>m1. del_keys ic keys m = (m1, Done ()) \<and> inv (mem_cache m1)
     \<and> view (mem_cache m1) \<subseteq>\<^sub>m view (mem_cache m) \<and> (\<forall>k \<in> set keys. view (mem_cache m1) k = None)
     \<and> mem_held m1 = mem_held m \<and> mem_timers m1 = mem_timers m \<and> mem_world m1 = mem_world m"
  using assms
proof (induction keys arbitrary: m)
  case (Cons key keys)
  obtain m1 e where m1: "raw_delete ic key m = (m1, Done e)" "inv (mem_cache m1)"
    "view (mem_cache m1) \<subseteq>\<^sub>m view (mem_cache m)" "mem_held m1 = mem_held m" "mem_timers m1 = mem_timers m"
    "mem_world m1 = mem_world m"
    using raw_delete_effect [OF Cons.prems(1), of key] by blast
  have k1: "view (mem_cache m1) key = None" using raw_delete_clean [OF Cons.prems(1) m1(1)] .
  obtain m2 e2 where m2: "mem_Delete ic key m1 = (m2, Done e2)" "inv (mem_cache m2)"
    "view (mem_cache m2) \<subseteq>\<^sub>m view (mem_cache m1)" "mem_held m2 = mem_held m1" "mem_timers m2 = mem_timers m1"
    "mem_world m2 = mem_world m1"
    using mem_Delete_effect [OF m1(2), of key] Cons.prems(2) m1(4) by auto
  obtain m3 where m3: "del_keys ic keys m2 = (m3, Done ())" "inv (mem_cache m3)"
    "view (mem_cache m3) \<subseteq>\<^sub>m view (mem_cache m2)" "\<forall>k \<in> set keys. view (mem_cache m3) k = None"
    "mem_held m3 = mem_held m2" "mem_timers m3 = mem_timers m2" "mem_world m3 = mem_world m2"
    using Cons.IH [OF m2(2)] Cons.prems(2) m1(4) m2(4) by auto
  have "view (mem_cache m3) \<subseteq>\<^sub>m view (mem_cache m1)" using m3(3) m2(3) by (rule map_le_trans)
  then have "view (mem_cache m3) \<subseteq>\<^sub>m view (mem_cache m)" "view (mem_cache m3) key = None"
    using m1(3) k1 by (auto intro: map_le_trans dest: map_le_None)
  with m1 m2 m3 show ?case by simp
qed simp

lemma handler_clean:
  assumes "inv (mem_cache m)" "decode_keys p = Some keys" "\<forall>k \<in> set keys. lock_name k \<notin> mem_held m"
  shows "\<exists>m1. RedisSubDelCache ic p m = (m1, Done ()) \<and> inv (mem_cache m1)
     \<and> (\<forall>k \<in> set keys. view (mem_cache m1) k = None) \<and> mem_timers m1 = mem_timers m @ [p]
     \<and> mem_held m1 = mem_held m \<and> mem_world m1 = mem_world m"
  using del_keys_clean [OF assms(1,3)] assms(2) by (auto simp: RedisSubDelCache_def fnDel_def)

end

interpretation clean_gocache: clean_cache gocache_itf gocache_documented gocache_view
proof unfold_locales
  fix g c' :: "'a gocache" and k e
  assume "gocache_documented g" "ic_Delete gocache_itf k g = Returns (c', e)"
  then show "gocache_view c' k = None"
    by (auto simp: GoCache_Delete_def gocache_documented_def gocache_view_def)
qed

interpretation clean_ristretto: clean_cache ristretto_itf ristretto_documented ristretto_view
proof unfold_locales
  fix r c' :: "'a ristretto" and k e
  assume r: "ristretto_documented r" "ic_Delete ristretto_itf k r = Returns (c', e)"
  then have "ristretto_content r (rl_del r k (rs_inc r)) \<subseteq>\<^sub>m (ristretto_content r (rs_inc r))(k := None)"
    by (simp add: ristretto_documented_def)
  from map_le_delete [OF this] r(2) show "ristretto_view c' k = None"
    by (auto simp: Ristretto_Delete_def)
qed

end
