(* ===== verification/Redis_Bus.thy ===== *)
theory Redis_Bus
  imports Cache_Mem
begin

text \<open>
  The Redis connection of src/g2db/redis.go: one client per database index, the deletion
  messages it publishes, and the subscription loop that hands received messages to the
  registered handlers.  The Redis library is the record of its calls on a world
  \<^verbatim>\<open>'w\<close>; messages are JSON values (their text is the JSON package's).
\<close>

record 'w redis_lib =
  rd_ping :: "int \<Rightarrow> 'w \<Rightarrow> 'w \<times> string option"
  rd_publish :: "string \<Rightarrow> json \<Rightarrow> 'w \<Rightarrow> 'w \<times> string option"

datatype sub_handler = DelCacheHandler | DelMemAllHandler

record redis_obj =
  ro_app_name :: string
  ro_clients :: "int set"
  ro_closed_clients :: "int set"
  ro_handlers :: "string \<rightharpoonup> sub_handler"
  ro_close_chan :: "bool option"
  ro_is_close :: bool

definition new_redis :: "string \<Rightarrow> redis_obj" where
  "new_redis name = \<lparr>ro_app_name = name, ro_clients = {}, ro_closed_clients = {}, ro_handlers = Map.empty,
                     ro_close_chan = None, ro_is_close = False\<rparr>"

text \<open>The channel \<^verbatim>\<open>closeSub\<close> is nil (\<^verbatim>\<open>None\<close>), open or closed.\<close>

definition formatWithAppName :: "redis_obj \<Rightarrow> string \<Rightarrow> string" where
  "formatWithAppName r s = ro_app_name r @ ''_'' @ s"

definition pubDelMemName :: "redis_obj \<Rightarrow> string" where
  "pubDelMemName r = ro_app_name r @ ''_'' @ ''DelMemCache''"

definition subChannel :: "redis_obj \<Rightarrow> string" where
  "subChannel r = ro_app_name r @ ''_'' @ ''Sub''"

text \<open>client: pings a new connection, panics when it does not answer.\<close>

definition redis_client :: "'w redis_lib \<Rightarrow> int list \<Rightarrow> redis_obj \<times> 'w \<Rightarrow> (redis_obj \<times> 'w) \<times> int outcome" where
  "redis_client lib dbs = (\<lambda>(r, w).
     let db = (case dbs of [] \<Rightarrow> 0 | d # _ \<Rightarrow> d)
     in if db \<in> ro_clients r then ((r, w), Returns db)
        else case rd_ping lib db w of
               (w1, Some e) \<Rightarrow> ((r, w1), Panics e)
             | (w1, None) \<Rightarrow> ((r\<lparr>ro_clients := insert db (ro_clients r)\<rparr>, w1), Returns db))"

text \<open>A message: the name is omitted when empty, the data pointer is never nil.\<close>

definition sub_payload :: "string \<Rightarrow> json \<Rightarrow> json" where
  "sub_payload name data =
     JObj ((if name = [] then [] else [(''name'', JStr name)]) @ [(''data'', data)])"

definition Pub :: "'w redis_lib \<Rightarrow> string \<Rightarrow> json \<Rightarrow> redis_obj \<times> 'w \<Rightarrow> (redis_obj \<times> 'w) \<times> string option outcome" where
  "Pub lib name data s =
     (case redis_client lib [] s of
        (s1, Panics e) \<Rightarrow> (s1, Panics e)
      | ((r1, w1), Returns db) \<Rightarrow>
          (case rd_publish lib (subChannel r1) (sub_payload name data) w1 of
             (w2, e) \<Rightarrow> ((r1, w2), Returns e)))"

definition keys_json :: "string list \<Rightarrow> json" where
  "keys_json keys = JArr (map JStr keys)"

definition PubDelCache where
  "PubDelCache lib keys s = Pub lib (pubDelMemName (fst s)) (keys_json keys) s"

definition PubDelMemAll where
  "PubDelMemAll lib s = Pub lib (formatWithAppName (fst s) ''DelMemAll'') JNull s"

definition SubHandle :: "string \<Rightarrow> sub_handler \<Rightarrow> redis_obj \<Rightarrow> redis_obj" where
  "SubHandle name h r = r\<lparr>ro_handlers := (ro_handlers r)(name \<mapsto> h)\<rparr>"

text \<open>Subscribe up to the start of the loop.\<close>

definition redis_Subscribe :: "redis_obj \<Rightarrow> redis_obj" where
  "redis_Subscribe r =
     (let r1 = r\<lparr>ro_handlers := Map.empty, ro_close_chan := Some False\<rparr>
      in SubHandle (formatWithAppName r1 ''DelMemAll'') DelMemAllHandler
           (SubHandle (pubDelMemName r1) DelCacheHandler r1))"

text \<open>closeRedisSub: the close of a nil or closed channel panics.\<close>

definition closeRedisSub :: "redis_obj \<Rightarrow> redis_obj \<times> unit outcome" where
  "closeRedisSub r =
     (if ro_is_close r then (r, Returns ())
      else let r1 = r\<lparr>ro_is_close := True\<rparr>
           in case ro_close_chan r1 of
                None \<Rightarrow> (r1, Panics ''close of nil channel'')
              | Some True \<Rightarrow> (r1, Panics ''close of closed channel'')
              | Some False \<Rightarrow> (r1\<lparr>ro_close_chan := Some True\<rparr>, Returns ()))"

text \<open>
  Decoding a received payload.  A null name leaves the field empty, a null data pointer is nil,
  which the loop replaces by an empty RawMessage; a value of another type for the name, or no
  object, is an error.
\<close>

fun payload_member :: "(string \<times> json) \<Rightarrow> (string \<times> raw_message) option \<Rightarrow> (string \<times> raw_message) option" where
  "payload_member (k, v) None = None"
| "payload_member (k, v) (Some (name, data)) =
     (if key_matches ''name'' k then
        (case v of JStr s \<Rightarrow> Some (s, data) | JNull \<Rightarrow> Some (name, data) | _ \<Rightarrow> None)
      else if key_matches ''data'' k then Some (name, (if v = JNull then None else Some v))
      else Some (name, data))"

definition decode_payload :: "json \<Rightarrow> (string \<times> raw_message) option" where
  "decode_payload j =
     (case j of
        JObj ms \<Rightarrow> fold payload_member ms (Some ([], None))
      | JNull \<Rightarrow> Some ([], None)
      | _ \<Rightarrow> None)"

datatype sub_event = SubClosed | SubFailed | SubMessage "json option"

text \<open>
  What the loop has seen so far decides whether it goes on.  \<^verbatim>\<open>SubMessage None\<close> is a
  payload that is no JSON.  With the subscription all clients are closed; they stay in the map.
\<close>

definition run_handler :: "'c itf_cache \<Rightarrow> sub_handler \<Rightarrow> raw_message \<Rightarrow> ('c, 'w) cache_mem \<Rightarrow> ('c, 'w) cache_mem \<times> unit effect" where
  "run_handler ic h data m =
     (case h of DelCacheHandler \<Rightarrow> RedisSubDelCache ic data m | DelMemAllHandler \<Rightarrow> RedisSubDelMemAll ic data m)"

definition sub_message ::
  "'c itf_cache \<Rightarrow> redis_obj \<Rightarrow> json option \<Rightarrow> ('c, 'w) cache_mem \<Rightarrow> ('c, 'w) cache_mem \<times> unit effect" where
  "sub_message ic r msg m =
     (case msg of
        None \<Rightarrow> (m, Done ())
      | Some j \<Rightarrow>
          (case decode_payload j of
             None \<Rightarrow> (m, Done ())
           | Some (name, data) \<Rightarrow>
               (case ro_handlers r name of
                  None \<Rightarrow> (m, Done ())
                | Some h \<Rightarrow> run_handler ic h data m)))"

fun subAction ::
  "'c itf_cache \<Rightarrow> sub_event list \<Rightarrow> redis_obj \<Rightarrow> ('c, 'w) cache_mem
     \<Rightarrow> redis_obj \<times> ('c, 'w) cache_mem \<times> bool effect" where
  "subAction ic [] r m = (r, m, Done False)"
| "subAction ic (SubClosed # es) r m = (r\<lparr>ro_closed_clients := ro_clients r\<rparr>, m, Done True)"
| "subAction ic (SubFailed # es) r m = (r, m, Done True)"
| "subAction ic (SubMessage msg # es) r m =
     (case sub_message ic r msg m of
        (m1, Done u) \<Rightarrow> subAction ic es r m1
      | (m1, Blocks) \<Rightarrow> (r, m1, Blocks)
      | (m1, Crashes p) \<Rightarrow> (r, m1, Crashes p))"


section \<open>Facts\<close>

lemma decode_keys_json [simp]: "decode_keys (Some (keys_json keys)) = Some keys"
  by (induction keys) (auto simp: keys_json_def)

lemma keys_json_not_null [simp]: "keys_json keys \<noteq> JNull"
  by (simp add: keys_json_def)

lemma key_matches_fields [simp]:
  "key_matches ''name'' ''name''" "\<not> key_matches ''name'' ''data''" "key_matches ''data'' ''data''"
  "\<not> key_matches ''data'' ''name''"
  by code_simp+

lemma decode_sub_payload:
  "data \<noteq> JNull \<Longrightarrow> decode_payload (sub_payload name data) = Some (name, Some data)"
  by (simp add: sub_payload_def decode_payload_def)

lemma decode_sub_payload_null: "decode_payload (sub_payload name JNull) = Some (name, None)"
  by (simp add: sub_payload_def decode_payload_def)

lemma redis_names_distinct: "formatWithAppName r ''DelMemAll'' \<noteq> pubDelMemName r"
  by (simp add: formatWithAppName_def pubDelMemName_def)

lemma subscribed_handlers [simp]:
  "ro_handlers (redis_Subscribe r) (pubDelMemName r) = Some DelCacheHandler"
  "ro_handlers (redis_Subscribe r) (formatWithAppName r ''DelMemAll'') = Some DelMemAllHandler"
  using redis_names_distinct [of r]
  by (auto simp: redis_Subscribe_def SubHandle_def Let_def formatWithAppName_def pubDelMemName_def)

lemma sub_message_del:
  "sub_message ic (redis_Subscribe r) (Some (sub_payload (pubDelMemName r) (keys_json keys))) m
     = RedisSubDelCache ic (Some (keys_json keys)) m"
  by (simp add: sub_message_def decode_sub_payload run_handler_def)

lemma sub_message_del_all:
  "sub_message ic (redis_Subscribe r) (Some (sub_payload (formatWithAppName r ''DelMemAll'') JNull)) m
     = RedisSubDelMemAll ic None m"
  by (simp add: sub_message_def decode_sub_payload_null run_handler_def)

lemma redis_client_name: "redis_client lib dbs (r, w) = ((r1, w1), res) \<Longrightarrow> ro_app_name r1 = ro_app_name r"
  by (auto simp: redis_client_def Let_def split: if_splits option.splits prod.splits)

text \<open>A second request for the same database opens no second connection.\<close>

lemma redis_client_memo:
  assumes "redis_client lib dbs (r, w) = ((r1, w1), Returns db)"
  shows "redis_client lib [db] (r1, w2) = ((r1, w2), Returns db)"
  using assms by (auto simp: redis_client_def Let_def split: if_splits option.splits prod.splits)

text \<open>Messages with no handler, or no JSON, do not stop the loop.\<close>

lemma subAction_append:
  "subAction ic es r m = (r1, m1, Done False) \<Longrightarrow> subAction ic (es @ fs) r m = subAction ic fs r1 m1"
proof (induction es arbitrary: m)
  case (Cons e es)
  then show ?case
    by (cases e) (auto split: prod.splits effect.splits)
qed simp


text \<open>
  subscribe: \<^verbatim>\<open>receive\<close> is ReceiveTimeout of the new subscription; on success the loop subAction
  starts in a goroutine.
\<close>

definition redis_subscribe ::
  "'w redis_lib \<Rightarrow> (string \<Rightarrow> 'w \<Rightarrow> 'w \<times> string option) \<Rightarrow> redis_obj \<times> 'w \<Rightarrow> (redis_obj \<times> 'w) \<times> string option outcome" where
  "redis_subscribe lib receive s =
     (let channelName = subChannel (fst s)
      in case redis_client lib [] s of
           (s1, Panics e) \<Rightarrow> (s1, Panics e)
         | ((r1, w1), Returns db) \<Rightarrow>
             (case receive channelName w1 of
                (w2, Some err) \<Rightarrow> ((r1, w2), Returns (Some (''subscribing to Redis failed: '' @ err)))
              | (w2, None) \<Rightarrow> ((r1, w2), Returns None)))"

end
