(* ===== verification/Cache_Bind.thy ===== *)
theory Cache_Bind
  imports Decimal "HOL-Library.AList" "HOL-Library.List_Lexorder" "HOL-Library.Multiset"
begin

text \<open>
  The cache keys of src/g2db: which columns of a model are cache conditions
  (findAllCacheCondition and findConditionN of cache.go), the queries of its compound indexes
  (makeQuery of mysql.go), and the list of conditions that Values sorts by length.

  A model is what reflect shows of it: fields with name, xorm tag and value, pointers already
  followed.  Parameters: xorm's name mapper \<^verbatim>\<open>fld\<close>, gubrak's OrderBy on the length
  \<^verbatim>\<open>ord\<close>, and the order in which Go iterates over a map (\<^verbatim>\<open>iter\<close>, any
  permutation).
\<close>

text \<open>\<^verbatim>\<open>GOther t z\<close> is a value of another kind, of type t, zero when z;
  \<^verbatim>\<open>GStruct z fs\<close> a struct with its fields; GNil an invalid value.\<close>

datatype gval =
    GStr string
  | GInt int
  | GOther string bool
  | GNil
  | GStruct bool "gfield list"
and gfield = Field (f_name: string) (f_tag: "string option") (f_val: gval)

definition quote :: string where "quote = [CHR 0x27]"

fun cacheValString :: "gval \<Rightarrow> string outcome" where
  "cacheValString (GStr s) = Returns (quote @ s @ quote)"
| "cacheValString (GInt i) = Returns (show_int i)"
| "cacheValString (GOther t z) = Panics (''unSupport kind:'' @ t)"
| "cacheValString GNil = Panics ''reflect: call of reflect.Value.Type on zero Value''"
| "cacheValString (GStruct z fs) = Panics ''unSupport kind:struct''"

fun valid_nonzero :: "gval \<Rightarrow> bool" where
  "valid_nonzero (GStr s) = (s \<noteq> [])"
| "valid_nonzero (GInt i) = (i \<noteq> 0)"
| "valid_nonzero (GOther t z) = (\<not> z)"
| "valid_nonzero GNil = False"
| "valid_nonzero (GStruct z fs) = (\<not> z)"

text \<open>The guards of findConditionN on the tag, before the value is looked at.\<close>

datatype tag_class = SkipField | Extends | KeyField

definition classify_tag :: "string option \<Rightarrow> tag_class" where
  "classify_tag tag =
     (case tag of
        None \<Rightarrow> SkipField
      | Some xv0 \<Rightarrow>
          if contains xv0 ''-'' then SkipField
          else let xv = to_lower xv0
               in if xv = ''extends'' then Extends
                  else if contains xv ''pk'' \<or> contains xv ''unique'' then KeyField
                  else SkipField)"

text \<open>findAllCacheCondition: the loop over the fields, and findConditionN on each.\<close>

fun findAll :: "(string \<Rightarrow> string) \<Rightarrow> gfield list \<Rightarrow> (string \<times> string) list \<Rightarrow> (string \<times> string) list outcome" where
  "findAll fld [] mp = Returns mp"
| "findAll fld (Field name tag v # fs) mp =
     (case classify_tag tag of
        SkipField \<Rightarrow> findAll fld fs mp
      | Extends \<Rightarrow>
          (case v of
             GStruct z gs \<Rightarrow> (case findAll fld gs mp of Panics p \<Rightarrow> Panics p | Returns mp1 \<Rightarrow> findAll fld fs mp1)
           | _ \<Rightarrow> Panics ''reflect: call of reflect.Value.NumField'')
      | KeyField \<Rightarrow>
          if \<not> valid_nonzero v then findAll fld fs mp
          else (case cacheValString v of
                  Panics p \<Rightarrow> Panics p
                | Returns s \<Rightarrow> findAll fld fs (AList.update (fld name) s mp)))"

record compound_index =
  ci_columns :: "(string \<times> gval) list"
  ci_unique :: bool

text \<open>makeQuery: the loop over the columns map, sort.Strings, then OrderBy length.\<close>

fun query_parts :: "(string \<Rightarrow> string) \<Rightarrow> (string \<times> gval) list \<Rightarrow> string list outcome" where
  "query_parts fld [] = Returns []"
| "query_parts fld ((k, v) # cols) =
     (if valid_nonzero v then
        bind_outcome (cacheValString v) (\<lambda>s.
          bind_outcome (query_parts fld cols) (\<lambda>rest. Returns ((fld k @ ''='' @ s) # rest)))
      else query_parts fld cols)"

definition makeQuery ::
  "(string \<Rightarrow> string) \<Rightarrow> (string list \<Rightarrow> string list) \<Rightarrow> ((string \<times> gval) list \<Rightarrow> (string \<times> gval) list)
     \<Rightarrow> compound_index \<Rightarrow> string outcome" where
  "makeQuery fld ord iter c =
     (if \<not> ci_unique c then Returns []
      else bind_outcome (query_parts fld (iter (ci_columns c))) (\<lambda>lst.
             Returns (go_join (ord (sort lst)) '' AND '')))"

record bean =
  bn_table :: string
  bn_fields :: "gfield list"
  bn_indexes :: "compound_index list option"

datatype cache_condition = CondString string | CondStrings "string list" | CondOther string

fun condition_strings :: "cache_condition \<Rightarrow> string list" where
  "condition_strings (CondString v) = [v]"
| "condition_strings (CondStrings vs) = vs"
| "condition_strings (CondOther v) = [v]"

fun index_queries ::
  "(string \<Rightarrow> string) \<Rightarrow> (string list \<Rightarrow> string list) \<Rightarrow> ((string \<times> gval) list \<Rightarrow> (string \<times> gval) list)
     \<Rightarrow> compound_index list \<Rightarrow> string list outcome" where
  "index_queries fld ord iter [] = Returns []"
| "index_queries fld ord iter (c # cs) =
     bind_outcome (makeQuery fld ord iter c) (\<lambda>v.
       bind_outcome (index_queries fld ord iter cs) (\<lambda>vs. Returns (if v \<noteq> [] then v # vs else vs)))"

text \<open>Values: the map iteration orders are those of this call.\<close>

record key_env =
  ke_field :: "string \<Rightarrow> string"
  ke_order :: "string list \<Rightarrow> string list"
  ke_iter :: "(string \<times> string) list \<Rightarrow> (string \<times> string) list"
  ke_iter_cols :: "(string \<times> gval) list \<Rightarrow> (string \<times> gval) list"

definition bind_Values :: "key_env \<Rightarrow> bean \<Rightarrow> cache_condition list \<Rightarrow> string list outcome" where
  "bind_Values ke bn condition =
     bind_outcome (findAll (ke_field ke) (bn_fields bn) []) (\<lambda>mp.
       let qs = map (\<lambda>(k, v). k @ ''='' @ v) (ke_iter ke mp)
       in bind_outcome (case bn_indexes bn of
                          None \<Rightarrow> Returns []
                        | Some cs \<Rightarrow> index_queries (ke_field ke) (ke_order ke) (ke_iter_cols ke) cs) (\<lambda>ci.
            Returns (ke_order ke (qs @ ci @ concat (map condition_strings condition)))))"

definition memKey :: "bean \<Rightarrow> string \<Rightarrow> string" where
  "memKey b key = bn_table b @ ''::'' @ key"

text \<open>CacheMemKeys of src/g2db/mysql.go.\<close>

definition CacheMemKeys :: "key_env \<Rightarrow> bean \<Rightarrow> cache_condition list \<Rightarrow> string list outcome" where
  "CacheMemKeys ke bn condition =
     bind_outcome (bind_Values ke bn condition) (\<lambda>qs. Returns (map (memKey bn) qs))"


section \<open>The key conditions of a model\<close>

text \<open>What the environment documents: OrderBy and map iteration only permute.\<close>

definition key_env_ok :: "key_env \<Rightarrow> bool" where
  "key_env_ok ke \<longleftrightarrow>
     (\<forall>xs. mset (ke_order ke xs) = mset xs) \<and> (\<forall>xs. sorted (map length (ke_order ke xs)))
     \<and> (\<forall>xs. mset (ke_iter ke xs) = mset xs) \<and> (\<forall>xs. mset (ke_iter_cols ke xs) = mset xs)"

lemma key_env_sets:
  assumes "key_env_ok ke"
  shows "set (ke_order ke xs) = set xs" "set (ke_iter ke ys) = set ys" "set (ke_iter_cols ke zs) = set zs"
  using assms unfolding key_env_ok_def by (metis set_mset_mset)+

text \<open>The flat list of key fields, through the extended structs.\<close>

fun key_fields :: "gfield list \<Rightarrow> (string \<times> gval) list" where
  "key_fields [] = []"
| "key_fields (Field name tag v # fs) =
     (case classify_tag tag of
        SkipField \<Rightarrow> key_fields fs
      | Extends \<Rightarrow> (case v of GStruct z gs \<Rightarrow> key_fields gs @ key_fields fs | _ \<Rightarrow> key_fields fs)
      | KeyField \<Rightarrow> (name, v) # key_fields fs)"

fun add_conditions :: "(string \<Rightarrow> string) \<Rightarrow> (string \<times> gval) list \<Rightarrow> (string \<times> string) list \<Rightarrow> (string \<times> string) list" where
  "add_conditions fld [] mp = mp"
| "add_conditions fld ((name, v) # kvs) mp =
     (if valid_nonzero v then
        (case cacheValString v of Returns s \<Rightarrow> add_conditions fld kvs (AList.update (fld name) s mp) | Panics p \<Rightarrow> mp)
      else add_conditions fld kvs mp)"

definition supported :: "(string \<times> gval) list \<Rightarrow> bool" where
  "supported kvs \<longleftrightarrow> list_all (\<lambda>(n, v). valid_nonzero v \<longrightarrow> (\<exists>s. cacheValString v = Returns s)) kvs"

lemma supported_Cons [simp]:
  "supported ((n, v) # kvs) \<longleftrightarrow> (valid_nonzero v \<longrightarrow> (\<exists>s. cacheValString v = Returns s)) \<and> supported kvs"
  by (simp add: supported_def)

lemma supported_append [simp]: "supported (xs @ ys) \<longleftrightarrow> supported xs \<and> supported ys"
  by (simp add: supported_def)

lemma add_conditions_append:
  "supported xs \<Longrightarrow> add_conditions fld (xs @ ys) mp = add_conditions fld ys (add_conditions fld xs mp)"
  by (induction fld xs mp rule: add_conditions.induct) auto

lemma findAll_flat:
  "findAll fld fs mp = Returns mp1 \<Longrightarrow> supported (key_fields fs) \<and> mp1 = add_conditions fld (key_fields fs) mp"
proof (induction fld fs mp arbitrary: mp1 rule: findAll.induct)
  case (2 fld name tag v fs mp)
  show ?case
  proof (cases "classify_tag tag")
    case SkipField
    with 2 show ?thesis by simp
  next
    case Extends
    with "2.prems" obtain z gs mp2 where v: "v = GStruct z gs"
      and gs: "findAll fld gs mp = Returns mp2" "findAll fld fs mp2 = Returns mp1"
      by (auto split: gval.splits outcome.splits)
    from "2.IH"(2) [OF Extends v gs(1)] have g: "supported (key_fields gs)" "mp2 = add_conditions fld (key_fields gs) mp"
      by simp_all
    from "2.IH"(3) [OF Extends v gs] have "supported (key_fields fs)" "mp1 = add_conditions fld (key_fields fs) mp2"
      by simp_all
    with Extends v g show ?thesis by (simp add: add_conditions_append)
  next
    case KeyField
    with 2 show ?thesis by (auto split: if_splits outcome.splits)
  qed
qed (simp add: supported_def)

text \<open>With distinct column names every condition is appended.\<close>

definition condition_of :: "(string \<Rightarrow> string) \<Rightarrow> string \<times> gval \<Rightarrow> (string \<times> string) list" where
  "condition_of fld nv =
     (if valid_nonzero (snd nv) then
        (case cacheValString (snd nv) of Returns s \<Rightarrow> [(fld (fst nv), s)] | Panics p \<Rightarrow> [])
      else [])"

lemma update_fresh: "k \<notin> fst ` set xs \<Longrightarrow> AList.update k v xs = xs @ [(k, v)]"
  by (induction xs) auto

lemma add_conditions_fresh:
  "supported kvs \<Longrightarrow> distinct (map (fld \<circ> fst) kvs) \<Longrightarrow> \<forall>n \<in> fst ` set kvs. fld n \<notin> fst ` set mp \<Longrightarrow>
     add_conditions fld kvs mp = mp @ concat (map (condition_of fld) kvs)"
proof (induction fld kvs mp rule: add_conditions.induct)
  case (2 fld name v kvs mp)
  show ?case
  proof (cases "valid_nonzero v")
    case True
    with "2.prems"(1) obtain s where s: "cacheValString v = Returns s" by auto
    have "\<forall>n \<in> fst ` set kvs. fld n \<notin> fst ` set (AList.update (fld name) s mp)"
      using "2.prems"(2,3) by (auto simp: update_fresh image_iff)
    with 2 True s show ?thesis by (auto simp: condition_of_def update_fresh)
  next
    case False
    with 2 show ?thesis by (auto simp: condition_of_def)
  qed
qed simp

text \<open>The conditions a model yields, as a set.\<close>

definition field_conditions :: "(string \<Rightarrow> string) \<Rightarrow> gfield list \<Rightarrow> string set" where
  "field_conditions fld fs =
     {fld n @ ''='' @ s | n v s. (n, v) \<in> set (key_fields fs) \<and> valid_nonzero v \<and> cacheValString v = Returns s}"

lemma set_add_conditions:
  assumes "supported kvs" "distinct (map (fld \<circ> fst) kvs)"
  shows "set (add_conditions fld kvs []) =
     {(fld n, s) | n v s. (n, v) \<in> set kvs \<and> valid_nonzero v \<and> cacheValString v = Returns s}"
  using add_conditions_fresh [OF assms, of "[]"]
  by (force simp: condition_of_def split: outcome.splits if_splits)

lemma set_bind_Values_fields:
  assumes "key_env_ok ke" "bind_Values ke bn cond = Returns qs"
    and "distinct (map (ke_field ke \<circ> fst) (key_fields (bn_fields bn)))"
  shows "field_conditions (ke_field ke) (bn_fields bn) \<subseteq> set qs"
    and "bn_indexes bn = None \<Longrightarrow> set qs = field_conditions (ke_field ke) (bn_fields bn) \<union> set (concat (map condition_strings cond))"
proof -
  obtain mp where mp: "findAll (ke_field ke) (bn_fields bn) [] = Returns mp"
    using assms(2) by (cases "findAll (ke_field ke) (bn_fields bn) []") (auto simp: bind_Values_def)
  have "set mp = {(ke_field ke n, s) | n v s. (n, v) \<in> set (key_fields (bn_fields bn))
      \<and> valid_nonzero v \<and> cacheValString v = Returns s}"
    using findAll_flat [OF mp] set_add_conditions [OF _ assms(3)] by simp
  then have fc: "(\<lambda>(k, v). k @ ''='' @ v) ` set mp = field_conditions (ke_field ke) (bn_fields bn)"
    by (force simp: field_conditions_def)
  obtain ci where ci: "(case bn_indexes bn of None \<Rightarrow> Returns []
      | Some cs \<Rightarrow> index_queries (ke_field ke) (ke_order ke) (ke_iter_cols ke) cs) = Returns ci"
    using assms(2) mp by (auto simp: bind_Values_def Let_def split: option.splits dest: sym)
      (metis bind_outcome.simps(2) outcome.distinct(1) outcome.exhaust)
  have qs: "qs = ke_order ke (map (\<lambda>(k, v). k @ ''='' @ v) (ke_iter ke mp) @ ci @ concat (map condition_strings cond))"
    using assms(2) mp ci by (simp add: bind_Values_def Let_def)
  then have "set qs = field_conditions (ke_field ke) (bn_fields bn) \<union> set ci \<union> set (concat (map condition_strings cond))"
    using key_env_sets [OF assms(1)] fc by auto
  moreover have "bn_indexes bn = None \<Longrightarrow> ci = []" using ci by simp
  ultimately show "field_conditions (ke_field ke) (bn_fields bn) \<subseteq> set qs"
    "bn_indexes bn = None \<Longrightarrow> set qs = field_conditions (ke_field ke) (bn_fields bn) \<union> set (concat (map condition_strings cond))"
    by auto
qed

text \<open>A partial model: every key field is zero or has the full model's value.\<close>

definition partial_of :: "gfield list \<Rightarrow> gfield list \<Rightarrow> bool" where
  "partial_of fs full \<longleftrightarrow>
     (\<forall>(n, v) \<in> set (key_fields fs). valid_nonzero v \<longrightarrow> (n, v) \<in> set (key_fields full))"

lemma field_conditions_mono:
  "partial_of fs full \<Longrightarrow> field_conditions fld fs \<subseteq> field_conditions fld full"
  by (fastforce simp: partial_of_def field_conditions_def)

end
