(* ===== verification/Bean_Map.thy ===== *)
theory Bean_Map
  imports Json_Value "HOL-Library.AList"
begin

text \<open>
  Models as JSON objects (src/g2util/map.go, src/g2util/merge_bean.go): a Map is a Go map from
  names to values, and beans are copied and merged through their JSON form.  What the JSON
  package does with a model type \<^verbatim>\<open>'b\<close> and with text is the record
  \<^verbatim>\<open>bean_codec\<close>; \<^verbatim>\<open>bc_new\<close> is reflect.New of the model's type.
\<close>

type_synonym go_map = "(string \<times> json) list"

record 'b bean_codec =
  bc_json :: "'b \<Rightarrow> string + json"
  bc_of_json :: "json \<Rightarrow> 'b \<Rightarrow> string + 'b"
  bc_print :: "json \<Rightarrow> string"
  bc_scan :: "string \<Rightarrow> string + json"
  bc_new :: "'b \<Rightarrow> 'b"

definition bean_marshal :: "'b bean_codec \<Rightarrow> 'b \<Rightarrow> string + string" where
  "bean_marshal bc b = map_sum_right (bc_print bc) (bc_json bc b)"

definition bean_unmarshal :: "'b bean_codec \<Rightarrow> string \<Rightarrow> 'b \<Rightarrow> string + 'b" where
  "bean_unmarshal bc bts b = (case bc_scan bc bts of Inl e \<Rightarrow> Inl e | Inr j \<Rightarrow> bc_of_json bc j b)"

text \<open>json.Unmarshal of an object into a Map that has entries already.\<close>

fun map_of_json :: "json \<Rightarrow> go_map \<Rightarrow> string + go_map" where
  "map_of_json (JObj ms) m = Inr (fold (\<lambda>(k, v). AList.update k v) ms m)"
| "map_of_json JNull m = Inr []"
| "map_of_json _ m = Inl ''json: cannot unmarshal into Go value of type g2util.Map''"

definition Bean2Map :: "'b bean_codec \<Rightarrow> 'b \<Rightarrow> string + go_map" where
  "Bean2Map bc b = (case bc_json bc b of Inl e \<Rightarrow> Inl e | Inr j \<Rightarrow> map_of_json j [])"

definition MergeTo :: "go_map \<Rightarrow> go_map \<Rightarrow> go_map" where
  "MergeTo m mp = fold (\<lambda>(k, v). AList.update k v) m mp"

definition ToBean :: "'b bean_codec \<Rightarrow> go_map \<Rightarrow> 'b \<Rightarrow> string + 'b" where
  "ToBean bc m b = bc_of_json bc (JObj m) b"

definition Merge2Bean :: "'b bean_codec \<Rightarrow> go_map \<Rightarrow> 'b \<Rightarrow> string + 'b" where
  "Merge2Bean bc m b =
     (case Bean2Map bc b of Inl e \<Rightarrow> Inl e | Inr mp \<Rightarrow> ToBean bc (MergeTo m mp) b)"

definition CopyBean :: "'b bean_codec \<Rightarrow> 'b \<Rightarrow> string + 'b" where
  "CopyBean bc b = (case Bean2Map bc b of Inl e \<Rightarrow> Inl e | Inr mp \<Rightarrow> ToBean bc mp (bc_new bc b))"

definition MergeBeans :: "'b bean_codec \<Rightarrow> 'b \<Rightarrow> 'b \<Rightarrow> string + 'b" where
  "MergeBeans bc dst src =
     (case Bean2Map bc src of Inl e \<Rightarrow> Inl e | Inr mp \<Rightarrow> Merge2Bean bc mp dst)"

text \<open>MergeBean of merge_bean.go: the source wins, for the whole map.\<close>

definition MergeBean :: "'b bean_codec \<Rightarrow> 'b \<Rightarrow> go_map \<Rightarrow> string + 'b" where
  "MergeBean bc dst src =
     (case bc_json bc dst of
        Inl e \<Rightarrow> Inl e
      | Inr j \<Rightarrow> (case map_of_json j [] of
                    Inl e \<Rightarrow> Inl e
                  | Inr tmp1 \<Rightarrow> bc_of_json bc (JObj (fold (\<lambda>(k, v). AList.update k v) src tmp1)) dst))"

lemma map_of_fold_update:
  "map_of (fold (\<lambda>(k, v). AList.update k v) m mp) = map_of mp ++ map_of (rev m)"
proof (induction m arbitrary: mp)
  case (Cons kv m)
  then show ?case by (cases kv) (simp add: update_conv' map_add_def fun_eq_iff split: option.splits)
qed simp

lemma map_of_MergeTo: "map_of (MergeTo m mp) = map_of mp ++ map_of (rev m)"
  by (simp add: MergeTo_def map_of_fold_update)

lemma distinct_fold_update:
  "distinct (map fst mp) \<Longrightarrow> distinct (map fst (fold (\<lambda>(k, v). AList.update k v) m mp))"
  by (induction m arbitrary: mp) (auto simp: distinct_update split: prod.splits)

lemma Bean2Map_distinct: "Bean2Map bc b = Inr mp \<Longrightarrow> distinct (map fst mp)"
  by (auto simp: Bean2Map_def distinct_fold_update split: sum.splits elim!: map_of_json.elims)

lemma MergeBean_Merge2Bean: "MergeBean bc dst src = Merge2Bean bc src dst"
  by (auto simp: MergeBean_def Merge2Bean_def Bean2Map_def ToBean_def MergeTo_def split: sum.splits)

end
