(* ===== verification/Mysql_Cache.thy ===== *)
theory Mysql_Cache
  imports Redis_Bus Cache_Bind Bean_Map
begin

text \<open>
  Cached rows and transactions (src/g2db/mysql.go, src/g2db/session.go, HasError of
  src/g2db/functions.go).  The state is the process's memory cache over the world (database
  and Redis server) and its Redis object.  xorm's engine and session are the record
  \<^verbatim>\<open>orm\<close> of their calls on the world; models are \<^verbatim>\<open>bean\<close>s with an optional
  hook per session event; the JSON package is a \<^verbatim>\<open>bean_codec\<close>.  The texts of the errors
  the package itself makes are constructors.
\<close>

datatype db_error =
    EmptyCondition
  | MysqlNotFound string
  | CacheFault cache_error
  | InsertFailed
  | NothingUpdated
  | DbError string

fun db_error_text :: "db_error \<Rightarrow> string" where
  "db_error_text (DbError s) = s"
| "db_error_text (CacheFault (CacheError s)) = s"
| "db_error_text (CacheFault ErrNotFound) = ''item not found''"
| "db_error_text (MysqlNotFound key) = ''no such row: '' @ key"
| "db_error_text EmptyCondition = ''empty condition''"
| "db_error_text InsertFailed = ''no row written''"
| "db_error_text NothingUpdated = ''no row updated''"

datatype session_mod = Unscoped | NoCache | NoLog | Wrapped nat

text \<open>The second argument of cacheGet: nil, option words, or a function on the session.\<close>

datatype get_arg = NoArg | OptionWords "string list" | SessionFun nat

fun session_mods :: "get_arg \<Rightarrow> session_mod list" where
  "session_mods NoArg = []"
| "session_mods (OptionWords ws) =
     List.map_filter (\<lambda>s. if s = ''Unscoped'' then Some Unscoped
                          else if s = ''NoCache'' then Some NoCache
                          else if s = ''NoLog'' then Some NoLog else None) ws"
| "session_mods (SessionFun n) = [Wrapped n]"

record 'w orm =
  or_begin :: "'w \<Rightarrow> 'w \<times> string option"
  or_commit :: "'w \<Rightarrow> 'w \<times> string option"
  or_rollback :: "'w \<Rightarrow> 'w \<times> string option"
  or_close :: "'w \<Rightarrow> 'w"
  or_get :: "session_mod list \<Rightarrow> string \<Rightarrow> bean \<Rightarrow> 'w \<Rightarrow> 'w \<times> (string + bean option)"
  or_get_tx :: "string \<Rightarrow> bean \<Rightarrow> 'w \<Rightarrow> 'w \<times> bean \<times> string option"
  or_insert :: "bean \<Rightarrow> 'w \<Rightarrow> 'w \<times> bean \<times> (string + nat)"
  or_delete :: "string \<Rightarrow> bean \<Rightarrow> 'w \<Rightarrow> 'w \<times> string option"
  or_update :: "string \<Rightarrow> string list \<Rightarrow> bean \<Rightarrow> 'w \<Rightarrow> 'w \<times> bean \<times> (string + nat)"

text \<open>A session hook, absent when the model's type does not implement it.\<close>

type_synonym 'w hook = "(bean \<Rightarrow> 'w \<Rightarrow> 'w \<times> bean \<times> string option) option"

record 'w hooks =
  hk_before_insert :: "'w hook"
  hk_after_insert :: "'w hook"
  hk_before_update :: "'w hook"
  hk_after_update :: "'w hook"
  hk_before_delete :: "'w hook"
  hk_after_delete :: "'w hook"

record ('c, 'w) mysql_env =
  me_itf :: "'c itf_cache"
  me_keys :: key_env
  me_orm :: "'w orm"
  me_redis :: "'w redis_lib"
  me_codec :: "bean bean_codec"
  me_hooks :: "'w hooks"

record ('c, 'w) mysql =
  my_mem :: "('c, 'w) cache_mem"
  my_redis :: redis_obj

type_synonym ('c, 'w, 'a) action = "('c, 'w) mysql \<Rightarrow> ('c, 'w) mysql \<times> 'a effect"

definition my_world :: "('c, 'w) mysql \<Rightarrow> 'w" where
  "my_world st = mem_world (my_mem st)"

definition set_world :: "'w \<Rightarrow> ('c, 'w) mysql \<Rightarrow> ('c, 'w) mysql" where
  "set_world w st = st\<lparr>my_mem := (my_mem st)\<lparr>mem_world := w\<rparr>\<rparr>"

definition on_world :: "('w \<Rightarrow> 'w \<times> 'a) \<Rightarrow> ('c, 'w) mysql \<Rightarrow> ('c, 'w) mysql \<times> 'a" where
  "on_world f st = (case f (my_world st) of (w, x) \<Rightarrow> (set_world w st, x))"

text \<open>An action that may fail, followed by the rest of the function.\<close>

definition and_then :: "('c, 'w, 'e + 'a) action \<Rightarrow> ('a \<Rightarrow> ('c, 'w, 'e + 'b) action) \<Rightarrow> ('c, 'w, 'e + 'b) action" where
  "and_then f g st =
     (case f st of
        (st1, Done (Inr x)) \<Rightarrow> g x st1
      | (st1, Done (Inl e)) \<Rightarrow> (st1, Done (Inl e))
      | (st1, Blocks) \<Rightarrow> (st1, Blocks)
      | (st1, Crashes p) \<Rightarrow> (st1, Crashes p))"

definition of_outcome :: "'a outcome \<Rightarrow> ('c, 'w, 'e + 'a) action" where
  "of_outcome r st = (case r of Returns x \<Rightarrow> (st, Done (Inr x)) | Panics p \<Rightarrow> (st, Crashes p))"

definition of_sum :: "string + 'a \<Rightarrow> ('c, 'w, db_error + 'a) action" where
  "of_sum r st = (st, Done (case r of Inl e \<Rightarrow> Inl (DbError e) | Inr x \<Rightarrow> Inr x))"

definition ok :: "'a \<Rightarrow> ('c, 'w, 'e + 'a) action" where
  "ok x st = (st, Done (Inr x))"

definition fail :: "'e \<Rightarrow> ('c, 'w, 'e + 'a) action" where
  "fail e st = (st, Done (Inl e))"

text \<open>A call of the library that reports a text.\<close>

definition orm_call :: "('w \<Rightarrow> 'w \<times> string option) \<Rightarrow> ('c, 'w, db_error + unit) action" where
  "orm_call f st =
     (case on_world f st of (st1, e) \<Rightarrow> (st1, Done (case e of None \<Rightarrow> Inr () | Some t \<Rightarrow> Inl (DbError t))))"

definition run_hook :: "'w hook \<Rightarrow> bean \<Rightarrow> ('c, 'w, db_error + bean) action" where
  "run_hook h b st =
     (case h of
        None \<Rightarrow> (st, Done (Inr b))
      | Some f \<Rightarrow> (case on_world (f b) st of
                     (st1, b1, None) \<Rightarrow> (st1, Done (Inr b1))
                   | (st1, b1, Some t) \<Rightarrow> (st1, Done (Inl (DbError t)))))"


section \<open>The row cache\<close>

definition cacheNULL :: string where "cacheNULL = ''null''"

text \<open>The callback of cacheGet: the row read through the engine, or the marker for no row.\<close>

definition cache_load ::
  "('c, 'w) mysql_env \<Rightarrow> bean \<Rightarrow> get_arg \<Rightarrow> string \<Rightarrow> 'w \<Rightarrow> 'w \<times> (string \<times> cache_error option) outcome" where
  "cache_load me bn arg query w =
     (case or_get (me_orm me) (session_mods arg) query (bc_new (me_codec me) bn) w of
        (w1, Inl e) \<Rightarrow> (w1, Returns ([], Some (CacheError e)))
      | (w1, Inr None) \<Rightarrow> (w1, Returns (cacheNULL, None))
      | (w1, Inr (Some vb)) \<Rightarrow>
          (case bean_marshal (me_codec me) vb of
             Inl e \<Rightarrow> (w1, Returns ([], Some (CacheError e)))
           | Inr b \<Rightarrow> (w1, Returns (b, None))))"

definition mem_GetOrStore ::
  "'c itf_cache \<Rightarrow> string \<Rightarrow> ('w \<Rightarrow> 'w \<times> (string \<times> cache_error option) outcome) \<Rightarrow> ('c, 'w, db_error + string) action" where
  "mem_GetOrStore ic key fn st =
     (case GetOrStore ic key fn (my_mem st) of
        (m, Done (bts, None)) \<Rightarrow> (st\<lparr>my_mem := m\<rparr>, Done (Inr bts))
      | (m, Done (bts, Some e)) \<Rightarrow> (st\<lparr>my_mem := m\<rparr>, Done (Inl (CacheFault e)))
      | (m, Blocks) \<Rightarrow> (st\<lparr>my_mem := m\<rparr>, Blocks)
      | (m, Crashes p) \<Rightarrow> (st\<lparr>my_mem := m\<rparr>, Crashes p))"

definition decode_row :: "('c, 'w) mysql_env \<Rightarrow> bean \<Rightarrow> string \<Rightarrow> string \<Rightarrow> ('c, 'w, db_error + bean) action" where
  "decode_row me bn key bts =
     (if bts = cacheNULL then fail (MysqlNotFound key) else of_sum (bean_unmarshal (me_codec me) bts bn))"

definition cacheGet :: "('c, 'w) mysql_env \<Rightarrow> bean \<Rightarrow> get_arg \<Rightarrow> cache_condition list \<Rightarrow> ('c, 'w, db_error + bean) action" where
  "cacheGet me bn arg condition =
     and_then (of_outcome (bind_Values (me_keys me) bn condition)) (\<lambda>queryList.
       case queryList of
         [] \<Rightarrow> fail EmptyCondition
       | query # _ \<Rightarrow>
           let key = memKey bn query
           in and_then (mem_GetOrStore (me_itf me) key (cache_load me bn arg query)) (decode_row me bn key))"

definition CacheGet where
  "CacheGet me bn condition = cacheGet me bn (OptionWords [''Unscoped'']) condition"

text \<open>PubDelCache on the state of this process.\<close>

definition publish_keys :: "'w redis_lib \<Rightarrow> string list \<Rightarrow> ('c, 'w, db_error + unit) action" where
  "publish_keys lib keys st =
     (case PubDelCache lib keys (my_redis st, my_world st) of
        ((r, w), Panics p) \<Rightarrow> ((set_world w st)\<lparr>my_redis := r\<rparr>, Crashes p)
      | ((r, w), Returns e) \<Rightarrow>
          ((set_world w st)\<lparr>my_redis := r\<rparr>, Done (case e of None \<Rightarrow> Inr () | Some t \<Rightarrow> Inl (DbError t))))"

definition DelCache :: "('c, 'w) mysql_env \<Rightarrow> bean \<Rightarrow> cache_condition list \<Rightarrow> ('c, 'w, db_error + unit) action" where
  "DelCache me bn condition =
     and_then (of_outcome (CacheMemKeys (me_keys me) bn condition)) (publish_keys (me_redis me))"

text \<open>CacheRestore: Set under each key's lock.\<close>

definition locked_set :: "('c, 'w) mysql_env \<Rightarrow> string \<Rightarrow> string \<Rightarrow> ('c, 'w, db_error + unit) action" where
  "locked_set me val k st =
     (case mem_Atomic k (\<lambda>m. case ic_Set (me_itf me) k val (mem_cache m) of
                               Panics p \<Rightarrow> (m, Crashes p)
                             | Returns (c1, e) \<Rightarrow> (m\<lparr>mem_cache := c1\<rparr>, Done e)) (my_mem st) of
        (m, Done None) \<Rightarrow> (st\<lparr>my_mem := m\<rparr>, Done (Inr ()))
      | (m, Done (Some e)) \<Rightarrow> (st\<lparr>my_mem := m\<rparr>, Done (Inl (CacheFault e)))
      | (m, Blocks) \<Rightarrow> (st\<lparr>my_mem := m\<rparr>, Blocks)
      | (m, Crashes p) \<Rightarrow> (st\<lparr>my_mem := m\<rparr>, Crashes p))"

fun set_all :: "('c, 'w) mysql_env \<Rightarrow> string \<Rightarrow> string list \<Rightarrow> ('c, 'w, db_error + unit) action" where
  "set_all me val [] = ok ()"
| "set_all me val (k # ks) = and_then (locked_set me val k) (\<lambda>u. set_all me val ks)"

definition CacheRestore :: "('c, 'w) mysql_env \<Rightarrow> bean \<Rightarrow> ('c, 'w, db_error + unit) action" where
  "CacheRestore me bn =
     and_then (of_sum (bean_marshal (me_codec me) bn)) (\<lambda>val.
       and_then (of_outcome (CacheMemKeys (me_keys me) bn [])) (set_all me val))"


section \<open>Transactions\<close>

text \<open>TXCallback: Close is deferred, so it also runs when the function panics.\<close>

definition close_session :: "('c, 'w) mysql_env \<Rightarrow> ('c, 'w) mysql \<Rightarrow> ('c, 'w) mysql" where
  "close_session me st = set_world (or_close (me_orm me) (my_world st)) st"

definition TXCallback :: "('c, 'w) mysql_env \<Rightarrow> ('c, 'w, db_error + 'a) action \<Rightarrow> ('c, 'w, db_error + 'a) action" where
  "TXCallback me fn st =
     (case on_world (or_begin (me_orm me)) st of
        (st1, Some e) \<Rightarrow> (close_session me st1, Done (Inl (DbError e)))
      | (st1, None) \<Rightarrow>
          (case fn st1 of
             (st2, Blocks) \<Rightarrow> (st2, Blocks)
           | (st2, Crashes p) \<Rightarrow> (close_session me st2, Crashes p)
           | (st2, Done (Inl err)) \<Rightarrow>
               (case on_world (or_rollback (me_orm me)) st2 of
                  (st3, None) \<Rightarrow> (close_session me st3, Done (Inl err))
                | (st3, Some e) \<Rightarrow>
                    (close_session me st3, Done (Inl (DbError (db_error_text err @ '',tx Rollback:'' @ e)))))
           | (st2, Done (Inr x)) \<Rightarrow>
               (case on_world (or_commit (me_orm me)) st2 of
                  (st3, None) \<Rightarrow> (close_session me st3, Done (Inr x))
                | (st3, Some e) \<Rightarrow> (close_session me st3, Done (Inl (DbError (''tx Commit:'' @ e)))))))"


section \<open>Session\<close>

definition insert_row :: "('c, 'w) mysql_env \<Rightarrow> bean \<Rightarrow> ('c, 'w, db_error + bean) action" where
  "insert_row me b st =
     (case on_world (or_insert (me_orm me) b) st of
        (st1, b1, Inl e) \<Rightarrow> (st1, Done (Inl (DbError e)))
      | (st1, b1, Inr a) \<Rightarrow> (st1, Done (if a = 0 then Inl InsertFailed else Inr b1)))"

definition Session_Insert :: "('c, 'w) mysql_env \<Rightarrow> bean \<Rightarrow> ('c, 'w, db_error + bean) action" where
  "Session_Insert me b =
     and_then (run_hook (hk_before_insert (me_hooks me)) b) (\<lambda>b1.
       and_then (insert_row me b1) (\<lambda>b2.
         and_then (DelCache me b2 []) (\<lambda>u.
           run_hook (hk_after_insert (me_hooks me)) b2)))"

definition Session_Delete :: "('c, 'w) mysql_env \<Rightarrow> bean \<Rightarrow> ('c, 'w, db_error + bean) action" where
  "Session_Delete me b =
     and_then (of_outcome (bind_Values (me_keys me) b [])) (\<lambda>queryList.
       case queryList of
         [] \<Rightarrow> ok b
       | query # _ \<Rightarrow>
           and_then (CacheGet me b []) (\<lambda>b1.
             and_then (run_hook (hk_before_delete (me_hooks me)) b1) (\<lambda>b2.
               and_then (orm_call (or_delete (me_orm me) query b2)) (\<lambda>u.
                 and_then (DelCache me b2 []) (\<lambda>u.
                   run_hook (hk_after_delete (me_hooks me)) b2)))))"

text \<open>The variadic parameters of Update, read in order; the last list and flag win.\<close>

datatype update_param = PMap go_map | PCols "string list" | PFlag bool | POther

fun update_params ::
  "('c, 'w) mysql_env \<Rightarrow> update_param list \<Rightarrow> bean \<Rightarrow> string list \<Rightarrow> bool \<Rightarrow> string + (bean \<times> string list \<times> bool)" where
  "update_params me [] b cols after = Inr (b, cols, after)"
| "update_params me (PMap m # ps) b cols after =
     (case Merge2Bean (me_codec me) m b of Inl e \<Rightarrow> Inl e | Inr b1 \<Rightarrow> update_params me ps b1 cols after)"
| "update_params me (PCols c # ps) b cols after = update_params me ps b c after"
| "update_params me (PFlag f # ps) b cols after = update_params me ps b cols f"
| "update_params me (POther # ps) b cols after = update_params me ps b cols after"

definition update_row :: "('c, 'w) mysql_env \<Rightarrow> string \<Rightarrow> string list \<Rightarrow> bean \<Rightarrow> ('c, 'w, db_error + bean) action" where
  "update_row me query cols b st =
     (case on_world (or_update (me_orm me) query cols b) st of
        (st1, b1, Inl e) \<Rightarrow> (st1, Done (Inl (DbError e)))
      | (st1, b1, Inr a) \<Rightarrow> (st1, Done (if a = 0 then Inl NothingUpdated else Inr b1)))"

definition requery :: "('c, 'w) mysql_env \<Rightarrow> bool \<Rightarrow> string \<Rightarrow> bean \<Rightarrow> ('c, 'w, db_error + bean) action" where
  "requery me after query b st =
     (if \<not> after then (st, Done (Inr b))
      else case on_world (or_get_tx (me_orm me) query b) st of
             (st1, b1, None) \<Rightarrow> (st1, Done (Inr b1))
           | (st1, b1, Some e) \<Rightarrow> (st1, Done (Inl (DbError e))))"

definition Session_Update :: "('c, 'w) mysql_env \<Rightarrow> bean \<Rightarrow> update_param list \<Rightarrow> ('c, 'w, db_error + bean) action" where
  "Session_Update me bn params =
     and_then (of_sum (CopyBean (me_codec me) bn)) (\<lambda>b0.
       and_then (CacheGet me b0 []) (\<lambda>b1.
         and_then (of_sum (MergeBeans (me_codec me) b1 bn)) (\<lambda>b2.
           and_then (of_sum (update_params me params b2 [] False)) (\<lambda>(b3, cols, after).
             and_then (of_outcome (bind_Values (me_keys me) b3 [])) (\<lambda>queryList.
               case queryList of
                 [] \<Rightarrow> ok b3
               | query # _ \<Rightarrow>
                   and_then (run_hook (hk_before_update (me_hooks me)) b3) (\<lambda>b4.
                     and_then (update_row me query cols b4) (\<lambda>b5.
                       and_then (DelCache me b5 []) (\<lambda>u.
                         and_then (run_hook (hk_after_update (me_hooks me)) b5) (\<lambda>b6.
                           requery me after query b6)))))))))"

definition Mysql_Insert where "Mysql_Insert me b = TXCallback me (Session_Insert me b)"
definition Mysql_Update where "Mysql_Update me b params = TXCallback me (Session_Update me b params)"
definition Mysql_Delete where "Mysql_Delete me b = TXCallback me (Session_Delete me b)"

text \<open>HasError of functions.go: \<^verbatim>\<open>is_redis_nil\<close> is errors.Is(e, redis.Nil).\<close>

definition HasError :: "(db_error \<Rightarrow> bool) \<Rightarrow> db_error option \<Rightarrow> bool \<times> db_error option" where
  "HasError is_redis_nil e =
     (case e of
        None \<Rightarrow> (True, None)
      | Some err \<Rightarrow>
          if (case err of MysqlNotFound key \<Rightarrow> True | _ \<Rightarrow> False) \<or> is_redis_nil err
          then (False, None) else (False, Some err))"

end
