(* ===== verification/Mysql_Facts.thy ===== *)
theory Mysql_Facts
  imports Mysql_Cache
begin

text \<open>
  Lemmas about the row cache and transactions: which calls leave the committed database as it
  is, what a transaction leaves behind, and which keys a deletion message reaches.
\<close>

section \<open>What never touches the committed database\<close>

text \<open>
  \<^verbatim>\<open>env_ok\<close> is what xorm, Redis and the hooks promise about the committed data
  \<^verbatim>\<open>c\<close>: only Commit changes it, to what the transaction sees (\<^verbatim>\<open>v\<close>).
\<close>

definition hook_ok :: "('w \<Rightarrow> 'd) \<Rightarrow> 'w hook \<Rightarrow> bool" where
  "hook_ok c h \<longleftrightarrow> (\<forall>f. h = Some f \<longrightarrow> (\<forall>b w. c (fst (f b w)) = c w))"

definition env_ok :: "('c, 'w) mysql_env \<Rightarrow> ('w \<Rightarrow> 'd) \<Rightarrow> ('w \<Rightarrow> 'd) \<Rightarrow> bool" where
  "env_ok me c v \<longleftrightarrow>
     (\<forall>w. c (fst (or_begin (me_orm me) w)) = c w)
   \<and> (\<forall>w. c (fst (or_rollback (me_orm me) w)) = c w)
   \<and> (\<forall>w. c (or_close (me_orm me) w) = c w)
   \<and> (\<forall>w w'. or_commit (me_orm me) w = (w', None) \<longrightarrow> c w' = v w)
   \<and> (\<forall>ms q b w. c (fst (or_get (me_orm me) ms q b w)) = c w)
   \<and> (\<forall>q b w. c (fst (or_get_tx (me_orm me) q b w)) = c w)
   \<and> (\<forall>b w. c (fst (or_insert (me_orm me) b w)) = c w)
   \<and> (\<forall>q b w. c (fst (or_delete (me_orm me) q b w)) = c w)
   \<and> (\<forall>q cols b w. c (fst (or_update (me_orm me) q cols b w)) = c w)
   \<and> (\<forall>d w. c (fst (rd_ping (me_redis me) d w)) = c w)
   \<and> (\<forall>ch m w. c (fst (rd_publish (me_redis me) ch m w)) = c w)
   \<and> hook_ok c (hk_before_insert (me_hooks me)) \<and> hook_ok c (hk_after_insert (me_hooks me))
   \<and> hook_ok c (hk_before_update (me_hooks me)) \<and> hook_ok c (hk_after_update (me_hooks me))
   \<and> hook_ok c (hk_before_delete (me_hooks me)) \<and> hook_ok c (hk_after_delete (me_hooks me))"

definition keeps :: "('w \<Rightarrow> 'd) \<Rightarrow> ('c, 'w, 'a) action \<Rightarrow> bool" where
  "keeps c act \<longleftrightarrow> (\<forall>st. c (my_world (fst (act st))) = c (my_world st))"

named_theorems keeps_intros "actions that keep the committed data"

lemma my_world_set_world [simp]: "my_world (set_world w st) = w"
  by (simp add: my_world_def set_world_def)

lemma my_world_upd_redis [simp]: "my_world (st\<lparr>my_redis := r\<rparr>) = my_world st"
  by (simp add: my_world_def)

lemma my_world_upd_mem [simp]: "my_world (st\<lparr>my_mem := m\<rparr>) = mem_world m"
  by (simp add: my_world_def)

lemma keeps_and_then [keeps_intros]: "keeps c f \<Longrightarrow> (\<And>x. keeps c (g x)) \<Longrightarrow> keeps c (and_then f g)"
  unfolding keeps_def and_then_def
  by (auto split: prod.splits effect.splits sum.splits) (metis fst_conv)+

lemma keeps_pure [keeps_intros]:
  "keeps c (of_outcome r)" "keeps c (of_sum s)" "keeps c (ok x)" "keeps c (fail e)"
  by (auto simp: keeps_def of_outcome_def of_sum_def ok_def fail_def split: outcome.splits)

lemma keeps_on_world: "(\<And>w. c (fst (f w)) = c w) \<Longrightarrow> c (my_world (fst (on_world f st))) = c (my_world st)"
  by (simp add: on_world_def split: prod.splits) (metis fst_conv)

lemma keeps_orm_call [keeps_intros]: "(\<And>w. c (fst (f w)) = c w) \<Longrightarrow> keeps c (orm_call f)"
  unfolding keeps_def orm_call_def on_world_def by (auto split: prod.splits) (metis fst_conv)

lemma keeps_run_hook [keeps_intros]: "hook_ok c h \<Longrightarrow> keeps c (run_hook h b)"
  unfolding keeps_def run_hook_def on_world_def hook_ok_def
  by (auto split: option.splits prod.splits) (metis fst_conv)+

lemma getOrStore_world:
  assumes "\<And>w. c (fst (fn w)) = c w"
  shows "c (mem_world (fst (GetOrStore ic key fn m))) = c (mem_world m)"
proof -
  have *: "c (mem_world (fst (getOrStore ic key fn m))) = c (mem_world m)" for m
    using assms [of "mem_world m"] by (auto simp: getOrStore_def Let_def split: outcome.splits prod.splits option.splits)
  show ?thesis
    using * [of "m\<lparr>mem_held := insert (lock_name key) (mem_held m)\<rparr>"]
    by (auto simp: GetOrStore_def mem_Atomic_def Let_def split: prod.splits effect.splits)
qed

lemma keeps_GetOrStore [keeps_intros]:
  assumes "\<And>w. c (fst (fn w)) = c w"
  shows "keeps c (mem_GetOrStore ic key fn)"
proof -
  have "c (mem_world (fst (GetOrStore ic key fn (my_mem st)))) = c (my_world st)" for st
    using getOrStore_world [of c fn ic key "my_mem st"] assms by (simp add: my_world_def)
  then show ?thesis
    unfolding keeps_def mem_GetOrStore_def
    by (auto split: prod.splits effect.splits option.splits) (metis fst_conv)+
qed

lemma cache_load_keeps: "env_ok me c v \<Longrightarrow> c (fst (cache_load me bn arg q w)) = c w"
proof -
  assume "env_ok me c v"
  then have "c (fst (or_get (me_orm me) (session_mods arg) q (bc_new (me_codec me) bn) w)) = c w"
    by (simp add: env_ok_def)
  then show ?thesis by (auto simp: cache_load_def split: prod.splits sum.splits option.splits)
qed

lemma keeps_cacheGet [keeps_intros]: "env_ok me c v \<Longrightarrow> keeps c (cacheGet me bn arg cond)"
  unfolding cacheGet_def
  by (auto intro!: keeps_intros cache_load_keeps simp: Let_def decode_row_def split: list.splits)

lemma redis_client_keeps:
  "(\<And>d w. c (fst (rd_ping lib d w)) = c w) \<Longrightarrow> redis_client lib dbs (r, w) = ((r1, w1), res) \<Longrightarrow> c w1 = c w"
  by (auto simp: redis_client_def Let_def split: if_splits option.splits prod.splits) (metis fst_conv)+

lemma keeps_publish [keeps_intros]:
  assumes "env_ok me c v"
  shows "keeps c (publish_keys (me_redis me) keys)"
proof -
  have ping: "c (fst (rd_ping (me_redis me) d w)) = c w" and pub: "c (fst (rd_publish (me_redis me) ch m w)) = c w"
    for d ch m w using assms by (simp_all add: env_ok_def)
  have "c (snd (fst (Pub (me_redis me) n dat (r, w)))) = c w" for n dat r w
  proof (cases "redis_client (me_redis me) [] (r, w)")
    case (Pair s1 res)
    obtain r1 w1 where s1: "s1 = (r1, w1)" by fastforce
    from redis_client_keeps [OF ping Pair [unfolded s1]] have "c w1 = c w" .
    with Pair s1 pub show ?thesis
      by (cases res) (auto simp: Pub_def split: prod.splits, metis fst_conv)
  qed
  then have *: "c (snd (fst (PubDelCache (me_redis me) keys (r, w)))) = c w" for r w
    by (simp add: PubDelCache_def)
  show ?thesis
    unfolding keeps_def publish_keys_def
    using * by (auto split: prod.splits outcome.splits) (metis fst_conv snd_conv)+
qed

lemma keeps_DelCache [keeps_intros]: "env_ok me c v \<Longrightarrow> keeps c (DelCache me bn cond)"
  unfolding DelCache_def by (intro keeps_intros)

lemma keeps_rows [keeps_intros]:
  assumes "env_ok me c v"
  shows "keeps c (insert_row me b)" "keeps c (update_row me q cols b)" "keeps c (requery me af q b)"
    "keeps c (orm_call (or_delete (me_orm me) q b))"
proof -
  have i: "c (fst (or_insert (me_orm me) b w)) = c w" and u: "c (fst (or_update (me_orm me) q cols b w)) = c w"
    and g: "c (fst (or_get_tx (me_orm me) q b w)) = c w" and d: "c (fst (or_delete (me_orm me) q b w)) = c w" for w
    using assms by (simp_all add: env_ok_def)
  have wi: "c (my_world (fst (on_world (or_insert (me_orm me) b) st))) = c (my_world st)"
    and wu: "c (my_world (fst (on_world (or_update (me_orm me) q cols b) st))) = c (my_world st)"
    and wg: "c (my_world (fst (on_world (or_get_tx (me_orm me) q b) st))) = c (my_world st)" for st
    using i u g by (auto intro: keeps_on_world)
  have "c (my_world (fst (insert_row me b st))) = c (my_world st)" for st
    using wi [of st] by (auto simp: insert_row_def split: prod.splits sum.splits)
  then show "keeps c (insert_row me b)" by (simp add: keeps_def)
  have "c (my_world (fst (update_row me q cols b st))) = c (my_world st)" for st
    using wu [of st] by (auto simp: update_row_def split: prod.splits sum.splits)
  then show "keeps c (update_row me q cols b)" by (simp add: keeps_def)
  have "c (my_world (fst (requery me af q b st))) = c (my_world st)" for st
    using wg [of st] by (auto simp: requery_def split: prod.splits option.splits)
  then show "keeps c (requery me af q b)" by (simp add: keeps_def)
  show "keeps c (orm_call (or_delete (me_orm me) q b))"
    using d by (rule keeps_orm_call)
qed

lemma env_ok_hooks:
  assumes "env_ok me c v"
  shows "hook_ok c (hk_before_insert (me_hooks me))" "hook_ok c (hk_after_insert (me_hooks me))"
    "hook_ok c (hk_before_update (me_hooks me))" "hook_ok c (hk_after_update (me_hooks me))"
    "hook_ok c (hk_before_delete (me_hooks me))" "hook_ok c (hk_after_delete (me_hooks me))"
  using assms by (simp_all add: env_ok_def)

lemma keeps_Session:
  assumes "env_ok me c v"
  shows "keeps c (Session_Insert me b)" "keeps c (Session_Delete me b)" "keeps c (Session_Update me b ps)"
  unfolding Session_Insert_def Session_Delete_def Session_Update_def CacheGet_def
  using assms env_ok_hooks [OF assms]
  by (auto intro!: keeps_intros split: list.splits)


lemma and_then_InrD:
  "and_then f g st = (st2, Done (Inr y)) \<Longrightarrow> \<exists>st1 x. f st = (st1, Done (Inr x)) \<and> g x st1 = (st2, Done (Inr y))"
  by (auto simp: and_then_def split: prod.splits effect.splits sum.splits)

lemma ok_InrD [dest]: "ok x st = (st1, Done (Inr y)) \<Longrightarrow> st1 = st \<and> y = x"
  by (simp add: ok_def)

lemma fail_Inr [simp]: "fail e st \<noteq> (st1, Done (Inr y))"
  by (simp add: fail_def)


section \<open>Transactions\<close>

text \<open>Either everything the function did is committed, or nothing is.\<close>

lemma TXCallback_atomic_aux:
  assumes env: "env_ok me c v" and fn: "keeps c fn" and run: "TXCallback me fn st = (st', r)"
  shows "c (my_world st') = c (my_world st)
     \<or> (\<exists>st1 st2 x. fn st1 = (st2, Done (Inr x)) \<and> c (my_world st1) = c (my_world st)
          \<and> (r = Done (Inr x) \<and> c (my_world st') = v (my_world st2)
             \<or> (\<exists>t. r = Done (Inl (DbError (''tx Commit:'' @ t))))))"
    and "r = Done (Inr x) \<Longrightarrow>
      \<exists>st1 st2. fn st1 = (st2, Done (Inr x)) \<and> c (my_world st') = v (my_world st2)"
proof -
  have bgn: "c (fst (or_begin (me_orm me) w)) = c w" and roll: "c (fst (or_rollback (me_orm me) w)) = c w"
    and close: "c (or_close (me_orm me) w) = c w"
    and commit: "or_commit (me_orm me) w = (w', None) \<Longrightarrow> c w' = v w" for w w'
    using env by (simp_all add: env_ok_def)
  have cl: "c (my_world (close_session me s)) = c (my_world s)" for s by (simp add: close_session_def close)
  obtain st1 b where st1: "on_world (or_begin (me_orm me)) st = (st1, b)" by fastforce
  with keeps_on_world [of c "or_begin (me_orm me)" st, OF bgn] have c1: "c (my_world st1) = c (my_world st)" by simp
  obtain st2 r2 where st2: "fn st1 = (st2, r2)" by fastforce
  with fn have c2: "c (my_world st2) = c (my_world st1)" by (metis keeps_def fst_conv)
  have c3: "c (my_world s3) = c (my_world st2)" if "on_world (or_rollback (me_orm me)) st2 = (s3, e)" for s3 e
    using keeps_on_world [of c "or_rollback (me_orm me)" st2, OF roll] that by simp
  have c4: "c (my_world s3) = v (my_world st2)" if "on_world (or_commit (me_orm me)) st2 = (s3, None)" for s3
    using that commit by (auto simp: on_world_def split: prod.splits)
  show "c (my_world st') = c (my_world st)
     \<or> (\<exists>st1 st2 x. fn st1 = (st2, Done (Inr x)) \<and> c (my_world st1) = c (my_world st)
          \<and> (r = Done (Inr x) \<and> c (my_world st') = v (my_world st2)
             \<or> (\<exists>t. r = Done (Inl (DbError (''tx Commit:'' @ t))))))"
    using run st1 st2 c1 c2 c3 c4 cl unfolding TXCallback_def
    by (fastforce split: option.splits effect.splits sum.splits prod.splits)
  show "\<exists>st1 st2. fn st1 = (st2, Done (Inr x)) \<and> c (my_world st') = v (my_world st2)" if "r = Done (Inr x)"
    using run st1 st2 c4 cl that unfolding TXCallback_def
    by (fastforce split: option.splits effect.splits sum.splits prod.splits)
qed


section \<open>Keys of readers and of deletions\<close>

lemma first_key_covered:
  assumes "key_env_ok ke"
    and "distinct (map (ke_field ke \<circ> fst) (key_fields (bn_fields part)))"
    and "distinct (map (ke_field ke \<circ> fst) (key_fields (bn_fields full)))"
    and "bn_indexes part = None" "bn_table part = bn_table full"
    and "partial_of (bn_fields part) (bn_fields full)"
    and "bind_Values ke part [] = Returns (q # qs)" "CacheMemKeys ke full cond = Returns keys"
  shows "memKey part q \<in> set keys"
proof -
  obtain qf where qf: "bind_Values ke full cond = Returns qf" "keys = map (memKey full) qf"
    using assms(8) by (cases "bind_Values ke full cond") (auto simp: CacheMemKeys_def)
  have "q \<in> field_conditions (ke_field ke) (bn_fields part)"
    using set_bind_Values_fields(2) [OF assms(1) assms(7) assms(2,4)] by auto
  then have "q \<in> field_conditions (ke_field ke) (bn_fields full)"
    using field_conditions_mono [OF assms(6)] by blast
  then have "q \<in> set qf" using set_bind_Values_fields(1) [OF assms(1) qf(1) assms(3)] by blast
  with qf(2) assms(5) show ?thesis by (auto simp: memKey_def)
qed

context clean_cache begin

text \<open>Once a subscriber has handled a deletion, every reader of one of its keys loads afresh.\<close>

lemma deletion_reaches:
  assumes "inv (mem_cache m)" "\<forall>k \<in> set keys. lock_name k \<notin> mem_held m" "key \<in> set keys"
  shows "\<exists>m1. subAction ic [SubMessage (Some (sub_payload (pubDelMemName r) (keys_json keys)))] (redis_Subscribe r) m
            = (redis_Subscribe r, m1, Done False)
     \<and> (\<forall>fn m2 d. GetOrStore ic key fn m1 = (m2, Done (d, None)) \<longrightarrow>
           fn (mem_world m1) = (mem_world m2, Returns (d, None)))"
proof -
  obtain m1 where m1: "RedisSubDelCache ic (Some (keys_json keys)) m = (m1, Done ())" "inv (mem_cache m1)"
    "view (mem_cache m1) key = None" "mem_held m1 = mem_held m"
    using handler_clean [OF assms(1) decode_keys_json assms(2)] assms(3) by blast
  have free: "lock_name key \<notin> mem_held m1" using m1(4) assms(2,3) by auto
  have "fn (mem_world m1) = (mem_world m2, Returns (d, None))"
    if g: "GetOrStore ic key fn m1 = (m2, Done (d, None))" for fn m2 d
  proof -
    let ?l = "m1\<lparr>mem_held := insert (lock_name key) (mem_held m1)\<rparr>"
    obtain m3 where "getOrStore ic key fn ?l = (m3, Done (d, None))" "mem_world m2 = mem_world m3"
      using g free by (auto simp: GetOrStore_def mem_Atomic_def Let_def split: prod.splits effect.splits)
    with getOrStore_reload [of ?l key fn m3 d] m1(2,3) show ?thesis by simp
  qed
  with m1(1) show ?thesis by (auto simp: sub_message_del)
qed

end

end
