(* ===== verification/Key_Change.thy ===== *)
theory Key_Change
  imports Mysql_Facts
begin

text \<open>
  Deletions and the keys they do not name.  DelCache of src/g2db/mysql.go publishes the keys of
  the model as it is after an update (src/g2db/session.go); a key column that the update changed
  is not among them with its old value.
\<close>

locale steady_cache = clean_cache ic inv view + exact_cache ic inv view
  for ic :: "'c itf_cache" and inv :: "'c \<Rightarrow> bool" and view :: "'c \<Rightarrow> string \<Rightarrow> string option" +
  assumes delete_other: "inv c \<Longrightarrow> ic_Delete ic k c = Returns (c', e) \<Longrightarrow> k' \<noteq> k \<Longrightarrow> view c' k' = view c k'"
begin

lemma raw_delete_other:
  "inv (mem_cache m) \<Longrightarrow> raw_delete ic k m = (m1, Done e) \<Longrightarrow> k' \<noteq> k \<Longrightarrow> view (mem_cache m1) k' = view (mem_cache m) k'"
  using delete_other by (auto simp: raw_delete_def split: outcome.splits)

lemma mem_Delete_other:
  assumes "inv (mem_cache m)" "lock_name k \<notin> mem_held m" "mem_Delete ic k m = (m1, Done e)" "k' \<noteq> k"
  shows "view (mem_cache m1) k' = view (mem_cache m) k'"
proof -
  obtain c1 e1 where "ic_Delete ic k (mem_cache m) = Returns (c1, e1)" using delete_returns [OF assms(1)] by blast
  with mem_Delete_free [OF assms(2)] assms(3) delete_other [OF assms(1) _ assms(4)] show ?thesis by auto
qed

lemma del_keys_other:
  assumes "inv (mem_cache m)" "\<forall>k \<in> set keys. lock_name k \<notin> mem_held m" "key \<notin> set keys"
  shows "\<exists>m1. del_keys ic keys m = (m1, Done ()) \<and> inv (mem_cache m1) \<and> mem_held m1 = mem_held m
    \<and> mem_timers m1 = mem_timers m \<and> mem_world m1 = mem_world m \<and> view (mem_cache m1) key = view (mem_cache m) key"
  using assms
proof (induction keys arbitrary: m)
  case (Cons k ks)
  obtain m1 e1 where m1: "raw_delete ic k m = (m1, Done e1)" "inv (mem_cache m1)" "mem_held m1 = mem_held m"
    "mem_timers m1 = mem_timers m" "mem_world m1 = mem_world m"
    using raw_delete_effect [OF Cons.prems(1), of k] by blast
  then have free: "lock_name k \<notin> mem_held m1" using Cons.prems(2) by simp
  obtain m2 e2 where m2: "mem_Delete ic k m1 = (m2, Done e2)" "inv (mem_cache m2)" "mem_held m2 = mem_held m1"
    "mem_timers m2 = mem_timers m1" "mem_world m2 = mem_world m1"
    using mem_Delete_effect [OF m1(2) free] by blast
  have "view (mem_cache m2) key = view (mem_cache m) key"
    using raw_delete_other [OF Cons.prems(1) m1(1)] mem_Delete_other [OF m1(2) free m2(1)] Cons.prems(3) by simp
  moreover have "\<forall>k \<in> set ks. lock_name k \<notin> mem_held m2" using Cons.prems(2) m1(3) m2(3) by simp
  ultimately show ?case using Cons.IH [OF m2(2)] Cons.prems(3) m1 m2 by auto
qed simp

text \<open>A cached value is handed out without running the loader.\<close>

lemma GetOrStore_hit:
  assumes "inv (mem_cache m)" "view (mem_cache m) key = Some d" "lock_name key \<notin> mem_held m"
  shows "\<exists>m1. GetOrStore ic key fn m = (m1, Done (d, None)) \<and> mem_world m1 = mem_world m"
proof -
  let ?l = "m\<lparr>mem_held := insert (lock_name key) (mem_held m)\<rparr>"
  obtain c' where "ic_Get ic key (mem_cache m) = Returns (c', d, None)"
    using get_exact [OF assms(1,2)] by blast
  then have "getOrStore ic key fn ?l = (?l\<lparr>mem_cache := c'\<rparr>, Done (d, None))" by (simp add: getOrStore_def Let_def)
  from Atomic_free [where fn = "getOrStore ic key fn", OF assms(3) this] show ?thesis by (simp add: GetOrStore_def)
qed

lemma deletion_spares:
  assumes "inv (mem_cache m)" "mem_held m = {}" "key \<notin> set keys" "view (mem_cache m) key = Some d"
  shows "\<exists>m1. subAction ic [SubMessage (Some (sub_payload (pubDelMemName r) (keys_json keys)))] (redis_Subscribe r) m
            = (redis_Subscribe r, m1, Done False)
     \<and> (\<forall>fn. \<exists>m2. GetOrStore ic key fn m1 = (m2, Done (d, None)) \<and> mem_world m2 = mem_world m)"
proof -
  obtain m1 where m1: "del_keys ic keys m = (m1, Done ())" "inv (mem_cache m1)" "mem_held m1 = mem_held m"
    "mem_world m1 = mem_world m" "view (mem_cache m1) key = view (mem_cache m) key"
    using del_keys_other [OF assms(1) _ assms(3)] assms(2) by auto
  let ?m = "m1\<lparr>mem_timers := mem_timers m1 @ [Some (keys_json keys)]\<rparr>"
  have "RedisSubDelCache ic (Some (keys_json keys)) m = (?m, Done ())"
    using m1(1) decode_keys_json by (simp add: RedisSubDelCache_def fnDel_def)
  then have sub: "subAction ic [SubMessage (Some (sub_payload (pubDelMemName r) (keys_json keys)))] (redis_Subscribe r) m
      = (redis_Subscribe r, ?m, Done False)" by (simp add: sub_message_del)
  have "\<exists>m2. GetOrStore ic key fn ?m = (m2, Done (d, None)) \<and> mem_world m2 = mem_world m" for fn
    using GetOrStore_hit [of ?m key d fn] m1 assms(2,4) by simp
  with sub show ?thesis by blast
qed

end

interpretation steady_gocache: steady_cache gocache_itf gocache_documented gocache_view
proof unfold_locales
  fix g c' :: "'a gocache" and k k' e
  assume "gocache_documented g" "ic_Delete gocache_itf k g = Returns (c', e)" "k' \<noteq> k"
  then show "gocache_view c' k' = gocache_view g k'"
    by (auto simp: GoCache_Delete_def gocache_documented_def gocache_view_def)
qed

lemma split_at_first: "c \<notin> set a \<Longrightarrow> c \<notin> set b \<Longrightarrow> a @ c # x = b @ c # y \<Longrightarrow> a = b \<and> x = y"
  by (induction a arbitrary: b) (auto simp: Cons_eq_append_conv)

text \<open>The key of an old value is not among the keys of the model that has the new one.\<close>

lemma old_key_absent:
  assumes "key_env_ok ke" "bn_indexes full = None" "CacheMemKeys ke full [] = Returns keys"
    and "distinct (map (ke_field ke \<circ> fst) (key_fields (bn_fields full)))"
    and "\<forall>kv \<in> set (key_fields (bn_fields full)). CHR ''='' \<notin> set (ke_field ke (fst kv))"
    and "(n, v) \<in> set (key_fields (bn_fields full))" "cacheValString v \<noteq> Returns old"
  shows "memKey full (ke_field ke n @ ''='' @ old) \<notin> set keys"
proof
  assume a: "memKey full (ke_field ke n @ ''='' @ old) \<in> set keys"
  obtain qf where qf: "bind_Values ke full [] = Returns qf" "keys = map (memKey full) qf"
    using assms(3) by (cases "bind_Values ke full []") (auto simp: CacheMemKeys_def)
  then have "ke_field ke n @ ''='' @ old \<in> set qf" using a by (auto simp: memKey_def)
  with set_bind_Values_fields(2) [OF assms(1) qf(1) assms(4,2)]
  obtain n' v' s where f: "(n', v') \<in> set (key_fields (bn_fields full))" "cacheValString v' = Returns s"
    "ke_field ke n @ ''='' @ old = ke_field ke n' @ ''='' @ s"
    by (auto simp: field_conditions_def)
  have "CHR ''='' \<notin> set (ke_field ke n)" "CHR ''='' \<notin> set (ke_field ke n')" using assms(5,6) f(1) by force+
  with f(3) have eq: "ke_field ke n = ke_field ke n'" "old = s"
    using split_at_first by (metis append.simps append_Cons)+
  have "inj_on (ke_field ke \<circ> fst) (set (key_fields (bn_fields full)))"
    using assms(4) by (simp add: distinct_map)
  from inj_onD [OF this, of "(n, v)" "(n', v')"] eq(1) assms(6) f(1) have "(n, v) = (n', v')" by simp
  with f(2) eq(2) assms(7) show False by simp
qed

lemma bind_outcome_Returns_iff: "bind_outcome r f = Returns y \<longleftrightarrow> (\<exists>x. r = Returns x \<and> f x = Returns y)"
  by (cases r) auto

text \<open>A condition shorter than every key condition comes first.\<close>

lemma shortest_first:
  assumes "key_env_ok ke" "bn_indexes bn = None" "bind_Values ke bn [CondString c] = Returns qs"
    and "distinct (map (ke_field ke \<circ> fst) (key_fields (bn_fields bn)))"
    and "\<forall>k \<in> field_conditions (ke_field ke) (bn_fields bn). length c < length k"
  shows "\<exists>rest. qs = c # rest"
proof -
  have set: "set qs = field_conditions (ke_field ke) (bn_fields bn) \<union> {c}"
    using set_bind_Values_fields(2) [OF assms(1,3,4,2)] by simp
  have "sorted (map length qs)"
    using assms(1,3) by (auto simp: bind_Values_def Let_def key_env_ok_def bind_outcome_Returns_iff split: option.splits)
  moreover obtain q rest where qs: "qs = q # rest" using set by (cases qs) auto
  ultimately have "\<forall>k \<in> set qs. length q \<le> length k" by auto
  then have "length q \<le> length c" using set by blast
  moreover have "q \<in> field_conditions (ke_field ke) (bn_fields bn) \<union> {c}" using set qs by auto
  ultimately have "q = c" using assms(5) by force
  with qs show ?thesis by blast
qed

end
