(* ===== verification/Write_Announce.thy ===== *)
theory Write_Announce
  imports Mysql_Facts
begin

text \<open>
  What a committed write announces (src/g2db/session.go, src/g2db/mysql.go): one deletion message
  with the cache keys of the row it wrote.  \<^verbatim>\<open>pub w\<close> is the list of the messages published so
  far.
\<close>

section \<open>Actions that leave the Redis object alone\<close>

definition redis_kept :: "('c, 'w, 'a) action \<Rightarrow> bool" where
  "redis_kept act \<longleftrightarrow> (\<forall>st. my_redis (fst (act st)) = my_redis st)"

named_theorems redis_intros "actions that leave the Redis object as it is"

lemma my_redis_set_world [simp]: "my_redis (set_world w st) = my_redis st"
  by (simp add: set_world_def)

lemma my_redis_on_world [simp]: "on_world f st = (st1, x) \<Longrightarrow> my_redis st1 = my_redis st"
  by (auto simp: on_world_def split: prod.splits)

lemma redis_kept_and_then [redis_intros]: "redis_kept f \<Longrightarrow> (\<And>x. redis_kept (g x)) \<Longrightarrow> redis_kept (and_then f g)"
  unfolding redis_kept_def and_then_def
  by (auto split: prod.splits effect.splits sum.splits) (metis fst_conv)+

lemma redis_kept_pure [redis_intros]:
  "redis_kept (of_outcome r)" "redis_kept (of_sum s)" "redis_kept (ok x)" "redis_kept (fail e)"
  by (auto simp: redis_kept_def of_outcome_def of_sum_def ok_def fail_def split: outcome.splits)

lemma redis_kept_calls [redis_intros]:
  "redis_kept (orm_call f)" "redis_kept (run_hook h b)" "redis_kept (mem_GetOrStore ic key fn)"
  "redis_kept (update_row me q cols b)" "redis_kept (insert_row me b)" "redis_kept (requery me af q b)"
  by (auto simp: redis_kept_def orm_call_def run_hook_def mem_GetOrStore_def update_row_def insert_row_def requery_def
      split: prod.splits option.splits effect.splits sum.splits)

lemma redis_kept_CacheGet [redis_intros]: "redis_kept (CacheGet me bn cond)"
  unfolding CacheGet_def cacheGet_def
  by (auto intro!: redis_intros simp: Let_def decode_row_def split: list.splits)


section \<open>Announcements\<close>

definition silent_redis :: "'w redis_lib" where
  "silent_redis = \<lparr>rd_ping = (\<lambda>d w. (w, None)), rd_publish = (\<lambda>ch m w. (w, None))\<rparr>"

text \<open>Only a successful publication changes the list of messages.\<close>

definition announcing :: "('c, 'w) mysql_env \<Rightarrow> ('w \<Rightarrow> json list) \<Rightarrow> bool" where
  "announcing me pub \<longleftrightarrow>
     env_ok (me\<lparr>me_redis := silent_redis\<rparr>) pub pub
   \<and> (\<forall>d w. pub (fst (rd_ping (me_redis me) d w)) = pub w)
   \<and> (\<forall>ch m w w1. rd_publish (me_redis me) ch m w = (w1, None) \<longrightarrow> pub w1 = pub w @ [m])"

definition deletion_message :: "redis_obj \<Rightarrow> string list \<Rightarrow> json" where
  "deletion_message r keys = sub_payload (pubDelMemName r) (keys_json keys)"

text \<open>The row a write of the library wrote or deleted.\<close>

definition wrote :: "('c, 'w) mysql_env \<Rightarrow> bean \<Rightarrow> bool" where
  "wrote me full \<longleftrightarrow>
     (\<exists>b w w1 a. or_insert (me_orm me) b w = (w1, full, Inr a))
   \<or> (\<exists>q cols b w w1 a. or_update (me_orm me) q cols b w = (w1, full, Inr a))
   \<or> (\<exists>q w w1. or_delete (me_orm me) q full w = (w1, None))"

definition announced :: "('c, 'w) mysql_env \<Rightarrow> ('w \<Rightarrow> json list) \<Rightarrow> ('c, 'w) mysql \<Rightarrow> ('c, 'w) mysql \<Rightarrow> bool" where
  "announced me pub st st1 \<longleftrightarrow>
     (\<exists>full keys. wrote me full \<and> CacheMemKeys (me_keys me) full [] = Returns keys
        \<and> pub (my_world st1) = pub (my_world st) @ [deletion_message (my_redis st) keys])"

text \<open>Actions that announce nothing.\<close>

definition quiet_action :: "('w \<Rightarrow> json list) \<Rightarrow> ('c, 'w, 'a) action \<Rightarrow> bool" where
  "quiet_action pub act \<longleftrightarrow> keeps pub act \<and> redis_kept act"

lemma quiet_actionD: "quiet_action pub act \<Longrightarrow> act st = (st1, r) \<Longrightarrow>
    pub (my_world st1) = pub (my_world st) \<and> my_redis st1 = my_redis st"
  by (metis quiet_action_def keeps_def redis_kept_def fst_conv)

lemma quiet_calls:
  assumes "announcing me pub"
  shows "quiet_action pub (CacheGet me bn cond)" "quiet_action pub (insert_row me b)" "quiet_action pub (update_row me q cols b)"
    "quiet_action pub (requery me af q b)" "quiet_action pub (orm_call (or_delete (me_orm me) q b))"
    "quiet_action pub (run_hook (hk_before_insert (me_hooks me)) b)" "quiet_action pub (run_hook (hk_after_insert (me_hooks me)) b)"
    "quiet_action pub (run_hook (hk_before_update (me_hooks me)) b)" "quiet_action pub (run_hook (hk_after_update (me_hooks me)) b)"
    "quiet_action pub (run_hook (hk_before_delete (me_hooks me)) b)" "quiet_action pub (run_hook (hk_after_delete (me_hooks me)) b)"
    "quiet_action pub (of_outcome r :: ('c, 'w, db_error + 'z) action)" "quiet_action pub (of_sum s1)"
proof -
  let ?me = "me\<lparr>me_redis := silent_redis\<rparr>"
  from assms have e: "env_ok ?me pub pub" by (simp add: announcing_def)
  have "cacheGet ?me bn (OptionWords [''Unscoped'']) cond = cacheGet me bn (OptionWords [''Unscoped'']) cond"
  proof -
    have sel: "me_itf ?me = me_itf me" "me_keys ?me = me_keys me" "me_orm ?me = me_orm me" "me_codec ?me = me_codec me"
      by simp_all
    show ?thesis unfolding cacheGet_def cache_load_def decode_row_def sel ..
  qed
  then have "keeps pub (CacheGet me bn cond)" using keeps_cacheGet [OF e] by (metis CacheGet_def)
  then show "quiet_action pub (CacheGet me bn cond)" by (simp add: quiet_action_def redis_kept_CacheGet)
  have same: "insert_row ?me = insert_row me" "update_row ?me = update_row me" "requery ?me = requery me"
    by (simp_all add: insert_row_def update_row_def requery_def fun_eq_iff)
  show "quiet_action pub (insert_row me b)" "quiet_action pub (update_row me q cols b)" "quiet_action pub (requery me af q b)"
    using keeps_rows [OF e] unfolding same by (simp_all add: quiet_action_def redis_intros)
  show "quiet_action pub (orm_call (or_delete (me_orm me) q b))"
    using keeps_rows(4) [OF e] by (simp add: quiet_action_def redis_intros)
  show "quiet_action pub (run_hook (hk_before_insert (me_hooks me)) b)" "quiet_action pub (run_hook (hk_after_insert (me_hooks me)) b)"
    "quiet_action pub (run_hook (hk_before_update (me_hooks me)) b)" "quiet_action pub (run_hook (hk_after_update (me_hooks me)) b)"
    "quiet_action pub (run_hook (hk_before_delete (me_hooks me)) b)" "quiet_action pub (run_hook (hk_after_delete (me_hooks me)) b)"
    using env_ok_hooks [OF e] by (simp_all add: quiet_action_def redis_intros keeps_run_hook)
  show "quiet_action pub (of_outcome r :: ('c, 'w, db_error + 'z) action)" "quiet_action pub (of_sum s1)"
    by (simp_all add: quiet_action_def redis_intros keeps_intros)
qed

text \<open>Publishing the keys of a model appends their message.\<close>

lemma redis_client_name_pub:
  assumes "announcing me pub" "redis_client (me_redis me) dbs (r, w) = ((r1, w1), res)"
  shows "ro_app_name r1 = ro_app_name r \<and> pub w1 = pub w"
proof -
  have "\<And>d w. pub (fst (rd_ping (me_redis me) d w)) = pub w" using assms(1) by (simp add: announcing_def)
  from redis_client_keeps [of pub, OF this assms(2)] redis_client_name [OF assms(2)] show ?thesis by simp
qed

lemma pubDelMemName_cong: "ro_app_name r = ro_app_name r' \<Longrightarrow> pubDelMemName r = pubDelMemName r'"
  by (simp add: pubDelMemName_def)

lemma DelCache_announces:
  assumes "announcing me pub" "DelCache me bn [] st = (st1, Done (Inr u))"
  shows "\<exists>keys. CacheMemKeys (me_keys me) bn [] = Returns keys
    \<and> pub (my_world st1) = pub (my_world st) @ [deletion_message (my_redis st) keys]"
proof -
  from and_then_InrD [OF assms(2) [unfolded DelCache_def]] obtain st0 keys
    where k: "of_outcome (CacheMemKeys (me_keys me) bn []) st = (st0, Done (Inr keys) :: (db_error + string list) effect)"
    and p: "publish_keys (me_redis me) keys st0 = (st1, Done (Inr u))" by blast
  from k have st0: "st0 = st" "CacheMemKeys (me_keys me) bn [] = Returns keys"
    by (auto simp: of_outcome_def split: outcome.splits)
  obtain r1 w1 res where cl: "redis_client (me_redis me) [] (my_redis st, my_world st) = ((r1, w1), res)" by (metis surj_pair)
  note c = redis_client_name_pub [OF assms(1) cl]
  from p st0(1) cl obtain db w2 where res: "res = Returns db"
    and pub: "rd_publish (me_redis me) (subChannel r1) (deletion_message (my_redis st) keys) w1 = (w2, None)"
    and w: "my_world st1 = w2"
    unfolding publish_keys_def PubDelCache_def Pub_def deletion_message_def
    by (auto split: prod.splits outcome.splits option.splits)
  with assms(1) c have "pub w2 = pub (my_world st) @ [deletion_message (my_redis st) keys]"
    by (simp add: announcing_def)
  with st0(2) w show ?thesis by auto
qed

lemma announced_around:
  assumes "pub (my_world st1) = pub (my_world st)" "my_redis st1 = my_redis st"
    and "wrote me full" "CacheMemKeys (me_keys me) full [] = Returns keys"
    and "pub (my_world st2) = pub (my_world st1) @ [deletion_message (my_redis st1) keys]" "pub (my_world st3) = pub (my_world st2)"
  shows "announced me pub st st3"
  using assms by (auto simp: announced_def)

lemma insert_row_wrote: "insert_row me b st = (st1, Done (Inr b1)) \<Longrightarrow> wrote me b1"
  by (auto simp: insert_row_def on_world_def wrote_def split: prod.splits sum.splits if_splits)

lemma update_row_wrote: "update_row me q cols b st = (st1, Done (Inr b1)) \<Longrightarrow> wrote me b1"
  by (auto simp: update_row_def on_world_def wrote_def split: prod.splits sum.splits if_splits)

lemma delete_wrote: "orm_call (or_delete (me_orm me) q b) st = (st1, Done (Inr u)) \<Longrightarrow> wrote me b"
  by (auto simp: orm_call_def on_world_def wrote_def split: prod.splits option.splits)

text \<open>The row is written, its keys are announced, and what follows announces nothing.\<close>

lemma write_then_announce:
  assumes "announcing me pub" "pub (my_world st1) = pub (my_world st)" "my_redis st1 = my_redis st" "wrote me full"
    and "and_then (DelCache me full []) (\<lambda>u. act) st1 = (st3, Done (Inr x))" "quiet_action pub act"
  shows "announced me pub st st3"
proof -
  from and_then_InrD [OF assms(5)] obtain st2 u where
    d: "DelCache me full [] st1 = (st2, Done (Inr u))" and a: "act st2 = (st3, Done (Inr x))" by blast
  obtain keys where k: "CacheMemKeys (me_keys me) full [] = Returns keys"
    "pub (my_world st2) = pub (my_world st1) @ [deletion_message (my_redis st1) keys]"
    using DelCache_announces [OF assms(1) d] by blast
  from quiet_actionD [OF assms(6) a] announced_around [OF assms(2-4) k] show ?thesis by blast
qed

lemma quiet_and_then: "quiet_action pub f \<Longrightarrow> (\<And>x. quiet_action pub (g x)) \<Longrightarrow> quiet_action pub (and_then f g)"
  by (simp add: quiet_action_def keeps_and_then redis_kept_and_then)

lemma Session_Insert_announces:
  assumes "announcing me pub" "Session_Insert me b st = (st3, Done (Inr b3))"
  shows "announced me pub st st3"
proof -
  note q = quiet_calls [OF assms(1)]
  from and_then_InrD [OF assms(2) [unfolded Session_Insert_def]] obtain st0 b1 where
    1: "run_hook (hk_before_insert (me_hooks me)) b st = (st0, Done (Inr b1))"
    and rest: "and_then (insert_row me b1) (\<lambda>b2. and_then (DelCache me b2 []) (\<lambda>u. run_hook (hk_after_insert (me_hooks me)) b2)) st0
      = (st3, Done (Inr b3))" by blast
  from and_then_InrD [OF rest] obtain st1 b2 where
    2: "insert_row me b1 st0 = (st1, Done (Inr b2))"
    and 3: "and_then (DelCache me b2 []) (\<lambda>u. run_hook (hk_after_insert (me_hooks me)) b2) st1 = (st3, Done (Inr b3))" by blast
  from quiet_actionD [OF q(6) 1] quiet_actionD [OF q(2) 2]
  have "pub (my_world st1) = pub (my_world st)" "my_redis st1 = my_redis st" by simp_all
  from write_then_announce [OF assms(1) this insert_row_wrote [OF 2] 3 q(7)] show ?thesis .
qed

text \<open>Update and Delete of a model without a key condition write nothing and announce nothing.\<close>

definition nothing_announced :: "('w \<Rightarrow> json list) \<Rightarrow> ('c, 'w) mysql \<Rightarrow> ('c, 'w) mysql \<Rightarrow> bool" where
  "nothing_announced pub st st1 \<longleftrightarrow> pub (my_world st1) = pub (my_world st)"

lemma Session_Delete_announces:
  assumes "announcing me pub" "Session_Delete me b st = (st3, Done (Inr b3))"
  shows "announced me pub st st3 \<or> bind_Values (me_keys me) b [] = Returns [] \<and> nothing_announced pub st st3"
proof -
  note q = quiet_calls [OF assms(1)]
  from and_then_InrD [OF assms(2) [unfolded Session_Delete_def]] obtain st0 ql where
    ql: "of_outcome (bind_Values (me_keys me) b []) st = (st0, Done (Inr ql) :: (db_error + string list) effect)"
    and rest: "(case ql of [] \<Rightarrow> ok b | query # _ \<Rightarrow>
           and_then (CacheGet me b []) (\<lambda>b1.
             and_then (run_hook (hk_before_delete (me_hooks me)) b1) (\<lambda>b2.
               and_then (orm_call (or_delete (me_orm me) query b2)) (\<lambda>u.
                 and_then (DelCache me b2 []) (\<lambda>u.
                   run_hook (hk_after_delete (me_hooks me)) b2))))) st0 = (st3, Done (Inr b3))" by blast
  from ql have st0: "st0 = st" and v: "bind_Values (me_keys me) b [] = Returns ql"
    by (auto simp: of_outcome_def split: outcome.splits)
  show ?thesis
  proof (cases ql)
    case Nil
    with rest st0 v show ?thesis by (auto simp: nothing_announced_def)
  next
    case (Cons query qs)
    from and_then_InrD [OF rest [unfolded Cons list.case]] obtain s1 b1 where
      1: "CacheGet me b [] st0 = (s1, Done (Inr b1))"
      and r1: "and_then (run_hook (hk_before_delete (me_hooks me)) b1) (\<lambda>b2.
               and_then (orm_call (or_delete (me_orm me) query b2)) (\<lambda>u.
                 and_then (DelCache me b2 []) (\<lambda>u. run_hook (hk_after_delete (me_hooks me)) b2))) s1 = (st3, Done (Inr b3))" by blast
    from and_then_InrD [OF r1] obtain s2 b2 where
      2: "run_hook (hk_before_delete (me_hooks me)) b1 s1 = (s2, Done (Inr b2))"
      and r2: "and_then (orm_call (or_delete (me_orm me) query b2)) (\<lambda>u.
                 and_then (DelCache me b2 []) (\<lambda>u. run_hook (hk_after_delete (me_hooks me)) b2)) s2 = (st3, Done (Inr b3))" by blast
    from and_then_InrD [OF r2] obtain s3 u where
      3: "orm_call (or_delete (me_orm me) query b2) s2 = (s3, Done (Inr u))"
      and 4: "and_then (DelCache me b2 []) (\<lambda>u. run_hook (hk_after_delete (me_hooks me)) b2) s3 = (st3, Done (Inr b3))" by blast
    from quiet_actionD [OF q(1) 1] quiet_actionD [OF q(10) 2] quiet_actionD [OF q(5) 3] st0
    have "pub (my_world s3) = pub (my_world st)" "my_redis s3 = my_redis st" by simp_all
    from write_then_announce [OF assms(1) this delete_wrote [OF 3] 4 q(11)] show ?thesis ..
  qed
qed

text \<open>The part of Update after the parameters are read.\<close>

definition update_tail :: "('c, 'w) mysql_env \<Rightarrow> bean \<Rightarrow> string list \<Rightarrow> bool \<Rightarrow> ('c, 'w, db_error + bean) action" where
  "update_tail me b3 cols after =
     and_then (of_outcome (bind_Values (me_keys me) b3 [])) (\<lambda>queryList.
       case queryList of
         [] \<Rightarrow> ok b3
       | query # _ \<Rightarrow>
           and_then (run_hook (hk_before_update (me_hooks me)) b3) (\<lambda>b4.
             and_then (update_row me query cols b4) (\<lambda>b5.
               and_then (DelCache me b5 []) (\<lambda>u.
                 and_then (run_hook (hk_after_update (me_hooks me)) b5) (\<lambda>b6.
                   requery me after query b6)))))"

lemma update_tail_announces:
  assumes "announcing me pub" "update_tail me b3 cols after st = (st3, Done (Inr b'))"
  shows "announced me pub st st3 \<or> nothing_announced pub st st3"
proof -
  note q = quiet_calls [OF assms(1)]
  from and_then_InrD [OF assms(2) [unfolded update_tail_def]] obtain st0 ql where
    ql: "of_outcome (bind_Values (me_keys me) b3 []) st = (st0, Done (Inr ql) :: (db_error + string list) effect)"
    and rest: "(case ql of [] \<Rightarrow> ok b3 | query # _ \<Rightarrow>
           and_then (run_hook (hk_before_update (me_hooks me)) b3) (\<lambda>b4.
             and_then (update_row me query cols b4) (\<lambda>b5.
               and_then (DelCache me b5 []) (\<lambda>u.
                 and_then (run_hook (hk_after_update (me_hooks me)) b5) (\<lambda>b6.
                   requery me after query b6))))) st0 = (st3, Done (Inr b'))" by blast
  from ql have st0: "st0 = st" by (auto simp: of_outcome_def split: outcome.splits)
  show ?thesis
  proof (cases ql)
    case Nil
    with rest st0 show ?thesis by (auto simp: nothing_announced_def)
  next
    case (Cons query qs)
    from and_then_InrD [OF rest [unfolded Cons list.case]] obtain s1 b4 where
      1: "run_hook (hk_before_update (me_hooks me)) b3 st0 = (s1, Done (Inr b4))"
      and r1: "and_then (update_row me query cols b4) (\<lambda>b5. and_then (DelCache me b5 []) (\<lambda>u.
                 and_then (run_hook (hk_after_update (me_hooks me)) b5) (\<lambda>b6. requery me after query b6))) s1 = (st3, Done (Inr b'))"
      by blast
    from and_then_InrD [OF r1] obtain s2 b5 where
      2: "update_row me query cols b4 s1 = (s2, Done (Inr b5))"
      and 3: "and_then (DelCache me b5 []) (\<lambda>u. and_then (run_hook (hk_after_update (me_hooks me)) b5)
                 (\<lambda>b6. requery me after query b6)) s2 = (st3, Done (Inr b'))" by blast
    from quiet_actionD [OF q(8) 1] quiet_actionD [OF q(3) 2] st0
    have "pub (my_world s2) = pub (my_world st)" "my_redis s2 = my_redis st" by simp_all
    from write_then_announce [OF assms(1) this update_row_wrote [OF 2] 3 quiet_and_then [OF q(9) q(4)]] show ?thesis ..
  qed
qed

lemma Session_Update_announces:
  assumes "announcing me pub" "Session_Update me bn ps st = (st3, Done (Inr b'))"
  shows "announced me pub st st3 \<or> nothing_announced pub st st3"
proof -
  note q = quiet_calls [OF assms(1)]
  have u: "Session_Update me bn ps = and_then (of_sum (CopyBean (me_codec me) bn)) (\<lambda>b0. and_then (CacheGet me b0 []) (\<lambda>b1.
      and_then (of_sum (MergeBeans (me_codec me) b1 bn)) (\<lambda>b2. and_then (of_sum (update_params me ps b2 [] False))
        (\<lambda>(b3, cols, after). update_tail me b3 cols after))))"
    unfolding Session_Update_def update_tail_def ..
  from and_then_InrD [OF assms(2) [unfolded u]] obtain s0 b0 where
    0: "of_sum (CopyBean (me_codec me) bn) st = (s0, Done (Inr b0))"
    and r0: "and_then (CacheGet me b0 []) (\<lambda>b1. and_then (of_sum (MergeBeans (me_codec me) b1 bn))
      (\<lambda>b2. and_then (of_sum (update_params me ps b2 [] False)) (\<lambda>(b3, cols, after). update_tail me b3 cols after))) s0
      = (st3, Done (Inr b'))" by blast
  from and_then_InrD [OF r0] obtain s1 b1 where
    1: "CacheGet me b0 [] s0 = (s1, Done (Inr b1))"
    and r1: "and_then (of_sum (MergeBeans (me_codec me) b1 bn))
      (\<lambda>b2. and_then (of_sum (update_params me ps b2 [] False)) (\<lambda>(b3, cols, after). update_tail me b3 cols after)) s1
      = (st3, Done (Inr b'))" by blast
  from and_then_InrD [OF r1] obtain s2 b2 where
    2: "of_sum (MergeBeans (me_codec me) b1 bn) s1 = (s2, Done (Inr b2))"
    and r2: "and_then (of_sum (update_params me ps b2 [] False)) (\<lambda>(b3, cols, after). update_tail me b3 cols after) s2
      = (st3, Done (Inr b'))" by blast
  from and_then_InrD [OF r2] obtain s3 b3 cols after where
    3: "of_sum (update_params me ps b2 [] False) s2 = (s3, Done (Inr (b3, cols, after)))"
    and t: "update_tail me b3 cols after s3 = (st3, Done (Inr b'))" by auto
  from quiet_actionD [OF q(13) 0] quiet_actionD [OF q(1) 1] quiet_actionD [OF q(13) 2] quiet_actionD [OF q(13) 3]
  have "pub (my_world s3) = pub (my_world st)" "my_redis s3 = my_redis st" by simp_all
  with update_tail_announces [OF assms(1) t] show ?thesis by (simp add: announced_def nothing_announced_def)
qed

text \<open>A transaction that succeeds announces what its function announced.\<close>

lemma TXCallback_announces:
  assumes "announcing me pub" "TXCallback me fn st = (st3, Done (Inr x))"
  shows "\<exists>st1 st2. fn st1 = (st2, Done (Inr x)) \<and> pub (my_world st1) = pub (my_world st) \<and> my_redis st1 = my_redis st
    \<and> pub (my_world st3) = pub (my_world st2)"
proof -
  from assms(1) have b: "\<And>w. pub (fst (or_begin (me_orm me) w)) = pub w" and c: "\<And>w w'. or_commit (me_orm me) w = (w', None) \<Longrightarrow> pub w' = pub w"
    and cl: "\<And>w. pub (or_close (me_orm me) w) = pub w"
    by (simp_all add: announcing_def env_ok_def)
  obtain st1 e where st1: "on_world (or_begin (me_orm me)) st = (st1, e)" by fastforce
  with keeps_on_world [of pub "or_begin (me_orm me)" st, OF b] have k: "pub (my_world st1) = pub (my_world st)" "my_redis st1 = my_redis st"
    by simp_all
  from assms(2) st1 obtain st2 s3 where st2: "fn st1 = (st2, Done (Inr x))" and s3: "on_world (or_commit (me_orm me)) st2 = (s3, None)"
    "st3 = close_session me s3"
    unfolding TXCallback_def by (auto split: option.splits prod.splits effect.splits sum.splits)
  from s3(1) c have "pub (my_world s3) = pub (my_world st2)" by (auto simp: on_world_def split: prod.splits)
  with s3(2) cl have "pub (my_world st3) = pub (my_world st2)" by (simp add: close_session_def)
  with st2 k show ?thesis by blast
qed

lemma write_announces:
  assumes "announcing me pub" "act \<in> {Mysql_Insert me b, Mysql_Update me b ps, Mysql_Delete me b}" "act st = (st3, Done (Inr b'))"
  shows "announced me pub st st3 \<or> nothing_announced pub st st3"
proof -
  from assms(2) obtain fn where fn: "act = TXCallback me fn" "fn \<in> {Session_Insert me b, Session_Update me b ps, Session_Delete me b}"
    by (auto simp: Mysql_Insert_def Mysql_Update_def Mysql_Delete_def)
  from TXCallback_announces [OF assms(1) assms(3) [unfolded fn(1)]] obtain st1 st2 where
    t: "fn st1 = (st2, Done (Inr b'))" "pub (my_world st1) = pub (my_world st)" "my_redis st1 = my_redis st"
    "pub (my_world st3) = pub (my_world st2)" by blast
  have "announced me pub st1 st2 \<or> nothing_announced pub st1 st2"
    using fn(2) t(1) by (auto dest: Session_Insert_announces [OF assms(1)] Session_Update_announces [OF assms(1)]
      Session_Delete_announces [OF assms(1)])
  with t(2-4) show ?thesis by (simp add: announced_def nothing_announced_def)
qed

end
