(* ===== verification/Cache_Race.thy ===== *)
theory Cache_Race
  imports Cache_Mem
begin

text \<open>
  Readers, one writing transaction at a time and the deletion handlers of one cache key, as an
  interleaving of the atomic actions of src/g2db: the read-through of
  \<^verbatim>\<open>cacheMem.getOrStore\<close> under the key's lock (cache.go), a transaction that writes the
  row, publishes the deletion and then commits (Session.Update inside Mysql.TXCallback), and the
  handler that deletes plainly, then under the lock, and arranges for the same again after two
  seconds (RedisSubDelCache).

  Values are row versions.  The one assumption of the design that the code does not enforce is
  that the transaction ends before the second deletion starts; \<^verbatim>\<open>late\<close> lifts it.
\<close>

datatype reader = Entered | Loaded nat

record race =
  row :: nat
  uncommitted :: "nat option"
  entry :: "nat option"
  lock_of :: "reader option"
  messages :: nat
  first_locked :: nat
  timers :: nat
  second_locked :: nat

definition race_start :: race where
  "race_start = \<lparr>row = 0, uncommitted = None, entry = None, lock_of = None,
                 messages = 0, first_locked = 0, timers = 0, second_locked = 0\<rparr>"

definition pending :: "race \<Rightarrow> nat" where
  "pending s = messages s + first_locked s + timers s + second_locked s"

inductive race_step :: "bool \<Rightarrow> race \<Rightarrow> race \<Rightarrow> bool" for late :: bool where
  miss: "lock_of s = None \<Longrightarrow> entry s = None \<Longrightarrow> race_step late s (s\<lparr>lock_of := Some Entered\<rparr>)"
| load: "lock_of s = Some Entered \<Longrightarrow> race_step late s (s\<lparr>lock_of := Some (Loaded (row s))\<rparr>)"
| store: "lock_of s = Some (Loaded v) \<Longrightarrow> race_step late s (s\<lparr>entry := Some v, lock_of := None\<rparr>)"
| write_row: "uncommitted s = None \<Longrightarrow> v \<noteq> row s \<Longrightarrow> race_step late s (s\<lparr>uncommitted := Some v\<rparr>)"
| publish: "uncommitted s \<noteq> None \<Longrightarrow> race_step late s (s\<lparr>messages := Suc (messages s)\<rparr>)"
| commit: "uncommitted s = Some v \<Longrightarrow> late \<or> messages s + first_locked s + timers s > 0 \<Longrightarrow>
     race_step late s (s\<lparr>row := v, uncommitted := None\<rparr>)"
| rollback: "race_step late s (s\<lparr>uncommitted := None\<rparr>)"
| handle: "messages s = Suc n \<Longrightarrow>
     race_step late s (s\<lparr>messages := n, entry := None, first_locked := Suc (first_locked s)\<rparr>)"
| delete_locked: "first_locked s = Suc n \<Longrightarrow> lock_of s = None \<Longrightarrow>
     race_step late s (s\<lparr>first_locked := n, entry := None, timers := Suc (timers s)\<rparr>)"
| fire: "timers s = Suc n \<Longrightarrow>
     race_step late s (s\<lparr>timers := n, entry := None, second_locked := Suc (second_locked s)\<rparr>)"
| delete_again: "second_locked s = Suc n \<Longrightarrow> lock_of s = None \<Longrightarrow>
     race_step late s (s\<lparr>second_locked := n, entry := None\<rparr>)"

abbreviation race_reach :: "bool \<Rightarrow> race \<Rightarrow> bool" where
  "race_reach late s \<equiv> (race_step late)\<^sup>*\<^sup>* race_start s"

text \<open>A value that is not the committed row, in the cache or about to be stored.\<close>

definition stale :: "race \<Rightarrow> bool" where
  "stale s \<longleftrightarrow> (\<exists>v. v \<noteq> row s \<and> (entry s = Some v \<or> lock_of s = Some (Loaded v)))"

inductive_cases race_stepE: "race_step late s s'"

lemma race_step_inv:
  assumes "race_step False s s'" "stale s \<longrightarrow> pending s > 0"
  shows "stale s' \<longrightarrow> pending s' > 0"
  using assms by (cases rule: race_step.cases) (auto simp: stale_def pending_def)

lemma race_inv: "race_reach False s \<Longrightarrow> stale s \<longrightarrow> pending s > 0"
proof (induction rule: rtranclp_induct)
  case base
  then show ?case by (simp add: stale_def race_start_def)
next
  case (step y z)
  then show ?case using race_step_inv by blast
qed

text \<open>The schedule in which both deletions run before the commit.\<close>

definition late_schedule :: "race list" where
  "late_schedule =
     [race_start,
      race_start\<lparr>uncommitted := Some 1\<rparr>,
      race_start\<lparr>uncommitted := Some 1, messages := 1\<rparr>,
      race_start\<lparr>uncommitted := Some 1, first_locked := 1\<rparr>,
      race_start\<lparr>uncommitted := Some 1, timers := 1\<rparr>,
      race_start\<lparr>uncommitted := Some 1, second_locked := 1\<rparr>,
      race_start\<lparr>uncommitted := Some 1\<rparr>,
      race_start\<lparr>uncommitted := Some 1, lock_of := Some Entered\<rparr>,
      race_start\<lparr>uncommitted := Some 1, lock_of := Some (Loaded 0)\<rparr>,
      race_start\<lparr>uncommitted := Some 1, entry := Some 0\<rparr>,
      race_start\<lparr>row := 1, entry := Some 0\<rparr>]"

fun chain :: "('a \<Rightarrow> 'a \<Rightarrow> bool) \<Rightarrow> 'a list \<Rightarrow> bool" where
  "chain r (x # y # zs) = (r x y \<and> chain r (y # zs))"
| "chain r _ = True"

lemma chain_reach: "chain r (x # xs) \<Longrightarrow> r\<^sup>*\<^sup>* x (last (x # xs))"
proof (induction xs arbitrary: x)
  case (Cons y ys)
  then show ?case by (auto intro: converse_rtranclp_into_rtranclp)
qed simp

end
