(* ===== verification/Mysql_Schema.thy ===== *)
theory Mysql_Schema
  imports Mysql_Cache
begin

text \<open>
  Registered tables and their migration (src/g2db/mysql.go, initializeTables of
  src/g2db/functions.go): the registry of tables, the data source, compound indexes, initial
  data and the one transaction that brings a schema up to date.  A table carries its name (what
  tableName computes) and what its optional interfaces return.
\<close>

record 'w table =
  tb_name :: string
  tb_indexes :: "compound_index list option"
  tb_init :: "bean list option"
  tb_after :: "('w \<Rightarrow> 'w \<times> string option) option"

text \<open>The session calls of a migration.\<close>

record 'w schema_calls =
  sc_query :: "string \<Rightarrow> 'w \<Rightarrow> 'w \<times> (string + nat)"
  sc_exec :: "string \<Rightarrow> 'w \<Rightarrow> 'w \<times> string option"
  sc_sync2 :: "string list \<Rightarrow> 'w \<Rightarrow> 'w \<times> string option"
  sc_count :: "string \<Rightarrow> 'w \<Rightarrow> 'w \<times> (string + int)"
  sc_insert :: "bean list \<Rightarrow> 'w \<Rightarrow> 'w \<times> string option"


section \<open>The table registry\<close>

text \<open>TableRegister: the loop returns at the first table whose name is registered.\<close>

fun TableRegister :: "'w table list \<Rightarrow> 'w table list \<Rightarrow> 'w table list" where
  "TableRegister [] registered = registered"
| "TableRegister (tb # tbs) registered =
     (if list_ex (\<lambda>t1. tb_name t1 = tb_name tb) registered then registered
      else TableRegister tbs (registered @ [tb]))"

definition GetBeanByTableName :: "'w table list \<Rightarrow> string \<Rightarrow> string + 'w table" where
  "GetBeanByTableName registered tableStr =
     (case find (\<lambda>tb. tb_name tb = tableStr) registered of
        Some tb \<Rightarrow> Inr tb
      | None \<Rightarrow> Inl (''no table '' @ tableStr))"

lemma registered_iff [simp]:
  "list_ex (\<lambda>t1. tb_name t1 = n) registered \<longleftrightarrow> n \<in> tb_name ` set registered"
  by (auto simp: list_ex_iff)

lemma TableRegister_distinct:
  "distinct (map tb_name registered) \<Longrightarrow> distinct (map tb_name (TableRegister tbs registered))"
  by (induction tbs registered rule: TableRegister.induct) simp_all

lemma TableRegister_keeps: "\<exists>new. TableRegister tbs registered = registered @ new \<and> set new \<subseteq> set tbs"
proof (induction tbs registered rule: TableRegister.induct)
  case (2 tb tbs registered)
  show ?case
  proof (cases "tb_name tb \<in> tb_name ` set registered")
    case False
    with 2 obtain new where "TableRegister tbs (registered @ [tb]) = (registered @ [tb]) @ new" "set new \<subseteq> set tbs"
      by auto
    with False show ?thesis by (auto intro: exI [of _ "tb # new"])
  qed simp
qed simp

lemma TableRegister_all:
  "distinct (map tb_name (registered @ tbs)) \<Longrightarrow> TableRegister tbs registered = registered @ tbs"
  by (induction tbs registered rule: TableRegister.induct) (simp_all add: image_Un)

lemma TableRegister_stops:
  "tb_name tb \<in> tb_name ` set (registered @ xs) \<Longrightarrow> distinct (map tb_name (registered @ xs)) \<Longrightarrow>
     TableRegister (xs @ tb # ys) registered = registered @ xs"
proof (induction xs arbitrary: registered)
  case (Cons x xs)
  have "tb_name x \<notin> tb_name ` set registered" using Cons.prems(2) by auto
  with Cons.IH [of "registered @ [x]"] Cons.prems show ?case by simp
qed simp

lemma find_distinct_name:
  "distinct (map tb_name ts) \<Longrightarrow> tb \<in> set ts \<Longrightarrow> find (\<lambda>t. tb_name t = tb_name tb) ts = Some tb"
  by (induction ts) (auto simp: rev_image_eqI)


section \<open>The data source\<close>

record mysql_config =
  cf_dsn :: string
  cf_db :: string
  cf_app_name :: string
  cf_host :: string

definition DbName :: "mysql_config \<Rightarrow> string" where
  "DbName cf = (if cf_db cf = [] then cf_app_name cf else cf_db cf)"

definition getDataSource :: "mysql_config \<Rightarrow> bool list \<Rightarrow> string" where
  "getDataSource cf args =
     (let withDB = (case args of [] \<Rightarrow> True | b # _ \<Rightarrow> b);
          dsn = replace_all (cf_dsn cf) ''{host}'' (cf_host cf)
      in if withDB then replace_all dsn ''{db}'' (DbName cf) else replace_all dsn ''{db}'' [])"

definition createDB_sql :: "mysql_config \<Rightarrow> string" where
  "createDB_sql cf = ''CREATE DATABASE IF NOT EXISTS '' @ DbName cf @ '';''"

definition dropDB_sql :: "mysql_config \<Rightarrow> string" where
  "dropDB_sql cf = ''DROP DATABASE IF EXISTS '' @ DbName cf @ '';''"


section \<open>Compound indexes\<close>

text \<open>execCreate's columns, in the map's iteration order.\<close>

definition index_columns :: "(string \<Rightarrow> string) \<Rightarrow> ((string \<times> gval) list \<Rightarrow> (string \<times> gval) list) \<Rightarrow> compound_index \<Rightarrow> string list" where
  "index_columns fld iter c = map (\<lambda>(k, v). fld k) (iter (ci_columns c))"

definition index_name :: "compound_index \<Rightarrow> string \<Rightarrow> string list \<Rightarrow> string" where
  "index_name c table cs1 =
     (if ci_unique c then ''CUK'' else ''CIX'') @ ''_'' @ table @ ''_'' @ go_join cs1 ''_''"

definition show_index_sql :: "string \<Rightarrow> string \<Rightarrow> string" where
  "show_index_sql table name = ''SHOW INDEX FROM '' @ table @ '' WHERE Key_name = '' @ quote @ name @ quote"

definition add_index_sql :: "compound_index \<Rightarrow> string \<Rightarrow> string \<Rightarrow> string list \<Rightarrow> string" where
  "add_index_sql c table name cs1 =
     ''ALTER TABLE '' @ table @ '' ADD '' @ (if ci_unique c then ''UNIQUE '' else []) @ ''INDEX '' @ name
       @ '' ('' @ go_join cs1 '','' @ '')''"

text \<open>The bytes of execCreate's message.\<close>

definition index_query_failed :: string where
  "index_query_failed =
     [CHR 0xE6, CHR 0x9F, CHR 0xA5, CHR 0xE8, CHR 0xAF, CHR 0xA2, CHR 0xE5, CHR 0xA4, CHR 0x8D, CHR 0xE5, CHR 0x90, CHR 0x88,
      CHR 0xE7, CHR 0xB4, CHR 0xA2, CHR 0xE5, CHR 0xBC, CHR 0x95, CHR 0xE5, CHR 0xA4, CHR 0xB1, CHR 0xE8, CHR 0xB4, CHR 0xA5] @ '': ''"

definition execCreate ::
  "key_env \<Rightarrow> 'w schema_calls \<Rightarrow> compound_index \<Rightarrow> string \<Rightarrow> 'w \<Rightarrow> 'w \<times> string option" where
  "execCreate ke sc c table w =
     (let cs1 = index_columns (ke_field ke) (ke_iter_cols ke) c
      in if length cs1 < 2 then (w, None)
         else let name = index_name c table cs1;
                  sq1 = show_index_sql table name
              in case sc_query sc sq1 w of
                   (w1, Inl e) \<Rightarrow> (w1, Some (index_query_failed @ e @ '','' @ [CHR 0x0A] @ sq1))
                 | (w1, Inr rs1) \<Rightarrow> if rs1 > 0 then (w1, None)
                                    else sc_exec sc (add_index_sql c table name cs1) w1)"

fun create_indexes :: "key_env \<Rightarrow> 'w schema_calls \<Rightarrow> string \<Rightarrow> compound_index list \<Rightarrow> 'w \<Rightarrow> 'w \<times> string option" where
  "create_indexes ke sc table [] w = (w, None)"
| "create_indexes ke sc table (c # cs) w =
     (case execCreate ke sc c table w of
        (w1, Some e) \<Rightarrow> (w1, Some (''[CompoundIndex] ['' @ table @ ''] error: '' @ e))
      | (w1, None) \<Rightarrow> create_indexes ke sc table cs w1)"


section \<open>Initial data and the migration\<close>

text \<open>initializeTables: the truncate's error is ignored.\<close>

definition initializeTables :: "'w schema_calls \<Rightarrow> string \<Rightarrow> bean list \<Rightarrow> 'w \<Rightarrow> 'w \<times> string option" where
  "initializeTables sc table beans w =
     (if beans = [] then (w, None)
      else case sc_count sc table w of
             (w1, Inl e) \<Rightarrow> (w1, Some (''[InitData] ['' @ table @ ''] Count error: '' @ e))
           | (w1, Inr cnt) \<Rightarrow>
               if cnt > 0 then (w1, None)
               else let w2 = fst (sc_exec sc (''truncate table '' @ table @ '';'') w1)
                    in case sc_insert sc beans w2 of
                         (w3, Some e) \<Rightarrow> (w3, Some (''[InitData] ['' @ table @ ''] error: '' @ e))
                       | (w3, None) \<Rightarrow> (w3, None))"

definition convert_sql :: "string \<Rightarrow> string" where
  "convert_sql table =
     ''ALTER TABLE `'' @ table @ ''` CONVERT TO CHARACTER SET utf8mb4 COLLATE utf8mb4_bin;''"

text \<open>A step that runs when the previous ones reported no error.\<close>

definition next_step :: "('w \<Rightarrow> 'w \<times> string option) \<Rightarrow> 'w \<times> string option \<Rightarrow> 'w \<times> string option" where
  "next_step f r = (case r of (w, Some e) \<Rightarrow> (w, Some e) | (w, None) \<Rightarrow> f w)"

definition sync_table :: "key_env \<Rightarrow> 'w schema_calls \<Rightarrow> 'w table \<Rightarrow> 'w \<Rightarrow> 'w \<times> string option" where
  "sync_table ke sc tb w =
     next_step (\<lambda>w. case tb_after tb of
                      None \<Rightarrow> (w, None)
                    | Some f \<Rightarrow> (case f w of (w1, None) \<Rightarrow> (w1, None)
                                | (w1, Some e) \<Rightarrow> (w1, Some (''[AfterSync] ['' @ tb_name tb @ ''] error: '' @ e))))
       (next_step (\<lambda>w. case tb_init tb of
                         None \<Rightarrow> (w, None)
                       | Some beans \<Rightarrow> (case initializeTables sc (tb_name tb) beans w of (w1, None) \<Rightarrow> (w1, None)
                                       | (w1, Some e) \<Rightarrow> (w1, Some (''[InitData] ['' @ tb_name tb @ ''] error: '' @ e))))
         (next_step (\<lambda>w. case tb_indexes tb of None \<Rightarrow> (w, None) | Some cs \<Rightarrow> create_indexes ke sc (tb_name tb) cs w)
           (sc_exec sc (convert_sql (tb_name tb)) w)))"

fun sync_tables :: "key_env \<Rightarrow> 'w schema_calls \<Rightarrow> 'w table list \<Rightarrow> 'w \<Rightarrow> 'w \<times> string option" where
  "sync_tables ke sc [] w = (w, None)"
| "sync_tables ke sc (tb # tbs) w = next_step (sync_tables ke sc tbs) (sync_table ke sc tb w)"

definition sync_body :: "key_env \<Rightarrow> 'w schema_calls \<Rightarrow> 'w table list \<Rightarrow> 'w \<Rightarrow> 'w \<times> string option" where
  "sync_body ke sc tbs w =
     (if tbs = [] then (w, None)
      else next_step (sync_tables ke sc tbs) (sc_sync2 sc (map tb_name tbs) w))"

definition mysql_sync ::
  "('c, 'w) mysql_env \<Rightarrow> 'w schema_calls \<Rightarrow> 'w table list \<Rightarrow> ('c, 'w, db_error + unit) action" where
  "mysql_sync me sc tbs = TXCallback me (orm_call (sync_body (me_keys me) sc tbs))"


section \<open>Facts\<close>

text \<open>Tables that have rows keep them.\<close>

lemma initializeTables_nonempty:
  assumes "sc_count sc table w = (w1, Inr cnt)" "cnt > 0"
  shows "initializeTables sc table beans w = (if beans = [] then w else w1, None)"
  using assms by (simp add: initializeTables_def)

text \<open>An index whose name is there already is not created again.\<close>

lemma execCreate_present:
  assumes "sc_query sc (show_index_sql table (index_name c table (index_columns (ke_field ke) (ke_iter_cols ke) c))) w = (w1, Inr rs)"
    and "rs > 0"
  shows "execCreate ke sc c table w \<in> {(w, None), (w1, None)}"
  using assms by (simp add: execCreate_def Let_def)

lemma next_step_error: "next_step f (w, Some e) = (w, Some e)"
  by (simp add: next_step_def)

lemma sync_tables_append:
  "sync_tables ke sc (xs @ ys) w = next_step (sync_tables ke sc ys) (sync_tables ke sc xs w)"
  by (induction xs arbitrary: w) (auto simp: next_step_def split: prod.splits option.splits)

end
