(* ===== verification/Query_Rows.thy ===== *)
theory Query_Rows
  imports Mysql_Schema
begin

text \<open>
  Paged queries (src/g2db/mysql_query_rows.go).  Integers are Go's 64-bit ints: the offset wraps.
  The engine is the record of its calls: quoting an identifier, running a query, counting.
\<close>

record query_params =
  qp_Page :: int
  qp_PageCount :: int
  qp_Conditions :: "string list"
  qp_OrderBy :: string
  qp_Asc :: bool
  qp_TimeColumn :: string
  qp_TimeBetween :: string

record 'row query_rows =
  qr_Pages :: int
  qr_Data :: "'row list"
  qr_Count :: int

record 'row engine =
  en_quote :: "string \<Rightarrow> string"
  en_find :: "string \<Rightarrow> string + 'row list"
  en_count :: "string \<Rightarrow> string \<Rightarrow> string + int"

definition wrap64 :: "int \<Rightarrow> int" where
  "wrap64 x = (x + 2 ^ 63) mod 2 ^ 64 - 2 ^ 63"

definition maxCount :: int where "maxCount = 100"

definition normalise_params :: "query_params \<Rightarrow> query_params" where
  "normalise_params p =
     (let p1 = (if qp_Page p = 0 then p\<lparr>qp_Page := 1\<rparr> else p);
          p2 = (if qp_PageCount p1 = 0 then p1\<lparr>qp_PageCount := 10\<rparr> else p1);
          p3 = (if qp_PageCount p2 > maxCount then p2\<lparr>qp_PageCount := maxCount\<rparr> else p2);
          p4 = (if qp_OrderBy p3 = [] then p3\<lparr>qp_OrderBy := ''id''\<rparr> else p3)
      in if qp_TimeColumn p4 = [] then p4\<lparr>qp_TimeColumn := ''created''\<rparr> else p4)"

definition offsetX :: "query_params \<Rightarrow> int" where
  "offsetX p = wrap64 (qp_PageCount p * wrap64 (qp_Page p - 1))"

definition between_condition :: "query_params \<Rightarrow> string list" where
  "between_condition p =
     (if qp_TimeBetween p = [] then []
      else case go_split CHR '','' (qp_TimeBetween p) of
             [a, b] \<Rightarrow> [''(`'' @ qp_TimeColumn p @ ''` BETWEEN '' @ quote @ a @ quote @ '' AND '' @ quote @ b @ quote @ '')'']
           | _ \<Rightarrow> [])"

definition condition_str :: "query_params \<Rightarrow> string" where
  "condition_str p =
     go_join (map (\<lambda>s. ''('' @ s @ '')'') ([''1=1''] @ qp_Conditions p @ between_condition p)) '' AND ''"

definition select_sql :: "'row engine \<Rightarrow> string \<Rightarrow> query_params \<Rightarrow> string" where
  "select_sql en tableStr p =
     ''SELECT * FROM '' @ en_quote en tableStr @ '' WHERE ('' @ condition_str p @ '') ''
       @ ''ORDER BY '' @ en_quote en (qp_OrderBy p) @ '' '' @ (if qp_Asc p then ''ASC'' else ''DESC'')
       @ '' LIMIT '' @ show_int (offsetX p) @ '','' @ show_int (qp_PageCount p)"

text \<open>int(count) / PageCount and % of Go truncate toward zero.\<close>

definition go_div :: "int \<Rightarrow> int \<Rightarrow> int" where
  "go_div a b = sgn a * sgn b * (\<bar>a\<bar> div \<bar>b\<bar>)"

definition go_rem :: "int \<Rightarrow> int \<Rightarrow> int" where
  "go_rem a b = a - b * go_div a b"

definition page_total :: "int \<Rightarrow> int \<Rightarrow> int" where
  "page_total cnt pc = (if go_rem cnt pc > 0 then go_div cnt pc + 1 else go_div cnt pc)"

text \<open>QueryRows: the second component is what was stored in rows; MysqlAfterQueryRow is \<^verbatim>\<open>after\<close>.\<close>

definition QueryRows ::
  "'row engine \<Rightarrow> ('row \<Rightarrow> 'row) \<Rightarrow> string \<Rightarrow> query_params \<Rightarrow> 'row query_rows option \<times> string option" where
  "QueryRows en after tableStr p0 =
     (let p = normalise_params p0
      in case en_find en (select_sql en tableStr p) of
           Inl e \<Rightarrow> (None, Some e)
         | Inr found \<Rightarrow>
             if found = [] then (Some \<lparr>qr_Pages = 0, qr_Data = [], qr_Count = 0\<rparr>, None)
             else (case en_count en tableStr (condition_str p) of
                     Inl e \<Rightarrow> (Some \<lparr>qr_Pages = 0, qr_Data = found, qr_Count = 0\<rparr>, Some e)
                   | Inr cnt \<Rightarrow>
                       (Some \<lparr>qr_Pages = page_total cnt (qp_PageCount p), qr_Data = map after found,
                              qr_Count = cnt\<rparr>, None)))"

text \<open>A query over a registered table.\<close>

definition QueryTableRows ::
  "'row engine \<Rightarrow> ('row \<Rightarrow> 'row) \<Rightarrow> 'w table list \<Rightarrow> string \<Rightarrow> query_params \<Rightarrow> 'row query_rows option \<times> string option" where
  "QueryTableRows en after registered tableStr p =
     (case GetBeanByTableName registered tableStr of
        Inl e \<Rightarrow> (None, Some e)
      | Inr tb \<Rightarrow> QueryRows en after (tb_name tb) p)"


section \<open>Pages\<close>

lemma normalise_bounds:
  assumes "qp_PageCount p \<ge> 0" "qp_Page p \<ge> 0"
  shows "1 \<le> qp_PageCount (normalise_params p)" "qp_PageCount (normalise_params p) \<le> 100"
    "1 \<le> qp_Page (normalise_params p)"
  using assms by (auto simp: normalise_params_def maxCount_def Let_def)

lemma wrap64_id: "in_int64 x \<Longrightarrow> wrap64 x = x"
  by (simp add: wrap64_def in_int64_def)

lemma page_total_nonneg:
  "cnt \<ge> 0 \<Longrightarrow> pc > 0 \<Longrightarrow> page_total cnt pc = (cnt + pc - 1) div pc"
proof -
  assume c: "cnt \<ge> 0" and p: "pc > 0"
  have d: "go_div cnt pc = cnt div pc"
    using c p by (cases "cnt = 0") (simp_all add: go_div_def)
  have r: "go_rem cnt pc = cnt mod pc"
    using d by (simp add: go_rem_def minus_mult_div_eq_mod)
  show ?thesis
  proof (cases "cnt mod pc = 0")
    case True
    then obtain k where k: "cnt = pc * k" by (auto simp: mod_eq_0_iff_dvd)
    have "(pc * k + pc - 1) div pc = k + (pc - 1) div pc"
      using p by (metis add_diff_eq div_mult_self4 mult.commute not_less_iff_gr_or_eq add.commute)
    with k p d r True show ?thesis by (simp add: page_total_def)
  next
    case False
    then have pos: "cnt mod pc > 0" using p by (simp add: less_le)
    have "cnt + pc - 1 = pc * (cnt div pc + 1) + (cnt mod pc - 1)"
      by (simp add: algebra_simps)
    moreover have "0 \<le> cnt mod pc - 1" "cnt mod pc - 1 < pc" using pos pos_mod_bound [OF p, of cnt] by linarith+
    ultimately have "(cnt + pc - 1) div pc = cnt div pc + 1"
      by (metis div_mult_self4 div_pos_pos_trivial add.commute add.right_neutral not_less_iff_gr_or_eq p mult.commute)
    with pos d r show ?thesis by (simp add: page_total_def)
  qed
qed

text \<open>What LIMIT offset,count returns of the ordered rows.\<close>

definition limit :: "nat \<Rightarrow> nat \<Rightarrow> 'row list \<Rightarrow> 'row list" where
  "limit off n rows = take n (drop off rows)"

lemma concat_limits:
  "pc > 0 \<Longrightarrow> concat (map (\<lambda>i. limit (pc * i) pc rows) [0..<k]) = take (pc * k) rows"
  by (induction k) (auto simp: limit_def take_add [symmetric] algebra_simps)

text \<open>As many pages as page_total reports hold all rows, and each of them starts within the rows.\<close>

lemma page_bounds:
  assumes "pc \<ge> 1" "n \<ge> 0" "q = (n + pc - 1) div (pc :: int)"
  shows "n \<le> pc * q" "0 \<le> q" "int i < q \<Longrightarrow> pc * int i \<le> n"
proof -
  have t: "n + pc - 1 = pc * q + (n + pc - 1) mod pc" "0 \<le> (n + pc - 1) mod pc" "(n + pc - 1) mod pc < pc"
    using assms by simp_all
  then show "n \<le> pc * q" by linarith
  show "0 \<le> q" using assms by (simp add: pos_imp_zdiv_nonneg_iff)
  assume "int i < q"
  then have "pc * int i \<le> pc * (q - 1)" using assms(1) by (intro mult_left_mono) auto
  with t show "pc * int i \<le> n" by (simp add: algebra_simps)
qed

lemma page_offset:
  assumes "1 \<le> qp_PageCount p" "qp_PageCount p * int i < 2 ^ 63"
  shows "nat (offsetX (p\<lparr>qp_Page := int i + 1\<rparr>)) = nat (qp_PageCount p) * i"
proof -
  have "int i \<le> qp_PageCount p * int i" using assms(1) by (simp add: mult_le_cancel_right1)
  then have "in_int64 (int i)" "in_int64 (qp_PageCount p * int i)" using assms by (simp_all add: in_int64_def)
  then show ?thesis using assms(1) by (simp add: offsetX_def wrap64_id nat_mult_distrib)
qed

lemma pages_cover:
  assumes "1 \<le> qp_PageCount p" "int (length rows) < 2 ^ 62" "q = (int (length rows) + qp_PageCount p - 1) div qp_PageCount p"
  shows "concat (map (\<lambda>i. limit (nat (offsetX (p\<lparr>qp_Page := int i + 1\<rparr>))) (nat (qp_PageCount p)) rows) [0..<nat q]) = rows"
proof -
  note b = page_bounds [OF assms(1) _ assms(3), simplified]
  have "nat (offsetX (p\<lparr>qp_Page := int i + 1\<rparr>)) = nat (qp_PageCount p) * i" if "i < nat q" for i
  proof (rule page_offset [OF assms(1)])
    have "int i < q" using that by linarith
    then have "qp_PageCount p * int i \<le> int (length rows)" by (rule b(3))
    then show "qp_PageCount p * int i < 2 ^ 63"
      using assms(2) power_strict_increasing [of 62 63 "2 :: int"] by linarith
  qed
  then have "concat (map (\<lambda>i. limit (nat (offsetX (p\<lparr>qp_Page := int i + 1\<rparr>))) (nat (qp_PageCount p)) rows) [0..<nat q])
      = concat (map (\<lambda>i. limit (nat (qp_PageCount p) * i) (nat (qp_PageCount p)) rows) [0..<nat q])"
    by (intro arg_cong [where f = concat] map_cong) auto
  also have "\<dots> = take (nat (qp_PageCount p) * nat q) rows" using assms(1) by (intro concat_limits) auto
  also have "\<dots> = rows"
  proof -
    have "int (nat (qp_PageCount p) * nat q) = qp_PageCount p * q" using assms(1) b(2) by simp
    then have "length rows \<le> nat (qp_PageCount p) * nat q" using b(1) by linarith
    then show ?thesis by simp
  qed
  finally show ?thesis .
qed

end
