(* ===== verification/Example_Cache.thy ===== *)
theory Example_Cache
  imports Mysql_Facts Cache_Race Query_Rows
begin

text \<open>
  A concrete process for the properties of src/g2db: a go-cache that is a HOL map, a database
  that is one row per query with a transaction copy, and a users table with a primary key and a
  unique name.
\<close>

definition map_gocache :: "(string \<Rightarrow> cval option) \<Rightarrow> (string \<Rightarrow> cval option) gocache" where
  "map_gocache d =
     \<lparr>gl_get = (\<lambda>k d. d k), gl_set = (\<lambda>k v d. d(k \<mapsto> v)), gl_delete = (\<lambda>k d. d(k := None)),
      gl_flush = (\<lambda>d. Map.empty), gc_inc = d\<rparr>"

lemma map_gocache_ok [simp]: "gocache_documented (map_gocache d)"
  by (simp add: gocache_documented_def map_gocache_def)

definition mem_start :: "(string \<Rightarrow> cval option) \<Rightarrow> 'w \<Rightarrow> ((string \<Rightarrow> cval option) gocache, 'w) cache_mem" where
  "mem_start d w = \<lparr>mem_cache = map_gocache d, mem_held = {}, mem_timers = [], mem_world = w\<rparr>"

lemma mem_start_sel [simp]:
  "mem_cache (mem_start d w) = map_gocache d" "mem_held (mem_start d w) = {}"
  "mem_timers (mem_start d w) = []" "mem_world (mem_start d w) = w"
  by (simp_all add: mem_start_def)

text \<open>A user, as the reader knows it (the name) and as the writer does (id and name).\<close>

definition user_fields :: "int \<Rightarrow> string \<Rightarrow> gfield list" where
  "user_fields uid name =
     [Field ''MyBase'' (Some ''extends'') (GStruct False [Field ''ID'' (Some ''pk autoincr'') (GInt uid)]),
      Field ''Name'' (Some ''varchar(32) notnull unique'') (GStr name),
      Field ''Memo'' (Some ''text'') (GStr ''x'')]"

definition user_bean :: "int \<Rightarrow> string \<Rightarrow> bean" where
  "user_bean uid name = \<lparr>bn_table = ''user'', bn_fields = user_fields uid name, bn_indexes = None\<rparr>"

definition plain_keys :: key_env where
  "plain_keys = \<lparr>ke_field = to_lower, ke_order = sort_key length, ke_iter = id, ke_iter_cols = id\<rparr>"

lemma plain_keys_ok [simp]: "key_env_ok plain_keys"
  by (simp add: key_env_ok_def plain_keys_def)

lemma plain_keys_sel [simp]:
  "ke_field plain_keys = to_lower" "ke_order plain_keys = sort_key length" "ke_iter plain_keys = id"
  "ke_iter_cols plain_keys = id"
  by (simp_all add: plain_keys_def)

lemma user_tags [simp]:
  "classify_tag (Some ''extends'') = Extends" "classify_tag (Some ''pk autoincr'') = KeyField"
  "classify_tag (Some ''varchar(32) notnull unique'') = KeyField" "classify_tag (Some ''text'') = SkipField"
  by code_simp+

lemma key_fields_user [simp]:
  "key_fields (user_fields uid name) = [(''ID'', GInt uid), (''Name'', GStr name)]"
  by (simp add: user_fields_def)

lemma lower_names [simp]: "to_lower ''ID'' = ''id''" "to_lower ''Name'' = ''name''"
  by code_simp+

lemma user_bean_sel [simp]:
  "bn_table (user_bean uid name) = ''user''" "bn_fields (user_bean uid name) = user_fields uid name"
  "bn_indexes (user_bean uid name) = None"
  by (simp_all add: user_bean_def)

lemma partial_user [simp]: "partial_of (user_fields 0 name) (user_fields uid name)"
  by (simp add: partial_of_def)

definition user_key :: "string \<Rightarrow> string" where
  "user_key name = ''name='' @ quote @ name @ quote"

lemma Values_user_name: "bind_Values plain_keys (user_bean 0 ''ann'') [] = Returns [user_key ''ann'']"
  by (simp add: bind_Values_def user_fields_def user_key_def)

lemma Values_user: "bind_Values plain_keys (user_bean 7 ''ann'') [] = Returns [''id=7'', user_key ''ann'']"
  by code_simp


section \<open>A database of one table\<close>

text \<open>The committed rows and the running transaction's copy.\<close>

type_synonym rows = "string \<Rightarrow> bean option"
type_synonym db = "rows \<times> rows option"

definition db_put :: "string \<Rightarrow> bean \<Rightarrow> db \<Rightarrow> db" where
  "db_put q b w = (case w of (c, Some t) \<Rightarrow> (c, Some (t(q \<mapsto> b))) | (c, None) \<Rightarrow> (c, None))"

definition db_orm :: "db orm" where
  "db_orm =
     \<lparr>or_begin = (\<lambda>(c, t). ((c, Some c), None)),
      or_commit = (\<lambda>(c, t). ((case t of None \<Rightarrow> c | Some r \<Rightarrow> r, None), None)),
      or_rollback = (\<lambda>(c, t). ((c, None), None)),
      or_close = (\<lambda>(c, t). (c, None)),
      or_get = (\<lambda>ms q b (c, t). ((c, t), Inr (c q))),
      or_get_tx = (\<lambda>q b (c, t). ((c, t), (case t of None \<Rightarrow> b | Some r \<Rightarrow> (case r q of None \<Rightarrow> b | Some x \<Rightarrow> x)), None)),
      or_insert = (\<lambda>b w. (db_put (user_key ''ann'') b w, b, Inr 1)),
      or_delete = (\<lambda>q b (c, t). ((c, map_option (\<lambda>r. r(q := None)) t), None)),
      or_update = (\<lambda>q cols b w. (db_put q b w, b, Inr 1))\<rparr>"

definition db_redis :: "string option \<Rightarrow> db redis_lib" where
  "db_redis err = \<lparr>rd_ping = (\<lambda>d w. (w, None)), rd_publish = (\<lambda>ch m w. (w, err))\<rparr>"

definition no_hooks :: "'w hooks" where
  "no_hooks = \<lparr>hk_before_insert = None, hk_after_insert = None, hk_before_update = None,
               hk_after_update = None, hk_before_delete = None, hk_after_delete = None\<rparr>"

definition db_env :: "string option \<Rightarrow> bean bean_codec \<Rightarrow> ((string \<Rightarrow> cval option) gocache, db) mysql_env" where
  "db_env err bc = \<lparr>me_itf = gocache_itf, me_keys = plain_keys, me_orm = db_orm, me_redis = db_redis err,
                    me_codec = bc, me_hooks = no_hooks\<rparr>"

definition committed_rows :: "db \<Rightarrow> rows" where "committed_rows w = fst w"
definition tx_rows :: "db \<Rightarrow> rows" where "tx_rows w = (case snd w of None \<Rightarrow> fst w | Some r \<Rightarrow> r)"

lemma db_env_ok [simp]: "env_ok (db_env err bc) committed_rows tx_rows"
  by (auto simp: env_ok_def db_env_def db_orm_def db_redis_def no_hooks_def hook_ok_def committed_rows_def tx_rows_def
      db_put_def split: prod.splits option.splits)

definition db_start :: "((string \<Rightarrow> cval option) gocache, db) mysql" where
  "db_start = \<lparr>my_mem = mem_start Map.empty (Map.empty, None), my_redis = new_redis ''app''\<rparr>"

end
