(* ===== verification/G2db_Properties.thy ===== *)
theory G2db_Properties
  imports Key_Change Write_Announce Example_Cache
begin

text \<open>
  The properties of the byte caches and of package g2db: registry, read-through cache, deletion
  messages, transactions, table registry and paged queries.
\<close>

section \<open>Stores\<close>

text \<open>The registry keeps the first store of every name: after the init functions of the four
  adapter packages GetStore without an argument returns the ledis store and the other three by
  their names, any other name is an error, and registering more stores, whatever their names,
  changes none of the four.\<close>

theorem default_store:
  "GetStore [] (fold (store_Register store_itf) others (init_stores b g l r)) = Inr (InLedis l)
   \<and> GetStore [''big''] (fold (store_Register store_itf) others (init_stores b g l r)) = Inr (InBig b)
   \<and> GetStore [''gocache''] (fold (store_Register store_itf) others (init_stores b g l r)) = Inr (InGo g)
   \<and> GetStore [''ristretto''] (fold (store_Register store_itf) others (init_stores b g l r)) = Inr (InRistretto r)
   \<and> Instance_Constructor (init_stores b g l r) = Some (InLedis l)
   \<and> GetStore [''redis''] (init_stores b g l r) = Inl ''store redis is not registered''"
proof -
  note names = BigCache_String_def GoCache_String_def LeDis_String_def Ristretto_String_def
  have "init_stores b g l r ''ledis'' = Some (InLedis l)" "init_stores b g l r ''big'' = Some (InBig b)"
    "init_stores b g l r ''gocache'' = Some (InGo g)" "init_stores b g l r ''ristretto'' = Some (InRistretto r)"
    "init_stores b g l r ''redis'' = None"
    by (simp_all only: init_stores_def fold_Register_first) (simp_all add: names)
  then show ?thesis by (simp add: GetStore_def Instance_Constructor_def fold_Register_keeps)
qed

text \<open>The ledis adapter opens its default database on first use even when the program has
  installed one: a database set with SetDB or SetInstance before the first operation is replaced
  by the default one, and reads never see what was in it.\<close>

theorem ledis_setup_lost:
  assumes "\<not> ld_once l" "ll_open l (ll_default l) = Inr i" "ll_select0 l i = Inr d"
    "ll_get l k d = (None, None)"
  shows "(\<exists>l1. LeDis_Get k (LeDis_SetDB (Some mine) l) = Returns (l1, [], Some ErrNotFound) \<and> ld_db l1 = Some d)
    \<and> (\<exists>l1. LeDis_Get k (fst (LeDis_SetInstance (Some cfg) l)) = Returns (l1, [], Some ErrNotFound) \<and> ld_db l1 = Some d)"
  using assms
  by (auto simp: LeDis_Get_def LeDis_DB_def LeDis_Instance_def LeDis_SetInstance_def LeDis_SetDB_def Let_def
      split: sum.splits)

definition two_ledis :: "(nat, nat, string \<Rightarrow> string option) ledis" where
  "two_ledis =
     \<lparr>ll_default = 0, ll_open = Inr, ll_select0 = (\<lambda>i. Inr (if i = 0 then Map.empty else [''k'' \<mapsto> ''v''])),
      ll_get = (\<lambda>k d. (d k, None)), ll_set = (\<lambda>k v d. (d(k \<mapsto> v), None)), ll_del = (\<lambda>k d. (d(k := None), None)),
      ll_flush_all = (\<lambda>d. (Map.empty, None)), ld_cfg = None, ld_inc = None, ld_db = None, ld_once = False\<rparr>"

theorem ledis_setup_lost_witness:
  "\<exists>l1. LeDis_Get ''k'' (LeDis_SetDB (Some [''k'' \<mapsto> ''v'']) two_ledis) = Returns (l1, [], Some ErrNotFound)
      \<and> ld_db l1 = Some Map.empty"
  by (rule ledis_setup_lost [THEN conjunct1]) (simp_all add: two_ledis_def)


section \<open>The read-through cache\<close>

text \<open>C18. GetOrStore on any of the four stores: the bytes handed out without an error are either the
  ones the store held for the key, and then the loader did not run, or exactly what the loader
  returned; afterwards the store holds for that key those bytes or nothing, and the key's lock is
  free again.\<close>

theorem get_or_store_value:
  assumes "instance_ok store_ok (mem_cache m)" "lock_name key \<notin> mem_held m"
    and "GetOrStore (instance_itf store_itf) key fn m = (m1, Done (d, None))"
  shows "(instance_view store_view (mem_cache m) key = Some d \<and> mem_world m1 = mem_world m
          \<or> fn (mem_world m) = (mem_world m1, Returns (d, None)))
     \<and> instance_view store_view (mem_cache m1) key \<in> {None, Some d}
     \<and> mem_held m1 = mem_held m"
proof -
  let ?l = "m\<lparr>mem_held := insert (lock_name key) (mem_held m)\<rparr>"
  obtain m2 where m2: "getOrStore (instance_itf store_itf) key fn ?l = (m2, Done (d, None))"
    "m1 = m2\<lparr>mem_held := mem_held m2 - {lock_name key}\<rparr>"
    using assms(2,3) by (auto simp: GetOrStore_def mem_Atomic_def Let_def split: prod.splits effect.splits)
  have "instance_ok store_ok (mem_cache ?l)" using assms(1) by simp
  note v = inst.getOrStore_value [OF this m2(1)]
  have "mem_held m1 = mem_held m" using getOrStore_held [OF m2(1)] m2(2) assms(2) by simp
  with v m2(2) show ?thesis by auto
qed

definition ex_instance :: "(unit, string \<Rightarrow> cval option, unit, unit, unit, unit) store_cache option" where
  "ex_instance = Some (InGo (map_gocache [''k'' \<mapsto> CBytes ''v'']))"

definition ex_mem :: "((unit, string \<Rightarrow> cval option, unit, unit, unit, unit) store_cache option, nat) cache_mem" where
  "ex_mem = \<lparr>mem_cache = ex_instance, mem_held = {}, mem_timers = [], mem_world = 0\<rparr>"

theorem get_or_store_value_witness:
  "\<exists>m1. GetOrStore (instance_itf store_itf) ''k'' (\<lambda>w. (Suc w, Returns (''new'', None))) ex_mem = (m1, Done (''v'', None))
      \<and> instance_view store_view (mem_cache m1) ''k'' \<in> {None, Some ''v''}"
proof -
  obtain m1 where m1: "GetOrStore (instance_itf store_itf) ''k'' (\<lambda>w. (Suc w, Returns (''new'', None))) ex_mem
      = (m1, Done (''v'', None))"
    by (simp add: GetOrStore_def mem_Atomic_def getOrStore_def ex_mem_def ex_instance_def Instance_Get_def
        GoCache_Get_def map_gocache_def)
  have "instance_ok store_ok (mem_cache ex_mem)" "lock_name ''k'' \<notin> mem_held ex_mem"
    by (simp_all add: ex_mem_def ex_instance_def instance_ok_def)
  from get_or_store_value [OF this m1] m1 show ?thesis by blast
qed

text \<open>A loader that panics under GetOrStore leaves the key's lock locked: from then on every
  GetOrStore and every Delete of that key blocks, and a deletion message for it blocks the
  subscription.\<close>

theorem loader_panic_blocks_key:
  assumes "ic_Get ic key (mem_cache m) = Returns (c1, dat, Some ErrNotFound)" "lock_name key \<notin> mem_held m"
    and "fn (mem_world m) = (w1, Panics p)"
  shows "\<exists>m1. GetOrStore ic key fn m = (m1, Crashes p)
     \<and> GetOrStore ic key fn' m1 = (m1, Blocks) \<and> mem_Delete ic key m1 = (m1, Blocks)
     \<and> (\<forall>ks. (snd (del_keys ic (key # ks) m1)) \<noteq> Done ())"
proof -
  define m1 where "m1 = m\<lparr>mem_held := insert (lock_name key) (mem_held m), mem_cache := c1, mem_world := w1\<rparr>"
  have g: "GetOrStore ic key fn m = (m1, Crashes p)"
    using assms by (simp add: GetOrStore_def mem_Atomic_def getOrStore_def Let_def m1_def)
  have "lock_name key \<in> mem_held m1" by (simp add: m1_def)
  moreover from this have "snd (del_keys ic (key # ks) m1) \<noteq> Done ()" for ks
    by (auto simp: raw_delete_def mem_Delete_def Atomic_blocks split: outcome.splits)
  ultimately show ?thesis using g by (auto simp: GetOrStore_def mem_Delete_def Atomic_blocks)
qed

theorem loader_panic_blocks_key_witness:
  "\<exists>m1. GetOrStore gocache_itf ''k'' (\<lambda>w. (w, Panics ''boom'')) (mem_start Map.empty (0 :: nat)) = (m1, Crashes ''boom'')
     \<and> mem_Delete gocache_itf ''k'' m1 = (m1, Blocks)"
proof -
  have "ic_Get gocache_itf ''k'' (mem_cache (mem_start Map.empty (0 :: nat))) = Returns (map_gocache Map.empty, [], Some ErrNotFound)"
    by (simp add: GoCache_Get_def map_gocache_def)
  from loader_panic_blocks_key [OF this, of "\<lambda>w. (w, Panics ''boom'')" 0 "''boom''"] show ?thesis by auto
qed


section \<open>Invalidation\<close>

text \<open>A deletion reaches every reader: let a reader know some key columns of a row (the others
  zero) and a writer publish the deletion for the full row.  Once the subscriber of a process
  with a go-cache has handled that message, the reader's next lookup, under whatever column
  Values puts first, runs its loader: no cached copy of the row survives under any of its keys.\<close>

theorem deletion_reaches_readers:
  assumes "key_env_ok ke" "bn_indexes part = None" "bn_table part = bn_table full"
    and "distinct (map (ke_field ke \<circ> fst) (key_fields (bn_fields part)))"
    and "distinct (map (ke_field ke \<circ> fst) (key_fields (bn_fields full)))"
    and "partial_of (bn_fields part) (bn_fields full)"
    and "bind_Values ke part [] = Returns (q # qs)" "CacheMemKeys ke full cond = Returns keys"
    and "gocache_documented (mem_cache m)" "mem_held m = {}"
  shows "\<exists>m1. subAction gocache_itf [SubMessage (Some (sub_payload (pubDelMemName r) (keys_json keys)))] (redis_Subscribe r) m
            = (redis_Subscribe r, m1, Done False)
     \<and> (\<forall>fn m2 d. GetOrStore gocache_itf (memKey part q) fn m1 = (m2, Done (d, None)) \<longrightarrow>
           fn (mem_world m1) = (mem_world m2, Returns (d, None)))"
proof -
  have "memKey part q \<in> set keys"
    by (rule first_key_covered [OF assms(1,4,5,2,3,6,7,8)])
  then show ?thesis using clean_gocache.deletion_reaches assms(9,10) by blast
qed

theorem deletion_reaches_readers_witness:
  "\<exists>m1. subAction gocache_itf
       [SubMessage (Some (sub_payload (pubDelMemName (new_redis ''app'')) (keys_json [''user::id=7'', ''user::'' @ user_key ''ann''])))]
       (redis_Subscribe (new_redis ''app''))
       (mem_start [''user::'' @ user_key ''ann'' \<mapsto> CBytes ''old''] (0 :: nat))
     = (redis_Subscribe (new_redis ''app''), m1, Done False)
   \<and> (\<forall>fn m2 d. GetOrStore gocache_itf (''user::'' @ user_key ''ann'') fn m1 = (m2, Done (d, None)) \<longrightarrow>
          fn (mem_world m1) = (mem_world m2, Returns (d, None)))"
proof -
  have keys: "CacheMemKeys plain_keys (user_bean 7 ''ann'') [] = Returns [''user::id=7'', ''user::'' @ user_key ''ann'']"
    by (simp add: CacheMemKeys_def Values_user memKey_def)
  have key: "memKey (user_bean 0 ''ann'') (user_key ''ann'') = ''user::'' @ user_key ''ann''"
    by (simp add: memKey_def)
  show ?thesis
    using deletion_reaches_readers [where part = "user_bean 0 ''ann''" and m = "mem_start [''user::'' @ user_key ''ann'' \<mapsto> CBytes ''old''] 0"
        and r = "new_redis ''app''", OF plain_keys_ok _ _ _ _ _ Values_user_name keys]
    unfolding key by simp
qed

text \<open>A reader of a row: it knows some of the key columns, with the row's values.\<close>

definition reader_of :: "key_env \<Rightarrow> bean \<Rightarrow> bean \<Rightarrow> bool" where
  "reader_of ke part full \<longleftrightarrow>
     bn_indexes part = None \<and> bn_table part = bn_table full \<and> partial_of (bn_fields part) (bn_fields full)
   \<and> distinct (map (ke_field ke \<circ> fst) (key_fields (bn_fields part)))
   \<and> distinct (map (ke_field ke \<circ> fst) (key_fields (bn_fields full)))"


text \<open>A database that accepts everything, and a Redis that records what is published.\<close>

definition recording_env :: "bean bean_codec \<Rightarrow> ((string \<Rightarrow> cval option) gocache, json list) mysql_env" where
  "recording_env bc = \<lparr>me_itf = gocache_itf, me_keys = plain_keys,
     me_orm = \<lparr>or_begin = (\<lambda>w. (w, None)), or_commit = (\<lambda>w. (w, None)), or_rollback = (\<lambda>w. (w, None)), or_close = (\<lambda>w. w),
       or_get = (\<lambda>ms q b w. (w, Inr None)), or_get_tx = (\<lambda>q b w. (w, b, None)), or_insert = (\<lambda>b w. (w, b, Inr 1)),
       or_delete = (\<lambda>q b w. (w, None)), or_update = (\<lambda>q cols b w. (w, b, Inr 1))\<rparr>,
     me_redis = \<lparr>rd_ping = (\<lambda>d w. (w, None)), rd_publish = (\<lambda>ch m w. (w @ [m], None))\<rparr>,
     me_codec = bc, me_hooks = no_hooks\<rparr>"

lemma recording_announcing: "announcing (recording_env bc) id"
  by (simp add: announcing_def recording_env_def env_ok_def silent_redis_def no_hooks_def hook_ok_def)




text \<open>C24. A condition hides the key: a lookup uses the shortest of its conditions only, so when a caller's
  condition is shorter than every key condition of the model, a cached row for that condition is
  handed out whatever the key columns of the model say.\<close>

theorem condition_hides_keys:
  assumes "key_env_ok (me_keys me)" "bn_indexes bn = None" "bind_Values (me_keys me) bn [CondString c] = Returns qs"
    and "distinct (map (ke_field (me_keys me) \<circ> fst) (key_fields (bn_fields bn)))"
    and "\<forall>k \<in> field_conditions (ke_field (me_keys me)) (bn_fields bn). length c < length k"
    and "me_itf me = gocache_itf" "gocache_documented (mem_cache (my_mem st))" "mem_held (my_mem st) = {}"
    and "gocache_view (mem_cache (my_mem st)) (memKey bn c) = Some dat"
  shows "\<exists>st1. CacheGet me bn [CondString c] st = decode_row me bn (memKey bn c) dat st1 \<and> my_world st1 = my_world st"
proof -
  obtain rest where qs: "qs = c # rest" using shortest_first [OF assms(1-5)] by blast
  obtain m1 where hit: "GetOrStore gocache_itf (memKey bn c) (cache_load me bn (OptionWords [''Unscoped'']) c) (my_mem st)
      = (m1, Done (dat, None))" "mem_world m1 = mem_world (my_mem st)"
    using steady_gocache.GetOrStore_hit [OF assms(7,9), of "cache_load me bn (OptionWords [''Unscoped'']) c"] assms(8) by auto
  have "CacheGet me bn [CondString c] st = decode_row me bn (memKey bn c) dat (st\<lparr>my_mem := m1\<rparr>)"
    by (simp add: CacheGet_def cacheGet_def assms(3,6) qs and_then_def of_outcome_def mem_GetOrStore_def hit(1) Let_def)
  with hit(2) show ?thesis by (auto simp: my_world_def)
qed

text \<open>A process that has cached the row of user 7 for the condition answers it for user 8.\<close>

definition row_codec :: "bean bean_codec" where
  "row_codec = \<lparr>bc_json = (\<lambda>b. Inr JNull), bc_of_json = (\<lambda>j b. Inr (user_bean 7 ''ann'')), bc_print = (\<lambda>j. ''row''),
     bc_scan = (\<lambda>s. Inr JNull), bc_new = id\<rparr>"

theorem condition_hides_keys_witness:
  "\<exists>st1. CacheGet (db_env None row_codec) (user_bean 8 []) [CondString ''v=1'']
       \<lparr>my_mem = mem_start [''user::v=1'' \<mapsto> CBytes ''row''] (Map.empty, None), my_redis = new_redis ''app''\<rparr>
     = (st1, Done (Inr (user_bean 7 ''ann'')))"
proof -
  let ?me = "db_env None row_codec"
  let ?st = "\<lparr>my_mem = mem_start [''user::v=1'' \<mapsto> CBytes ''row''] (Map.empty, None), my_redis = new_redis ''app''\<rparr>
    :: ((string \<Rightarrow> cval option) gocache, db) mysql"
  have me: "me_keys ?me = plain_keys" "me_itf ?me = gocache_itf" "me_codec ?me = row_codec" by (simp_all add: db_env_def)
  have v: "bind_Values (me_keys ?me) (user_bean 8 []) [CondString ''v=1''] = Returns [''v=1'', ''id=8'']"
    unfolding me(1) by code_simp
  have n: "show_int 8 = ''8''" by code_simp
  have w: "gocache_view (map_gocache [''user::v=1'' \<mapsto> CBytes ''row'']) ''user::v=1'' = Some ''row''"
    by (simp add: gocache_view_def map_gocache_def)
  have k: "memKey (user_bean 8 []) ''v=1'' = ''user::v=1''" by (simp add: memKey_def)
  have l: "\<forall>k \<in> field_conditions (ke_field (me_keys ?me)) (bn_fields (user_bean 8 [])). length ''v=1'' < length k"
    by (auto simp: me(1) field_conditions_def n)
  have "\<exists>st1. CacheGet ?me (user_bean 8 []) [CondString ''v=1''] ?st
      = decode_row ?me (user_bean 8 []) (memKey (user_bean 8 []) ''v=1'') ''row'' st1 \<and> my_world st1 = my_world ?st"
    by (rule condition_hides_keys [OF _ _ v _ l me(2)]) (simp_all add: me(1) k w)
  moreover have "decode_row ?me (user_bean 8 []) q ''row'' st1 = (st1, Done (Inr (user_bean 7 ''ann'')))" for q st1
    by (simp add: decode_row_def cacheNULL_def of_sum_def db_env_def bean_unmarshal_def row_codec_def)
  ultimately show ?thesis by auto
qed

text \<open>C7. No stale row survives: in every interleaving of one key's readers, writing transactions and
  deletion handlers in which a transaction ends before the second deletion it arranged has
  started, a cached or about-to-be-cached value that is not the committed row always has a
  deletion still to come; so once all deletions are done the cache holds the committed row or
  nothing, and no reader is about to store anything else.\<close>

theorem no_stale_row:
  assumes "race_reach False s"
  shows "(stale s \<longrightarrow> pending s > 0) \<and> (pending s = 0 \<longrightarrow> entry s \<in> {None, Some (row s)})"
  using race_inv [OF assms] by (cases "entry s") (auto simp: stale_def)

theorem no_stale_row_witness:
  "race_reach False (race_start\<lparr>row := 1\<rparr>) \<and> entry (race_start\<lparr>row := 1\<rparr>) \<in> {None, Some 1}"
proof -
  let ?s = "[race_start, race_start\<lparr>uncommitted := Some 1\<rparr>, race_start\<lparr>uncommitted := Some 1, messages := 1\<rparr>,
      race_start\<lparr>row := 1, messages := 1\<rparr>, race_start\<lparr>row := 1, first_locked := 1\<rparr>,
      race_start\<lparr>row := 1, timers := 1\<rparr>, race_start\<lparr>row := 1, second_locked := 1\<rparr>, race_start\<lparr>row := 1\<rparr>]"
  have "chain (race_step False) ?s" by (simp add: race_step.simps race_start_def)
  from chain_reach [OF this] have reach: "race_reach False (race_start\<lparr>row := 1\<rparr>)" by simp
  have "pending (race_start\<lparr>row := 1\<rparr>) = 0" by (simp add: pending_def race_start_def)
  with no_stale_row [OF reach] reach show ?thesis by simp
qed



section \<open>Transactions\<close>

text \<open>C12. Insert, Update and Delete are atomic: after the call the committed database is the one before
  it, unless the session's function ran to its end without an error and Commit was called; then
  either the call succeeded and the committed database is what the transaction saw at that
  point, or Commit itself failed and the error says so.\<close>

theorem mysql_writes_atomic:
  assumes env: "env_ok me c v"
    and run: "TXCallback me act st = (st', r)"
    and act: "act \<in> {Session_Insert me b, Session_Delete me b, Session_Update me b ps}"
  shows "c (my_world st') = c (my_world st)
     \<or> (\<exists>x st1 st2. act st1 = (st2, Done (Inr x)) \<and> c (my_world st1) = c (my_world st)
           \<and> (r = Done (Inr x) \<and> c (my_world st') = v (my_world st2)
              \<or> (\<exists>t. r = Done (Inl (DbError (''tx Commit:'' @ t))))))"
proof -
  have "keeps c act" using act keeps_Session [OF env] by auto
  from TXCallback_atomic_aux(1) [OF env this run] show ?thesis by blast
qed

theorem mysql_writes_atomic_witness:
  "\<forall>bc. \<exists>st'. TXCallback (db_env (Some ''lost'') bc) (Session_Insert (db_env (Some ''lost'') bc) (user_bean 7 ''ann'')) db_start
       = (st', Done (Inl (DbError ''lost'')))
     \<and> committed_rows (my_world st') = Map.empty"
proof
  fix bc
  let ?me = "db_env (Some ''lost'') bc"
  have keys: "CacheMemKeys plain_keys (user_bean 7 ''ann'') [] = Returns [''user::id=7'', ''user::'' @ user_key ''ann'']"
    by (simp add: CacheMemKeys_def Values_user memKey_def)
  have "\<exists>st'. TXCallback ?me (Session_Insert ?me (user_bean 7 ''ann'')) db_start = (st', Done (Inl (DbError ''lost'')))"
    by (simp add: TXCallback_def Session_Insert_def and_then_def run_hook_def insert_row_def DelCache_def keys
        publish_keys_def PubDelCache_def Pub_def redis_client_def on_world_def of_outcome_def Let_def
        db_env_def db_orm_def no_hooks_def db_redis_def db_put_def db_start_def my_world_def set_world_def new_redis_def)
  then obtain st' where st': "TXCallback ?me (Session_Insert ?me (user_bean 7 ''ann'')) db_start = (st', Done (Inl (DbError ''lost'')))" ..
  have "committed_rows (my_world st') = committed_rows (my_world db_start)"
    using mysql_writes_atomic [OF db_env_ok st'] by auto
  with st' show "\<exists>st'. TXCallback ?me (Session_Insert ?me (user_bean 7 ''ann'')) db_start = (st', Done (Inl (DbError ''lost'')))
     \<and> committed_rows (my_world st') = Map.empty"
    by (simp add: db_start_def my_world_def committed_rows_def)
qed


section \<open>Tables and pages\<close>

text \<open>TableRegister keeps table names distinct and what was registered before, and a table whose
  name is taken ends the call: the tables listed after it are not registered.\<close>

theorem table_register:
  assumes "distinct (map tb_name registered)"
  shows "distinct (map tb_name (TableRegister tbs registered))
    \<and> (\<exists>new. TableRegister tbs registered = registered @ new \<and> set new \<subseteq> set tbs)
    \<and> (distinct (map tb_name (registered @ xs)) \<longrightarrow> tb_name tb \<in> tb_name ` set (registered @ xs) \<longrightarrow>
       TableRegister (xs @ tb # ys) registered = registered @ xs)"
  using TableRegister_distinct [OF assms] TableRegister_keeps TableRegister_stops by blast

definition plain_table :: "string \<Rightarrow> unit table" where
  "plain_table n = \<lparr>tb_name = n, tb_indexes = None, tb_init = None, tb_after = None\<rparr>"

theorem table_register_witness:
  "TableRegister ([plain_table ''a''] @ plain_table ''a'' # [plain_table ''b'']) [] = [] @ [plain_table ''a'']"
  using table_register [of "[]" "[]" "[plain_table ''a'']" "plain_table ''a''" "[plain_table ''b'']"] by simp


definition three_rows :: "nat engine" where
  "three_rows = \<lparr>en_quote = id, en_find = (\<lambda>sq. Inr [1, 2]), en_count = (\<lambda>tab c. Inr 3)\<rparr>"

definition two_per_page :: query_params where
  "two_per_page = \<lparr>qp_Page = 0, qp_PageCount = 2, qp_Conditions = [], qp_OrderBy = [], qp_Asc = True,
                   qp_TimeColumn = [], qp_TimeBetween = []\<rparr>"



section \<open>The Redis connection\<close>

text \<open>Shutting down a process whose Redis object never subscribed panics on its nil channel; one
  that subscribed closes it exactly once, however often it is asked to.\<close>

theorem close_redis_sub:
  assumes "\<not> ro_is_close r"
  shows "(ro_close_chan r = None \<longrightarrow> snd (closeRedisSub r) = Panics ''close of nil channel'')
    \<and> closeRedisSub (redis_Subscribe r) = ((redis_Subscribe r)\<lparr>ro_is_close := True, ro_close_chan := Some True\<rparr>, Returns ())
    \<and> closeRedisSub (fst (closeRedisSub (redis_Subscribe r))) = (fst (closeRedisSub (redis_Subscribe r)), Returns ())"
  using assms by (simp_all add: closeRedisSub_def redis_Subscribe_def SubHandle_def Let_def)

theorem close_redis_sub_witness:
  "snd (closeRedisSub (new_redis ''app'')) = Panics ''close of nil channel''"
  using close_redis_sub [of "new_redis ''app''"] by (simp add: new_redis_def)

end
