(* ===== verification/Token.thy ===== *)
theory Token
  imports Mysql_Facts
begin

text \<open>
  Login tokens (src/g2db/token.go): a token is the encrypted user id, its data live in one field
  of a Redis hash, and verification reads them through the memory cache.  Parameters: the AES
  functions, com's integer parsing, the JSON text of TokenData and the hash calls of the Redis
  client; times are integers (nanoseconds), and the two readings of the clock in one
  verification are arguments.
\<close>

record token_data =
  td_ID :: int
  td_Token :: string
  td_Expire :: "int option"

datatype hash_reply = HashValue string | HashNil | HashError string

record 'w hash_calls =
  hc_get :: "string \<Rightarrow> string \<Rightarrow> 'w \<Rightarrow> 'w \<times> hash_reply"
  hc_set :: "string \<Rightarrow> string \<Rightarrow> string \<Rightarrow> 'w \<Rightarrow> 'w \<times> string option"
  hc_del :: "string \<Rightarrow> string \<Rightarrow> 'w \<Rightarrow> 'w \<times> string option"

record token_lib =
  tl_encrypt :: "string \<Rightarrow> string \<Rightarrow> string"
  tl_decrypt :: "string \<Rightarrow> string \<Rightarrow> string + string"
  tl_must_int64 :: "string \<Rightarrow> int"
  tl_print :: "token_data \<Rightarrow> string"
  tl_parse :: "string \<Rightarrow> string + token_data"

record token_option =
  to_CacheKey :: string
  to_Timeout :: int
  to_MaxRefresh :: int
  to_EncryptKey :: string
  to_MultiLogin :: "int \<Rightarrow> bool"

record ('c, 'w) token_env =
  te_itf :: "'c itf_cache"
  te_redis :: "'w redis_lib"
  te_hash :: "'w hash_calls"
  te_lib :: token_lib
  te_name :: string
  te_option :: token_option

datatype token_error =
    IllegalAccess
  | BadToken string
  | UnknownToken
  | InvalidToken
  | ExpiredToken
  | TokenFault db_error
  | AuthFailed token_error
  | ExtraCheck string

definition SYSKey :: string where "SYSKey = ''P6UEgd7ln9mpMz5hGWYqT21cSHOtkJQZ''"

definition default_timeout :: int where "default_timeout = 3600 * 10 ^ 9 * 24 * 10"

text \<open>Constructor and NewCopy: the options with a hash name.\<close>

definition default_option :: "string \<Rightarrow> token_option" where
  "default_option key =
     \<lparr>to_CacheKey = key, to_Timeout = default_timeout, to_MaxRefresh = default_timeout div 2,
      to_EncryptKey = take 16 SYSKey, to_MultiLogin = (\<lambda>i. False)\<rparr>"

definition redisCacheKey :: "('c, 'w) token_env \<Rightarrow> string" where
  "redisCacheKey te =
     (if te_name te = [] then to_CacheKey (te_option te)
      else te_name te @ '':'' @ to_CacheKey (te_option te))"

definition memCacheKey :: "('c, 'w) token_env \<Rightarrow> int \<Rightarrow> string" where
  "memCacheKey te i = redisCacheKey te @ ''::'' @ show_int i"

definition generateTd :: "token_lib \<Rightarrow> token_option \<Rightarrow> int \<Rightarrow> int \<Rightarrow> token_data" where
  "generateTd lib opt now i =
     \<lparr>td_ID = i, td_Token = to_upper (tl_encrypt lib (to_EncryptKey opt) (show_int i)),
      td_Expire = Some (now + to_Timeout opt)\<rparr>"

definition getIDByToken :: "token_lib \<Rightarrow> token_option \<Rightarrow> string \<Rightarrow> string + int" where
  "getIDByToken lib opt token =
     map_sum_right (tl_must_int64 lib) (tl_decrypt lib (to_EncryptKey opt) (to_lower token))"


section \<open>Redis\<close>

text \<open>A call on the default client, which may panic when it cannot connect.\<close>

definition with_client :: "('c, 'w) token_env \<Rightarrow> ('c, 'w, 'e + 'a) action \<Rightarrow> ('c, 'w, 'e + 'a) action" where
  "with_client te act st =
     (case redis_client (te_redis te) [] (my_redis st, my_world st) of
        ((r, w), Panics p) \<Rightarrow> ((set_world w st)\<lparr>my_redis := r\<rparr>, Crashes p)
      | ((r, w), Returns db) \<Rightarrow> act ((set_world w st)\<lparr>my_redis := r\<rparr>))"

definition lift_error :: "('e \<Rightarrow> 'f) \<Rightarrow> ('c, 'w, 'e + 'a) action \<Rightarrow> ('c, 'w, 'f + 'a) action" where
  "lift_error g act st =
     (case act st of
        (st1, Done (Inl e)) \<Rightarrow> (st1, Done (Inl (g e)))
      | (st1, Done (Inr x)) \<Rightarrow> (st1, Done (Inr x))
      | (st1, Blocks) \<Rightarrow> (st1, Blocks)
      | (st1, Crashes p) \<Rightarrow> (st1, Crashes p))"

definition hash_call :: "('w \<Rightarrow> 'w \<times> string option) \<Rightarrow> ('c, 'w, token_error + unit) action" where
  "hash_call f = lift_error TokenFault (orm_call f)"

definition write_td :: "('c, 'w) token_env \<Rightarrow> token_data \<Rightarrow> ('c, 'w, token_error + unit) action" where
  "write_td te td =
     with_client te
       (and_then (hash_call (hc_set (te_hash te) (redisCacheKey te) (show_int (td_ID td)) (tl_print (te_lib te) td)))
         (\<lambda>u. lift_error TokenFault (publish_keys (te_redis te) [memCacheKey te (td_ID td)])))"

definition removeTokenData :: "('c, 'w) token_env \<Rightarrow> int \<Rightarrow> ('c, 'w, token_error + unit) action" where
  "removeTokenData te i =
     with_client te
       (and_then (hash_call (hc_del (te_hash te) (redisCacheKey te) (show_int i)))
         (\<lambda>u. lift_error TokenFault (publish_keys (te_redis te) [memCacheKey te i])))"

definition Logout where "Logout te i = removeTokenData te i"

text \<open>
  write2redis of Token: with multi-login an existing token is handed out again, unless reading
  it fails in any way.
\<close>

definition hash_read :: "('c, 'w) token_env \<Rightarrow> int \<Rightarrow> ('c, 'w, token_error + hash_reply) action" where
  "hash_read te i st =
     (case on_world (hc_get (te_hash te) (redisCacheKey te) (show_int i)) st of (st1, r) \<Rightarrow> (st1, Done (Inr r)))"

definition fresh_login :: "('c, 'w) token_env \<Rightarrow> int \<Rightarrow> int \<Rightarrow> ('c, 'w, token_error + token_data) action" where
  "fresh_login te now i =
     (let td = generateTd (te_lib te) (te_option te) now i
      in and_then (write_td te td) (\<lambda>u. ok td))"

definition AfterLogin :: "('c, 'w) token_env \<Rightarrow> int \<Rightarrow> int \<Rightarrow> ('c, 'w, token_error + token_data) action" where
  "AfterLogin te now i =
     (if to_MultiLogin (te_option te) i then
        with_client te (and_then (hash_read te i) (\<lambda>r.
          case r of
            HashValue ts1 \<Rightarrow> (case tl_parse (te_lib te) ts1 of
                                Inl e \<Rightarrow> fail (TokenFault (DbError e)) | Inr td \<Rightarrow> ok td)
          | _ \<Rightarrow> fresh_login te now i))
      else fresh_login te now i)"


section \<open>Verification\<close>

definition token_load :: "('c, 'w) token_env \<Rightarrow> int \<Rightarrow> 'w \<Rightarrow> 'w \<times> (string \<times> cache_error option) outcome" where
  "token_load te i w =
     (case hc_get (te_hash te) (redisCacheKey te) (show_int i) w of
        (w1, HashNil) \<Rightarrow> (w1, Returns (cacheNULL, None))
      | (w1, HashError e) \<Rightarrow> (w1, Returns ([], Some (CacheError e)))
      | (w1, HashValue s) \<Rightarrow> (w1, Returns (s, None)))"

text \<open>What cacheVerify does with the bytes: compare, expire, refresh.\<close>

definition check_token ::
  "('c, 'w) token_env \<Rightarrow> int \<Rightarrow> int \<Rightarrow> int \<Rightarrow> string \<Rightarrow> string \<Rightarrow> ('c, 'w, token_error + token_data) action" where
  "check_token te now later i token dat =
     (if dat = cacheNULL then fail UnknownToken
      else case tl_parse (te_lib te) dat of
        Inl e \<Rightarrow> fail (TokenFault (DbError e))
      | Inr tt \<Rightarrow>
          if td_Token tt \<noteq> token then fail InvalidToken
          else case td_Expire tt of
            None \<Rightarrow> (\<lambda>st. (st, Crashes ''nil pointer dereference''))
          | Some ex \<Rightarrow>
              if now > ex then and_then (removeTokenData te i) (\<lambda>u. fail ExpiredToken)
              else if ex - now < to_MaxRefresh (te_option te) then
                (let tt1 = tt\<lparr>td_Expire := Some (later + to_Timeout (te_option te))\<rparr>
                 in and_then (write_td te tt1) (\<lambda>u. ok tt1))
              else ok tt)"

definition cacheVerify ::
  "('c, 'w) token_env \<Rightarrow> int \<Rightarrow> int \<Rightarrow> int \<Rightarrow> string \<Rightarrow> ('c, 'w, token_error + token_data) action" where
  "cacheVerify te now later i token =
     with_client te
       (and_then (lift_error TokenFault (mem_GetOrStore (te_itf te) (memCacheKey te i) (token_load te i)))
         (check_token te now later i token))"

record gin_request =
  gr_header :: "string \<Rightarrow> string"
  gr_query :: "string \<Rightarrow> string"

definition request_token :: "gin_request \<Rightarrow> string" where
  "request_token g =
     (let t1 = gr_header g ''token'';
          t2 = (if t1 = [] then gr_header g ''Authorization'' else t1);
          t3 = (if t2 = [] then gr_query g ''token'' else t2)
      in replace_all t3 ''Bearer '' [])"

text \<open>The extra checks; a nil function is skipped, the first error is returned as it is.\<close>

fun run_checks :: "('c, 'w, token_error + unit) action option list \<Rightarrow> ('c, 'w, token_error + unit) action" where
  "run_checks [] = ok ()"
| "run_checks (None # fs) = run_checks fs"
| "run_checks (Some f # fs) = and_then f (\<lambda>u. run_checks fs)"

text \<open>verify: what it stores in the context is the first component of its result.\<close>

definition verify ::
  "('c, 'w) token_env \<Rightarrow> int \<Rightarrow> int \<Rightarrow> gin_request \<Rightarrow> ('c, 'w, token_error + unit) action option list
     \<Rightarrow> ('c, 'w, token_error + string \<times> int) action" where
  "verify te now later g fns =
     (let token = request_token g
      in if token = [] then fail IllegalAccess
         else case getIDByToken (te_lib te) (te_option te) token of
                Inl e \<Rightarrow> fail (BadToken e)
              | Inr i \<Rightarrow>
                  and_then (lift_error AuthFailed (cacheVerify te now later i token)) (\<lambda>tt.
                    and_then (run_checks fns) (\<lambda>u. ok (token, td_ID tt))))"


section \<open>Facts\<close>

text \<open>What the libraries document.\<close>

definition token_lib_ok :: "token_lib \<Rightarrow> bool" where
  "token_lib_ok lib \<longleftrightarrow>
     (\<forall>key i. tl_decrypt lib key (tl_encrypt lib key (show_int i)) = Inr (show_int i)
              \<and> list_all (\<lambda>c. \<not> is_upper c) (tl_encrypt lib key (show_int i)))
   \<and> (\<forall>i. in_int64 i \<longrightarrow> tl_must_int64 lib (show_int i) = i)
   \<and> (\<forall>td ex. in_int64 (td_ID td) \<longrightarrow> td_Expire td = Some ex \<longrightarrow> in_int64 ex \<longrightarrow>
         tl_parse lib (tl_print lib td) = Inr td \<and> tl_print lib td \<noteq> cacheNULL)"

lemma getID_of_generated:
  assumes "token_lib_ok lib" "in_int64 i"
  shows "getIDByToken lib opt (td_Token (generateTd lib opt now i)) = Inr i"
  using assms by (simp add: getIDByToken_def generateTd_def token_lib_ok_def to_lower_to_upper)

lemma lift_error_InrD: "lift_error h f st = (st1, Done (Inr x)) \<Longrightarrow> f st = (st1, Done (Inr x))"
  by (auto simp: lift_error_def split: prod.splits effect.splits sum.splits)

lemma with_client_InrD:
  "with_client te act st = (st1, Done (Inr x)) \<Longrightarrow>
     \<exists>st0. act st0 = (st1, Done (Inr x)) \<and> mem_cache (my_mem st0) = mem_cache (my_mem st)"
  by (auto simp: with_client_def set_world_def split: prod.splits outcome.splits)

text \<open>A token passes only if the bytes read hold that very token, unexpired.\<close>

lemma check_token_ok:
  assumes "check_token te now later i token dat st = (st1, Done (Inr tt1))"
  shows "\<exists>tt ex. tl_parse (te_lib te) dat = Inr tt \<and> td_Token tt = token \<and> td_Expire tt = Some ex \<and> now \<le> ex
     \<and> td_ID tt1 = td_ID tt \<and> td_Token tt1 = token
     \<and> (ex - now \<ge> to_MaxRefresh (te_option te) \<longrightarrow> tt1 = tt \<and> st1 = st)
     \<and> (ex - now < to_MaxRefresh (te_option te) \<longrightarrow> td_Expire tt1 = Some (later + to_Timeout (te_option te)))"
  using assms
  by (auto simp: check_token_def Let_def split: if_splits sum.splits option.splits dest!: and_then_InrD)

lemma mem_GetOrStore_InrD:
  "mem_GetOrStore ic key fn st = (st1, Done (Inr d)) \<Longrightarrow>
     \<exists>m. GetOrStore ic key fn (my_mem st) = (m, Done (d, None)) \<and> st1 = st\<lparr>my_mem := m\<rparr>"
  by (auto simp: mem_GetOrStore_def split: prod.splits effect.splits option.splits)

lemma GetOrStore_inner:
  assumes "GetOrStore ic key fn m = (m1, Done r)"
  shows "\<exists>m2. getOrStore ic key fn (m\<lparr>mem_held := insert (lock_name key) (mem_held m)\<rparr>) = (m2, Done r)
     \<and> mem_world m1 = mem_world m2 \<and> mem_cache m1 = mem_cache m2"
  using assms by (auto simp: GetOrStore_def mem_Atomic_def Let_def split: if_splits prod.splits effect.splits)

context cache begin

text \<open>Where the bytes of a verified token come from: the cache, or the hash at that moment.\<close>

lemma cacheVerify_source:
  assumes "inv (mem_cache (my_mem st))" "te_itf te = ic"
    and "cacheVerify te now later i token st = (st1, Done (Inr tt1))"
  shows "\<exists>dat tt ex. tl_parse (te_lib te) dat = Inr tt \<and> td_Token tt = token \<and> td_ID tt1 = td_ID tt
     \<and> td_Expire tt = Some ex \<and> now \<le> ex
     \<and> (view (mem_cache (my_mem st)) (memCacheKey te i) = Some dat
        \<or> (\<exists>w w1. token_load te i w = (w1, Returns (dat, None))))"
proof -
  from with_client_InrD [OF assms(3) [unfolded cacheVerify_def]] obtain st0 where
    st0: "and_then (lift_error TokenFault (mem_GetOrStore (te_itf te) (memCacheKey te i) (token_load te i)))
         (check_token te now later i token) st0 = (st1, Done (Inr tt1))"
      "mem_cache (my_mem st0) = mem_cache (my_mem st)" by blast
  from and_then_InrD [OF st0(1)] obtain st2 dat where
    get: "mem_GetOrStore (te_itf te) (memCacheKey te i) (token_load te i) st0 = (st2, Done (Inr dat))"
    and chk: "check_token te now later i token dat st2 = (st1, Done (Inr tt1))"
    by (blast dest: lift_error_InrD)
  from mem_GetOrStore_InrD [OF get] obtain m where
    m: "GetOrStore ic (memCacheKey te i) (token_load te i) (my_mem st0) = (m, Done (dat, None))"
    unfolding assms(2) by blast
  from GetOrStore_inner [OF m] obtain m2 where
    m2: "getOrStore ic (memCacheKey te i) (token_load te i)
       ((my_mem st0)\<lparr>mem_held := insert (lock_name (memCacheKey te i)) (mem_held (my_mem st0))\<rparr>) = (m2, Done (dat, None))"
    by blast
  have "inv (mem_cache ((my_mem st0)\<lparr>mem_held := insert (lock_name (memCacheKey te i)) (mem_held (my_mem st0))\<rparr>))"
    using assms(1) st0(2) by simp
  from getOrStore_value(2) [OF this m2] have
    "view (mem_cache (my_mem st)) (memCacheKey te i) = Some dat \<or> (\<exists>w w1. token_load te i w = (w1, Returns (dat, None)))"
    using st0(2) by auto
  with check_token_ok [OF chk] show ?thesis by blast
qed

end

lemma token_load_value:
  "token_load te i w = (w1, Returns (dat, None)) \<Longrightarrow>
     hc_get (te_hash te) (redisCacheKey te) (show_int i) w = (w1, HashValue dat)
     \<or> hc_get (te_hash te) (redisCacheKey te) (show_int i) w = (w1, HashNil) \<and> dat = cacheNULL"
  by (auto simp: token_load_def split: prod.splits hash_reply.splits)

text \<open>The token of an id does not depend on when, or how often, the user logs in.\<close>

lemma generateTd_token: "td_Token (generateTd lib opt now i) = td_Token (generateTd lib opt now' i)"
  by (simp add: generateTd_def)


text \<open>NewCopy: the same connections with options of its own.\<close>

definition NewCopy :: "string \<Rightarrow> ('c, 'w) token_env \<Rightarrow> ('c, 'w) token_env" where
  "NewCopy key te = te\<lparr>te_option := default_option key\<rparr>"

lemma NewCopy_apart:
  assumes "k1 \<noteq> k2"
  shows "redisCacheKey (NewCopy k1 te) \<noteq> redisCacheKey (NewCopy k2 te)"
  using assms by (simp add: NewCopy_def redisCacheKey_def default_option_def)

end
