(* ===== verification/Token_Properties.thy ===== *)
theory Token_Properties
  imports Token Example_Cache
begin

text \<open>
  The properties of login tokens: what a successful verification proves about the stored data,
  that a login is followed by a successful verification and a logout by a refused one, and that
  logging in again does not change the token.
\<close>

section \<open>A Redis hash\<close>

text \<open>What the Redis client documents about one hash, and that publishing leaves hashes alone.\<close>

definition hash_ok :: "('c, 'w) token_env \<Rightarrow> bool" where
  "hash_ok te \<longleftrightarrow>
     (\<forall>k f v w w'. hc_set (te_hash te) k f v w = (w', None) \<longrightarrow> snd (hc_get (te_hash te) k f w') = HashValue v)
   \<and> (\<forall>k f w w'. hc_del (te_hash te) k f w = (w', None) \<longrightarrow> snd (hc_get (te_hash te) k f w') = HashNil)
   \<and> (\<forall>k f ch m w. snd (hc_get (te_hash te) k f (fst (rd_publish (te_redis te) ch m w))) = snd (hc_get (te_hash te) k f w))"

lemma redis_client_connected:
  "redis_client lib [] (r, w) = ((r1, w1), Returns db) \<Longrightarrow> 0 \<in> ro_clients r1 \<and> db = 0"
  by (auto simp: redis_client_def Let_def split: if_splits option.splits prod.splits)

lemma redis_client_again: "0 \<in> ro_clients r \<Longrightarrow> redis_client lib [] (r, w) = ((r, w), Returns 0)"
  by (simp add: redis_client_def Let_def)

lemma with_client_connected: "0 \<in> ro_clients (my_redis st) \<Longrightarrow> with_client te act st = act st"
  by (simp add: with_client_def redis_client_again my_world_def set_world_def)

lemma publish_world:
  assumes "0 \<in> ro_clients (my_redis st)" "publish_keys lib keys st = (st1, Done (Inr u))"
  shows "\<exists>ch m. my_world st1 = fst (rd_publish lib ch m (my_world st)) \<and> my_redis st1 = my_redis st"
  using assms
  by (auto simp: publish_keys_def PubDelCache_def Pub_def redis_client_again split: prod.splits outcome.splits option.splits)
     (metis fst_conv)

text \<open>One write or deletion followed by its message, on a connected client.\<close>

lemma hash_then_publish:
  assumes "hash_ok te"
    and "with_client te (and_then (hash_call f) (\<lambda>u. lift_error TokenFault (publish_keys (te_redis te) keys))) st
         = (st1, Done (Inr ()))"
    and "\<And>w w'. f w = (w', None) \<Longrightarrow> snd (hc_get (te_hash te) k fd w') = reply"
  shows "snd (hc_get (te_hash te) k fd (my_world st1)) = reply \<and> 0 \<in> ro_clients (my_redis st1)"
proof -
  from assms(2) obtain r w db where rc: "redis_client (te_redis te) [] (my_redis st, my_world st) = ((r, w), Returns db)"
    and run: "and_then (hash_call f) (\<lambda>u. lift_error TokenFault (publish_keys (te_redis te) keys)) ((set_world w st)\<lparr>my_redis := r\<rparr>)
       = (st1, Done (Inr ()))"
    by (auto simp: with_client_def split: prod.splits outcome.splits)
  have con: "0 \<in> ro_clients r" using redis_client_connected [OF rc] by simp
  from and_then_InrD [OF run] obtain st2 u where
    h: "hash_call f ((set_world w st)\<lparr>my_redis := r\<rparr>) = (st2, Done (Inr u))"
    and p: "publish_keys (te_redis te) keys st2 = (st1, Done (Inr ()))"
    by (blast dest: lift_error_InrD)
  from h have f: "f w = (my_world st2, None)" and r2: "my_redis st2 = r"
    by (auto simp: hash_call_def lift_error_def orm_call_def on_world_def set_world_def my_world_def
        split: prod.splits option.splits)
  obtain ch m where "my_world st1 = fst (rd_publish (te_redis te) ch m (my_world st2))" "my_redis st1 = r"
    using publish_world [OF _ p] con r2 by auto
  with assms(1) assms(3) [OF f] con show ?thesis by (simp add: hash_ok_def)
qed

lemma write_td_stored:
  assumes "hash_ok te" "write_td te td st = (st1, Done (Inr ()))"
  shows "snd (hc_get (te_hash te) (redisCacheKey te) (show_int (td_ID td)) (my_world st1))
      = HashValue (tl_print (te_lib te) td) \<and> 0 \<in> ro_clients (my_redis st1)"
  by (rule hash_then_publish [OF assms(1) assms(2) [unfolded write_td_def]])
     (use assms(1) in \<open>simp add: hash_ok_def\<close>)

lemma remove_gone:
  assumes "hash_ok te" "removeTokenData te i st = (st1, Done (Inr ()))"
  shows "snd (hc_get (te_hash te) (redisCacheKey te) (show_int i) (my_world st1)) = HashNil
      \<and> 0 \<in> ro_clients (my_redis st1)"
  by (rule hash_then_publish [OF assms(1) assms(2) [unfolded removeTokenData_def]])
     (use assms(1) in \<open>simp add: hash_ok_def\<close>)

text \<open>Reading a token through an empty go-cache asks the hash.\<close>

lemma token_miss:
  assumes "te_itf te = gocache_itf" "gocache_documented (mem_cache (my_mem st))"
    and "gocache_view (mem_cache (my_mem st)) (memCacheKey te i) = None"
    and "gl_get (mem_cache (my_mem st)) (memCacheKey te i) (gc_inc (mem_cache (my_mem st))) = None"
    and "mem_held (my_mem st) = {}" "token_load te i (my_world st) = (w1, Returns (dat, None))"
  shows "\<exists>st1. mem_GetOrStore (te_itf te) (memCacheKey te i) (token_load te i) st = (st1, Done (Inr dat))
     \<and> my_redis st1 = my_redis st"
  using assms
  by (simp add: mem_GetOrStore_def GetOrStore_def mem_Atomic_def getOrStore_def GoCache_Get_def GoCache_Set_def
      my_world_def Let_def)

text \<open>A process whose go-cache has no entry for the key: the deletion message has been handled.\<close>

definition cache_cleared :: "('d gocache, 'w) mysql \<Rightarrow> string \<Rightarrow> bool" where
  "cache_cleared st key \<longleftrightarrow>
     gocache_documented (mem_cache (my_mem st)) \<and> mem_held (my_mem st) = {}
     \<and> gl_get (mem_cache (my_mem st)) key (gc_inc (mem_cache (my_mem st))) = None"

lemma token_read_cleared:
  assumes "te_itf te = gocache_itf" "cache_cleared st (memCacheKey te i)" "0 \<in> ro_clients (my_redis st)"
    and "token_load te i (my_world st) = (w1, Returns (dat, None))"
  shows "\<exists>st1. cacheVerify te now later i token st = check_token te now later i token dat st1"
proof -
  have "gocache_view (mem_cache (my_mem st)) (memCacheKey te i) = None"
    using assms(2) by (simp add: cache_cleared_def gocache_view_def)
  then obtain st1 where "mem_GetOrStore (te_itf te) (memCacheKey te i) (token_load te i) st = (st1, Done (Inr dat))"
    using token_miss [OF assms(1)] assms(2,4) unfolding cache_cleared_def by blast
  then have "cacheVerify te now later i token st = check_token te now later i token dat st1"
    by (simp add: cacheVerify_def with_client_connected [OF assms(3)] and_then_def lift_error_def)
  then show ?thesis by blast
qed

lemma load_reply:
  "snd (hc_get (te_hash te) (redisCacheKey te) (show_int i) w) = HashValue s \<Longrightarrow>
     \<exists>w1. token_load te i w = (w1, Returns (s, None))"
  "snd (hc_get (te_hash te) (redisCacheKey te) (show_int i) w) = HashNil \<Longrightarrow>
     \<exists>w1. token_load te i w = (w1, Returns (cacheNULL, None))"
  by (auto simp: token_load_def split: prod.splits)


section \<open>An instance\<close>

text \<open>A cipher that hides nothing, one hash as a map, and TokenData printed with separators.\<close>

definition plain_print :: "token_data \<Rightarrow> string" where
  "plain_print td =
     show_int (td_ID td) @ CHR '';'' # (case td_Expire td of None \<Rightarrow> [] | Some e \<Rightarrow> show_int e) @ CHR '';'' # td_Token td"

definition plain_parse :: "string \<Rightarrow> string + token_data" where
  "plain_parse s =
     (case go_splitN2 CHR '';'' s of
        [a, r] \<Rightarrow>
          (case (parse_int64 a, go_splitN2 CHR '';'' r) of
             (Some i, [b, t]) \<Rightarrow>
               (if b = [] then Inr \<lparr>td_ID = i, td_Token = t, td_Expire = None\<rparr>
                else (case parse_int64 b of
                        None \<Rightarrow> Inl ''time''
                      | Some e \<Rightarrow> Inr \<lparr>td_ID = i, td_Token = t, td_Expire = Some e\<rparr>))
           | _ \<Rightarrow> Inl ''id'')
      | _ \<Rightarrow> Inl ''syntax'')"

definition plain_lib :: token_lib where
  "plain_lib =
     \<lparr>tl_encrypt = (\<lambda>k s. s), tl_decrypt = (\<lambda>k s. Inr s),
      tl_must_int64 = (\<lambda>s. case parse_int64 s of None \<Rightarrow> 0 | Some i \<Rightarrow> i),
      tl_print = plain_print, tl_parse = plain_parse\<rparr>"

lemma show_int_chars: "c \<in> set (show_int i) \<Longrightarrow> is_digit c \<or> c = CHR ''-''"
  using show_nat_digits by (auto simp: show_int_def list_all_iff split: if_splits)

lemma show_int_plain: "CHR '';'' \<notin> set (show_int i)" "list_all (\<lambda>c. \<not> is_upper c) (show_int i)" "show_int i \<noteq> []"
proof -
  have "\<not> is_digit CHR '';''" by code_simp
  with show_int_chars show "CHR '';'' \<notin> set (show_int i)" by blast
  have "\<not> is_upper c" if "is_digit c" for c using that by (auto simp: is_digit_def is_upper_def)
  moreover have "\<not> is_upper CHR ''-''" by code_simp
  ultimately show "list_all (\<lambda>c. \<not> is_upper c) (show_int i)"
    unfolding list_all_iff using show_int_chars by blast
  show "show_int i \<noteq> []" by (simp add: show_int_def)
qed

lemma plain_roundtrip:
  assumes "in_int64 (td_ID td)" "td_Expire td = Some ex" "in_int64 ex"
  shows "plain_parse (plain_print td) = Inr td"
  using assms show_int_plain(1)
  by (simp add: plain_parse_def plain_print_def go_splitN2_found parse_int64_show_int show_int_plain(3))

lemma plain_lib_ok [simp]: "token_lib_ok plain_lib"
proof -
  have "CHR '';'' \<notin> set ''null''" by simp
  then have "plain_print td \<noteq> cacheNULL" for td
    unfolding plain_print_def cacheNULL_def by (metis in_set_conv_decomp)
  then show ?thesis
    unfolding token_lib_ok_def plain_lib_def
    using plain_roundtrip show_int_plain(2) by (simp add: parse_int64_show_int)
qed

type_synonym hash_world = "string \<Rightarrow> string option"

definition map_hash :: "hash_world hash_calls" where
  "map_hash = \<lparr>hc_get = (\<lambda>k f w. (w, case w f of None \<Rightarrow> HashNil | Some s \<Rightarrow> HashValue s)),
               hc_set = (\<lambda>k f v w. (w(f \<mapsto> v), None)), hc_del = (\<lambda>k f w. (w(f := None), None))\<rparr>"

definition quiet_redis :: "'w redis_lib" where
  "quiet_redis = \<lparr>rd_ping = (\<lambda>d w. (w, None)), rd_publish = (\<lambda>ch m w. (w, None))\<rparr>"

definition plain_env :: "'c itf_cache \<Rightarrow> ('c, hash_world) token_env" where
  "plain_env ic = \<lparr>te_itf = ic, te_redis = quiet_redis, te_hash = map_hash, te_lib = plain_lib,
                   te_name = ''app'', te_option = default_option ''h:token''\<rparr>"

lemma plain_env_sel [simp]:
  "te_itf (plain_env ic) = ic" "te_lib (plain_env ic) = plain_lib" "hash_ok (plain_env ic)"
  "te_option (plain_env ic) = default_option ''h:token''" "te_redis (plain_env ic) = quiet_redis"
  "te_hash (plain_env ic) = map_hash"
  by (simp_all add: plain_env_def hash_ok_def map_hash_def quiet_redis_def)

definition token_process :: "hash_world \<Rightarrow> ((string \<Rightarrow> cval option) gocache, hash_world) mysql" where
  "token_process w = \<lparr>my_mem = mem_start Map.empty w, my_redis = new_redis ''app''\<rparr>"

definition token_request :: "string \<Rightarrow> gin_request" where
  "token_request t = \<lparr>gr_header = (\<lambda>h. if h = ''Authorization'' then ''Bearer '' @ t else []), gr_query = (\<lambda>q. [])\<rparr>"

lemmas token_run = AfterLogin_def fresh_login_def write_td_def with_client_def and_then_def hash_call_def lift_error_def
  orm_call_def on_world_def publish_keys_def PubDelCache_def Pub_def redis_client_def Let_def ok_def
  token_process_def my_world_def set_world_def new_redis_def map_hash_def quiet_redis_def
  removeTokenData_def Logout_def

section \<open>Properties\<close>


definition ex_td :: token_data where
  "ex_td = \<lparr>td_ID = 7, td_Token = ''7'', td_Expire = Some 900000000000000\<rparr>"

definition ex_token_mem ::
  "((unit, string \<Rightarrow> cval option, unit, unit, unit, unit) store_cache option, hash_world) mysql" where
  "ex_token_mem =
     \<lparr>my_mem = \<lparr>mem_cache = Some (InGo (map_gocache [''app:h:token::7'' \<mapsto> CBytes (plain_print ex_td)])),
               mem_held = {}, mem_timers = [], mem_world = Map.empty\<rparr>,
      my_redis = new_redis ''app''\<rparr>"

lemma show_7: "show_int 7 = ''7''" and parse_7: "parse_int64 ''7'' = Some 7" and lower_7: "to_lower ''7'' = ''7''"
  and upper_7: "to_upper ''7'' = ''7''"
  by code_simp+

lemma request_7: "request_token (token_request ''7'') = ''7''"
  by code_simp

lemma id_7: "getIDByToken plain_lib opt ''7'' = Inr 7"
  by (simp add: getIDByToken_def plain_lib_def lower_7 parse_7)

lemma key_7: "memCacheKey (plain_env ic) 7 = ''app:h:token::7''"
  by (simp add: memCacheKey_def redisCacheKey_def plain_env_def default_option_def show_7)

lemma parse_ex_td: "tl_parse plain_lib (plain_print ex_td) = Inr ex_td"
  by (simp add: plain_lib_def plain_roundtrip ex_td_def in_int64_def)

lemma ex_td_not_null: "plain_print ex_td \<noteq> cacheNULL"
proof -
  have "hd (plain_print ex_td) = CHR ''7''" by (simp add: plain_print_def ex_td_def show_7)
  then show ?thesis by (auto simp: cacheNULL_def)
qed

lemma ex_td_sel [simp]: "td_ID ex_td = 7" "td_Token ex_td = ''7''" "td_Expire ex_td = Some 900000000000000"
  by (simp_all add: ex_td_def)

lemma default_option_sel [simp]:
  "to_MaxRefresh (default_option k) = 432000000000000" "to_Timeout (default_option k) = 864000000000000"
  "\<not> to_MultiLogin (default_option k) i"
  by (simp_all add: default_option_def default_timeout_def)

lemma check_7: "check_token (plain_env ic) 5 6 7 ''7'' (plain_print ex_td) st = (st, Done (Inr ex_td))"
  by (simp add: check_token_def parse_ex_td ex_td_not_null ok_def)

lemma read_7:
  "mem_GetOrStore (instance_itf store_itf) ''app:h:token::7'' fn (ex_token_mem\<lparr>my_redis := r\<rparr>)
     = (ex_token_mem\<lparr>my_redis := r\<rparr>, Done (Inr (plain_print ex_td)))"
  by (simp add: mem_GetOrStore_def GetOrStore_def mem_Atomic_def getOrStore_def Instance_Get_def GoCache_Get_def
      map_gocache_def ex_token_mem_def Let_def)


text \<open>C19. Logging in is followed by access: once AfterLogin has returned a token (no multi-login), a
  process whose memory cache holds nothing for the id accepts a request with that token, with the
  id of the login, as long as the data are neither expired nor due for a refresh.\<close>

theorem login_grants_access:
  assumes libs: "token_lib_ok (te_lib te)" "hash_ok te" "in_int64 i" "\<not> to_MultiLogin (te_option te) i"
    and login: "AfterLogin te now0 i st = (st1, Done (Inr td))"
    and proc: "te_itf te = gocache_itf" "cache_cleared st2 (memCacheKey te i)"
      "my_world st2 = my_world st1" "my_redis st2 = my_redis st1"
    and req: "request_token g = td_Token td" "td_Token td \<noteq> []"
    and time: "in_int64 (now0 + to_Timeout (te_option te))" "to_MaxRefresh (te_option te) \<le> now0 + to_Timeout (te_option te) - now"
      "0 \<le> to_MaxRefresh (te_option te)"
  shows "\<exists>st3. verify te now later g [] st2 = (st3, Done (Inr (td_Token td, i)))"
proof -
  let ?td = "generateTd (te_lib te) (te_option te) now0 i"
  from login libs(4) have td: "td = ?td" and w: "write_td te ?td st = (st1, Done (Inr ()))"
    by (auto simp: AfterLogin_def fresh_login_def Let_def dest!: and_then_InrD)
  have tdi: "td_ID ?td = i" "td_Expire ?td = Some (now0 + to_Timeout (te_option te))" by (simp_all add: generateTd_def)
  from write_td_stored [OF libs(2) w] tdi have
    h: "snd (hc_get (te_hash te) (redisCacheKey te) (show_int i) (my_world st2)) = HashValue (tl_print (te_lib te) ?td)"
    "0 \<in> ro_clients (my_redis st2)" using proc(3,4) by simp_all
  obtain w1 where "token_load te i (my_world st2) = (w1, Returns (tl_print (te_lib te) ?td, None))"
    using load_reply(1) [OF h(1)] by blast
  from token_read_cleared [OF proc(1,2) h(2) this] obtain st4 where
    cv: "cacheVerify te now later i (td_Token ?td) st2
       = check_token te now later i (td_Token ?td) (tl_print (te_lib te) ?td) st4" by blast
  have "check_token te now later i (td_Token ?td) (tl_print (te_lib te) ?td) st4 = (st4, Done (Inr ?td))"
    using libs(1,3) tdi time by (simp add: check_token_def token_lib_ok_def ok_def)
  with cv getID_of_generated [OF libs(1,3), of "te_option te" now0] req td tdi show ?thesis
    by (simp add: verify_def Let_def and_then_def lift_error_def ok_def)
qed

theorem login_grants_access_witness:
  "\<exists>st1 td st3. AfterLogin (plain_env gocache_itf) 0 7 (token_process Map.empty) = (st1, Done (Inr td))
     \<and> verify (plain_env gocache_itf) 5 6 (token_request ''7'') [] st1 = (st3, Done (Inr (''7'', 7)))"
proof -
  let ?te = "plain_env gocache_itf"
  let ?td = "generateTd plain_lib (default_option ''h:token'') 0 7"
  obtain st1 where st1: "AfterLogin ?te 0 7 (token_process Map.empty) = (st1, Done (Inr ?td))"
    "mem_cache (my_mem st1) = map_gocache Map.empty" "mem_held (my_mem st1) = {}"
    by (simp add: token_run)
  have cleared: "cache_cleared st1 (memCacheKey ?te 7)"
    using st1(2,3) by (simp add: cache_cleared_def) (simp add: map_gocache_def)
  have tok: "td_Token ?td = ''7''" by (simp add: generateTd_def plain_lib_def show_7 upper_7)
  have "\<exists>st3. verify ?te 5 6 (token_request ''7'') [] st1 = (st3, Done (Inr (td_Token ?td, 7)))"
    by (rule login_grants_access [OF _ _ _ _ st1(1) _ cleared])
       (simp_all add: tok request_7 in_int64_def)
  with st1(1) tok show ?thesis by auto
qed

text \<open>C20. Logging out revokes access: after Logout has succeeded, a process whose memory cache holds
  nothing for the id refuses every token of that id.\<close>

theorem logout_revokes:
  assumes "hash_ok te" "Logout te i st = (st1, Done (Inr ()))"
    and "te_itf te = gocache_itf" "cache_cleared st2 (memCacheKey te i)"
    and "my_world st2 = my_world st1" "my_redis st2 = my_redis st1"
    and "getIDByToken (te_lib te) (te_option te) (request_token g) = Inr i" "request_token g \<noteq> []"
  shows "\<exists>st3. verify te now later g fns st2 = (st3, Done (Inl (AuthFailed UnknownToken)))"
proof -
  from remove_gone [OF assms(1) assms(2) [unfolded Logout_def]] assms(5,6) have
    h: "snd (hc_get (te_hash te) (redisCacheKey te) (show_int i) (my_world st2)) = HashNil"
    "0 \<in> ro_clients (my_redis st2)" by simp_all
  obtain w1 where "token_load te i (my_world st2) = (w1, Returns (cacheNULL, None))"
    using load_reply(2) [OF h(1)] by blast
  from token_read_cleared [OF assms(3,4) h(2) this] obtain st4 where
    "cacheVerify te now later i (request_token g) st2 = check_token te now later i (request_token g) cacheNULL st4" by blast
  with assms(7,8) show ?thesis
    by (simp add: verify_def Let_def and_then_def lift_error_def check_token_def fail_def)
qed

theorem logout_revokes_witness:
  "\<exists>st1 st3. Logout (plain_env gocache_itf) 7 (token_process [''7'' \<mapsto> plain_print ex_td]) = (st1, Done (Inr ()))
     \<and> verify (plain_env gocache_itf) 5 6 (token_request ''7'') [] st1 = (st3, Done (Inl (AuthFailed UnknownToken)))"
proof -
  let ?te = "plain_env gocache_itf"
  obtain st1 where st1: "Logout ?te 7 (token_process [''7'' \<mapsto> plain_print ex_td]) = (st1, Done (Inr ()))"
    "mem_cache (my_mem st1) = map_gocache Map.empty" "mem_held (my_mem st1) = {}"
    by (simp add: token_run)
  have cleared: "cache_cleared st1 (memCacheKey ?te 7)"
    using st1(2,3) by (simp add: cache_cleared_def) (simp add: map_gocache_def)
  have "\<exists>st3. verify ?te 5 6 (token_request ''7'') [] st1 = (st3, Done (Inl (AuthFailed UnknownToken)))"
    by (rule logout_revokes [OF _ st1(1) _ cleared]) (simp_all add: request_7 id_7)
  with st1(1) show ?thesis by blast
qed

text \<open>Logging in again does not end an earlier session: with multi-login off, every login of an id,
  whenever it happens, hands out the same token, so the token of an earlier login, even one that
  was logged out, is the stored token again.\<close>

theorem relogin_same_token:
  assumes "\<not> to_MultiLogin (te_option te) i"
    and "AfterLogin te now1 i st1 = (st1', Done (Inr td1))" "AfterLogin te now2 i st2 = (st2', Done (Inr td2))"
  shows "td_Token td1 = td_Token td2"
  using assms
  by (auto simp: AfterLogin_def fresh_login_def Let_def ok_def generateTd_def dest!: and_then_InrD)

theorem relogin_same_token_witness:
  "\<exists>st1 td1 st2 td2. AfterLogin (plain_env gocache_itf) 0 7 (token_process Map.empty) = (st1, Done (Inr td1))
     \<and> AfterLogin (plain_env gocache_itf) 99 7 st1 = (st2, Done (Inr td2)) \<and> td_Token td1 = td_Token td2"
proof -
  let ?te = "plain_env gocache_itf"
  obtain st1 td1 st2 td2 where r: "AfterLogin ?te 0 7 (token_process Map.empty) = (st1, Done (Inr td1))"
    "AfterLogin ?te 99 7 st1 = (st2, Done (Inr td2))"
    by (simp add: token_run)
  have "\<not> to_MultiLogin (te_option ?te) 7" by simp
  from relogin_same_token [OF this r] r show ?thesis by blast
qed


end
