(* ===== verification/Level_Logger.thy ===== *)
theory Level_Logger
  imports Prelude "HOL-Library.Word" "HOL-Library.Sublist"
begin

text \<open>
  The levelled logger of src/g2util/level_logger.go.  A line is what is handed to the standard
  library's log.Logger, a format with its arguments; Fatal ends the process and Panic panics
  after the line.  A logger's methods are the constructors of \<^verbatim>\<open>log_call\<close>.
\<close>

type_synonym level = "32 word"

definition PanicLevel :: level where "PanicLevel = 0"
definition FatalLevel :: level where "FatalLevel = 1"
definition ErrorLevel :: level where "ErrorLevel = 2"
definition WarnLevel :: level where "WarnLevel = 3"
definition InfoLevel :: level where "InfoLevel = 4"
definition DebugLevel :: level where "DebugLevel = 5"
definition TraceLevel :: level where "TraceLevel = 6"

lemmas level_defs = PanicLevel_def FatalLevel_def ErrorLevel_def WarnLevel_def InfoLevel_def DebugLevel_def TraceLevel_def


section \<open>Names of levels\<close>

definition MarshalText :: "level \<Rightarrow> string" where
  "MarshalText l =
     (if l = TraceLevel then ''trace'' else if l = DebugLevel then ''debug''
      else if l = InfoLevel then ''info'' else if l = WarnLevel then ''warning''
      else if l = ErrorLevel then ''error'' else if l = FatalLevel then ''fatal''
      else if l = PanicLevel then ''panic'' else ''debug'')"

definition level_String :: "level \<Rightarrow> string" where
  "level_String l = MarshalText l"

definition ParseLevel :: "string \<Rightarrow> level" where
  "ParseLevel lvl =
     (let s = to_lower lvl
      in if s = ''panic'' then PanicLevel else if s = ''fatal'' then FatalLevel
         else if s = ''error'' then ErrorLevel else if s = ''warn'' \<or> s = ''warning'' then WarnLevel
         else if s = ''info'' then InfoLevel else if s = ''debug'' then DebugLevel
         else if s = ''trace'' then TraceLevel else DebugLevel)"

text \<open>UnmarshalText replaces the level it is called on and never fails.\<close>

definition UnmarshalText :: "level \<Rightarrow> string \<Rightarrow> level" where
  "UnmarshalText old text = ParseLevel text"


section \<open>The logger\<close>

datatype 'a log_line = Printf_line string "'a list" | Print_line "'a list" | Println_line "'a list"

record 'a logger =
  lg_lvl :: level
  lg_prefix :: string
  lg_lines :: "'a log_line list"

datatype log_end = Logged | Exited | Log_panicked

definition NewLevelLogger :: "string \<Rightarrow> 'a logger" where
  "NewLevelLogger pre = \<lparr>lg_lvl = DebugLevel, lg_prefix = ''[L]'' @ pre @ '' '', lg_lines = []\<rparr>"

definition SetLevel :: "level \<Rightarrow> 'a logger \<Rightarrow> 'a logger" where
  "SetLevel lvl l = l\<lparr>lg_lvl := lvl\<rparr>"

definition add_line :: "'a log_line \<Rightarrow> 'a logger \<Rightarrow> 'a logger" where
  "add_line x l = l\<lparr>lg_lines := lg_lines l @ [x]\<rparr>"

definition logger_out :: "level \<Rightarrow> string \<Rightarrow> 'a list \<Rightarrow> 'a logger \<Rightarrow> 'a logger" where
  "logger_out lvl s i l = add_line (Printf_line (''['' @ to_upper (level_String lvl) @ ''] '' @ s) i) l"

datatype 'a log_call =
    Debugf string "'a list" | Infof string "'a list" | Warnf string "'a list" | Errorf string "'a list"
  | Log_Print "'a list" | Log_Printf string "'a list" | Log_Println "'a list"
  | Fatal "'a list" | Fatalf string "'a list" | Fatalln "'a list"
  | Panic "'a list" | Panicf string "'a list" | Panicln "'a list"

definition logger_Infof :: "string \<Rightarrow> 'a list \<Rightarrow> 'a logger \<Rightarrow> 'a logger" where
  "logger_Infof s i l = (if lg_lvl l < InfoLevel then l else logger_out InfoLevel s i l)"

text \<open>The level a method needs; Println has no check.\<close>

fun log_method :: "'a log_call \<Rightarrow> 'a logger \<Rightarrow> 'a logger \<times> log_end" where
  "log_method (Debugf s i) l = (if lg_lvl l < DebugLevel then (l, Logged) else (logger_out DebugLevel s i l, Logged))"
| "log_method (Errorf s i) l = (if lg_lvl l < ErrorLevel then (l, Logged) else (logger_out ErrorLevel s i l, Logged))"
| "log_method (Fatal i) l = (if lg_lvl l < FatalLevel then (l, Logged) else (add_line (Print_line i) l, Exited))"
| "log_method (Fatalf s i) l = (if lg_lvl l < FatalLevel then (l, Logged) else (add_line (Printf_line s i) l, Exited))"
| "log_method (Fatalln i) l = (if lg_lvl l < FatalLevel then (l, Logged) else (add_line (Println_line i) l, Exited))"
| "log_method (Infof s i) l = (logger_Infof s i l, Logged)"
| "log_method (Panic i) l = (if lg_lvl l < PanicLevel then (l, Logged) else (add_line (Print_line i) l, Log_panicked))"
| "log_method (Panicf s i) l = (if lg_lvl l < PanicLevel then (l, Logged) else (add_line (Printf_line s i) l, Log_panicked))"
| "log_method (Panicln i) l = (if lg_lvl l < PanicLevel then (l, Logged) else (add_line (Println_line i) l, Log_panicked))"
| "log_method (Log_Print i) l = (if lg_lvl l < InfoLevel then (l, Logged) else (add_line (Print_line i) l, Logged))"
| "log_method (Log_Printf s i) l = (logger_Infof s i l, Logged)"
| "log_method (Log_Println i) l = (add_line (Println_line i) l, Logged)"
| "log_method (Warnf s i) l = (if lg_lvl l < WarnLevel then (l, Logged) else (logger_out WarnLevel s i l, Logged))"

text \<open>A run of calls stops when one ends the process or panics.\<close>

fun log_run :: "'a log_call list \<Rightarrow> 'a logger \<Rightarrow> 'a logger \<times> log_end" where
  "log_run [] l = (l, Logged)"
| "log_run (c # cs) l =
     (case log_method c l of (l1, Logged) \<Rightarrow> log_run cs l1 | (l1, e) \<Rightarrow> (l1, e))"


section \<open>Facts\<close>

text \<open>Names and levels: each defined level parses back, in any case of letters.\<close>

lemma ParseLevel_MarshalText:
  assumes "l \<le> TraceLevel"
  shows "ParseLevel (MarshalText l) = l" "ParseLevel (to_upper (MarshalText l)) = l"
proof -
  have "unat l \<le> 6" using assms by (simp add: level_defs word_le_nat_alt)
  then have "unat l \<in> {0, 1, 2, 3, 4, 5, 6}" by auto
  moreover have "l = word_of_nat (unat l)" by simp
  ultimately obtain n where "l = word_of_nat n" "n \<in> {0, 1, 2, 3, 4, 5, 6}" by blast
  then have "l \<in> {0, 1, 2, 3, 4, 5, 6}" by auto
  moreover have "\<forall>l \<in> {0, 1, 2, 3, 4, 5, 6}. ParseLevel (MarshalText l) = l \<and> ParseLevel (to_upper (MarshalText l)) = l"
    by code_simp
  ultimately show "ParseLevel (MarshalText l) = l" "ParseLevel (to_upper (MarshalText l)) = l" by blast+
qed

lemma log_method_lines:
  "lg_lvl (fst (log_method c l)) = lg_lvl l"
  "lg_lines (fst (log_method c l)) = lg_lines l @ lg_lines (fst (log_method c (l\<lparr>lg_lines := []\<rparr>)))"
  "snd (log_method c (l\<lparr>lg_lines := ls\<rparr>)) = snd (log_method c l)"
  by (induction c l rule: log_method.induct) (simp_all add: add_line_def logger_out_def logger_Infof_def)

text \<open>Raising the level keeps every line and the end of the run, once Fatal is enabled.\<close>

lemma log_method_mono:
  assumes "lg_lvl l1 \<le> lg_lvl l2" "FatalLevel \<le> lg_lvl l1" "lg_lines l1 = []" "lg_lines l2 = []"
  shows "subseq (lg_lines (fst (log_method c l1))) (lg_lines (fst (log_method c l2)))
    \<and> snd (log_method c l1) = snd (log_method c l2)"
  using assms by (cases c) (auto simp: add_line_def logger_out_def logger_Infof_def level_defs)

lemma log_run_mono: "subseq (lg_lines l1) (lg_lines l2) \<Longrightarrow> lg_lvl l1 \<le> lg_lvl l2 \<Longrightarrow> FatalLevel \<le> lg_lvl l1
    \<Longrightarrow> subseq (lg_lines (fst (log_run cs l1))) (lg_lines (fst (log_run cs l2)))
      \<and> snd (log_run cs l1) = snd (log_run cs l2)"
proof (induction cs arbitrary: l1 l2)
  case (Cons c cs)
  from log_method_mono [of "l1\<lparr>lg_lines := []\<rparr>" "l2\<lparr>lg_lines := []\<rparr>" c] Cons.prems
  have "subseq (lg_lines (fst (log_method c l1))) (lg_lines (fst (log_method c l2)))"
    "snd (log_method c l1) = snd (log_method c l2)"
    using log_method_lines(2) [of c l1] log_method_lines(2) [of c l2]
    by (auto simp: log_method_lines(3) intro: list_emb_append_mono)
  moreover have "lg_lvl (fst (log_method c l1)) \<le> lg_lvl (fst (log_method c l2))"
    "FatalLevel \<le> lg_lvl (fst (log_method c l1))" using Cons.prems by (simp_all add: log_method_lines(1))
  ultimately show ?case using Cons.IH by (auto split: prod.splits log_end.splits)
qed simp

text \<open>A logger with level Panic ignores Fatal.\<close>

lemma Fatal_ignored:
  "lg_lvl l = PanicLevel \<Longrightarrow> c = Fatal i \<or> c = Fatalf s i \<or> c = Fatalln i \<Longrightarrow> log_method c l = (l, Logged)"
  by (auto simp: level_defs)

end
