(* ===== verification/Log_File.thy ===== *)
theory Log_File
  imports Decimal Byte_Sink
begin

text \<open>
  The self-archiving log file of src/g2util/auto_back_file.go: bytes go to a buffer, from there
  to the file, and when the file has reached its maximal size it is copied to a numbered file in
  a directory of the day and emptied.  Old directories are deleted periodically.

  The disk is the list of archived files in the order of their creation, each with its
  directory, name and content.  What the operating system answers to one flush (write, create,
  copy, truncate) is the record \<^verbatim>\<open>answers\<close>; the day comes from the clock and is an
  argument.  The regular expression of autoDelDir is taken for base names without
  metacharacters.
\<close>

section \<open>Names\<close>

text \<open>filepath.Base, Dir and Ext of a clean path, and Join of a directory with a name.\<close>

definition path_base :: "string \<Rightarrow> string" where
  "path_base p = rev (takeWhile (\<lambda>c. c \<noteq> CHR ''/'') (rev p))"

definition path_dir :: "string \<Rightarrow> string" where
  "path_dir p = (let d = rev (drop 1 (dropWhile (\<lambda>c. c \<noteq> CHR ''/'') (rev p)))
                 in if CHR ''/'' \<notin> set p then ''.'' else if d = [] then ''/'' else d)"

definition path_ext :: "string \<Rightarrow> string" where
  "path_ext p = (let b = path_base p
                 in if CHR ''.'' \<in> set b then CHR ''.'' # rev (takeWhile (\<lambda>c. c \<noteq> CHR ''.'') (rev b)) else [])"

definition path_join :: "string \<Rightarrow> string \<Rightarrow> string" where
  "path_join d n = (if d = ''.'' then n else if d = ''/'' then CHR ''/'' # n else d @ CHR ''/'' # n)"

text \<open>The base name without its extension, wherever the extension occurs.\<close>

definition file_stem :: "string \<Rightarrow> string" where
  "file_stem p = replace_all (path_base p) (path_ext p) []"

definition fileDirWithDaySuffix :: "string \<Rightarrow> string \<Rightarrow> string" where
  "fileDirWithDaySuffix p day = path_join (path_dir p) (file_stem p @ day)"

text \<open>%06d of a count.\<close>

definition pad6 :: "nat \<Rightarrow> string" where
  "pad6 n = pad 6 n"


section \<open>State\<close>

record abfile_option =
  ab_FileMaxSize :: int
  ab_SaveDays :: int
  ab_BufferSize :: int

definition MB :: int where "MB = 2 ^ 20"

definition default_abfile_option :: abfile_option where
  "default_abfile_option = \<lparr>ab_FileMaxSize = 2 * MB, ab_SaveDays = 3, ab_BufferSize = 1 * MB\<rparr>"

text \<open>An archived file: directory, name, content.\<close>

type_synonym archive = "(string \<times> string) \<times> string"

record inner_io =
  io_buf :: string
  io_name :: string
  io_file :: string
  io_opt :: abfile_option
  io_closed :: bool
  io_file_closed :: bool
  io_disk :: "archive list"

definition open_io :: "string \<Rightarrow> string \<Rightarrow> abfile_option option \<Rightarrow> inner_io" where
  "open_io path content opt =
     \<lparr>io_buf = [], io_name = path, io_file = content,
      io_opt = (case opt of None \<Rightarrow> default_abfile_option | Some o1 \<Rightarrow> o1),
      io_closed = False, io_file_closed = False, io_disk = []\<rparr>"

text \<open>
  newIO: one writer for each path.  \<^verbatim>\<open>opened\<close> is what OpenFile gives: the content the
  file already has, or an error.
\<close>

definition newIO :: "string + string \<Rightarrow> string \<Rightarrow> abfile_option option \<Rightarrow> (string \<rightharpoonup> inner_io)
    \<Rightarrow> (string \<rightharpoonup> inner_io) \<times> (string + inner_io)" where
  "newIO opened filePath opt files =
     (case files filePath of
        Some out \<Rightarrow> (files, Inr out)
      | None \<Rightarrow>
          (case opened of
             Inl err \<Rightarrow> (files, Inl err)
           | Inr content \<Rightarrow>
               let out = open_io filePath content opt in (files(filePath \<mapsto> out), Inr out)))"

text \<open>
  What the system answers: the write stops after some bytes with an error; the archive cannot be
  created; its copy stops after some bytes; the truncation (whose error is ignored) fails.
\<close>

record answers =
  an_write :: "(nat \<times> string) option"
  an_create :: "string option"
  an_copy :: "(nat \<times> string) option"
  an_truncate_fails :: bool

definition no_faults :: answers where
  "no_faults = \<lparr>an_write = None, an_create = None, an_copy = None, an_truncate_fails = False\<rparr>"


section \<open>Archiving\<close>

definition count_files :: "string \<Rightarrow> string \<Rightarrow> archive list \<Rightarrow> nat" where
  "count_files dir ext disk = length (filter (\<lambda>((d, n), c). d = dir \<and> path_ext n = ext) disk)"

text \<open>os.Create empties an existing file, where it stands, or makes a new one.\<close>

fun os_create :: "string \<times> string \<Rightarrow> string \<Rightarrow> archive list \<Rightarrow> archive list" where
  "os_create f c [] = [(f, c)]"
| "os_create f c ((g, x) # disk) = (if g = f then (f, c) # disk else (g, x) # os_create f c disk)"

definition archive_name :: "string \<Rightarrow> inner_io \<Rightarrow> string \<times> string" where
  "archive_name day i =
     (let dir = fileDirWithDaySuffix (io_name i) day;
          fileExt = path_ext (io_name i)
      in (dir, pad6 (count_files dir fileExt (io_disk i)) @ fileExt))"

definition fileCopyWithIndex :: "answers \<Rightarrow> string \<Rightarrow> inner_io \<Rightarrow> inner_io \<times> string option" where
  "fileCopyWithIndex an day i =
     (case an_create an of
        Some e \<Rightarrow> (i, Some e)
      | None \<Rightarrow>
          (case an_copy an of
             Some (n, e) \<Rightarrow> (i\<lparr>io_disk := os_create (archive_name day i) (take n (io_file i)) (io_disk i)\<rparr>, Some e)
           | None \<Rightarrow>
               let i1 = i\<lparr>io_disk := os_create (archive_name day i) (io_file i) (io_disk i)\<rparr>
               in ((if an_truncate_fails an then i1 else i1\<lparr>io_file := []\<rparr>), None)))"

definition flush :: "answers \<Rightarrow> string \<Rightarrow> inner_io \<Rightarrow> inner_io \<times> string option" where
  "flush an day i =
     (if io_buf i = [] then (i, None)
      else if io_file_closed i then (i, Some ''file already closed'')
      else case an_write an of
        Some (n, e) \<Rightarrow> (i\<lparr>io_file := io_file i @ take n (io_buf i)\<rparr>, Some e)
      | None \<Rightarrow>
          let i1 = i\<lparr>io_file := io_file i @ io_buf i, io_buf := []\<rparr>
          in if int (length (io_file i1)) \<ge> ab_FileMaxSize (io_opt i1) then fileCopyWithIndex an day i1
             else (i1, None))"

text \<open>Write: the count it returns is never set.\<close>

definition io_Write :: "answers \<Rightarrow> string \<Rightarrow> string \<Rightarrow> inner_io \<Rightarrow> inner_io \<times> nat \<times> string option" where
  "io_Write an day p i =
     (if io_closed i then (i, 0, None)
      else let i1 = i\<lparr>io_buf := io_buf i @ p\<rparr>
           in if int (length (io_buf i1)) < ab_BufferSize (io_opt i1) then (i1, 0, None)
              else (case flush an day i1 of (i2, e) \<Rightarrow> (i2, 0, e)))"

definition io_Close :: "inner_io \<Rightarrow> inner_io" where
  "io_Close i = (if io_closed i then i else i\<lparr>io_closed := True\<rparr>)"

definition flushAndCloseFile :: "answers \<Rightarrow> string \<Rightarrow> inner_io \<Rightarrow> inner_io \<times> string option" where
  "flushAndCloseFile an day i =
     (case flush an day i of
        (i1, Some e) \<Rightarrow> (i1, Some e)
      | (i1, None) \<Rightarrow> (i1\<lparr>io_file_closed := True\<rparr>, None))"

text \<open>AfterShutdown writes a farewell line and signals the goroutine that flushes and closes.\<close>

definition io_AfterShutdown :: "answers \<Rightarrow> string \<Rightarrow> string \<Rightarrow> inner_io \<Rightarrow> inner_io" where
  "io_AfterShutdown an day farewell i = io_Close (fst (io_Write an day farewell i))"


section \<open>Old directories\<close>

text \<open>latestNDayStr; \<^verbatim>\<open>day_of a\<close> is the day a days ago.\<close>

definition latestNDayStr :: "abfile_option \<Rightarrow> (nat \<Rightarrow> string) \<Rightarrow> string list" where
  "latestNDayStr opt day_of = map day_of [0..<nat (ab_SaveDays opt)]"

text \<open>^stem\<^verbatim>\<open>\d+$\<close> on a directory's name.\<close>

definition archive_dir_name :: "string \<Rightarrow> string \<Rightarrow> bool" where
  "archive_dir_name stem n \<longleftrightarrow>
     has_prefix n stem \<and> drop (length stem) n \<noteq> [] \<and> list_all is_digit (drop (length stem) n)"

definition expired_dir :: "(nat \<Rightarrow> string) \<Rightarrow> inner_io \<Rightarrow> string \<Rightarrow> bool" where
  "expired_dir day_of i d \<longleftrightarrow>
     archive_dir_name (file_stem (io_name i)) (path_base d)
     \<and> d \<notin> set (map (\<lambda>s. path_join (path_dir (io_name i)) (file_stem (io_name i) @ s)) (latestNDayStr (io_opt i) day_of))"

text \<open>
  autoDelDir: RemoveAll of every expired directory below the log file's own.  Archived files are
  in a directory directly below it, so only their directory is looked at.
\<close>

definition autoDelDir :: "(nat \<Rightarrow> string) \<Rightarrow> inner_io \<Rightarrow> inner_io" where
  "autoDelDir day_of i =
     i\<lparr>io_disk := filter (\<lambda>((d, n), c). \<not> (path_dir d = path_dir (io_name i) \<and> expired_dir day_of i d)) (io_disk i)\<rparr>"


section \<open>Runs\<close>

text \<open>The events of one log file, each with the answers and the day it meets.\<close>

datatype io_event = EvWrite string | EvFlush | EvClose | EvFinish

fun io_step :: "io_event \<times> answers \<times> string \<Rightarrow> inner_io \<Rightarrow> inner_io" where
  "io_step (EvWrite p, an, day) i = fst (io_Write an day p i)"
| "io_step (EvFlush, an, day) i = fst (flush an day i)"
| "io_step (EvClose, an, day) i = io_Close i"
| "io_step (EvFinish, an, day) i = fst (flushAndCloseFile an day i)"

definition io_run :: "(io_event \<times> answers \<times> string) list \<Rightarrow> inner_io \<Rightarrow> inner_io" where
  "io_run evs i = fold io_step evs i"

text \<open>What Write accepted: everything until Close.\<close>

fun accepted :: "(io_event \<times> answers \<times> string) list \<Rightarrow> string" where
  "accepted [] = []"
| "accepted ((EvWrite p, a) # evs) = p @ accepted evs"
| "accepted ((EvClose, a) # evs) = []"
| "accepted ((e, a) # evs) = accepted evs"

text \<open>All bytes in archiving order: archives, file, buffer.\<close>

definition log_bytes :: "inner_io \<Rightarrow> string" where
  "log_bytes i = concat (map snd (io_disk i)) @ io_file i @ io_buf i"


section \<open>Numbering\<close>

lemma pad6_inj: "pad6 m = pad6 n \<Longrightarrow> m = n"
  by (simp add: pad6_def pad_inj)

lemma pad6_digits: "list_all is_digit (pad6 n)"
  by (simp add: pad6_def)

text \<open>Every directory's files with the log's extension are numbered 0, 1, 2, ... in creation order.\<close>

definition numbered :: "string \<Rightarrow> archive list \<Rightarrow> bool" where
  "numbered ext disk \<longleftrightarrow>
     (\<forall>dir. map (snd \<circ> fst) (filter (\<lambda>a. fst (fst a) = dir) disk)
            = map (\<lambda>k. pad6 k @ ext) [0..<length (filter (\<lambda>a. fst (fst a) = dir) disk)])"

definition wf_ext :: "string \<Rightarrow> bool" where
  "wf_ext ext \<longleftrightarrow> (\<exists>cs. ext = CHR ''.'' # cs \<and> CHR ''.'' \<notin> set cs \<and> CHR ''/'' \<notin> set cs)"

lemma path_ext_numbered:
  assumes "wf_ext ext"
  shows "path_ext (pad6 k @ ext) = ext"
proof -
  obtain cs where cs: "ext = CHR ''.'' # cs" "CHR ''.'' \<notin> set cs" "CHR ''/'' \<notin> set cs"
    using assms by (auto simp: wf_ext_def)
  have "CHR ''/'' \<notin> set (pad6 k)" using pad6_digits [of k] by (auto simp: list_all_iff is_digit_def)
  then have "\<forall>c \<in> set (rev (pad6 k @ ext)). c \<noteq> CHR ''/''" using cs by auto
  then have "takeWhile (\<lambda>c. c \<noteq> CHR ''/'') (rev (pad6 k @ ext)) = rev (pad6 k @ ext)"
    by (simp only: takeWhile_eq_all_conv)
  then have b: "path_base (pad6 k @ ext) = pad6 k @ ext"
    unfolding path_base_def by (metis rev_rev_ident)
  have "takeWhile (\<lambda>c. c \<noteq> CHR ''.'') (rev (pad6 k @ ext)) = rev cs"
    using cs by (simp add: takeWhile_append takeWhile_eq_all_conv)
  with b cs show ?thesis by (simp add: path_ext_def)
qed

lemma numbered_count:
  assumes "numbered ext disk" "wf_ext ext"
  shows "count_files dir ext disk = length (filter (\<lambda>a. fst (fst a) = dir) disk)"
proof -
  have "path_ext (snd (fst a)) = ext" if "a \<in> set disk" "fst (fst a) = dir" for a
  proof -
    have "(snd \<circ> fst) a \<in> set (map (snd \<circ> fst) (filter (\<lambda>a. fst (fst a) = dir) disk))" using that by auto
    then obtain k where "snd (fst a) = pad6 k @ ext" using assms(1) unfolding numbered_def by auto
    then show ?thesis using path_ext_numbered [OF assms(2)] by simp
  qed
  then have "filter (\<lambda>a. fst (fst a) = dir \<and> path_ext (snd (fst a)) = ext) disk = filter (\<lambda>a. fst (fst a) = dir) disk"
    by (intro filter_cong refl) blast
  then show ?thesis by (simp add: count_files_def case_prod_unfold)
qed

text \<open>So the next number is free, and the archive is appended.\<close>

lemma os_create_fresh: "f \<notin> fst ` set disk \<Longrightarrow> os_create f c disk = disk @ [(f, c)]"
  by (induction f c disk rule: os_create.induct) auto

lemma archive_name_fresh:
  assumes "numbered (path_ext (io_name i)) (io_disk i)" "wf_ext (path_ext (io_name i))"
  shows "archive_name day i \<notin> fst ` set (io_disk i)"
proof
  let ?ext = "path_ext (io_name i)" and ?dir = "fileDirWithDaySuffix (io_name i) day"
  let ?n = "length (filter (\<lambda>a. fst (fst a) = ?dir) (io_disk i))"
  have name: "archive_name day i = (?dir, pad6 ?n @ ?ext)"
    using numbered_count [OF assms] by (simp add: archive_name_def Let_def)
  assume "archive_name day i \<in> fst ` set (io_disk i)"
  then obtain a where a: "a \<in> set (io_disk i)" "fst a = (?dir, pad6 ?n @ ?ext)" using name by auto
  then have "pad6 ?n @ ?ext \<in> set (map (snd \<circ> fst) (filter (\<lambda>a. fst (fst a) = ?dir) (io_disk i)))"
    by (force intro: image_eqI [where x = a])
  then obtain k where "k < ?n" "pad6 ?n = pad6 k" using assms(1) unfolding numbered_def by auto
  then show False using pad6_inj by blast
qed

lemma numbered_append:
  assumes "numbered ext disk"
  shows "numbered ext (disk @ [((dir, pad6 (length (filter (\<lambda>a. fst (fst a) = dir) disk)) @ ext), c)])"
  using assms by (auto simp: numbered_def)


section \<open>Nothing is lost\<close>

definition io_wf :: "inner_io \<Rightarrow> bool" where
  "io_wf i \<longleftrightarrow> wf_ext (path_ext (io_name i)) \<and> numbered (path_ext (io_name i)) (io_disk i)"

lemma os_create_archive:
  assumes "io_wf i"
  shows "os_create (archive_name day i) c (io_disk i) = io_disk i @ [(archive_name day i, c)]"
    "numbered (path_ext (io_name i)) (io_disk i @ [(archive_name day i, c)])"
proof -
  have "archive_name day i \<notin> fst ` set (io_disk i)" using archive_name_fresh assms by (simp add: io_wf_def)
  then show "os_create (archive_name day i) c (io_disk i) = io_disk i @ [(archive_name day i, c)]"
    by (rule os_create_fresh)
  have "archive_name day i = (fileDirWithDaySuffix (io_name i) day,
      pad6 (length (filter (\<lambda>a. fst (fst a) = fileDirWithDaySuffix (io_name i) day) (io_disk i))) @ path_ext (io_name i))"
    using numbered_count assms by (simp add: archive_name_def io_wf_def Let_def)
  then show "numbered (path_ext (io_name i)) (io_disk i @ [(archive_name day i, c)])"
    using numbered_append assms by (simp add: io_wf_def)
qed

lemma fileCopy_keeps:
  assumes "io_wf i" "fileCopyWithIndex an day i = (i1, e)"
  shows "io_wf i1 \<and> subseq (log_bytes i) (log_bytes i1) \<and> io_closed i1 = io_closed i
    \<and> (an_copy an = None \<longrightarrow> \<not> an_truncate_fails an \<longrightarrow> log_bytes i1 = log_bytes i)"
proof -
  let ?D = "concat (map snd (io_disk i))"
  have sub: "subseq (?D @ io_file i @ io_buf i) (?D @ x @ io_file i @ io_buf i)" for x
    by (rule list_emb_append_mono [OF subseq_order.order_refl list_emb_append2 [OF subseq_order.order_refl]])
  show ?thesis
    using assms sub os_create_archive [OF assms(1)]
    by (auto simp: fileCopyWithIndex_def io_wf_def log_bytes_def Let_def subseq_order.order_refl split: option.splits if_splits)
qed

lemma flush_keeps:
  assumes "io_wf i" "flush an day i = (i1, e)"
  shows "io_wf i1 \<and> subseq (log_bytes i) (log_bytes i1) \<and> io_closed i1 = io_closed i
    \<and> (an = no_faults \<longrightarrow> log_bytes i1 = log_bytes i)"
proof -
  let ?D = "concat (map snd (io_disk i))"
  have sub: "subseq (?D @ io_file i @ io_buf i) (?D @ (io_file i @ x) @ io_buf i)" for x
    unfolding append_assoc
    by (rule list_emb_append_mono [OF subseq_order.order_refl
          list_emb_append_mono [OF subseq_order.order_refl list_emb_append2 [OF subseq_order.order_refl]]])
  let ?j = "i\<lparr>io_file := io_file i @ io_buf i, io_buf := []\<rparr>"
  have j: "io_wf ?j" "log_bytes ?j = log_bytes i" "io_closed ?j = io_closed i"
    using assms(1) by (simp_all add: io_wf_def log_bytes_def)
  from assms(2) consider
      (same) "i1 = i"
    | (fault) n e' where "an_write an = Some (n, e')" "i1 = i\<lparr>io_file := io_file i @ take n (io_buf i)\<rparr>"
    | (whole) "i1 = ?j"
    | (copy) "fileCopyWithIndex an day ?j = (i1, e)"
    by (auto simp: flush_def Let_def split: if_splits option.splits)
  then show ?thesis
  proof cases
    case same
    then show ?thesis using assms(1) by (simp add: subseq_order.order_refl)
  next
    case fault
    then show ?thesis using assms(1) sub by (auto simp: io_wf_def log_bytes_def no_faults_def)
  next
    case whole
    then show ?thesis using j by (simp add: subseq_order.order_refl)
  next
    case copy
    from fileCopy_keeps [OF j(1) copy] j show ?thesis by (auto simp: no_faults_def)
  qed
qed

lemma Write_keeps:
  assumes "io_wf i" "io_Write an day p i = (i1, n, e)"
  shows "io_wf i1 \<and> subseq (log_bytes i @ (if io_closed i then [] else p)) (log_bytes i1) \<and> io_closed i1 = io_closed i
    \<and> (an = no_faults \<longrightarrow> log_bytes i1 = log_bytes i @ (if io_closed i then [] else p))"
proof -
  let ?j = "i\<lparr>io_buf := io_buf i @ p\<rparr>"
  have j: "io_wf ?j" "log_bytes ?j = log_bytes i @ p" using assms(1) by (simp_all add: io_wf_def log_bytes_def)
  show ?thesis
    using assms j flush_keeps [OF j(1)]
    by (fastforce simp: io_Write_def Let_def subseq_order.order_refl split: if_splits prod.splits)
qed

text \<open>An open log file is an io.Writer that keeps what it takes, whatever the system answers.\<close>

interpretation log_sink: byte_sink "\<lambda>(an, day) p i. fst (io_Write an day p i)" log_bytes
    "\<lambda>i. io_wf i \<and> \<not> io_closed i" "\<lambda>(an, day). an = no_faults"
proof
  fix i :: inner_io and a :: "answers \<times> string" and p
  assume i: "io_wf i \<and> \<not> io_closed i"
  obtain an day where a: "a = (an, day)" by (cases a)
  from Write_keeps [of i an day p] i
  have "io_wf (fst (io_Write an day p i)) \<and> subseq (log_bytes i @ p) (log_bytes (fst (io_Write an day p i)))
      \<and> \<not> io_closed (fst (io_Write an day p i)) \<and> (an = no_faults \<longrightarrow> log_bytes (fst (io_Write an day p i)) = log_bytes i @ p)"
    by (cases "io_Write an day p i") auto
  then show "io_wf ((case a of (an, day) \<Rightarrow> \<lambda>p i. fst (io_Write an day p i)) p i)
      \<and> \<not> io_closed ((case a of (an, day) \<Rightarrow> \<lambda>p i. fst (io_Write an day p i)) p i)"
    "subseq (log_bytes i @ p) (log_bytes ((case a of (an, day) \<Rightarrow> \<lambda>p i. fst (io_Write an day p i)) p i))"
    "(case a of (an, day) \<Rightarrow> an = no_faults) \<Longrightarrow>
       log_bytes ((case a of (an, day) \<Rightarrow> \<lambda>p i. fst (io_Write an day p i)) p i) = log_bytes i @ p"
    by (simp_all add: a)
qed

lemma closed_accepts_nothing: "io_closed i \<Longrightarrow> io_wf i \<Longrightarrow>
    io_wf (io_run evs i) \<and> subseq (log_bytes i) (log_bytes (io_run evs i))
    \<and> ((\<forall>(e, an, d) \<in> set evs. an = no_faults) \<longrightarrow> log_bytes (io_run evs i) = log_bytes i)"
proof (induction evs arbitrary: i)
  case (Cons ev evs)
  obtain e an d where ev: "ev = (e, an, d)" by (cases ev) auto
  let ?j = "io_step ev i"
  have step: "io_wf ?j \<and> subseq (log_bytes i) (log_bytes ?j) \<and> io_closed ?j \<and> (an = no_faults \<longrightarrow> log_bytes ?j = log_bytes i)"
  proof (cases e)
    case (EvWrite p)
    then show ?thesis using Cons.prems ev by (simp add: io_Write_def subseq_order.order_refl)
  next
    case EvFlush
    then show ?thesis using Cons.prems ev flush_keeps [of i an d] by (cases "flush an d i") auto
  next
    case EvClose
    then show ?thesis using Cons.prems ev by (simp add: io_Close_def subseq_order.order_refl)
  next
    case EvFinish
    then show ?thesis
      using Cons.prems ev flush_keeps [of i an d]
      by (cases "flush an d i"; cases "snd (flush an d i)")
         (auto simp: flushAndCloseFile_def io_wf_def log_bytes_def)
  qed
  from Cons.IH [of ?j] step have "io_wf (io_run evs ?j) \<and> subseq (log_bytes ?j) (log_bytes (io_run evs ?j))
      \<and> ((\<forall>(e, an, d) \<in> set evs. an = no_faults) \<longrightarrow> log_bytes (io_run evs ?j) = log_bytes ?j)" by blast
  with step ev show ?case by (auto simp: io_run_def intro: subseq_order.order_trans)
qed (simp add: io_run_def subseq_order.order_refl)

lemma run_keeps: "io_wf i \<Longrightarrow> \<not> io_closed i \<Longrightarrow>
    io_wf (io_run evs i) \<and> subseq (log_bytes i @ accepted evs) (log_bytes (io_run evs i))
    \<and> ((\<forall>(e, an, d) \<in> set evs. an = no_faults) \<longrightarrow> log_bytes (io_run evs i) = log_bytes i @ accepted evs)"
proof (induction evs arbitrary: i)
  case (Cons ev evs)
  obtain e an d where ev: "ev = (e, an, d)" by (cases ev) auto
  let ?j = "io_step ev i"
  show ?case
  proof (cases "e = EvClose")
    case True
    then have j: "?j = i\<lparr>io_closed := True\<rparr>" using Cons.prems ev by (simp add: io_Close_def)
    then have "io_wf ?j" "io_closed ?j" "log_bytes ?j = log_bytes i"
      using Cons.prems by (simp_all add: io_wf_def log_bytes_def)
    with closed_accepts_nothing [of ?j evs] True ev show ?thesis by (auto simp: io_run_def)
  next
    case False
    define p where "p = (case e of EvWrite p \<Rightarrow> p | _ \<Rightarrow> [])"
    have acc: "accepted (ev # evs) = p @ accepted evs" using False ev by (cases e) (auto simp: p_def)
    have step: "io_wf ?j \<and> subseq (log_bytes i @ p) (log_bytes ?j) \<and> \<not> io_closed ?j
        \<and> (an = no_faults \<longrightarrow> log_bytes ?j = log_bytes i @ p)"
    proof (cases e)
      case (EvWrite q)
      then show ?thesis
        using Cons.prems ev Write_keeps [of i an d q] by (cases "io_Write an d q i") (auto simp: p_def)
    next
      case EvFlush
      then show ?thesis using Cons.prems ev flush_keeps [of i an d] by (cases "flush an d i") (auto simp: p_def)
    next
      case EvFinish
      then show ?thesis
        using Cons.prems ev flush_keeps [of i an d]
        by (cases "flush an d i"; cases "snd (flush an d i)")
           (auto simp: flushAndCloseFile_def io_wf_def log_bytes_def p_def)
    qed (use False in simp)
    from Cons.IH [of ?j] step have ih: "io_wf (io_run evs ?j) \<and> subseq (log_bytes ?j @ accepted evs) (log_bytes (io_run evs ?j))
        \<and> ((\<forall>(e, an, d) \<in> set evs. an = no_faults) \<longrightarrow> log_bytes (io_run evs ?j) = log_bytes ?j @ accepted evs)" by blast
    have "subseq ((log_bytes i @ p) @ accepted evs) (log_bytes ?j @ accepted evs)"
      using step by (intro list_emb_append_mono) (auto simp: subseq_order.order_refl)
    with ih have "subseq (log_bytes i @ accepted (ev # evs)) (log_bytes (io_run evs ?j))"
      unfolding acc append_assoc by (blast intro: subseq_order.order_trans)
    with ih step ev show ?thesis unfolding acc by (auto simp: io_run_def)
  qed
qed (simp add: io_run_def subseq_order.order_refl)


text \<open>The name of the file never changes.\<close>

lemma flush_name: "io_name (fst (flush an day i)) = io_name i"
  by (simp add: flush_def fileCopyWithIndex_def Let_def split: option.split prod.split)

lemma io_step_name: "io_name (io_step ev i) = io_name i"
  by (induction ev i rule: io_step.induct)
     (auto simp: io_Write_def io_Close_def flushAndCloseFile_def Let_def flush_name
        split: prod.splits option.splits if_splits dest: arg_cong [where f = "\<lambda>x. io_name (fst x)"])

lemma io_run_name: "io_name (io_run evs i) = io_name i"
  by (induction evs arbitrary: i) (simp_all add: io_run_def io_step_name)

lemma flush_opt: "io_opt (fst (flush an day i)) = io_opt i"
  by (simp add: flush_def fileCopyWithIndex_def Let_def split: option.split prod.split)

lemma io_step_opt: "io_opt (io_step ev i) = io_opt i"
  by (induction ev i rule: io_step.induct)
     (auto simp: io_Write_def io_Close_def flushAndCloseFile_def Let_def flush_opt
        split: prod.splits option.splits if_splits dest: arg_cong [where f = "\<lambda>x. io_opt (fst x)"])

lemma io_run_opt: "io_opt (io_run evs i) = io_opt i"
  by (induction evs arbitrary: i) (simp_all add: io_run_def io_step_opt)


section \<open>Sizes\<close>

text \<open>
  Without faults the buffer stays below its size, the file below its maximal size, and an archive
  exceeds the maximal size by less than a buffer and a write.
\<close>

definition io_sized :: "nat \<Rightarrow> inner_io \<Rightarrow> bool" where
  "io_sized w i \<longleftrightarrow> 0 < ab_BufferSize (io_opt i) \<and> 0 < ab_FileMaxSize (io_opt i)
     \<and> int (length (io_buf i)) < ab_BufferSize (io_opt i) \<and> int (length (io_file i)) < ab_FileMaxSize (io_opt i)
     \<and> (\<forall>a \<in> set (io_disk i). ab_FileMaxSize (io_opt i) \<le> int (length (snd a))
          \<and> int (length (snd a)) < ab_FileMaxSize (io_opt i) + ab_BufferSize (io_opt i) + int w)"

lemma flush_sized:
  assumes "io_wf i" "int (length (io_file i)) < ab_FileMaxSize (io_opt i)"
    "0 < ab_BufferSize (io_opt i)" "0 < ab_FileMaxSize (io_opt i)"
    "int (length (io_buf i)) < ab_BufferSize (io_opt i) + int w" "\<not> io_file_closed i"
    "\<forall>a \<in> set (io_disk i). ab_FileMaxSize (io_opt i) \<le> int (length (snd a))
          \<and> int (length (snd a)) < ab_FileMaxSize (io_opt i) + ab_BufferSize (io_opt i) + int w"
  shows "io_sized w (fst (flush no_faults day i)) \<and> snd (flush no_faults day i) = None
    \<and> \<not> io_file_closed (fst (flush no_faults day i))"
proof -
  let ?j = "i\<lparr>io_file := io_file i @ io_buf i, io_buf := []\<rparr>"
  have j: "io_wf ?j" using assms(1) by (simp add: io_wf_def)
  show ?thesis
    using assms os_create_archive(1) [OF j, of day "io_file i @ io_buf i"]
    by (auto simp: flush_def no_faults_def io_sized_def fileCopyWithIndex_def Let_def)
qed

lemma step_sized:
  assumes "io_wf i" "io_sized w i" "\<not> io_file_closed i" "e \<noteq> EvFinish"
    "\<And>p. e = EvWrite p \<Longrightarrow> length p \<le> w"
  shows "io_sized w (io_step (e, no_faults, d) i) \<and> \<not> io_file_closed (io_step (e, no_faults, d) i)"
proof (cases e)
  case (EvWrite p)
  show ?thesis
  proof (cases "io_closed i \<or> int (length (io_buf i @ p)) < ab_BufferSize (io_opt i)")
    case True
    then show ?thesis using assms EvWrite by (auto simp: io_Write_def Let_def io_sized_def)
  next
    case False
    let ?j = "i\<lparr>io_buf := io_buf i @ p\<rparr>"
    have "io_wf ?j" using assms(1) by (simp add: io_wf_def)
    from flush_sized [OF this, of w d] assms(2,3) assms(5) [OF EvWrite]
    have "io_sized w (fst (flush no_faults d ?j)) \<and> \<not> io_file_closed (fst (flush no_faults d ?j))"
      by (simp add: io_sized_def)
    then show ?thesis using False EvWrite by (simp add: io_Write_def Let_def case_prod_unfold)
  qed
next
  case EvFlush
  then show ?thesis using flush_sized [OF assms(1), of w d] assms(2,3) by (auto simp: io_sized_def)
next
  case EvClose
  then show ?thesis using assms by (auto simp: io_Close_def io_sized_def)
qed (use assms in simp)

lemma run_sized: "io_wf i \<Longrightarrow> io_sized w i \<Longrightarrow> \<not> io_file_closed i
    \<Longrightarrow> (\<forall>(e, an, d) \<in> set evs. an = no_faults \<and> e \<noteq> EvFinish \<and> (\<forall>p. e = EvWrite p \<longrightarrow> length p \<le> w))
    \<Longrightarrow> io_sized w (io_run evs i)"
proof (induction evs arbitrary: i)
  case (Cons ev evs)
  obtain e d where ev: "ev = (e, no_faults, d)" "e \<noteq> EvFinish" "\<And>p. e = EvWrite p \<Longrightarrow> length p \<le> w"
    using Cons.prems(4) by (cases ev) auto
  have "io_wf (io_step ev i)"
    using run_keeps [of i "[ev]"] closed_accepts_nothing [of i "[ev]"] Cons.prems(1)
    by (cases "io_closed i") (auto simp: io_run_def)
  with step_sized [OF Cons.prems(1,2,3) ev(2,3), of d] Cons.IH [of "io_step ev i"] Cons.prems(4) ev(1)
  show ?case by (simp add: io_run_def)
qed (simp add: io_run_def)


section \<open>Directories\<close>

lemma set_replace_all: "set (replace_all s old new) \<subseteq> set s \<union> set new"
proof (induction s old new rule: replace_all.induct)
  case (2 c cs old new)
  have "set (drop (length old) (c # cs)) \<subseteq> set (c # cs)" by (rule set_drop_subset)
  with 2 show ?case by (auto split: if_splits)
qed simp

lemma path_base_no_slash: "CHR ''/'' \<notin> set (path_base p)"
  using set_takeWhileD by (fastforce simp: path_base_def)

lemma file_stem_no_slash: "CHR ''/'' \<notin> set (file_stem p)"
  using set_replace_all [of "path_base p" "path_ext p" "[]"] path_base_no_slash [of p] by (auto simp: file_stem_def)

lemma rev_takeWhile_join: "CHR ''/'' \<notin> set n \<Longrightarrow> takeWhile (\<lambda>c. c \<noteq> CHR ''/'') (rev n @ CHR ''/'' # s) = rev n"
  "CHR ''/'' \<notin> set n \<Longrightarrow> dropWhile (\<lambda>c. c \<noteq> CHR ''/'') (rev n @ CHR ''/'' # s) = CHR ''/'' # s"
  "CHR ''/'' \<notin> set n \<Longrightarrow> takeWhile (\<lambda>c. c \<noteq> CHR ''/'') (rev n) = rev n"
  by (auto simp: takeWhile_append dropWhile_append takeWhile_eq_all_conv)

lemma path_base_join [simp]: "CHR ''/'' \<notin> set n \<Longrightarrow> path_base (path_join d n) = n"
  by (auto simp: path_base_def path_join_def rev_takeWhile_join)

lemma path_dir_nonempty: "path_dir p \<noteq> []"
  by (simp add: path_dir_def Let_def)

lemma path_dir_join [simp]: "CHR ''/'' \<notin> set n \<Longrightarrow> path_dir (path_join (path_dir p) n) = path_dir p"
proof -
  assume n: "CHR ''/'' \<notin> set n"
  have "path_dir (path_join d n) = d" if "d \<noteq> []" for d
    using n that by (auto simp: path_dir_def path_join_def rev_takeWhile_join)
  then show ?thesis using path_dir_nonempty by blast
qed

lemma path_join_inj: "CHR ''/'' \<notin> set m \<Longrightarrow> CHR ''/'' \<notin> set n \<Longrightarrow> path_join d m = path_join d n \<Longrightarrow> m = n"
  by (metis path_base_join)

text \<open>When a directory of stem and digits is deleted.\<close>

lemma digits_no_slash: "list_all is_digit s \<Longrightarrow> CHR ''/'' \<notin> set s"
  by (auto simp: list_all_iff is_digit_def)

lemma expired_day:
  assumes "list_all is_digit day" "day \<noteq> []" "\<And>a. list_all is_digit (day_of a)"
  shows "expired_dir day_of i (path_join (path_dir (io_name i)) (file_stem (io_name i) @ day))
    \<longleftrightarrow> day \<notin> day_of ` {a. int a < ab_SaveDays (io_opt i)}"
proof -
  let ?s = "file_stem (io_name i)" and ?d = "path_dir (io_name i)"
  have ns: "CHR ''/'' \<notin> set (?s @ x)" if "list_all is_digit x" for x
    using file_stem_no_slash digits_no_slash [OF that] by auto
  have "archive_dir_name ?s (path_base (path_join ?d (?s @ day)))"
    using path_base_join [OF ns [OF assms(1)]] assms(1,2) by (simp add: archive_dir_name_def has_prefix_def)
  moreover have "(path_join ?d (?s @ day) \<in> set (map (\<lambda>s. path_join ?d (?s @ s)) (latestNDayStr (io_opt i) day_of)))
      \<longleftrightarrow> day \<in> day_of ` {a. int a < ab_SaveDays (io_opt i)}"
  proof -
    have "path_join ?d (?s @ day) = path_join ?d (?s @ day_of a) \<longleftrightarrow> day = day_of a" for a
      using path_join_inj [OF ns [OF assms(1)] ns [OF assms(3)]] by auto
    then have "path_join ?d (?s @ day) \<in> set (map (\<lambda>s. path_join ?d (?s @ s)) (latestNDayStr (io_opt i) day_of))
      \<longleftrightarrow> (\<exists>a. a < nat (ab_SaveDays (io_opt i)) \<and> day = day_of a)" by (auto simp: latestNDayStr_def image_iff Bex_def)
    then show ?thesis by (auto simp: zless_nat_eq_int_zless)
  qed
  ultimately show ?thesis unfolding expired_dir_def by blast
qed

end
