(* ===== verification/Log_Output.thy ===== *)
theory Log_Output
  imports Level_Logger Log_File
begin

text \<open>
  A levelled logger whose output is a log file, as LoadLogger of src/gof.go connects them
  (NewLevelLogger with an io.Writer, SetOutput): every line is one Write of its text.  The text
  that the standard log.Logger makes of a line, with its prefix, a reading of the clock
  \<^verbatim>\<open>'t\<close> and a final newline, is the parameter \<^verbatim>\<open>fmt\<close>.
\<close>

type_synonym ('a, 't) timed_call = "'a log_call \<times> 't \<times> answers \<times> string"

definition new_lines :: "'a logger \<Rightarrow> 'a logger \<Rightarrow> 'a log_line list" where
  "new_lines l l1 = drop (length (lg_lines l)) (lg_lines l1)"

definition write_lines ::
  "('t \<Rightarrow> string \<Rightarrow> 'a log_line \<Rightarrow> string) \<Rightarrow> string \<Rightarrow> 't \<Rightarrow> answers \<Rightarrow> string \<Rightarrow> 'a log_line list \<Rightarrow> inner_io \<Rightarrow> inner_io" where
  "write_lines fmt pre t an day xs i = fold (\<lambda>x i. fst (io_Write an day (fmt t pre x) i)) xs i"

fun run_to_file ::
  "('t \<Rightarrow> string \<Rightarrow> 'a log_line \<Rightarrow> string) \<Rightarrow> ('a, 't) timed_call list \<Rightarrow> 'a logger \<Rightarrow> inner_io
     \<Rightarrow> 'a logger \<times> inner_io \<times> log_end" where
  "run_to_file fmt [] l i = (l, i, Logged)"
| "run_to_file fmt ((c, t, an, day) # cs) l i =
     (case log_method c l of (l1, e) \<Rightarrow>
        let i1 = write_lines fmt (lg_prefix l) t an day (new_lines l l1) i
        in if e = Logged then run_to_file fmt cs l1 i1 else (l1, i1, e))"

text \<open>The writes of a run, in order.\<close>

fun emitted ::
  "('t \<Rightarrow> string \<Rightarrow> 'a log_line \<Rightarrow> string) \<Rightarrow> ('a, 't) timed_call list \<Rightarrow> 'a logger
     \<Rightarrow> ((answers \<times> string) \<times> string) list" where
  "emitted fmt [] l = []"
| "emitted fmt ((c, t, an, day) # cs) l =
     (case log_method c l of (l1, e) \<Rightarrow>
        map (\<lambda>x. ((an, day), fmt t (lg_prefix l) x)) (new_lines l l1)
        @ (if e = Logged then emitted fmt cs l1 else []))"

lemma write_lines_fold:
  "write_lines fmt pre t an day xs i
     = fold (\<lambda>(a, p). (case a of (an, day) \<Rightarrow> \<lambda>p i. fst (io_Write an day p i)) p)
         (map (\<lambda>x. ((an, day), fmt t pre x)) xs) i"
  by (induction xs arbitrary: i) (simp_all add: write_lines_def)

lemma run_to_file_fold:
  "run_to_file fmt cs l i =
     (fst (log_run (map fst cs) l),
      fold (\<lambda>(a, p). (case a of (an, day) \<Rightarrow> \<lambda>p i. fst (io_Write an day p i)) p) (emitted fmt cs l) i,
      snd (log_run (map fst cs) l))"
  by (induction fmt cs l i rule: run_to_file.induct)
     (auto simp: write_lines_fold Let_def split: prod.split log_end.split)

lemma log_method_kept:
  "lg_prefix (fst (log_method c l)) = lg_prefix l"
  "lg_lines (fst (log_method c l)) = lg_lines l @ new_lines l (fst (log_method c l))"
  by (induction c l rule: log_method.induct)
     (simp_all add: add_line_def logger_out_def logger_Infof_def new_lines_def)

lemma new_lines_one: "length (new_lines l (fst (log_method c l))) \<le> 1"
  by (induction c l rule: log_method.induct) (simp_all add: add_line_def logger_out_def logger_Infof_def new_lines_def)

text \<open>The texts written are those of the lines printed, each with the clock of its call.\<close>

lemma emitted_texts:
  "\<exists>ts new. lg_lines (fst (log_run (map fst cs) l)) = lg_lines l @ new \<and> length ts = length new
     \<and> map snd (emitted fmt cs l) = map2 (\<lambda>t x. fmt t (lg_prefix l) x) ts new
     \<and> subseq ts (map (\<lambda>(c, t, b). t) cs)"
proof (induction cs arbitrary: l)
  case (Cons ev cs)
  obtain c t an day where ev: "ev = (c, t, an, day)" by (cases ev) auto
  obtain l1 e where m: "log_method c l = (l1, e)" by fastforce
  let ?new = "new_lines l l1"
  let ?ts = "replicate (length ?new) t"
  have k: "lg_prefix l1 = lg_prefix l" "lg_lines l1 = lg_lines l @ ?new"
    using log_method_kept [of c l] m by simp_all
  have one: "map2 (\<lambda>t x. fmt t (lg_prefix l) x) ?ts ?new = map (fmt t (lg_prefix l)) ?new"
  proof -
    have "map2 f (replicate (length xs) t) xs = map (f t) xs" for f :: "_ \<Rightarrow> _ \<Rightarrow> string" and xs
      by (induction xs) simp_all
    then show ?thesis .
  qed
  have sub: "subseq ?ts [t]" using new_lines_one [of l c] m by (cases ?new) auto
  show ?case
  proof (cases "e = Logged")
    case False
    then have "log_run (map fst (ev # cs)) l = (l1, e)" by (cases e) (simp_all add: ev m)
    moreover from list_emb_append_mono [OF sub, of "[]" "map (\<lambda>(c, t, b). t) cs"]
    have "subseq ?ts (t # map (\<lambda>(c, t, b). t) cs)" by simp
    ultimately show ?thesis
      using False one k(2) by (intro exI [of _ ?ts] exI [of _ ?new]) (auto simp: ev m comp_def)
  next
    case True
    from Cons.IH [of l1] obtain ts new where
      "lg_lines (fst (log_run (map fst cs) l1)) = lg_lines l1 @ new" "length ts = length new"
      "map snd (emitted fmt cs l1) = map2 (\<lambda>t x. fmt t (lg_prefix l1) x) ts new"
      "subseq ts (map (\<lambda>(c, t, b). t) cs)" by blast
    moreover from list_emb_append_mono [OF sub this(4)] have "subseq (?ts @ ts) (t # map (\<lambda>(c, t, b). t) cs)" by simp
    ultimately show ?thesis
      using True one k by (intro exI [of _ "?ts @ ts"] exI [of _ "?new @ new"]) (auto simp: ev m comp_def)
  qed
qed simp

lemma emitted_calm:
  assumes "\<forall>ev \<in> set cs. fst (snd (snd ev)) = no_faults"
  shows "\<forall>x \<in> set (emitted fmt cs l). fst (fst x) = no_faults"
  using assms
proof (induction cs arbitrary: l)
  case (Cons ev cs)
  obtain c t an day where ev: "ev = (c, t, an, day)" by (cases ev) auto
  obtain l1 e where "log_method c l = (l1, e)" by fastforce
  with Cons show ?case by (auto simp: ev)
qed simp

end
