(* ===== verification/Go_Pool.thy ===== *)
theory Go_Pool
  imports Prelude "HOL-Library.Word"
begin

text \<open>
  The goroutine pool of src/g2util/goroutine.go on top of the ants pool.  Whether ants takes a
  function (Submit) is part of the event; after Release it refuses every function.  What the
  submitted functions do when they run is a value.
\<close>

datatype task = Task_ok | Task_err string | Task_panic string

datatype pool_line = Pool_full "32 word" | Task_failed string | Worker_panicked string

record gopool =
  gp_size :: "32 word"
  gp_wait :: nat
  gp_pending :: "task list"
  gp_released :: bool
  gp_lines :: "pool_line list"

definition gopool_Constructor :: gopool where
  "gopool_Constructor = \<lparr>gp_size = 0, gp_wait = 0, gp_pending = [], gp_released = False, gp_lines = []\<rparr>"

definition goPoolSize :: "int \<Rightarrow> int" where
  "goPoolSize numCPU = numCPU * 1000"

definition pool_log :: "pool_line \<Rightarrow> gopool \<Rightarrow> gopool" where
  "pool_log x g = g\<lparr>gp_lines := gp_lines g @ [x]\<rparr>"

text \<open>pool.Submit, whose error Go ignores.\<close>

definition pool_Submit :: "bool \<Rightarrow> task \<Rightarrow> gopool \<Rightarrow> gopool" where
  "pool_Submit taken fn g =
     (if taken \<and> \<not> gp_released g then g\<lparr>gp_pending := gp_pending g @ [fn]\<rparr> else g)"

definition pool_Go :: "int \<Rightarrow> bool \<Rightarrow> task \<Rightarrow> gopool \<Rightarrow> gopool" where
  "pool_Go numCPU taken fn g =
     (let g1 = g\<lparr>gp_size := gp_size g + 1\<rparr>;
          g2 = (if sint (gp_size g1) \<ge> sint (word_of_int (goPoolSize numCPU - 10) :: 32 word)
                then pool_log (Pool_full (gp_size g1)) g1 else g1)
      in pool_Submit taken fn g2)"

text \<open>goFuncDo, and the submitted function around it; a panic is caught by the pool's handler.\<close>

definition goFuncDo :: "task \<Rightarrow> gopool \<Rightarrow> unit outcome \<times> gopool" where
  "goFuncDo fn g =
     (case fn of
        Task_ok \<Rightarrow> (Returns (), g)
      | Task_err e \<Rightarrow> (Returns (), pool_log (Task_failed e) g)
      | Task_panic p \<Rightarrow> (Panics p, g))"

definition run_task :: "task \<Rightarrow> gopool \<Rightarrow> gopool" where
  "run_task fn g =
     (case goFuncDo fn g of
        (Returns _, g1) \<Rightarrow> g1\<lparr>gp_size := gp_size g1 - 1\<rparr>
      | (Panics p, g1) \<Rightarrow> pool_log (Worker_panicked p) g1)"

text \<open>AfterShutdown: nothing was ever added to the wait group, so waiting for it ends at once.\<close>

definition pool_AfterShutdown :: "gopool \<Rightarrow> gopool option" where
  "pool_AfterShutdown g = (if gp_wait g = 0 then Some (g\<lparr>gp_released := True\<rparr>) else None)"

datatype pool_event = Ev_Go bool task | Ev_run nat | Ev_shutdown

text \<open>A pending function runs, whichever the pool picks.\<close>

fun pool_step :: "int \<Rightarrow> pool_event \<Rightarrow> gopool \<Rightarrow> gopool" where
  "pool_step numCPU (Ev_Go taken fn) g = pool_Go numCPU taken fn g"
| "pool_step numCPU (Ev_run k) g =
     (if k < length (gp_pending g)
      then run_task (gp_pending g ! k) (g\<lparr>gp_pending := take k (gp_pending g) @ drop (Suc k) (gp_pending g)\<rparr>)
      else g)"
| "pool_step numCPU Ev_shutdown g = (case pool_AfterShutdown g of Some g1 \<Rightarrow> g1 | None \<Rightarrow> g)"

definition pool_run :: "int \<Rightarrow> pool_event list \<Rightarrow> gopool \<Rightarrow> gopool" where
  "pool_run numCPU evs g = fold (pool_step numCPU) evs g"


section \<open>What the size counts\<close>

definition panicked :: "gopool \<Rightarrow> nat" where
  "panicked g = length (filter (\<lambda>x. case x of Worker_panicked _ \<Rightarrow> True | _ \<Rightarrow> False) (gp_lines g))"

text \<open>The functions the pool refuses in a run.\<close>

fun refused :: "int \<Rightarrow> pool_event list \<Rightarrow> gopool \<Rightarrow> nat" where
  "refused n [] g = 0"
| "refused n (e # evs) g =
     (case e of Ev_Go taken fn \<Rightarrow> if taken \<and> \<not> gp_released g then 0 else 1 | _ \<Rightarrow> 0) + refused n evs (pool_step n e g)"

definition size_counts :: "nat \<Rightarrow> gopool \<Rightarrow> bool" where
  "size_counts r g \<longleftrightarrow> gp_size g = of_nat (length (gp_pending g) + panicked g + r) \<and> gp_wait g = 0"

lemma length_remove_nth: "k < length xs \<Longrightarrow> Suc (length (take k xs @ drop (Suc k) xs)) = length xs"
  by simp

lemma pool_step_counts:
  assumes "size_counts r g"
  shows "size_counts (r + (case e of Ev_Go taken fn \<Rightarrow> if taken \<and> \<not> gp_released g then 0 else 1 | _ \<Rightarrow> 0)) (pool_step n e g)"
proof (cases e)
  case (Ev_Go taken fn)
  then show ?thesis
    using assms by (auto simp: size_counts_def pool_Go_def pool_Submit_def pool_log_def panicked_def Let_def)
next
  case (Ev_run k)
  show ?thesis
  proof (cases "k < length (gp_pending g)")
    case True
    define rest where "rest = take k (gp_pending g) @ drop (Suc k) (gp_pending g)"
    have "(of_nat (length (gp_pending g)) :: 32 word) = of_nat (length rest) + 1"
      using length_remove_nth [OF True] unfolding rest_def by (metis add.commute of_nat_Suc)
    then show ?thesis
      using assms True Ev_run
      by (cases "gp_pending g ! k")
         (simp_all add: size_counts_def run_task_def goFuncDo_def pool_log_def panicked_def algebra_simps flip: rest_def)
  qed (use assms Ev_run in simp)
next
  case Ev_shutdown
  then show ?thesis using assms by (simp add: pool_AfterShutdown_def size_counts_def panicked_def)
qed

lemma pool_run_counts: "size_counts r g \<Longrightarrow> size_counts (r + refused n evs g) (pool_run n evs g)"
proof (induction evs arbitrary: r g)
  case (Cons e evs)
  from Cons.IH [OF pool_step_counts [OF Cons.prems, of e n]] show ?case by (simp add: pool_run_def add.assoc)
qed (simp add: pool_run_def)

lemma constructor_counts: "size_counts 0 gopool_Constructor"
  by (simp add: size_counts_def gopool_Constructor_def panicked_def)

end
