(* ===== verification/Graceful.thy ===== *)
theory Graceful
  imports Prelude "HOL-Library.Multiset"
begin

text \<open>
  The orderly shutdown of src/g2util/graceful.go: the registered servers and processors, the
  signal loop, and the shutdown action.  A processor says whether it is an io.Writer and whether
  its AfterShutdown ends within the 30 seconds TimeoutExecFunc waits; what http.Server.Shutdown
  answers is a parameter.  What happens is recorded in order.
\<close>

datatype os_signal =
  SIGINT | SIGQUIT | SIGTERM | SIGUSR1 | SIGURG | SIGPIPE | SIGCHLD | SIG_other nat

record processor =
  pr_name :: string
  pr_is_writer :: bool
  pr_in_time :: bool

datatype grace_event =
    Listening string | Shutdown_failed string string | Shutdown_exited string
  | AfterShutdown processor | Gave_up processor | Unknown_signal os_signal

record graceful =
  gr_processList :: "processor list"
  gr_srvList :: "string list"
  gr_events :: "grace_event list"

definition graceful_Constructor :: graceful where
  "graceful_Constructor = \<lparr>gr_processList = [], gr_srvList = [], gr_events = []\<rparr>"

definition gr_add :: "grace_event list \<Rightarrow> graceful \<Rightarrow> graceful" where
  "gr_add es g = g\<lparr>gr_events := gr_events g @ es\<rparr>"

definition regProcessor :: "processor \<Rightarrow> graceful \<Rightarrow> graceful" where
  "regProcessor p g = g\<lparr>gr_processList := gr_processList g @ [p]\<rparr>"

definition regHTTPServer :: "string \<Rightarrow> graceful \<Rightarrow> graceful" where
  "regHTTPServer addr g = gr_add [Listening addr] (g\<lparr>gr_srvList := gr_srvList g @ [addr]\<rparr>)"

definition graceShutdownHTTPServer :: "(string \<Rightarrow> string option) \<Rightarrow> string \<Rightarrow> graceful \<Rightarrow> graceful" where
  "graceShutdownHTTPServer shut srv g =
     (case shut srv of
        Some err \<Rightarrow> gr_add [Shutdown_failed srv err] g
      | None \<Rightarrow> gr_add [Shutdown_exited srv] g)"

text \<open>TimeoutExecFunc starts the function and goes on when it ended or the time is over.\<close>

definition TimeoutExecFunc :: "processor \<Rightarrow> graceful \<Rightarrow> graceful" where
  "TimeoutExecFunc p g = gr_add (AfterShutdown p # (if pr_in_time p then [] else [Gave_up p])) g"

fun process_loop :: "processor list \<Rightarrow> processor list \<Rightarrow> graceful \<Rightarrow> processor list \<times> graceful" where
  "process_loop [] slpIO g = (slpIO, g)"
| "process_loop (p # ps) slpIO g =
     (if \<not> pr_is_writer p then process_loop ps slpIO (TimeoutExecFunc p g)
      else process_loop ps (slpIO @ [p]) g)"

definition shutdownAction :: "(string \<Rightarrow> string option) \<Rightarrow> graceful \<Rightarrow> graceful" where
  "shutdownAction shut g =
     (let g1 = fold (graceShutdownHTTPServer shut) (gr_srvList g) g;
          (slpIO, g2) = process_loop (gr_processList g) [] g1
      in fold TimeoutExecFunc slpIO g2)"

text \<open>StartSignal on the signals that come; False while it still waits for one.\<close>

fun StartSignal :: "(string \<Rightarrow> string option) \<Rightarrow> os_signal list \<Rightarrow> graceful \<Rightarrow> graceful \<times> bool" where
  "StartSignal shut [] g = (g, False)"
| "StartSignal shut (sig # sigs) g =
     (if sig \<in> {SIGINT, SIGQUIT, SIGTERM} then (shutdownAction shut g, True)
      else if sig = SIGUSR1 then (g, True)
      else if sig \<in> {SIGURG, SIGPIPE, SIGCHLD} then StartSignal shut sigs g
      else StartSignal shut sigs (gr_add [Unknown_signal sig] g))"


section \<open>The order of the shutdown\<close>

definition server_events :: "(string \<Rightarrow> string option) \<Rightarrow> string list \<Rightarrow> grace_event list" where
  "server_events shut srvs =
     map (\<lambda>s. case shut s of Some e \<Rightarrow> Shutdown_failed s e | None \<Rightarrow> Shutdown_exited s) srvs"

definition processor_events :: "processor list \<Rightarrow> grace_event list" where
  "processor_events ps = concat (map (\<lambda>p. AfterShutdown p # (if pr_in_time p then [] else [Gave_up p])) ps)"

lemma gr_add_add [simp]: "gr_add ys (gr_add xs g) = gr_add (xs @ ys) g" "gr_add [] g = g"
  by (simp_all add: gr_add_def)

lemma fold_servers: "fold (graceShutdownHTTPServer shut) srvs g = gr_add (server_events shut srvs) g"
  by (induction srvs arbitrary: g) (auto simp: graceShutdownHTTPServer_def server_events_def split: option.split)

lemma fold_processors: "fold TimeoutExecFunc ps g = gr_add (processor_events ps) g"
  by (induction ps arbitrary: g) (auto simp: TimeoutExecFunc_def processor_events_def)

lemma process_loop_splits:
  "process_loop ps acc g =
     (acc @ filter pr_is_writer ps, gr_add (processor_events (filter (\<lambda>p. \<not> pr_is_writer p) ps)) g)"
  by (induction ps arbitrary: acc g) (auto simp: TimeoutExecFunc_def processor_events_def)

lemma shutdownAction_events:
  "shutdownAction shut g = gr_add (server_events shut (gr_srvList g)
      @ processor_events (filter (\<lambda>p. \<not> pr_is_writer p) (gr_processList g))
      @ processor_events (filter pr_is_writer (gr_processList g))) g"
  by (simp add: shutdownAction_def fold_servers process_loop_splits fold_processors)

fun unknown_events :: "os_signal list \<Rightarrow> grace_event list" where
  "unknown_events [] = []"
| "unknown_events (s # ss) = (if s \<in> {SIGURG, SIGPIPE, SIGCHLD} then [] else [Unknown_signal s]) @ unknown_events ss"

definition ends_loop :: "os_signal \<Rightarrow> bool" where
  "ends_loop s \<longleftrightarrow> s \<in> {SIGINT, SIGQUIT, SIGTERM, SIGUSR1}"

lemma StartSignal_prefix:
  "list_all (\<lambda>s. \<not> ends_loop s) ss \<Longrightarrow> StartSignal shut (ss @ rest) g = StartSignal shut rest (gr_add (unknown_events ss) g)"
  by (induction ss arbitrary: g) (auto simp: ends_loop_def)

definition notified :: "grace_event list \<Rightarrow> processor list" where
  "notified es = concat (map (\<lambda>e. case e of AfterShutdown p \<Rightarrow> [p] | _ \<Rightarrow> []) es)"

lemma notified_append [simp]: "notified (a @ b) = notified a @ notified b" "notified [] = []"
  by (simp_all add: notified_def)

lemma notified_servers: "notified (server_events shut srvs) = []"
  by (induction srvs) (auto simp: notified_def server_events_def split: option.split)

lemma notified_processors: "notified (processor_events ps) = ps"
  by (induction ps) (auto simp: notified_def processor_events_def)

lemma notified_unknown: "notified (unknown_events ss) = []"
  by (induction ss) (auto simp: notified_def)

lemma mset_split: "mset (filter (\<lambda>x. \<not> P x) xs) + mset (filter P xs) = mset xs"
  by (simp add: add.commute)

end
