(* ===== verification/Validator_Rules.thy ===== *)
theory Validator_Rules
  imports Prelude
begin

text \<open>
  The custom validations of src/g2util/validator.go.  Go's regular expressions work on code
  points, so a value is a list of them; the patterns of the source are sequences of repeated
  character classes, anchored at both ends.  The validation library and the texts of its
  translator are parameters.
\<close>

type_synonym rune = nat

section \<open>Regular expressions\<close>

text \<open>A class repeated from \<^verbatim>\<open>lo\<close> to \<^verbatim>\<open>hi\<close> times (no bound: None), and sequences of them.\<close>

datatype rx = Rep "rune \<Rightarrow> bool" nat "nat option" | Seq rx rx

definition rx_class :: "(rune \<Rightarrow> bool) \<Rightarrow> rx" where
  "rx_class P = Rep P 1 (Some 1)"

definition rx_plus :: "(rune \<Rightarrow> bool) \<Rightarrow> rx" where
  "rx_plus P = Rep P 1 None"

definition rx_star :: "(rune \<Rightarrow> bool) \<Rightarrow> rx" where
  "rx_star P = Rep P 0 None"

text \<open>Matching the whole text.\<close>

fun rx_match :: "rx \<Rightarrow> rune list \<Rightarrow> bool" where
  "rx_match (Rep P lo hi) s \<longleftrightarrow>
     list_all P s \<and> lo \<le> length s \<and> (case hi of None \<Rightarrow> True | Some h \<Rightarrow> length s \<le> h)"
| "rx_match (Seq a b) s \<longleftrightarrow> list_ex (\<lambda>i. rx_match a (take i s) \<and> rx_match b (drop i s)) [0..<Suc (length s)]"

definition between :: "rune \<Rightarrow> rune \<Rightarrow> rune \<Rightarrow> bool" where
  "between a b r \<longleftrightarrow> a \<le> r \<and> r \<le> b"

definition cls_digit :: "rune \<Rightarrow> bool" where "cls_digit r \<longleftrightarrow> between 48 57 r"
definition cls_upper :: "rune \<Rightarrow> bool" where "cls_upper r \<longleftrightarrow> between 65 90 r"
definition cls_lower :: "rune \<Rightarrow> bool" where "cls_lower r \<longleftrightarrow> between 97 122 r"
definition cls_word :: "rune \<Rightarrow> bool" where
  "cls_word r \<longleftrightarrow> cls_digit r \<or> cls_upper r \<or> cls_lower r \<or> r = 95"
definition cls_nonspace :: "rune \<Rightarrow> bool" where "cls_nonspace r \<longleftrightarrow> r \<notin> {9, 10, 12, 13, 32}"
definition cls_any :: "rune \<Rightarrow> bool" where "cls_any r \<longleftrightarrow> r \<noteq> 10"

lemmas cls_defs = cls_digit_def cls_upper_def cls_lower_def cls_word_def cls_nonspace_def cls_any_def between_def


section \<open>The rules\<close>

text \<open>^.*[A-Z]+.*$ and the like.\<close>

definition has_some :: "(rune \<Rightarrow> bool) \<Rightarrow> rx" where
  "has_some P = Seq (rx_star cls_any) (Seq (rx_plus P) (rx_star cls_any))"

definition password_rule :: "rune list \<Rightarrow> bool" where
  "password_rule str =
     (if \<not> rx_match (Rep cls_nonspace 8 (Some 24)) str then False
      else if \<not> rx_match (has_some cls_upper) str then False
      else if \<not> rx_match (has_some cls_lower) str then False
      else if \<not> rx_match (has_some cls_digit) str then False
      else True)"

definition mobile_rule :: "rune list \<Rightarrow> bool" where
  "mobile_rule str =
     rx_match (Seq (rx_class (\<lambda>r. r = 49)) (Seq (rx_class (between 51 57)) (Rep cls_digit 9 (Some 9)))) str"

definition username_rule :: "rune list \<Rightarrow> bool" where
  "username_rule str = rx_match (Rep cls_word 5 (Some 15)) str"

text \<open>
  initialize registers the three rules in this order and stops at the first refusal of the
  library, \<^verbatim>\<open>register\<close>.
\<close>

type_synonym validations = "(string \<times> (rune list \<Rightarrow> bool)) list"

definition customValidations :: validations where
  "customValidations = [(''mobile'', mobile_rule), (''username'', username_rule), (''password'', password_rule)]"

fun register_all_rules :: "(string \<Rightarrow> string option) \<Rightarrow> validations \<Rightarrow> validations \<Rightarrow> string option \<times> validations" where
  "register_all_rules register [] reg = (None, reg)"
| "register_all_rules register ((tag, fn) # vs) reg =
     (case register tag of
        Some err \<Rightarrow> (Some err, reg)
      | None \<Rightarrow> register_all_rules register vs (reg @ [(tag, fn)]))"

text \<open>initialize: \<^verbatim>\<open>default_error\<close> is what registering the library's own translations reports.\<close>

definition validator_initialize :: "string option \<Rightarrow> (string \<Rightarrow> string option) \<Rightarrow> string option \<times> validations" where
  "validator_initialize default_error register =
     (case default_error of
        Some err \<Rightarrow> (Some err, [])
      | None \<Rightarrow> register_all_rules register customValidations [])"

definition validator_New :: "string option \<Rightarrow> (string \<Rightarrow> string option) \<Rightarrow> validations outcome" where
  "validator_New default_error register =
     (case validator_initialize default_error register of
        (None, reg) \<Rightarrow> Returns reg
      | (Some err, reg) \<Rightarrow> Panics err)"

text \<open>Errors and their translation.\<close>

datatype 'f valid_error = ValidationErrors "'f list" | InvalidValidationError string | Other_error string

datatype translated = List_error "string list" | Plain_error string

definition TranslateZh :: "('f \<Rightarrow> string) \<Rightarrow> 'f valid_error option \<Rightarrow> translated option" where
  "TranslateZh translate es =
     (case es of
        None \<Rightarrow> None
      | Some (ValidationErrors fs) \<Rightarrow> Some (List_error (map translate fs))
      | Some (InvalidValidationError e) \<Rightarrow> Some (Plain_error (''Invalid:'' @ e))
      | Some (Other_error e) \<Rightarrow> Some (Plain_error e))"

text \<open>Checking a value by the tags of its fields, or one value by a tag, and translating the errors.\<close>

definition ValidAndTranslateZh :: "('f \<Rightarrow> string) \<Rightarrow> ('v \<Rightarrow> 'f valid_error option) \<Rightarrow> 'v \<Rightarrow> translated option" where
  "ValidAndTranslateZh translate valid_struct s = TranslateZh translate (valid_struct s)"

definition ValidVarWithTransZh ::
  "('f \<Rightarrow> string) \<Rightarrow> ('v \<Rightarrow> string \<Rightarrow> 'f valid_error option) \<Rightarrow> 'v \<Rightarrow> string \<Rightarrow> translated option" where
  "ValidVarWithTransZh translate valid_var val tag = TranslateZh translate (valid_var val tag)"

fun translated_text :: "translated \<Rightarrow> string" where
  "translated_text (List_error l) = go_join l '',''"
| "translated_text (Plain_error e) = e"


section \<open>What the rules accept\<close>

lemma rx_match_Seq: "rx_match (Seq a b) s \<longleftrightarrow> (\<exists>u v. s = u @ v \<and> rx_match a u \<and> rx_match b v)"
proof
  assume "rx_match (Seq a b) s"
  then show "\<exists>u v. s = u @ v \<and> rx_match a u \<and> rx_match b v" by (auto simp: list_ex_iff) (metis append_take_drop_id)+
next
  assume "\<exists>u v. s = u @ v \<and> rx_match a u \<and> rx_match b v"
  then obtain u v where "s = u @ v" "rx_match a u" "rx_match b v" by blast
  then show "rx_match (Seq a b) s" by (auto simp: list_ex_iff intro!: bexI [of _ "length u"])
qed

declare rx_match.simps(2) [simp del]

lemma rx_match_class: "rx_match (rx_class P) s \<longleftrightarrow> (\<exists>c. s = [c] \<and> P c)"
  by (auto simp: rx_class_def length_Suc_conv le_Suc_eq)

lemma rx_match_class_Seq: "rx_match (Seq (rx_class P) b) s \<longleftrightarrow> (\<exists>c r. s = c # r \<and> P c \<and> rx_match b r)"
  unfolding rx_match_Seq rx_match_class by (auto, metis append_Cons append_Nil)

lemma has_some_iff:
  assumes "\<And>c. P c \<Longrightarrow> cls_any c"
  shows "rx_match (has_some P) s \<longleftrightarrow> list_all cls_any s \<and> list_ex P s"
proof
  assume "rx_match (has_some P) s"
  then obtain a b c where s: "s = a @ b @ c" "list_all cls_any a" "list_all P b" "Suc 0 \<le> length b" "list_all cls_any c"
    by (clarsimp simp: has_some_def rx_match_Seq rx_star_def rx_plus_def)
  then show "list_all cls_any s \<and> list_ex P s"
    using assms by (cases b) (auto simp: list_all_iff)
next
  assume r: "list_all cls_any s \<and> list_ex P s"
  then obtain c where "c \<in> set s" "P c" by (auto simp: list_ex_iff)
  then obtain a b where "s = a @ [c] @ b" by (auto dest: split_list)
  with r \<open>P c\<close> show "rx_match (has_some P) s"
    unfolding has_some_def rx_match_Seq rx_star_def rx_plus_def
    by (intro exI [of _ a] exI [of _ "c # b"] conjI exI [of _ "[c]"] exI [of _ b]) auto
qed

lemma classes_any: "cls_upper c \<Longrightarrow> cls_any c" "cls_lower c \<Longrightarrow> cls_any c" "cls_digit c \<Longrightarrow> cls_any c"
  "cls_nonspace c \<Longrightarrow> cls_any c"
  by (auto simp: cls_defs)

lemma some_classes:
  "rx_match (has_some cls_upper) s \<longleftrightarrow> list_all cls_any s \<and> list_ex cls_upper s"
  "rx_match (has_some cls_lower) s \<longleftrightarrow> list_all cls_any s \<and> list_ex cls_lower s"
  "rx_match (has_some cls_digit) s \<longleftrightarrow> list_all cls_any s \<and> list_ex cls_digit s"
  by (rule has_some_iff, erule classes_any)+

end
