(* ===== verification/G2util_Properties.thy ===== *)
theory G2util_Properties
  imports Log_Output Go_Pool Graceful Validator_Rules
begin

text \<open>
  The properties of the utilities of src/g2util/: the self-archiving log file, the levelled
  logger, the goroutine pool, the orderly shutdown and the custom validations.
\<close>

section \<open>The log file\<close>

definition app_log :: string where "app_log = ''/logs/app.log''"

definition small_opt :: abfile_option where
  "small_opt = \<lparr>ab_FileMaxSize = 4, ab_SaveDays = 2, ab_BufferSize = 3\<rparr>"

definition sample_log_run :: "(io_event \<times> answers \<times> string) list" where
  "sample_log_run =
     [(EvWrite ''ab'', no_faults, ''20240101''), (EvWrite ''cd'', no_faults, ''20240101''),
      (EvWrite ''e'', no_faults, ''20240101''), (EvFlush, no_faults, ''20240102''),
      (EvClose, no_faults, ''20240102'')]"

lemma app_log_ext: "path_ext app_log = ''.log''" "wf_ext (path_ext app_log)"
  "path_dir app_log = ''/logs''" "file_stem app_log = ''app''"
proof -
  show e: "path_ext app_log = ''.log''" by code_simp
  then show "wf_ext (path_ext app_log)" by (simp add: wf_ext_def)
  show "path_dir app_log = ''/logs''" by code_simp
  show "file_stem app_log = ''app''" by code_simp
qed

text \<open>
  C5. The log file loses nothing it accepted: whatever writes, flushes and the closing do and
  however the system fails (short writes, archives that cannot be created, copies cut short,
  truncations that fail), what the file had and every byte Write accepted is there in its order,
  in the archives, the file and the buffer; without faults these hold exactly that, each byte
  once.  No archive ever replaces another: those of a directory are numbered without gaps.
\<close>

theorem log_loses_nothing:
  assumes "wf_ext (path_ext path)"
  shows "subseq (content @ accepted evs) (log_bytes (io_run evs (open_io path content opt)))
    \<and> numbered (path_ext path) (io_disk (io_run evs (open_io path content opt)))
    \<and> ((\<forall>(e, an, d) \<in> set evs. an = no_faults) \<longrightarrow>
         log_bytes (io_run evs (open_io path content opt)) = content @ accepted evs)"
proof -
  let ?i = "open_io path content opt"
  have "io_wf ?i" "\<not> io_closed ?i" "log_bytes ?i = content"
    using assms by (simp_all add: io_wf_def open_io_def numbered_def log_bytes_def)
  moreover have "io_name (io_run evs ?i) = path" by (simp add: io_run_name open_io_def)
  ultimately show ?thesis using run_keeps [of ?i evs] by (simp add: io_wf_def)
qed

theorem log_loses_nothing_witness:
  "log_bytes (io_run sample_log_run (open_io app_log ''x'' (Some small_opt))) = ''xabcde''
   \<and> io_disk (io_run sample_log_run (open_io app_log ''x'' (Some small_opt)))
       = [((''/logs/app20240101'', ''000000.log''), ''xabcd'')]"
proof
  have "accepted sample_log_run = ''abcde''" by code_simp
  with log_loses_nothing [OF app_log_ext(2), of "''x''" sample_log_run "Some small_opt"]
  show "log_bytes (io_run sample_log_run (open_io app_log ''x'' (Some small_opt))) = ''xabcde''"
    by (simp add: sample_log_run_def)
  show "io_disk (io_run sample_log_run (open_io app_log ''x'' (Some small_opt)))
      = [((''/logs/app20240101'', ''000000.log''), ''xabcd'')]" by code_simp
qed

text \<open>
  C33. The sizes the options ask for hold in every run without faults: the buffer stays below
  BufferSize, the file below FileMaxSize, and every archive is at least FileMaxSize long and
  exceeds it by less than a buffer and one write.
\<close>

theorem log_sizes_bounded:
  assumes "wf_ext (path_ext path)" "0 < ab_BufferSize o1" "int (length content) < ab_FileMaxSize o1"
    "\<forall>(e, an, d) \<in> set evs. an = no_faults \<and> e \<noteq> EvFinish \<and> (\<forall>p. e = EvWrite p \<longrightarrow> length p \<le> w)"
  shows "int (length (io_buf (io_run evs (open_io path content (Some o1))))) < ab_BufferSize o1
    \<and> int (length (io_file (io_run evs (open_io path content (Some o1))))) < ab_FileMaxSize o1
    \<and> (\<forall>a \<in> set (io_disk (io_run evs (open_io path content (Some o1)))).
          ab_FileMaxSize o1 \<le> int (length (snd a))
          \<and> int (length (snd a)) < ab_FileMaxSize o1 + ab_BufferSize o1 + int w)"
proof -
  let ?i = "open_io path content (Some o1)"
  have "io_wf ?i" "\<not> io_file_closed ?i" "io_sized w ?i"
    using assms(1-3) by (simp_all add: io_wf_def open_io_def numbered_def io_sized_def)
  then have "io_sized w (io_run evs ?i)" using run_sized assms(4) by blast
  moreover have "io_opt (io_run evs ?i) = o1" by (simp add: io_run_opt open_io_def)
  ultimately show ?thesis by (simp add: io_sized_def)
qed

theorem log_sizes_bounded_witness:
  "int (length (io_file (io_run sample_log_run (open_io app_log ''x'' (Some small_opt))))) < 4
   \<and> io_file (io_run sample_log_run (open_io app_log ''x'' (Some small_opt))) = ''e''"
proof
  show "int (length (io_file (io_run sample_log_run (open_io app_log ''x'' (Some small_opt))))) < 4"
    using log_sizes_bounded [OF app_log_ext(2), of small_opt "''x''" sample_log_run 2]
    by (simp add: sample_log_run_def small_opt_def)
  show "io_file (io_run sample_log_run (open_io app_log ''x'' (Some small_opt))) = ''e''" by code_simp
qed

text \<open>
  The deletion of old directories keeps exactly the window: of the archives this log wrote on
  a day, all survive when the day is one of the last SaveDays days and all go otherwise; archives
  whose directory is not the log's stem and digits, and the file and the buffer, stay as they are.
\<close>

theorem old_archives_deleted:
  assumes "list_all is_digit day" "day \<noteq> []" "\<And>a. list_all is_digit (day_of a)"
  shows "(((fileDirWithDaySuffix (io_name i) day, n), c) \<in> set (io_disk (autoDelDir day_of i))
      \<longleftrightarrow> ((fileDirWithDaySuffix (io_name i) day, n), c) \<in> set (io_disk i)
          \<and> (\<exists>a. int a < ab_SaveDays (io_opt i) \<and> day_of a = day))
    \<and> (\<forall>f \<in> set (io_disk i). \<not> archive_dir_name (file_stem (io_name i)) (path_base (fst (fst f)))
          \<longrightarrow> f \<in> set (io_disk (autoDelDir day_of i)))
    \<and> io_file (autoDelDir day_of i) = io_file i \<and> io_buf (autoDelDir day_of i) = io_buf i"
proof -
  have ns: "CHR ''/'' \<notin> set (file_stem (io_name i) @ day)"
    using file_stem_no_slash digits_no_slash [OF assms(1)] by auto
  show ?thesis
    using expired_day [of day day_of i, OF assms] path_dir_join [OF ns]
    by (auto simp: autoDelDir_def fileDirWithDaySuffix_def expired_dir_def)
qed

definition sample_log_files :: inner_io where
  "sample_log_files = (open_io app_log [] (Some small_opt))
     \<lparr>io_disk := [((''/logs/app20240101'', ''000000.log''), ''a''), ((''/logs/app20240103'', ''000000.log''), ''b''),
                  ((''/logs/app220240103'', ''000000.log''), ''c'')]\<rparr>"

definition sample_days :: "nat \<Rightarrow> string" where
  "sample_days a = (if a = 0 then ''20240103'' else if a = 1 then ''20240102'' else ''20240101'')"

lemma sample_days_digits: "list_all is_digit (sample_days a)"
  by (simp add: sample_days_def is_digit_def)

theorem old_archives_deleted_witness:
  "((''/logs/app20240101'', ''000000.log''), ''a'') \<notin> set (io_disk (autoDelDir sample_days sample_log_files))"
proof -
  have "fileDirWithDaySuffix (io_name sample_log_files) ''20240101'' = ''/logs/app20240101''" by code_simp
  moreover have "\<not> (\<exists>a. int a < ab_SaveDays (io_opt sample_log_files) \<and> sample_days a = ''20240101'')"
    by (auto simp: sample_days_def sample_log_files_def open_io_def small_opt_def)
  moreover have "list_all is_digit ''20240101''" by code_simp
  ultimately show ?thesis
    using old_archives_deleted [where day = "''20240101''" and day_of = sample_days and i = sample_log_files
        and n = "''000000.log''" and c = "''a''"] sample_days_digits by simp
qed

text \<open>
  The directories of another log are taken for old ones: when the other log's stem is this
  one's followed by digits (app and app2), deleting this log's old directories deletes every
  archive of the other, today's included.
\<close>

theorem sibling_log_deleted:
  assumes "list_all is_digit day" "list_all is_digit ds" "ds \<noteq> []"
    "\<And>a. list_all is_digit (day_of a) \<and> length (day_of a) = length day"
    "path_dir other = path_dir (io_name i)" "file_stem other = file_stem (io_name i) @ ds"
  shows "((fileDirWithDaySuffix other day, n), c) \<notin> set (io_disk (autoDelDir day_of i))"
proof -
  have "\<And>a. list_all is_digit (day_of a)" "list_all is_digit (ds @ day)" "ds @ day \<noteq> []"
    "ds @ day \<notin> range day_of" using assms(1-4) by (auto dest: arg_cong [where f = length])
  with expired_day [of "ds @ day" day_of i]
  have "expired_dir day_of i (path_join (path_dir (io_name i)) (file_stem (io_name i) @ ds @ day))" by blast
  moreover have "CHR ''/'' \<notin> set (file_stem (io_name i) @ ds @ day)"
    using file_stem_no_slash digits_no_slash [OF \<open>list_all is_digit (ds @ day)\<close>] by auto
  ultimately show ?thesis
    using assms(5,6) by (simp add: autoDelDir_def fileDirWithDaySuffix_def)
qed

theorem sibling_log_deleted_witness:
  "((fileDirWithDaySuffix ''/logs/app2.log'' ''20240103'', ''000000.log''), ''c'') \<in> set (io_disk sample_log_files)
   \<and> ((fileDirWithDaySuffix ''/logs/app2.log'' ''20240103'', ''000000.log''), ''c'')
       \<notin> set (io_disk (autoDelDir sample_days sample_log_files))"
proof
  show "((fileDirWithDaySuffix ''/logs/app2.log'' ''20240103'', ''000000.log''), ''c'') \<in> set (io_disk sample_log_files)"
    by code_simp
  have "list_all is_digit (sample_days a) \<and> length (sample_days a) = length ''20240103''" for a
    by (simp add: sample_days_def is_digit_def)
  moreover have "path_dir ''/logs/app2.log'' = path_dir (io_name sample_log_files)" by code_simp
  moreover have "file_stem ''/logs/app2.log'' = file_stem (io_name sample_log_files) @ ''2''" by code_simp
  moreover have "list_all is_digit ''20240103''" "list_all is_digit ''2''" by code_simp+
  ultimately show "((fileDirWithDaySuffix ''/logs/app2.log'' ''20240103'', ''000000.log''), ''c'')
      \<notin> set (io_disk (autoDelDir sample_days sample_log_files))"
    using sibling_log_deleted [where day = "''20240103''" and ds = "''2''" and day_of = sample_days
        and other = "''/logs/app2.log''" and i = sample_log_files] by blast
qed


section \<open>The levelled logger\<close>

text \<open>
  A logger at a higher level loses nothing a lower one prints: for the same calls, what the
  lower logger prints is a subsequence of what the higher one prints, and the run ends the same way
  (going on, exiting, panicking), as long as Fatal is enabled at all.  At level Panic it is not:
  there a Fatal call prints nothing and, instead of ending the process, lets it go on.
\<close>

theorem logger_level_monotone:
  assumes "l1 \<le> l2"
  shows "(FatalLevel \<le> l1 \<longrightarrow>
      subseq (lg_lines (fst (log_run cs (SetLevel l1 (NewLevelLogger p)))))
             (lg_lines (fst (log_run cs (SetLevel l2 (NewLevelLogger p)))))
      \<and> snd (log_run cs (SetLevel l1 (NewLevelLogger p))) = snd (log_run cs (SetLevel l2 (NewLevelLogger p))))
    \<and> log_run (Fatalf s i # cs) (SetLevel PanicLevel (NewLevelLogger p))
        = log_run cs (SetLevel PanicLevel (NewLevelLogger p))"
proof -
  have "log_method (Fatalf s i) (SetLevel PanicLevel (NewLevelLogger p))
      = (SetLevel PanicLevel (NewLevelLogger p), Logged)"
    by (rule Fatal_ignored) (simp_all add: SetLevel_def)
  with log_run_mono [of "SetLevel l1 (NewLevelLogger p)" "SetLevel l2 (NewLevelLogger p)" cs] assms
  show ?thesis by (simp add: SetLevel_def NewLevelLogger_def)
qed

theorem logger_level_monotone_witness:
  "log_run [Debugf ''d'' [1::nat], Errorf ''e'' [], Fatalf ''f'' [], Infof ''g'' []]
      (SetLevel ErrorLevel (NewLevelLogger ''x''))
     = (\<lparr>lg_lvl = ErrorLevel, lg_prefix = ''[L]x '',
          lg_lines = [Printf_line ''[ERROR] e'' [], Printf_line ''f'' []]\<rparr>, Exited)
   \<and> log_run [Fatalf ''f'' [1::nat], Panicf ''p'' []] (SetLevel PanicLevel (NewLevelLogger ''x''))
     = log_run [Panicf ''p'' []] (SetLevel PanicLevel (NewLevelLogger ''x''))"
proof
  show "log_run [Debugf ''d'' [1::nat], Errorf ''e'' [], Fatalf ''f'' [], Infof ''g'' []]
      (SetLevel ErrorLevel (NewLevelLogger ''x''))
     = (\<lparr>lg_lvl = ErrorLevel, lg_prefix = ''[L]x '',
          lg_lines = [Printf_line ''[ERROR] e'' [], Printf_line ''f'' []]\<rparr>, Exited)" by code_simp
  show "log_run [Fatalf ''f'' [1::nat], Panicf ''p'' []] (SetLevel PanicLevel (NewLevelLogger ''x''))
     = log_run [Panicf ''p'' []] (SetLevel PanicLevel (NewLevelLogger ''x''))"
    by (rule logger_level_monotone [of ErrorLevel DebugLevel, THEN conjunct2]) code_simp
qed


section \<open>The goroutine pool\<close>


definition panicking_run :: "pool_event list" where
  "panicking_run = [Ev_Go True Task_ok, Ev_Go True (Task_panic ''boom''), Ev_run 1, Ev_run 0, Ev_Go False Task_ok]"



section \<open>The orderly shutdown\<close>

text \<open>
  C34. The signal loop ends with the first of SIGINT, SIGQUIT, SIGTERM and SIGUSR1 and with no
  other signal.  SIGUSR1 leaves without shutting anything down; the others first shut down every
  registered server in order and then call AfterShutdown of every registered processor exactly
  once, each class in the order of registration and all io.Writers (the log files) after all
  others, also when servers fail to shut down or processors do not end in time.
\<close>

theorem shutdown_in_order:
  assumes "list_all (\<lambda>s. \<not> ends_loop s) ss"
  shows "snd (StartSignal shut ss g) = False
    \<and> StartSignal shut (ss @ SIGUSR1 # rest) g = (gr_add (unknown_events ss) g, True)
    \<and> (\<forall>s \<in> {SIGINT, SIGQUIT, SIGTERM}. \<exists>tail.
         snd (StartSignal shut (ss @ s # rest) g) = True
         \<and> gr_events (fst (StartSignal shut (ss @ s # rest) g))
             = gr_events g @ unknown_events ss @ server_events shut (gr_srvList g) @ tail
         \<and> notified tail = filter (\<lambda>p. \<not> pr_is_writer p) (gr_processList g) @ filter pr_is_writer (gr_processList g)
         \<and> mset (notified tail) = mset (gr_processList g))"
proof -
  have "snd (StartSignal shut ss g) = False" using StartSignal_prefix [OF assms, of shut "[]" g] by simp
  moreover have "\<exists>tail.
         snd (StartSignal shut (ss @ s # rest) g) = True
         \<and> gr_events (fst (StartSignal shut (ss @ s # rest) g))
             = gr_events g @ unknown_events ss @ server_events shut (gr_srvList g) @ tail
         \<and> notified tail = filter (\<lambda>p. \<not> pr_is_writer p) (gr_processList g) @ filter pr_is_writer (gr_processList g)
         \<and> mset (notified tail) = mset (gr_processList g)" if "s \<in> {SIGINT, SIGQUIT, SIGTERM}" for s
  proof (intro exI conjI)
    let ?tail = "processor_events (filter (\<lambda>p. \<not> pr_is_writer p) (gr_processList g))
      @ processor_events (filter pr_is_writer (gr_processList g))"
    have r: "StartSignal shut (ss @ s # rest) g = (shutdownAction shut (gr_add (unknown_events ss) g), True)"
      using that by (auto simp: StartSignal_prefix [OF assms])
    then show "snd (StartSignal shut (ss @ s # rest) g) = True" by simp
    show "gr_events (fst (StartSignal shut (ss @ s # rest) g))
        = gr_events g @ unknown_events ss @ server_events shut (gr_srvList g) @ ?tail"
      unfolding r by (simp add: shutdownAction_events) (simp add: gr_add_def)
    show "notified ?tail = filter (\<lambda>p. \<not> pr_is_writer p) (gr_processList g) @ filter pr_is_writer (gr_processList g)"
      by (simp add: notified_processors)
    then show "mset (notified ?tail) = mset (gr_processList g)" by (simp add: mset_split del: notified_append)
  qed
  ultimately show ?thesis by (simp add: StartSignal_prefix [OF assms])
qed

definition sample_graceful :: graceful where
  "sample_graceful =
     regProcessor \<lparr>pr_name = ''pool'', pr_is_writer = False, pr_in_time = True\<rparr>
       (regProcessor \<lparr>pr_name = ''log'', pr_is_writer = True, pr_in_time = True\<rparr>
         (regHTTPServer '':80'' graceful_Constructor))"

theorem shutdown_in_order_witness:
  "snd (StartSignal (\<lambda>s. None) [SIGURG, SIG_other 1] sample_graceful) = False
   \<and> map pr_name (notified (gr_events (fst (StartSignal (\<lambda>s. None) [SIGURG, SIG_other 1, SIGTERM] sample_graceful))))
       = [''pool'', ''log'']"
proof
  show "snd (StartSignal (\<lambda>s. None) [SIGURG, SIG_other 1] sample_graceful) = False"
    using shutdown_in_order [of "[SIGURG, SIG_other 1]" "\<lambda>s. None" sample_graceful] by (simp add: ends_loop_def)
  show "map pr_name (notified (gr_events (fst (StartSignal (\<lambda>s. None) [SIGURG, SIG_other 1, SIGTERM] sample_graceful))))
      = [''pool'', ''log'']" by code_simp
qed


section \<open>The custom validations\<close>

text \<open>
  C39. What the regular expressions of the custom rules accept: a password has 8 to 24
  characters, none of them white space, with an upper-case letter, a lower-case letter and a
  digit; a mobile number is 11 digits, the first 1 and the second from 3 to 9; a user name is 5 to
  15 letters, digits or underscores, although its message asks for letters and digits only.
\<close>

theorem validation_rules:
  "(password_rule s \<longleftrightarrow> 8 \<le> length s \<and> length s \<le> 24 \<and> list_all cls_nonspace s
       \<and> list_ex cls_upper s \<and> list_ex cls_lower s \<and> list_ex cls_digit s)
   \<and> (mobile_rule s \<longleftrightarrow> length s = 11 \<and> list_all cls_digit s \<and> s ! 0 = 49 \<and> 51 \<le> s ! 1)
   \<and> (username_rule s \<longleftrightarrow> 5 \<le> length s \<and> length s \<le> 15
       \<and> list_all (\<lambda>r. cls_digit r \<or> cls_upper r \<or> cls_lower r \<or> r = 95) s)"
proof (intro conjI)
  have any: "list_all cls_nonspace s \<Longrightarrow> list_all cls_any s"
    using classes_any(4) by (auto simp: list_all_iff)
  have "rx_match (Rep cls_nonspace 8 (Some 24)) s \<longleftrightarrow> list_all cls_nonspace s \<and> 8 \<le> length s \<and> length s \<le> 24"
    by simp
  then show "password_rule s \<longleftrightarrow> 8 \<le> length s \<and> length s \<le> 24 \<and> list_all cls_nonspace s
       \<and> list_ex cls_upper s \<and> list_ex cls_lower s \<and> list_ex cls_digit s"
    using some_classes any unfolding password_rule_def by metis
  have "mobile_rule s \<longleftrightarrow> (\<exists>a b ds. s = a # b # ds \<and> a = 49 \<and> between 51 57 b \<and> list_all cls_digit ds \<and> length ds = 9)"
    unfolding mobile_rule_def rx_match_class_Seq by auto
  also have "\<dots> \<longleftrightarrow> length s = 11 \<and> list_all cls_digit s \<and> s ! 0 = 49 \<and> 51 \<le> s ! 1"
  proof (cases "\<exists>a b ds. s = a # b # ds")
    case True
    then obtain a b ds where s: "s = a # b # ds" by blast
    have bt: "between 51 57 b \<longleftrightarrow> cls_digit b \<and> 51 \<le> b" "a = 49 \<Longrightarrow> cls_digit a"
      by (auto simp only: cls_digit_def between_def)
    have len: "length s = 11 \<longleftrightarrow> length ds = 9" using s by simp
    have nth: "s ! 0 = a" "s ! 1 = b" and all: "list_all cls_digit s \<longleftrightarrow> cls_digit a \<and> cls_digit b \<and> list_all cls_digit ds"
      using s by simp_all
    have ex: "(\<exists>a' b' ds'. s = a' # b' # ds' \<and> a' = 49 \<and> between 51 57 b' \<and> list_all cls_digit ds' \<and> length ds' = 9)
        \<longleftrightarrow> a = 49 \<and> between 51 57 b \<and> list_all cls_digit ds \<and> length ds = 9" unfolding s by blast
    show ?thesis unfolding ex len nth all bt(1) using bt(2) by blast
  next
    case False
    then have "length s < 2" by (cases s rule: remdups_adj.cases) auto
    then have "length s \<noteq> 11" by linarith
    with False show ?thesis by auto
  qed
  finally show "mobile_rule s \<longleftrightarrow> length s = 11 \<and> list_all cls_digit s \<and> s ! 0 = 49 \<and> 51 \<le> s ! 1" .
  show "username_rule s \<longleftrightarrow> 5 \<le> length s \<and> length s \<le> 15
       \<and> list_all (\<lambda>r. cls_digit r \<or> cls_upper r \<or> cls_lower r \<or> r = 95) s"
    by (auto simp: username_rule_def cls_word_def list_all_iff)
qed

text \<open>A logger that writes to an open log file: whatever the system answers, the texts of all
  the lines it printed are kept in order behind what the file held, until the call that ends the
  process; without faults the log is exactly that.\<close>

theorem log_lines_kept:
  assumes "io_wf i" "\<not> io_closed i" "run_to_file fmt cs l i = (l1, i1, e)"
  shows "\<exists>ts new. (l1, e) = log_run (map fst cs) l \<and> lg_lines l1 = lg_lines l @ new \<and> length ts = length new
    \<and> subseq ts (map (\<lambda>(c, t, b). t) cs)
    \<and> subseq (log_bytes i @ concat (map2 (\<lambda>t x. fmt t (lg_prefix l) x) ts new)) (log_bytes i1)
    \<and> ((\<forall>ev \<in> set cs. fst (snd (snd ev)) = no_faults) \<longrightarrow>
         log_bytes i1 = log_bytes i @ concat (map2 (\<lambda>t x. fmt t (lg_prefix l) x) ts new))"
proof -
  from assms(3) have r: "l1 = fst (log_run (map fst cs) l)" "e = snd (log_run (map fst cs) l)"
    "i1 = fold (\<lambda>(a, p). (case a of (an, day) \<Rightarrow> \<lambda>p i. fst (io_Write an day p i)) p) (emitted fmt cs l) i"
    by (simp_all add: run_to_file_fold)
  obtain ts new where t: "lg_lines (fst (log_run (map fst cs) l)) = lg_lines l @ new" "length ts = length new"
    "map snd (emitted fmt cs l) = map2 (\<lambda>t x. fmt t (lg_prefix l) x) ts new" "subseq ts (map (\<lambda>(c, t, b). t) cs)"
    using emitted_texts [of cs l fmt] by blast
  have "subseq (log_bytes i @ concat (map snd (emitted fmt cs l))) (log_bytes i1)"
    unfolding r(3) using assms(1,2) by (intro log_sink.puts_keep) simp
  moreover have "log_bytes i1 = log_bytes i @ concat (map snd (emitted fmt cs l))"
    if "\<forall>ev \<in> set cs. fst (snd (snd ev)) = no_faults"
    unfolding r(3) using assms(1,2) emitted_calm [OF that] by (intro log_sink.puts_exact) (auto simp: case_prod_beta)
  ultimately show ?thesis using r(1,2) t by (intro exI [of _ ts] exI [of _ new]) auto
qed

definition app_calls :: "(string, string) timed_call list" where
  "app_calls = [(Infof ''up'' [], ''1'', no_faults, ''20240101''), (Debugf ''hidden'' [], ''2'', no_faults, ''20240101''),
     (Fatalln [''down''], ''3'', no_faults, ''20240101''), (Infof ''never'' [], ''4'', no_faults, ''20240101'')]"

fun line_string :: "string log_line \<Rightarrow> string" where
  "line_string (Printf_line s xs) = s @ ''.''"
| "line_string (Print_line xs) = concat xs @ ''.''"
| "line_string (Println_line xs) = concat xs @ ''.''"

theorem log_lines_kept_witness:
  "\<exists>l1 i1. run_to_file (\<lambda>t pre. line_string) app_calls (SetLevel InfoLevel (NewLevelLogger ''x'')) (open_io app_log ''old.'' None)
       = (l1, i1, Exited) \<and> log_bytes i1 = ''old.[INFO] up.down.''"
proof -
  let ?l = "SetLevel InfoLevel (NewLevelLogger ''x'')"
  let ?i = "open_io app_log ''old.'' None"
  let ?fmt = "\<lambda>t pre. line_string"
  obtain l1 i1 e where r: "run_to_file ?fmt app_calls ?l ?i = (l1, i1, e)" by (cases "run_to_file ?fmt app_calls ?l ?i") auto
  have i: "io_wf ?i" "\<not> io_closed ?i" "log_bytes ?i = ''old.''"
    using app_log_ext by (simp_all add: io_wf_def open_io_def numbered_def log_bytes_def)
  have c: "\<forall>ev \<in> set app_calls. fst (snd (snd ev)) = no_faults" by (simp add: app_calls_def)
  have run: "log_run (map fst app_calls) ?l =
      (?l\<lparr>lg_lines := [Printf_line ''[INFO] up'' [], Println_line [''down'']]\<rparr>, Exited)" by code_simp
  let ?new = "[Printf_line ''[INFO] up'' [], Println_line [''down'']]"
  from log_lines_kept [OF i(1,2) r] c run
  have "e = Exited \<and> (\<exists>ts :: string list. length ts = length ?new \<and> log_bytes i1 = log_bytes ?i @ concat (map2 (\<lambda>t. line_string) ts ?new))"
    by (auto simp: SetLevel_def NewLevelLogger_def)
  then obtain ts :: "string list" where "length ts = length ?new" "e = Exited"
    "log_bytes i1 = log_bytes ?i @ concat (map2 (\<lambda>t. line_string) ts ?new)" by blast
  with r i(3) show ?thesis by (auto simp: length_Suc_conv)
qed

text \<open>The line of a Fatal call does not reach the disk: unless it fills the buffer, the file and
  the archives are what they were when the process ends, and the line was only in memory.\<close>

theorem fatal_line_not_on_disk:
  assumes "log_method c l = (l1, Exited)" "\<not> io_closed i"
    and "int (length (io_buf i @ concat (map (fmt t (lg_prefix l)) (new_lines l l1)))) < ab_BufferSize (io_opt i)"
  shows "\<exists>i1 x. run_to_file fmt ((c, t, an, day) # cs) l i = (l1, i1, Exited)
    \<and> lg_lines l1 = lg_lines l @ [x] \<and> io_disk i1 = io_disk i \<and> io_file i1 = io_file i
    \<and> io_buf i1 = io_buf i @ fmt t (lg_prefix l) x"
proof -
  have "\<exists>x. new_lines l l1 = [x]"
    using assms(1) by (cases c) (auto simp: add_line_def logger_out_def logger_Infof_def new_lines_def split: if_splits)
  then obtain x where x: "new_lines l l1 = [x]" ..
  then have "lg_lines l1 = lg_lines l @ [x]" using log_method_kept(2) [of c l] assms(1) by simp
  with x assms show ?thesis by (simp add: write_lines_def io_Write_def Let_def)
qed

theorem fatal_line_not_on_disk_witness:
  "\<exists>l1 i1 x. run_to_file (\<lambda>t pre. line_string) [(Fatalln [''down''], ''3'', no_faults, ''20240101'')]
       (NewLevelLogger ''x'') (open_io app_log ''old.'' None) = (l1, i1, Exited)
     \<and> lg_lines l1 = [x] \<and> io_file i1 = ''old.''"
proof -
  let ?l = "NewLevelLogger ''x'' :: string logger"
  let ?l1 = "add_line (Println_line [''down'']) ?l"
  have m: "log_method (Fatalln [''down'']) ?l = (?l1, Exited)" by (simp add: NewLevelLogger_def level_defs)
  have o: "\<not> io_closed (open_io app_log ''old.'' None)" by (simp add: open_io_def)
  have b: "int (length (io_buf (open_io app_log ''old.'' None) @ concat (map (line_string) (new_lines ?l ?l1))))
      < ab_BufferSize (io_opt (open_io app_log ''old.'' None))"
    by (simp add: open_io_def default_abfile_option_def MB_def new_lines_def add_line_def NewLevelLogger_def)
  have "lg_lines ?l = []" "io_file (open_io app_log ''old.'' None) = ''old.''" by (simp_all add: NewLevelLogger_def open_io_def)
  with fatal_line_not_on_disk [where fmt = "\<lambda>t pre. line_string" and t = "''3''" and an = no_faults
      and day = "''20240101''" and cs = "[]", OF m o b]
  show ?thesis by (metis append_Nil)
qed

end
