(* ===== verification/App_Start.thy ===== *)
theory App_Start
  imports Graceful Go_Pool Level_Logger Log_File Mysql_Schema
begin

text \<open>
  How the parts start together: gof.go, PopulateConstructor of src/j2rpc/interface.go, Run of
  src/g2gin/g2gin.go, Dial and Migrate of src/g2db/mysql.go and the root, start and migrate
  commands of src/g2cmd/.  What the operating system, the configuration, the database and Redis
  answer is the record \<^verbatim>\<open>app_env\<close>; log.Fatal ends the process (Ends), a panic is Dies.
  The signals the process receives are an argument.
\<close>

section \<open>State and effects\<close>

record app_env =
  ae_root :: string
  ae_open :: "string \<Rightarrow> string + string"
  ae_config_error :: "string option"
  ae_log_level :: string
  ae_engine_error :: "string option"
  ae_ping_error :: "string option"
  ae_subscribe_error :: "string option"
  ae_createdb_error :: "string option"
  ae_dropdb_error :: "string option"
  ae_sync_error :: "string option"
  ae_clear_error :: "string option"
  ae_port :: string
  ae_api_root :: string
  ae_pprof_port :: string
  ae_service_is_router :: bool
  ae_in_time :: "string \<Rightarrow> bool"
  ae_shutdown :: "string \<Rightarrow> string option"

datatype app_event =
    Constructed string | Config_loaded | Db_connected | Subscribed | Service_registered
  | Router_called | J2rpc_called | Mounted string | Db_created | Db_dropped | Synced | Db_closed
  | Clear_published | Clear_failed | Version_shown | Worker_started

record 'w app =
  ap_populated :: bool
  ap_files :: "string \<rightharpoonup> inner_io"
  ap_grace :: graceful
  ap_pool :: "gopool option"
  ap_log_level :: level
  ap_redis_log :: "string logger"
  ap_sql_out :: bool
  ap_service :: bool
  ap_tables :: "'w table list"
  ap_events :: "app_event list"

datatype app_end = Goes_on | Ends string | Dies string

type_synonym 'w app_step = "'w app \<Rightarrow> 'w app \<times> app_end"

definition new_app :: "'w app" where
  "new_app =
     \<lparr>ap_populated = False, ap_files = Map.empty, ap_grace = graceful_Constructor, ap_pool = None,
      ap_log_level = DebugLevel, ap_redis_log = NewLevelLogger ''[STDOUT]'', ap_sql_out = False,
      ap_service = False, ap_tables = [], ap_events = []\<rparr>"

definition next_step :: "'w app_step \<Rightarrow> 'w app_step \<Rightarrow> 'w app_step" where
  "next_step f g a = (case f a of (a1, Goes_on) \<Rightarrow> g a1 | (a1, e) \<Rightarrow> (a1, e))"

definition event :: "app_event \<Rightarrow> 'w app_step" where
  "event e a = (a\<lparr>ap_events := ap_events a @ [e]\<rparr>, Goes_on)"

definition register_processor :: "processor \<Rightarrow> 'w app_step" where
  "register_processor p a = (a\<lparr>ap_grace := regProcessor p (ap_grace a)\<rparr>, Goes_on)"

definition object_processor :: "app_env \<Rightarrow> string \<Rightarrow> processor" where
  "object_processor env n = \<lparr>pr_name = n, pr_is_writer = False, pr_in_time = ae_in_time env n\<rparr>"

definition log_processor :: "app_env \<Rightarrow> string \<Rightarrow> processor" where
  "log_processor env n = \<lparr>pr_name = n, pr_is_writer = True, pr_in_time = ae_in_time env n\<rparr>"


section \<open>Construction\<close>

text \<open>
  PopulateConstructor over the fields of Application: those that are pointers and have a
  Constructor, in order.  Logger is an interface, so it is passed over.
\<close>

definition app_fields :: "(string \<times> bool \<times> bool) list" where
  "app_fields =
     [(''Config'', True, True), (''Logger'', False, False), (''Cron'', True, True), (''G2cache'', True, True),
      (''G2resty'', True, True), (''AbFile'', True, True), (''Graceful'', True, True), (''Go'', True, True),
      (''Gin'', True, True), (''G2cmd'', True, True), (''Mysql'', True, True), (''Token'', True, True),
      (''Captcha'', True, True), (''Emq'', True, True)]"

fun PopulateConstructor :: "(string \<Rightarrow> 'a \<Rightarrow> 'a) \<Rightarrow> (string \<times> bool \<times> bool) list \<Rightarrow> 'a \<Rightarrow> 'a" where
  "PopulateConstructor construct [] a = a"
| "PopulateConstructor construct ((n, is_pointer, has_constructor) # fs) a =
     PopulateConstructor construct fs (if is_pointer \<and> has_constructor then construct n a else a)"

text \<open>What the constructors do to the state kept here.\<close>

definition construct_field :: "app_env \<Rightarrow> string \<Rightarrow> 'w app \<Rightarrow> 'w app" where
  "construct_field env n a0 =
     (let a = a0\<lparr>ap_events := ap_events a0 @ [Constructed n]\<rparr>
      in if n = ''AbFile'' then a\<lparr>ap_files := Map.empty\<rparr>
         else if n = ''Graceful'' then a\<lparr>ap_grace := graceful_Constructor\<rparr>
         else if n = ''Go'' then
           a\<lparr>ap_pool := Some gopool_Constructor, ap_grace := regProcessor (object_processor env ''Go'') (ap_grace a)\<rparr>
         else if n = ''Mysql'' then a\<lparr>ap_tables := []\<rparr>
         else a)"

definition Populate :: "app_env \<Rightarrow> 'w app_step" where
  "Populate env a =
     (if ap_populated a then (a, Goes_on)
      else (PopulateConstructor (construct_field env) app_fields (a\<lparr>ap_populated := True\<rparr>), Goes_on))"


section \<open>Logs and configuration\<close>

definition MustNewIO :: "app_env \<Rightarrow> string \<Rightarrow> 'w app_step" where
  "MustNewIO env path a =
     (case newIO (ae_open env path) path None (ap_files a) of
        (fs, Inl err) \<Rightarrow> (a\<lparr>ap_files := fs\<rparr>, Dies err)
      | (fs, Inr out) \<Rightarrow> register_processor (log_processor env path) (a\<lparr>ap_files := fs\<rparr>))"

definition log_path :: "app_env \<Rightarrow> string \<Rightarrow> string" where
  "log_path env n = path_join (path_join (ae_root env) ''logs'') (n @ ''.log'')"

definition MustLogIO :: "app_env \<Rightarrow> string \<Rightarrow> 'w app_step" where
  "MustLogIO env n = MustNewIO env (log_path env n)"

definition Config_Load :: "app_env \<Rightarrow> 'w app_step" where
  "Config_Load env a =
     (case ae_config_error env of
        Some e \<Rightarrow> (a, Ends (''load conf file: '' @ e))
      | None \<Rightarrow> event Config_loaded a)"

definition LoadWithConfig :: "app_env \<Rightarrow> 'w app_step" where
  "LoadWithConfig env = next_step (Populate env) (Config_Load env)"

definition LoadLogger :: "app_env \<Rightarrow> 'w app_step" where
  "LoadLogger env a =
     (let logLevel = ParseLevel (ae_log_level env)
      in next_step (MustLogIO env ''sys'')
           (next_step (MustLogIO env ''redis'')
              (\<lambda>a2. (a2\<lparr>ap_redis_log := SetLevel logLevel (NewLevelLogger ''[Redis]'')\<rparr>, Goes_on)))
           (a\<lparr>ap_log_level := logLevel\<rparr>))"

definition app_Default :: "app_env \<Rightarrow> 'w app_step" where
  "app_Default env = next_step (LoadWithConfig env) (LoadLogger env)"


section \<open>Database and Redis\<close>

definition fatal_on :: "string option \<Rightarrow> 'w app_step" where
  "fatal_on err a = (a, case err of Some e \<Rightarrow> Ends e | None \<Rightarrow> Goes_on)"

text \<open>getOut opens the log of the statements once.\<close>

definition getOut :: "app_env \<Rightarrow> 'w app_step" where
  "getOut env a =
     (if ap_sql_out a then (a, Goes_on)
      else next_step (MustLogIO env ''sql'') (\<lambda>a1. (a1\<lparr>ap_sql_out := True\<rparr>, Goes_on)) a)"

text \<open>dial, with its error as Ends: both its callers turn it into log.Fatal.\<close>

definition mysql_dial :: "app_env \<Rightarrow> 'w app_step" where
  "mysql_dial env =
     next_step (fatal_on (ae_engine_error env))
       (next_step (getOut env) (next_step (fatal_on (ae_ping_error env)) (event Db_connected)))"

text \<open>Subscribe: an error goes to Fatalln of the Redis logger, whose level decides what happens.\<close>

definition app_Subscribe :: "app_env \<Rightarrow> 'w app_step" where
  "app_Subscribe env a =
     (case ae_subscribe_error env of
        None \<Rightarrow> event Subscribed a
      | Some e \<Rightarrow>
          (case log_method (Fatalln [e]) (ap_redis_log a) of
             (l, Exited) \<Rightarrow> (a\<lparr>ap_redis_log := l\<rparr>, Ends e)
           | (l, Log_panicked) \<Rightarrow> (a\<lparr>ap_redis_log := l\<rparr>, Dies e)
           | (l, Logged) \<Rightarrow> (a\<lparr>ap_redis_log := l\<rparr>, Goes_on)))"

definition mysql_Dial :: "app_env \<Rightarrow> 'w app_step" where
  "mysql_Dial env =
     next_step (mysql_dial env)
       (next_step (app_Subscribe env)
          (next_step (register_processor (object_processor env ''Mysql''))
             (register_processor (object_processor env ''Redis''))))"

definition mysql_Migrate :: "app_env \<Rightarrow> 'w app_step" where
  "mysql_Migrate env =
     next_step (fatal_on (ae_createdb_error env))
       (next_step (event Db_created)
          (next_step (mysql_dial env)
             (next_step (fatal_on (ae_sync_error env)) (next_step (event Synced) (event Db_closed)))))"


section \<open>Serving\<close>

definition listen :: "string \<Rightarrow> 'w app_step" where
  "listen addr a = (a\<lparr>ap_grace := regHTTPServer addr (ap_grace a)\<rparr>, Goes_on)"

definition profServer :: "app_env \<Rightarrow> 'w app_step" where
  "profServer env a = (if ae_pprof_port env = [] then (a, Goes_on) else listen (ae_pprof_port env) a)"

text \<open>The route of the JSON-RPC handler below the optional root of the API.\<close>

definition rpc_path :: "app_env \<Rightarrow> string" where
  "rpc_path env =
     (let r = ae_api_root env; apiRoot = (if has_prefix r ''/'' then drop 1 r else r)
      in (if apiRoot \<noteq> [] then CHR ''/'' # apiRoot else []) @ ''/jsonrpc'')"

definition useJ2rpc :: "app_env \<Rightarrow> 'w app_step" where
  "useJ2rpc env a =
     next_step
       (if ap_service a
        then next_step (event Service_registered)
               (if ae_service_is_router env then next_step (event Router_called) (event J2rpc_called)
                else (\<lambda>a. (a, Goes_on)))
        else (\<lambda>a. (a, Goes_on)))
       (event (Mounted (rpc_path env))) a"

definition gin_Run :: "app_env \<Rightarrow> 'w app_step" where
  "gin_Run env =
     next_step (MustLogIO env ''web'')
       (next_step (useJ2rpc env) (next_step (listen (ae_port env)) (profServer env)))"

text \<open>WaitForSignal on the signals that come; a process still waiting goes on.\<close>

definition WaitForSignal :: "app_env \<Rightarrow> os_signal list \<Rightarrow> 'w app_step" where
  "WaitForSignal env sigs a = (a\<lparr>ap_grace := fst (StartSignal (ae_shutdown env) sigs (ap_grace a))\<rparr>, Goes_on)"

definition app_Run :: "app_env \<Rightarrow> os_signal list \<Rightarrow> 'w app_step" where
  "app_Run env sigs = next_step (mysql_Dial env) (next_step (gin_Run env) (WaitForSignal env sigs))"

definition SetJ2Service :: "'w app_step" where
  "SetJ2Service a = (a\<lparr>ap_service := True\<rparr>, Goes_on)"

definition RunServices :: "app_env \<Rightarrow> os_signal list \<Rightarrow> 'w app_step" where
  "RunServices env sigs = next_step SetJ2Service (app_Run env sigs)"


section \<open>Commands\<close>

text \<open>What the command line selects, with the flags of the command.\<close>

datatype command = Cmd_start | Cmd_migrate bool | Cmd_root bool bool

definition migrate_cmd :: "app_env \<Rightarrow> bool \<Rightarrow> 'w app_step option \<Rightarrow> 'w app_step" where
  "migrate_cmd env drop_db runFunc =
     next_step
       (if drop_db
        then next_step (fatal_on (ae_dropdb_error env))
               (next_step (event Db_dropped)
                  (case ae_clear_error env of None \<Rightarrow> event Clear_published | Some e \<Rightarrow> event Clear_failed))
        else (\<lambda>a. (a, Goes_on)))
       (case runFunc of None \<Rightarrow> (\<lambda>a. (a, Goes_on)) | Some f \<Rightarrow> f)"

definition root_cmd :: "app_env \<Rightarrow> bool \<Rightarrow> bool \<Rightarrow> 'w app_step" where
  "root_cmd env version cleanCache =
     next_step (if version then event Version_shown else (\<lambda>a. (a, Goes_on)))
       (if cleanCache
        then (case ae_clear_error env of None \<Rightarrow> event Clear_published | Some e \<Rightarrow> event Clear_failed)
        else (\<lambda>a. (a, Goes_on)))"

definition Execute :: "app_env \<Rightarrow> 'w app_step option \<Rightarrow> 'w app_step option \<Rightarrow> command \<Rightarrow> 'w app_step" where
  "Execute env worker migrate c =
     (case c of
        Cmd_start \<Rightarrow> (case worker of None \<Rightarrow> (\<lambda>a. (a, Goes_on)) | Some f \<Rightarrow> next_step (event Worker_started) f)
      | Cmd_migrate drop_db \<Rightarrow> migrate_cmd env drop_db migrate
      | Cmd_root version cleanCache \<Rightarrow> root_cmd env version cleanCache)"

definition RunWithCmd :: "app_env \<Rightarrow> 'w app_step list \<Rightarrow> command \<Rightarrow> 'w app_step" where
  "RunWithCmd env fn c =
     Execute env (if length fn > 0 then Some (fn ! 0) else None) (if length fn > 1 then Some (fn ! 1) else None) c"

definition RunDefault :: "app_env \<Rightarrow> 'w table list \<Rightarrow> os_signal list \<Rightarrow> command \<Rightarrow> 'w app_step" where
  "RunDefault env tables sigs c =
     next_step (app_Default env)
       (next_step (\<lambda>a. (a\<lparr>ap_tables := TableRegister tables (ap_tables a)\<rparr>, Goes_on))
          (RunWithCmd env [next_step SetJ2Service (app_Run env sigs), mysql_Migrate env] c))"


section \<open>Composition\<close>

lemma next_step_run [simp]:
  "f a = (a1, Goes_on) \<Longrightarrow> next_step f g a = g a1"
  "f a = (a1, Ends e) \<Longrightarrow> next_step f g a = (a1, Ends e)"
  "f a = (a1, Dies e) \<Longrightarrow> next_step f g a = (a1, Dies e)"
  by (simp_all add: next_step_def)

lemma next_step_goes_on:
  "next_step f g a = (a2, Goes_on) \<longleftrightarrow> (\<exists>a1. f a = (a1, Goes_on) \<and> g a1 = (a2, Goes_on))"
  by (auto simp: next_step_def split: prod.splits app_end.splits)

text \<open>The steps on the state of the shutdown and on the events.\<close>

lemma event_run: "event e a = (a\<lparr>ap_events := ap_events a @ [e]\<rparr>, Goes_on)"
  by (simp add: event_def)

lemma MustLogIO_ok:
  assumes "\<And>p. \<exists>c. ae_open env p = Inr c"
  shows "\<exists>fs. MustLogIO env n a
    = (a\<lparr>ap_files := fs, ap_grace := regProcessor (log_processor env (log_path env n)) (ap_grace a)\<rparr>, Goes_on)"
proof -
  obtain fs out where "newIO (ae_open env (log_path env n)) (log_path env n) None (ap_files a) = (fs, Inr out)"
    using assms [of "log_path env n"] by (cases "ap_files a (log_path env n)") (auto simp: newIO_def Let_def)
  then show ?thesis by (auto simp: MustLogIO_def MustNewIO_def register_processor_def)
qed

lemma Populate_grace:
  "\<not> ap_populated a \<Longrightarrow> ap_grace (fst (Populate env a)) = regProcessor (object_processor env ''Go'') graceful_Constructor
     \<and> ap_tables (fst (Populate env a)) = [] \<and> ap_sql_out (fst (Populate env a)) = ap_sql_out a
     \<and> ap_pool (fst (Populate env a)) = Some gopool_Constructor \<and> snd (Populate env a) = Goes_on"
  by (simp add: Populate_def app_fields_def construct_field_def Let_def)

text \<open>Without errors a start goes through and leaves these servers and processors.\<close>

definition healthy :: "app_env \<Rightarrow> bool" where
  "healthy env \<longleftrightarrow> (\<forall>p. \<exists>c. ae_open env p = Inr c) \<and> ae_config_error env = None \<and> ae_engine_error env = None
     \<and> ae_ping_error env = None \<and> ae_subscribe_error env = None"

definition servers :: "app_env \<Rightarrow> string list" where
  "servers env = ae_port env # (if ae_pprof_port env = [] then [] else [ae_pprof_port env])"

definition logs_of :: "app_env \<Rightarrow> string list \<Rightarrow> processor list" where
  "logs_of env ns = map (\<lambda>n. log_processor env (log_path env n)) ns"

definition objects_of :: "app_env \<Rightarrow> string list \<Rightarrow> processor list" where
  "objects_of env ns = map (object_processor env) ns"

lemma default_healthy:
  assumes "healthy env"
  shows "\<exists>a. app_Default env (new_app :: 'w app) = (a, Goes_on) \<and> \<not> ap_sql_out a
    \<and> gr_srvList (ap_grace a) = [] \<and> gr_events (ap_grace a) = []
    \<and> gr_processList (ap_grace a) = objects_of env [''Go''] @ logs_of env [''sys'', ''redis'']"
proof -
  have "\<not> ap_populated (new_app :: 'w app)" "\<not> ap_sql_out (new_app :: 'w app)" by (simp_all add: new_app_def)
  then obtain a0 :: "'w app" where a0: "Populate env new_app = (a0, Goes_on)" "\<not> ap_sql_out a0"
    "ap_grace a0 = regProcessor (object_processor env ''Go'') graceful_Constructor"
    using Populate_grace [of "new_app :: 'w app" env] by (cases "Populate env (new_app :: 'w app)") auto
  have load: "LoadWithConfig env (new_app :: 'w app) = (a0\<lparr>ap_events := ap_events a0 @ [Config_loaded]\<rparr>, Goes_on)"
    using assms a0(1) by (simp add: LoadWithConfig_def Config_Load_def healthy_def event_run)
  let ?a1 = "a0\<lparr>ap_events := ap_events a0 @ [Config_loaded], ap_log_level := ParseLevel (ae_log_level env)\<rparr>"
  have op: "\<And>p. \<exists>c. ae_open env p = Inr c" using assms by (simp add: healthy_def)
  obtain f1 where f1: "MustLogIO env ''sys'' ?a1
    = (?a1\<lparr>ap_files := f1, ap_grace := regProcessor (log_processor env (log_path env ''sys'')) (ap_grace ?a1)\<rparr>, Goes_on)"
    using MustLogIO_ok [OF op] by blast
  let ?a2 = "?a1\<lparr>ap_files := f1, ap_grace := regProcessor (log_processor env (log_path env ''sys'')) (ap_grace ?a1)\<rparr>"
  obtain f2 where f2: "MustLogIO env ''redis'' ?a2
    = (?a2\<lparr>ap_files := f2, ap_grace := regProcessor (log_processor env (log_path env ''redis'')) (ap_grace ?a2)\<rparr>, Goes_on)"
    using MustLogIO_ok [OF op] by blast
  show ?thesis
    using a0(2,3) unfolding app_Default_def next_step_run(1) [of "LoadWithConfig env", OF load] LoadLogger_def Let_def
      next_step_run(1) [of "MustLogIO env ''sys''", OF f1] next_step_run(1) [of "MustLogIO env ''redis''", OF f2]
    by (simp add: regProcessor_def graceful_Constructor_def objects_of_def logs_of_def)
qed

lemma useJ2rpc_run: "\<exists>es. useJ2rpc env a = (a\<lparr>ap_events := es\<rparr>, Goes_on)"
  by (cases "ap_service a"; cases "ae_service_is_router env") (auto simp: useJ2rpc_def event_run)

lemma run_healthy:
  assumes "healthy env" "\<not> ap_sql_out a"
  shows "\<exists>a1. next_step (mysql_Dial env) (gin_Run env) a = (a1, Goes_on)
    \<and> gr_srvList (ap_grace a1) = gr_srvList (ap_grace a) @ servers env
    \<and> gr_events (ap_grace a1) = gr_events (ap_grace a) @ map Listening (servers env)
    \<and> gr_processList (ap_grace a1)
        = gr_processList (ap_grace a) @ logs_of env [''sql''] @ objects_of env [''Mysql'', ''Redis''] @ logs_of env [''web'']"
proof -
  have op: "\<And>p. \<exists>c. ae_open env p = Inr c" and no: "ae_engine_error env = None" "ae_ping_error env = None" "ae_subscribe_error env = None"
    using assms(1) by (simp_all add: healthy_def)
  obtain f1 where f1: "MustLogIO env ''sql'' a
    = (a\<lparr>ap_files := f1, ap_grace := regProcessor (log_processor env (log_path env ''sql'')) (ap_grace a)\<rparr>, Goes_on)"
    using MustLogIO_ok [OF op] by blast
  obtain a2 where d: "mysql_Dial env a = (a2, Goes_on)" "gr_srvList (ap_grace a2) = gr_srvList (ap_grace a)"
    "gr_events (ap_grace a2) = gr_events (ap_grace a)"
    "gr_processList (ap_grace a2) = gr_processList (ap_grace a) @ logs_of env [''sql''] @ objects_of env [''Mysql'', ''Redis'']"
    using assms(2) no
    by (simp add: mysql_Dial_def mysql_dial_def fatal_on_def getOut_def f1 event_run app_Subscribe_def register_processor_def
        regProcessor_def logs_of_def objects_of_def)
  obtain f2 where f2: "MustLogIO env ''web'' a2
    = (a2\<lparr>ap_files := f2, ap_grace := regProcessor (log_processor env (log_path env ''web'')) (ap_grace a2)\<rparr>, Goes_on)"
    using MustLogIO_ok [OF op] by blast
  let ?a3 = "a2\<lparr>ap_files := f2, ap_grace := regProcessor (log_processor env (log_path env ''web'')) (ap_grace a2)\<rparr>"
  obtain es where j: "useJ2rpc env ?a3 = (?a3\<lparr>ap_events := es\<rparr>, Goes_on)"
    using useJ2rpc_run by blast
  show ?thesis
    using d(2-4) unfolding next_step_run(1) [of "mysql_Dial env", OF d(1)] gin_Run_def next_step_run(1) [of "MustLogIO env ''web''", OF f2] next_step_run(1) [of "useJ2rpc env", OF j]
    by (auto simp: listen_def profServer_def regHTTPServer_def regProcessor_def gr_add_def servers_def logs_of_def)
qed

lemma next_step_assoc: "next_step (next_step f g) h = next_step f (next_step g h)"
  by (rule ext) (simp add: next_step_def split: prod.split app_end.split)

lemma RunDefault_start:
  "RunDefault env tables sigs Cmd_start =
     next_step (app_Default env)
       (next_step (\<lambda>a. (a\<lparr>ap_tables := TableRegister tables (ap_tables a)\<rparr>, Goes_on))
         (next_step (event Worker_started)
           (next_step SetJ2Service (next_step (mysql_Dial env) (next_step (gin_Run env) (WaitForSignal env sigs))))))"
  by (simp add: RunDefault_def RunWithCmd_def Execute_def app_Run_def)

lemma start_healthy:
  assumes "healthy env"
  shows "\<exists>a g. RunDefault env tables sigs Cmd_start (new_app :: 'w app) = (a\<lparr>ap_grace := fst (StartSignal (ae_shutdown env) sigs g)\<rparr>, Goes_on)
    \<and> gr_srvList g = servers env \<and> gr_events g = map Listening (servers env)
    \<and> gr_processList g = objects_of env [''Go''] @ logs_of env [''sys'', ''redis'', ''sql'']
                           @ objects_of env [''Mysql'', ''Redis''] @ logs_of env [''web'']"
proof -
  obtain a :: "'w app" where a: "app_Default env new_app = (a, Goes_on)" "\<not> ap_sql_out a" "gr_srvList (ap_grace a) = []"
    "gr_events (ap_grace a) = []" "gr_processList (ap_grace a) = objects_of env [''Go''] @ logs_of env [''sys'', ''redis'']"
    using default_healthy [OF assms] by blast
  let ?b = "a\<lparr>ap_tables := TableRegister tables (ap_tables a), ap_events := ap_events a @ [Worker_started], ap_service := True\<rparr>"
  obtain b1 where b: "next_step (mysql_Dial env) (gin_Run env) ?b = (b1, Goes_on)"
    "gr_srvList (ap_grace b1) = servers env" "gr_events (ap_grace b1) = map Listening (servers env)"
    "gr_processList (ap_grace b1) = objects_of env [''Go''] @ logs_of env [''sys'', ''redis'', ''sql'']
       @ objects_of env [''Mysql'', ''Redis''] @ logs_of env [''web'']"
    using run_healthy [OF assms, of ?b] a by (auto simp: logs_of_def)
  have "RunDefault env tables sigs Cmd_start new_app = WaitForSignal env sigs b1"
    unfolding RunDefault_start
    by (simp add: a(1) event_run SetJ2Service_def next_step_run(1) [of "next_step (mysql_Dial env) (gin_Run env)", OF b(1)] flip: next_step_assoc [of "mysql_Dial env"])
  then show ?thesis using b(2-4) by (auto simp: WaitForSignal_def)
qed


section \<open>Nothing is served before the database\<close>

definition srv :: "'w app \<Rightarrow> string list" where
  "srv a = gr_srvList (ap_grace a)"

text \<open>Steps that start no server and leave the level of the Redis logger.\<close>

definition quiet :: "'w app_step \<Rightarrow> bool" where
  "quiet f \<longleftrightarrow> (\<forall>a. srv (fst (f a)) = srv a \<and> lg_lvl (ap_redis_log (fst (f a))) = lg_lvl (ap_redis_log a))"

lemma quiet_next_step: "quiet f \<Longrightarrow> quiet g \<Longrightarrow> quiet (next_step f g)"
  by (simp add: quiet_def next_step_def split: prod.split app_end.split) (metis fst_conv)

lemma quiet_event: "quiet (event e)"
  by (simp add: quiet_def event_def srv_def)

lemma quiet_register: "quiet (register_processor p)"
  by (simp add: quiet_def register_processor_def regProcessor_def srv_def)

lemma quiet_fatal_on: "quiet (fatal_on e)"
  by (simp add: quiet_def fatal_on_def)

lemma quiet_MustLogIO: "quiet (MustLogIO env n)"
  by (auto simp: quiet_def MustLogIO_def MustNewIO_def register_processor_def regProcessor_def srv_def split: prod.split sum.split)

lemma quiet_if: "quiet f \<Longrightarrow> quiet g \<Longrightarrow> quiet (\<lambda>a. if P a then f a else g a)"
  by (simp add: quiet_def)

lemma quiet_getOut: "quiet (getOut env)"
  unfolding getOut_def [abs_def]
  by (intro quiet_if quiet_next_step quiet_MustLogIO) (simp_all add: quiet_def srv_def)

lemma quiet_Subscribe: "quiet (app_Subscribe env)"
  by (auto simp: quiet_def app_Subscribe_def event_def srv_def add_line_def split: option.split)

lemmas quiet_steps = quiet_next_step quiet_event quiet_register quiet_fatal_on quiet_MustLogIO quiet_getOut quiet_Subscribe

text \<open>A server after a sequence that starts quietly means its first part went through.\<close>

lemma srv_through:
  assumes "quiet f" "srv a = []" "srv (fst (next_step f g a)) \<noteq> []"
  shows "\<exists>a1. f a = (a1, Goes_on) \<and> srv a1 = [] \<and> srv (fst (g a1)) \<noteq> [] \<and> lg_lvl (ap_redis_log a1) = lg_lvl (ap_redis_log a)"
proof -
  have q: "srv (fst (f a)) = []" "lg_lvl (ap_redis_log (fst (f a))) = lg_lvl (ap_redis_log a)"
    using assms(1,2) by (simp_all add: quiet_def)
  with assms(3) show ?thesis by (auto simp: next_step_def split: prod.splits app_end.splits)
qed

lemma srv_next:
  "srv (fst (f a)) = [] \<Longrightarrow> srv (fst (next_step f g a)) \<noteq> [] \<Longrightarrow>
     \<exists>a1. f a = (a1, Goes_on) \<and> srv a1 = [] \<and> srv (fst (g a1)) \<noteq> []"
  by (auto simp: next_step_def split: prod.splits app_end.splits)

lemma fatal_on_goes_on: "fatal_on e a = (a1, Goes_on) \<Longrightarrow> e = None"
  by (simp add: fatal_on_def split: option.splits)

lemma Subscribe_goes_on:
  "app_Subscribe env a = (a1, Goes_on) \<Longrightarrow> ae_subscribe_error env = None \<or> lg_lvl (ap_redis_log a) < FatalLevel"
  by (auto simp: app_Subscribe_def split: option.splits if_splits)

text \<open>The steps before the services start none.\<close>

definition serves_none :: "'w app_step \<Rightarrow> bool" where
  "serves_none f \<longleftrightarrow> (\<forall>a. srv a = [] \<longrightarrow> srv (fst (f a)) = [])"

lemma serves_none_quiet: "quiet f \<Longrightarrow> serves_none f"
  by (simp add: quiet_def serves_none_def)

lemma serves_none_next:
  assumes "serves_none f" "serves_none g"
  shows "serves_none (next_step f g)"
  unfolding serves_none_def
proof (intro allI impI)
  fix a :: "'a app"
  assume "srv a = []"
  then have "srv (fst (f a)) = []" using assms(1) by (simp add: serves_none_def)
  then show "srv (fst (next_step f g a)) = []"
    using assms(2) by (cases "f a"; cases "snd (f a)") (simp_all add: serves_none_def)
qed

lemma serves_none_Populate: "serves_none (Populate env)"
  by (simp add: serves_none_def Populate_def app_fields_def construct_field_def Let_def srv_def regProcessor_def
      graceful_Constructor_def)

lemma serves_none_Load: "serves_none (Config_Load env)"
  by (simp add: serves_none_def Config_Load_def event_def srv_def split: option.split)

lemma serves_none_LoadLogger: "serves_none (LoadLogger env)"
proof -
  let ?l = "ParseLevel (ae_log_level env)"
  let ?f = "next_step (MustLogIO env ''sys'') (next_step (MustLogIO env ''redis'')
      (\<lambda>a2 :: 'a app. (a2\<lparr>ap_redis_log := SetLevel ?l (NewLevelLogger ''[Redis]'')\<rparr>, Goes_on)))"
  have "serves_none ?f"
    by (intro serves_none_next serves_none_quiet [OF quiet_MustLogIO]) (simp add: serves_none_def srv_def)
  moreover have "LoadLogger env = (\<lambda>a. ?f (a\<lparr>ap_log_level := ?l\<rparr>))" by (rule ext) (simp add: LoadLogger_def Let_def)
  moreover have "srv (a\<lparr>ap_log_level := ?l\<rparr>) = srv a" for a :: "'a app" by (simp add: srv_def)
  ultimately show ?thesis by (simp add: serves_none_def)
qed

lemma srv_new_app: "srv (new_app :: 'w app) = []"
  by (simp add: srv_def new_app_def graceful_Constructor_def)

lemma Default_served:
  "srv (fst (app_Default env (new_app :: 'w app))) = []"
  "app_Default env (new_app :: 'w app) = (a, Goes_on) \<Longrightarrow>
     ae_config_error env = None \<and> lg_lvl (ap_redis_log a) = ParseLevel (ae_log_level env)"
proof -
  have "serves_none (app_Default env :: 'w app_step)"
    unfolding app_Default_def LoadWithConfig_def
    by (intro serves_none_next serves_none_Populate serves_none_Load serves_none_LoadLogger)
  then show "srv (fst (app_Default env (new_app :: 'w app))) = []" using srv_new_app [where 'w = 'w] by (simp add: serves_none_def)
  assume "app_Default env (new_app :: 'w app) = (a, Goes_on)"
  then obtain a0 a1 :: "'w app" where "Config_Load env a0 = (a1, Goes_on)" "LoadLogger env a1 = (a, Goes_on)"
    by (auto simp: app_Default_def LoadWithConfig_def next_step_goes_on)
  then show "ae_config_error env = None \<and> lg_lvl (ap_redis_log a) = ParseLevel (ae_log_level env)"
    by (auto simp: Config_Load_def LoadLogger_def Let_def next_step_goes_on SetLevel_def split: option.splits)
qed

lemma start_served:
  fixes tables :: "'w table list"
  assumes "gr_srvList (ap_grace (fst (RunDefault env tables sigs Cmd_start (new_app :: 'w app)))) \<noteq> []"
  shows "ae_config_error env = None \<and> ae_engine_error env = None \<and> ae_ping_error env = None
    \<and> (ae_subscribe_error env = None \<or> ParseLevel (ae_log_level env) = PanicLevel)"
proof -
  let ?run = "next_step (mysql_Dial env) (next_step (gin_Run env) (WaitForSignal env sigs)) :: 'w app_step"
  let ?reg = "\<lambda>a :: 'w app. (a\<lparr>ap_tables := TableRegister tables (ap_tables a)\<rparr>, Goes_on)"
  obtain a :: "'w app" where a: "app_Default env new_app = (a, Goes_on)" "srv a = []"
    "srv (fst (next_step ?reg (next_step (event Worker_started) (next_step SetJ2Service ?run)) a)) \<noteq> []"
    using srv_next [of "app_Default env", OF Default_served(1)] assms unfolding RunDefault_start srv_def by blast
  note cfg = Default_served(2) [OF a(1)]
  let ?b = "a\<lparr>ap_tables := TableRegister tables (ap_tables a), ap_events := ap_events a @ [Worker_started], ap_service := True\<rparr>"
  have b: "srv ?b = []" "srv (fst (?run ?b)) \<noteq> []" "lg_lvl (ap_redis_log ?b) = ParseLevel (ae_log_level env)"
    using a(2,3) cfg by (simp_all add: event_run SetJ2Service_def) (simp add: srv_def)
  let ?r5 = "next_step (register_processor (object_processor env ''Mysql'')) (next_step
      (register_processor (object_processor env ''Redis'')) (next_step (gin_Run env) (WaitForSignal env sigs))) :: 'w app_step"
  let ?r4 = "next_step (app_Subscribe env) ?r5" let ?r3 = "next_step (event Db_connected) ?r4"
  let ?r2 = "next_step (fatal_on (ae_ping_error env)) ?r3" let ?r1 = "next_step (getOut env) ?r2"
  have "?run = next_step (fatal_on (ae_engine_error env)) ?r1"
    by (simp add: mysql_Dial_def mysql_dial_def next_step_assoc)
  then obtain c1 where c1: "fatal_on (ae_engine_error env) ?b = (c1, Goes_on)" "srv c1 = []"
    "lg_lvl (ap_redis_log c1) = lg_lvl (ap_redis_log ?b)" "srv (fst (?r1 c1)) \<noteq> []"
    using srv_through [OF quiet_fatal_on b(1)] b(2) by metis
  obtain c2 where c2: "srv c2 = []" "lg_lvl (ap_redis_log c2) = lg_lvl (ap_redis_log c1)" "srv (fst (?r2 c2)) \<noteq> []"
    using srv_through [OF quiet_getOut c1(2,4)] by metis
  obtain c3 where c3: "fatal_on (ae_ping_error env) c2 = (c3, Goes_on)" "srv c3 = []"
    "lg_lvl (ap_redis_log c3) = lg_lvl (ap_redis_log c2)" "srv (fst (?r3 c3)) \<noteq> []"
    using srv_through [OF quiet_fatal_on c2(1,3)] by metis
  obtain c4 where c4: "srv c4 = []" "lg_lvl (ap_redis_log c4) = lg_lvl (ap_redis_log c3)" "srv (fst (?r4 c4)) \<noteq> []"
    using srv_through [OF quiet_event c3(2,4)] by metis
  obtain c5 where c5: "app_Subscribe env c4 = (c5, Goes_on)"
    using srv_through [OF quiet_Subscribe c4(1,3)] by metis
  have "lg_lvl (ap_redis_log c4) = ParseLevel (ae_log_level env)" using c1(3) c2(2) c3(3) c4(2) b(3) by simp
  moreover have "l = PanicLevel" if "l < FatalLevel" for l :: level using that by (simp add: level_defs)
  ultimately show ?thesis
    using cfg fatal_on_goes_on [OF c1(1)] fatal_on_goes_on [OF c3(1)] Subscribe_goes_on [OF c5] by auto
qed

end
