(* ===== verification/App_Config.thy ===== *)
theory App_Config
  imports Log_File
begin

text \<open>
  src/g2util/config.go: where the configuration is looked for, and changes that one process
  writes to a temporary file for the next start.  Viper is a record of its settings (full keys
  to values), names and paths; what it finds for them is the parameter \<^verbatim>\<open>search\<close>.  Files of
  settings are kept parsed; a file that cannot be parsed holds its error.
\<close>

type_synonym 'v settings = "string \<rightharpoonup> 'v"

record 'v viper =
  vp_settings :: "'v settings"
  vp_file :: "string option"
  vp_type :: string
  vp_name :: string
  vp_paths :: "string list"
  vp_used :: string
  vp_watched :: bool

record 'v config =
  cf_root :: string
  cf_filename :: string
  cf_viper :: "'v viper option"

text \<open>
  The file system: settings files, the subdirectories of a directory (None: it cannot be read)
  and the files that cannot be written.
\<close>

record 'v conf_files =
  fs_files :: "string \<rightharpoonup> string + 'v settings"
  fs_subdirs :: "string \<Rightarrow> string list option"
  fs_readonly :: "string set"

definition new_viper :: "'v viper" where
  "new_viper = \<lparr>vp_settings = Map.empty, vp_file = None, vp_type = [], vp_name = ''config'', vp_paths = [],
     vp_used = [], vp_watched = False\<rparr>"

definition config_Constructor :: "string \<Rightarrow> 'v config \<Rightarrow> 'v config" where
  "config_Constructor selfDir c = c\<lparr>cf_viper := Some new_viper, cf_root := selfDir\<rparr>"

text \<open>The non-empty argument at a position.\<close>

definition load_arg :: "string list \<Rightarrow> nat \<Rightarrow> string option" where
  "load_arg args n = (if length args > n \<and> args ! n \<noteq> [] then Some (args ! n) else None)"

definition config_filename :: "'v config \<Rightarrow> string list \<Rightarrow> string" where
  "config_filename c args =
     (let filename = (if cf_filename c \<noteq> [] then cf_filename c else ''conf'')
      in case load_arg args 1 of Some f1 \<Rightarrow> f1 | None \<Rightarrow> filename)"

text \<open>A directory and those directly below it.\<close>

definition config_paths :: "'v conf_files \<Rightarrow> string \<Rightarrow> string list" where
  "config_paths fs dirName =
     dirName # (case fs_subdirs fs dirName of None \<Rightarrow> [] | Some ds \<Rightarrow> map (path_join dirName) ds)"

text \<open>
  LoadFromTemp: merge the temporary file into the settings, write the configuration file, remove
  the temporary one.
\<close>

definition LoadFromTemp :: "string \<Rightarrow> 'v config \<Rightarrow> 'v conf_files \<Rightarrow> 'v config \<times> 'v conf_files \<times> string option" where
  "LoadFromTemp tempFile c fs =
     (case fs_files fs tempFile of
        None \<Rightarrow> (c, fs, None)
      | Some (Inl e) \<Rightarrow> (c, fs, Some e)
      | Some (Inr tmp) \<Rightarrow>
          (case cf_viper c of
             None \<Rightarrow> (c, fs, None)
           | Some v \<Rightarrow>
               let v1 = v\<lparr>vp_settings := vp_settings v ++ tmp\<rparr>; c1 = c\<lparr>cf_viper := Some v1\<rparr>
               in if vp_used v1 \<in> fs_readonly fs then (c1, fs, Some ''write config'')
                  else (c1, fs\<lparr>fs_files := ((fs_files fs)(vp_used v1 \<mapsto> Inr (vp_settings v1)))(tempFile := None)\<rparr>, None)))"

definition WriteToTemp :: "string \<Rightarrow> ('v settings \<Rightarrow> 'v settings) \<Rightarrow> 'v config \<Rightarrow> 'v conf_files
    \<Rightarrow> 'v config \<times> 'v conf_files \<times> string option" where
  "WriteToTemp tempFile fn c fs =
     (case cf_viper c of
        None \<Rightarrow> (c, fs, Some ''nil viper'')
      | Some v \<Rightarrow>
          let v1 = v\<lparr>vp_settings := fn (vp_settings v)\<rparr>; c1 = c\<lparr>cf_viper := Some v1\<rparr>
          in if tempFile \<in> fs_readonly fs then (c1, fs, Some ''write config'')
             else (c1, fs\<lparr>fs_files := (fs_files fs)(tempFile \<mapsto> Inr (vp_settings v1))\<rparr>, None))"

text \<open>ReadInConfig: the explicit file, or what viper finds for the name in the paths.\<close>

definition ReadInConfig :: "(string list \<Rightarrow> string \<Rightarrow> string option) \<Rightarrow> 'v conf_files \<Rightarrow> 'v viper \<Rightarrow> 'v viper \<times> string option" where
  "ReadInConfig search fs v =
     (case (case vp_file v of Some f \<Rightarrow> Some f | None \<Rightarrow> search (vp_paths v) (vp_name v)) of
        None \<Rightarrow> (v, Some ''Config File Not Found'')
      | Some f \<Rightarrow>
          (case fs_files fs f of
             None \<Rightarrow> (v\<lparr>vp_used := f\<rparr>, Some ''no such file'')
           | Some (Inl e) \<Rightarrow> (v\<lparr>vp_used := f\<rparr>, Some e)
           | Some (Inr s) \<Rightarrow> (v\<lparr>vp_used := f, vp_settings := s\<rparr>, None)))"

text \<open>What load sets before it reads: names, type, root and search paths.\<close>

definition config_prepare :: "string \<Rightarrow> string list \<Rightarrow> 'v config \<Rightarrow> 'v conf_files \<Rightarrow> 'v config \<times> 'v viper" where
  "config_prepare selfDir args c0 fs =
     (let c = (if cf_viper c0 = None then config_Constructor selfDir c0 else c0);
          v0 = the (cf_viper c);
          v1 = (case load_arg args 2 of Some f1 \<Rightarrow> v0\<lparr>vp_file := Some f1\<rparr> | None \<Rightarrow> v0);
          v2 = v1\<lparr>vp_type := ''yml'', vp_name := config_filename c args\<rparr>;
          dirName = (case load_arg args 0 of Some f1 \<Rightarrow> f1 | None \<Rightarrow> cf_root c)
      in (c\<lparr>cf_root := dirName\<rparr>,
          v2\<lparr>vp_paths := vp_paths v2 @ config_paths fs dirName @ config_paths fs ''.''\<rparr>))"

definition config_load ::
  "(string list \<Rightarrow> string \<Rightarrow> string option) \<Rightarrow> string \<Rightarrow> string \<Rightarrow> string list \<Rightarrow> 'v config \<Rightarrow> 'v conf_files
     \<Rightarrow> 'v config \<times> 'v conf_files \<times> string option" where
  "config_load search selfDir tempFile args c0 fs =
     (case config_prepare selfDir args c0 fs of
        (c1, v3) \<Rightarrow>
          (case ReadInConfig search fs v3 of
             (v4, Some err) \<Rightarrow> (c1\<lparr>cf_viper := Some v4\<rparr>, fs, Some err)
           | (v4, None) \<Rightarrow>
               (case LoadFromTemp tempFile (c1\<lparr>cf_viper := Some v4\<rparr>) fs of
                  (c2, fs2, Some err) \<Rightarrow> (c2, fs2, Some err)
                | (c2, fs2, None) \<Rightarrow>
                    (c2\<lparr>cf_viper := map_option (\<lambda>v. v\<lparr>vp_watched := True\<rparr>) (cf_viper c2)\<rparr>, fs2, None))))"

definition new_config :: "'v config" where
  "new_config = \<lparr>cf_root = [], cf_filename = [], cf_viper = None\<rparr>"

definition SetFilename :: "string \<Rightarrow> 'v config \<Rightarrow> 'v config" where
  "SetFilename f c = c\<lparr>cf_filename := f\<rparr>"

definition SetRootPath :: "string \<Rightarrow> 'v config \<Rightarrow> 'v config" where
  "SetRootPath r c = c\<lparr>cf_root := r\<rparr>"


section \<open>A load that succeeds\<close>

lemma ReadInConfig_ok:
  "ReadInConfig search fs v = (v1, None) \<Longrightarrow>
     \<exists>f base. (case vp_file v of Some f \<Rightarrow> Some f | None \<Rightarrow> search (vp_paths v) (vp_name v)) = Some f
       \<and> fs_files fs f = Some (Inr base) \<and> v1 = v\<lparr>vp_used := f, vp_settings := base\<rparr>"
  by (auto simp: ReadInConfig_def split: option.splits sum.splits)

text \<open>It took its settings from one file, merged the temporary file into them and stored the result.\<close>

lemma config_load_parts:
  assumes "config_load search selfDir tempFile args c fs = (c1, fs1, None)"
  obtains c0 v3 f base s where "config_prepare selfDir args c fs = (c0, v3)"
    "(case vp_file v3 of Some f \<Rightarrow> Some f | None \<Rightarrow> search (vp_paths v3) (vp_name v3)) = Some f"
    "fs_files fs f = Some (Inr base)"
    "c1 = c0\<lparr>cf_viper := Some (v3\<lparr>vp_used := f, vp_settings := s, vp_watched := True\<rparr>)\<rparr>"
    "(fs_files fs tempFile = None \<and> s = base \<and> fs1 = fs)
      \<or> (\<exists>tmp. fs_files fs tempFile = Some (Inr tmp) \<and> s = base ++ tmp
          \<and> fs1 = fs\<lparr>fs_files := ((fs_files fs)(f \<mapsto> Inr s))(tempFile := None)\<rparr>)"
proof -
  obtain c0 v3 where p: "config_prepare selfDir args c fs = (c0, v3)" by (cases "config_prepare selfDir args c fs")
  obtain v4 where r: "ReadInConfig search fs v3 = (v4, None)"
    using assms p by (auto simp: config_load_def split: prod.splits option.splits)
  from ReadInConfig_ok [OF r] obtain f base where f:
    "(case vp_file v3 of Some f \<Rightarrow> Some f | None \<Rightarrow> search (vp_paths v3) (vp_name v3)) = Some f"
    "fs_files fs f = Some (Inr base)" "v4 = v3\<lparr>vp_used := f, vp_settings := base\<rparr>" by blast
  have "(case LoadFromTemp tempFile (c0\<lparr>cf_viper := Some v4\<rparr>) fs of
      (c2, fs2, Some err) \<Rightarrow> (c2, fs2, Some err)
    | (c2, fs2, None) \<Rightarrow> (c2\<lparr>cf_viper := map_option (\<lambda>v. v\<lparr>vp_watched := True\<rparr>) (cf_viper c2)\<rparr>, fs2, None)) = (c1, fs1, None)"
    using assms p r by (simp add: config_load_def)
  then show thesis
    using that [OF p f(1,2)] f(3)
    by (cases "fs_files fs tempFile") (auto simp: LoadFromTemp_def Let_def split: sum.splits if_splits)
qed

text \<open>Loading again what a load left: the same configuration, and no file changes.\<close>

lemma config_load_again:
  assumes "config_load search selfDir tempFile args new_config fs = (c1, fs1, None)" "cf_viper c1 = Some v1"
    "fs_subdirs fs1 = fs_subdirs fs" "fs_files fs1 (vp_used v1) = Some (Inr (vp_settings v1))" "fs_files fs1 tempFile = None"
  shows "config_load search selfDir tempFile args new_config fs1 = (c1, fs1, None)"
proof -
  from assms(1) obtain c0 v3 f base s where p: "config_prepare selfDir args new_config fs = (c0, v3)"
    "(case vp_file v3 of Some f \<Rightarrow> Some f | None \<Rightarrow> search (vp_paths v3) (vp_name v3)) = Some f"
    "c1 = c0\<lparr>cf_viper := Some (v3\<lparr>vp_used := f, vp_settings := s, vp_watched := True\<rparr>)\<rparr>"
    by (rule config_load_parts)
  have "config_paths fs1 d = config_paths fs d" for d using assms(3) by (simp add: config_paths_def)
  then have p1: "config_prepare selfDir args new_config fs1 = (c0, v3)" using p(1) by (simp add: config_prepare_def)
  have v1: "vp_used v1 = f" "vp_settings v1 = s" using assms(2) p(3) by auto
  have r: "ReadInConfig search fs1 v3 = (v3\<lparr>vp_used := f, vp_settings := s\<rparr>, None)"
    using p(2) assms(4) v1 by (simp add: ReadInConfig_def)
  show ?thesis using p1 r assms(5) p(3) by (simp add: config_load_def LoadFromTemp_def)
qed


text \<open>LockFunc: a function on the settings, under the lock.\<close>

definition LockFunc :: "('v viper option \<Rightarrow> 'v viper option \<times> string option) \<Rightarrow> 'v config \<Rightarrow> 'v config \<times> string option" where
  "LockFunc fn c = (case fn (cf_viper c) of (v, e) \<Rightarrow> (c\<lparr>cf_viper := v\<rparr>, e))"

end
