(* ===== verification/Go_Time.thy ===== *)
theory Go_Time
  imports Decimal "HOL-Library.Word"
begin

text \<open>
  Package time as src/g2util/time.go and its callers use it: an instant is the number of seconds
  since January 1 of year 1, UTC, with its nanoseconds.  The local zone is a fixed offset in
  seconds (the location itself never matters: every accessor goes through Local).  The calendar
  is the proleptic Gregorian one; texts are those of the layout RFC3339.
\<close>

record gotime =
  t_sec :: int
  t_nsec :: nat

definition zero_time :: gotime where
  "zero_time = \<lparr>t_sec = 0, t_nsec = 0\<rparr>"

definition IsZero :: "gotime \<Rightarrow> bool" where
  "IsZero t \<longleftrightarrow> t_sec t = 0 \<and> t_nsec t = 0"

text \<open>Add of a duration in nanoseconds.\<close>

definition time_Add :: "gotime \<Rightarrow> int \<Rightarrow> gotime" where
  "time_Add t d =
     (let n = t_sec t * 10 ^ 9 + int (t_nsec t) + d
      in \<lparr>t_sec = n div 10 ^ 9, t_nsec = nat (n mod 10 ^ 9)\<rparr>)"

text \<open>UnixNano wraps in its 64 bits.\<close>

definition UnixNano :: "gotime \<Rightarrow> 64 word" where
  "UnixNano t = word_of_int ((t_sec t - 62135596800) * 10 ^ 9 + int (t_nsec t))"


section \<open>The calendar\<close>

definition leap :: "int \<Rightarrow> bool" where
  "leap y \<longleftrightarrow> y mod 4 = 0 \<and> (y mod 100 \<noteq> 0 \<or> y mod 400 = 0)"

definition year_days :: "int \<Rightarrow> nat" where
  "year_days y = (if leap y then 366 else 365)"

definition months :: "int \<Rightarrow> nat list" where
  "months y = [31, if leap y then 29 else 28, 31, 30, 31, 30, 31, 31, 30, 31, 30, 31]"

lemma year_days_pos [simp]: "0 < year_days y"
  by (simp add: year_days_def)

function year_of :: "int \<Rightarrow> nat \<Rightarrow> int \<times> nat" where
  "year_of y n = (if n < year_days y then (y, n) else year_of (y + 1) (n - year_days y))"
  by pat_completeness auto
termination by (relation "measure snd") (auto simp: year_days_def)

declare year_of.simps [simp del]

fun month_of :: "nat list \<Rightarrow> nat \<Rightarrow> nat \<Rightarrow> nat \<times> nat" where
  "month_of [] m n = (m, n)"
| "month_of (d # ds) m n = (if n < d then (m, n) else month_of ds (Suc m) (n - d))"

text \<open>Date: year, month and day of a day number; the search starts at the 400-year cycle.\<close>

definition date_of :: "int \<Rightarrow> int \<times> nat \<times> nat" where
  "date_of n =
     (case year_of (400 * (n div 146097) + 1) (nat (n mod 146097)) of
        (y, r) \<Rightarrow> (case month_of (months y) 1 r of (m, d) \<Rightarrow> (y, m, Suc d)))"

definition days_before_year :: "int \<Rightarrow> int" where
  "days_before_year y = 365 * (y - 1) + (y - 1) div 4 - (y - 1) div 100 + (y - 1) div 400"

definition days_of :: "int \<Rightarrow> nat \<Rightarrow> nat \<Rightarrow> int" where
  "days_of y m d = days_before_year y + int (sum_list (take (m - 1) (months y))) + int d - 1"

lemma div_step: "0 < k \<Longrightarrow> (y :: int) div k = (y - 1) div k + (if y mod k = 0 then 1 else 0)"
proof -
  assume k: "0 < k"
  define q r where "q = y div k" and "r = y mod k"
  then have y: "y = k * q + r" "0 \<le> r" "r < k" using k by auto
  show ?thesis
  proof (cases "r = 0")
    case True
    then have "y - 1 = k * (q - 1) + (k - 1)" using y by (simp add: algebra_simps)
    then have "(y - 1) div k = q - 1" using k by (intro int_div_pos_eq [where r = "k - 1"]) simp_all
    then show ?thesis using True by (simp add: q_def r_def)
  next
    case False
    then have "y - 1 = k * q + (r - 1)" "0 \<le> r - 1" "r - 1 < k" using y by auto
    then have "(y - 1) div k = q" by (intro int_div_pos_eq)
    then show ?thesis using False by (simp add: q_def r_def)
  qed
qed

lemma days_step:
  assumes "a4 = b4 + (if m4 then 1 else 0)" "a100 = b100 + (if m100 then 1 else 0)"
    "a400 = b400 + (if m400 then 1 else 0)" "m400 \<Longrightarrow> m100" "m100 \<Longrightarrow> m4"
  shows "365 * y + a4 - a100 + a400
    = 365 * (y - 1) + b4 - b100 + b400 + int (if m4 \<and> (\<not> m100 \<or> m400) then 366 else 365)"
  using assms by (cases m4; cases m100; cases m400) simp_all

lemma days_before_next: "days_before_year (y + 1) = days_before_year y + int (year_days y)"
proof -
  have c: "y mod 400 = 0 \<Longrightarrow> y mod 100 = 0" "y mod 100 = 0 \<Longrightarrow> y mod 4 = 0" by presburger+
  have e: "days_before_year (y + 1) = 365 * y + y div 4 - y div 100 + y div 400" by (simp add: days_before_year_def)
  show ?thesis
    unfolding e unfolding days_before_year_def year_days_def leap_def
    by (rule days_step [OF div_step div_step div_step c]) simp_all
qed

lemma year_of_days:
  "year_of y n = (y', r) \<Longrightarrow> days_before_year y + int n = days_before_year y' + int r \<and> r < year_days y'"
proof (induction y n rule: year_of.induct)
  case (1 y n)
  show ?case
  proof (cases "n < year_days y")
    case True
    then show ?thesis using 1(2) by (simp add: year_of.simps)
  next
    case False
    then show ?thesis using 1 days_before_next [of y] by (simp add: year_of.simps [of y])
  qed
qed

lemma month_of_days:
  "month_of ds m n = (m', r) \<Longrightarrow> n < sum_list ds \<Longrightarrow>
     m \<le> m' \<and> m' < m + length ds \<and> n = sum_list (take (m' - m) ds) + r \<and> r < ds ! (m' - m)"
proof (induction ds m n rule: month_of.induct)
  case (2 d ds m n)
  show ?case
  proof (cases "n < d")
    case False
    then have "month_of ds (Suc m) (n - d) = (m', r)" "n - d < sum_list ds" using 2(2,3) by auto
    with 2(1) False have ih: "Suc m \<le> m'" "m' < Suc m + length ds" "n - d = sum_list (take (m' - Suc m) ds) + r"
      "r < ds ! (m' - Suc m)" by auto
    then have "m' - m = Suc (m' - Suc m)" by arith
    then show ?thesis using ih False by simp
  qed (use 2 in auto)
qed simp

lemma sum_months: "sum_list (months y) = year_days y"
  by (simp add: months_def year_days_def)

lemma length_months [simp]: "length (months y) = 12"
  by (simp add: months_def)

lemma months_le_31: "k < 12 \<Longrightarrow> months y ! k \<le> 31"
proof -
  assume "k < 12"
  then have "months y ! k \<in> set (months y)" by simp
  then show ?thesis by (auto simp: months_def split: if_splits)
qed

lemma date_of_days:
  assumes "date_of n = (y, m, d)"
  shows "days_of y m d = n" "1 \<le> m" "m \<le> 12" "1 \<le> d" "d \<le> months y ! (m - 1)"
proof -
  obtain r where yr: "year_of (400 * (n div 146097) + 1) (nat (n mod 146097)) = (y, r)"
    and md: "month_of (months y) 1 r = (m, d - 1)" "1 \<le> d"
    using assms by (auto simp: date_of_def split: prod.splits)
  from year_of_days [OF yr] have y: "days_before_year (400 * (n div 146097) + 1) + n mod 146097 = days_before_year y + int r"
    "r < sum_list (months y)" by (simp_all add: sum_months)
  have cycle: "days_before_year (400 * c + 1) = 146097 * c" for c
  proof -
    have "4 * (100 * c) div 4 = 100 * c" "100 * (4 * c) div 100 = 4 * c" "400 * c div 400 = c"
      by (rule nonzero_mult_div_cancel_left, simp)+
    then have "400 * c div 4 = 100 * c" "400 * c div 100 = 4 * c" "400 * c div 400 = c" by simp_all
    then show ?thesis unfolding days_before_year_def add_diff_cancel_right' by linarith
  qed
  have n: "n = days_before_year y + int r" using y(1) unfolding cycle by (metis mult_div_mod_eq)
  from month_of_days [OF md(1) y(2)]
  have r: "1 \<le> m" "m < 13" "r = sum_list (take (m - 1) (months y)) + (d - 1)" "d - 1 < months y ! (m - 1)" by simp_all
  show "1 \<le> m" "m \<le> 12" "1 \<le> d" "d \<le> months y ! (m - 1)" using r md(2) by linarith+
  have "int r = int (sum_list (take (m - 1) (months y))) + (int d - 1)" using r(3) md(2) by linarith
  then show "days_of y m d = n" unfolding n days_of_def by linarith
qed


section \<open>Texts\<close>

text \<open>The local wall clock: day number and second of the day.\<close>

definition local_day :: "int \<Rightarrow> gotime \<Rightarrow> int" where
  "local_day z t = (t_sec t + z) div 86400"

definition local_sec :: "int \<Rightarrow> gotime \<Rightarrow> nat" where
  "local_sec z t = nat ((t_sec t + z) mod 86400)"

definition format_zone :: "int \<Rightarrow> string" where
  "format_zone z =
     (let a = nat (\<bar>z\<bar> div 60)
      in if z = 0 then ''Z''
         else (if z < 0 then CHR ''-'' else CHR ''+'') # pad 2 (a div 60) @ CHR '':'' # pad 2 (a mod 60))"

definition format_year :: "int \<Rightarrow> string" where
  "format_year y = (if y < 0 then CHR ''-'' # pad 4 (nat (- y)) else pad 4 (nat y))"

definition format_date :: "int \<Rightarrow> gotime \<Rightarrow> string" where
  "format_date z t =
     (case date_of (local_day z t) of
        (y, m, d) \<Rightarrow> format_year y @ CHR ''-'' # pad 2 m @ CHR ''-'' # pad 2 d)"

definition format_RFC3339 :: "int \<Rightarrow> gotime \<Rightarrow> string" where
  "format_RFC3339 z t =
     (let s = local_sec z t
      in format_date z t @ CHR ''T'' # pad 2 (s div 3600) @ CHR '':'' # pad 2 (s div 60 mod 60)
           @ CHR '':'' # pad 2 (s mod 60) @ format_zone z)"

text \<open>The strict reader time.Parse tries first for RFC3339 and RFC3339Nano.\<close>

definition parse_fraction :: "string \<Rightarrow> nat \<times> string" where
  "parse_fraction s =
     (case s of
        c # d # r \<Rightarrow>
          if c = CHR ''.'' \<and> is_digit d
          then (let ds = takeWhile is_digit (d # r); n = take 9 ds
                in (read_digits 0 n * 10 ^ (9 - length n), dropWhile is_digit (d # r)))
          else (0, s)
      | _ \<Rightarrow> (0, s))"

definition parse_zone :: "string \<Rightarrow> int option" where
  "parse_zone s =
     (if s = ''Z'' then Some 0
      else if length s \<noteq> 6 \<or> hd s \<notin> {CHR ''-'', CHR ''+''} then None
      else Option.bind (take_num 2 0 23 (tl s)) (\<lambda>(hr, s1).
           Option.bind (take_char CHR '':'' s1) (\<lambda>s2.
           Option.bind (take_num 2 0 59 s2) (\<lambda>(mm, s3).
           Some (int ((hr * 60 + mm) * 60) * (if hd s = CHR ''-'' then - 1 else 1))))))"

definition parse_RFC3339 :: "string \<Rightarrow> gotime option" where
  "parse_RFC3339 s =
     Option.bind (take_num 4 0 9999 s) (\<lambda>(y, s1). Option.bind (take_char CHR ''-'' s1) (\<lambda>s2.
     Option.bind (take_num 2 1 12 s2) (\<lambda>(m, s3). Option.bind (take_char CHR ''-'' s3) (\<lambda>s4.
     Option.bind (take_num 2 1 (months (int y) ! (m - 1)) s4) (\<lambda>(d, s5). Option.bind (take_char CHR ''T'' s5) (\<lambda>s6.
     Option.bind (take_num 2 0 23 s6) (\<lambda>(hh, s7). Option.bind (take_char CHR '':'' s7) (\<lambda>s8.
     Option.bind (take_num 2 0 59 s8) (\<lambda>(mi, s9). Option.bind (take_char CHR '':'' s9) (\<lambda>s10.
     Option.bind (take_num 2 0 59 s10) (\<lambda>(ss, s11).
       case parse_fraction s11 of (ns, s12) \<Rightarrow>
       Option.bind (parse_zone s12) (\<lambda>z.
       Some \<lparr>t_sec = days_of (int y) m d * 86400 + int (hh * 3600 + mi * 60 + ss) - z, t_nsec = ns\<rparr>))))))))))))"

lemma parse_format_zone:
  assumes "z mod 60 = 0" "\<bar>z\<bar> < 86400"
  shows "parse_zone (format_zone z) = Some z" "parse_fraction (format_zone z) = (0, format_zone z)"
proof -
  define a where "a = nat (\<bar>z\<bar> div 60)"
  have a: "\<bar>z\<bar> = int a * 60" "a < 1440" using assms by (auto simp: a_def)
  have b: "a div 60 < 10 ^ 2" "a mod 60 < 10 ^ 2" "a div 60 \<le> 23" "a mod 60 \<le> 59" using a(2) by auto
  then have len: "length (pad 2 (a div 60)) = 2" "length (pad 2 (a mod 60)) = 2" by (simp_all add: length_pad)
  have "int (a div 60) * 60 + int (a mod 60) = int a" by (metis div_mult_mod_eq of_nat_add of_nat_mult of_nat_numeral)
  then have q: "3600 * int (a div 60) + int (a mod 60) * 60 = \<bar>z\<bar>" using a(1) by linarith
  then show "parse_zone (format_zone z) = Some z"
    using len b q take_num_pad [of 2 "a mod 60" 0 59 "[]"]
    by (simp add: parse_zone_def format_zone_def Let_def take_num_pad flip: a_def)
  show "parse_fraction (format_zone z) = (0, format_zone z)"
    by (simp add: parse_fraction_def format_zone_def Let_def split: list.split)
qed

lemma local_sec_bound: "local_sec z t < 86400"
  by (simp add: local_sec_def)

lemma parse_fields:
  assumes "y \<le> 9999" "1 \<le> m" "m \<le> 12" "1 \<le> d" "d \<le> months (int y) ! (m - 1)" "h \<le> 23" "mi \<le> 59" "ss \<le> 59"
    "parse_fraction zt = (0, zt)" "parse_zone zt = Some z"
  shows "parse_RFC3339 (pad 4 y @ CHR ''-'' # pad 2 m @ CHR ''-'' # pad 2 d @ CHR ''T'' # pad 2 h @ CHR '':'' # pad 2 mi
      @ CHR '':'' # pad 2 ss @ zt)
    = Some \<lparr>t_sec = days_of (int y) m d * 86400 + int (h * 3600 + mi * 60 + ss) - z, t_nsec = 0\<rparr>"
proof -
  have "d \<le> 31" using assms(2,3,5) months_le_31 [of "m - 1" "int y"] by linarith
  then have w: "d < 10 ^ 2" "y < 10 ^ 4" "m < 10 ^ 2" "h < 10 ^ 2" "mi < 10 ^ 2" "ss < 10 ^ 2" using assms by auto
  have n: "take_num 4 0 9999 (pad 4 y @ r) = Some (y, r)" "take_num 2 1 12 (pad 2 m @ r) = Some (m, r)"
    "take_num 2 1 (months (int y) ! (m - 1)) (pad 2 d @ r) = Some (d, r)" "take_num 2 0 23 (pad 2 h @ r) = Some (h, r)"
    "take_num 2 0 59 (pad 2 mi @ r) = Some (mi, r)" "take_num 2 0 59 (pad 2 ss @ r) = Some (ss, r)" for r
    using assms(1-8) w by (simp_all only: take_num_pad)
  show ?thesis
    by (simp only: parse_RFC3339_def n take_char_Cons bind.bind_lunit prod.case assms(9,10))
qed

lemma parse_format_RFC3339:
  assumes "z mod 60 = 0" "\<bar>z\<bar> < 86400" "date_of (local_day z t) = (y, m, d)" "0 \<le> y" "y \<le> 9999"
  shows "parse_RFC3339 (format_RFC3339 z t) = Some (t\<lparr>t_nsec := 0\<rparr>)"
proof -
  define s where "s = local_sec z t"
  have s: "s < 86400" unfolding s_def by (rule local_sec_bound)
  then have b: "s div 3600 \<le> 23" "s div 60 mod 60 \<le> 59" "s mod 60 \<le> 59" by auto
  note dt = date_of_days [OF assms(3)]
  have fy: "format_year y = pad 4 (nat y)" "nat y \<le> 9999" "int (nat y) = y" using assms(4,5)
    by (simp_all add: format_year_def)
  have "s div 3600 = s div 60 div 60" by (simp add: div_mult2_eq [symmetric])
  moreover have "s div 60 div 60 * 60 + s div 60 mod 60 = s div 60" "s div 60 * 60 + s mod 60 = s"
    by (rule div_mult_mod_eq)+
  ultimately have "s div 3600 * 3600 + s div 60 mod 60 * 60 + s mod 60 = s" by linarith
  then have sum: "int (s div 3600 * 3600 + s div 60 mod 60 * 60 + s mod 60) = (t_sec t + z) mod 86400"
    by (simp only: s_def local_sec_def) simp
  have sec: "days_of y m d * 86400 + (t_sec t + z) mod 86400 - z = t_sec t"
    unfolding dt(1) local_day_def by (simp add: div_mult_mod_eq)
  have "format_RFC3339 z t = pad 4 (nat y) @ CHR ''-'' # pad 2 m @ CHR ''-'' # pad 2 d @ CHR ''T'' # pad 2 (s div 3600)
      @ CHR '':'' # pad 2 (s div 60 mod 60) @ CHR '':'' # pad 2 (s mod 60) @ format_zone z"
    by (simp only: format_RFC3339_def format_date_def assms(3) prod.case fy(1) Let_def append_assoc append_Cons flip: s_def)
  moreover note parse_fields [OF fy(2) dt(2,3,4) _ b parse_format_zone(2,1) [OF assms(1,2)], unfolded fy(3), OF dt(5)]
  moreover have "t\<lparr>t_nsec := 0\<rparr> = \<lparr>t_sec = t_sec t, t_nsec = 0\<rparr>" by simp
  ultimately show ?thesis by (simp only: sum sec)
qed

end
