(* ===== verification/Json_Time.thy ===== *)
theory Json_Time
  imports Go_Time
begin

text \<open>
  src/g2util/time.go: JSONTime, a time with its own JSON, text and database forms, the tolerant
  reader of times, and RetryDo with Clamp of src/g2util/math.go.  A *JSONTime is an option (nil:
  None).  \<^verbatim>\<open>gen layout s\<close> is what package time reads with a layout beyond the strict reader of
  RFC3339; no law is assumed of it.  The gob form is in Gob_Time.
\<close>

section \<open>Reading\<close>

definition RFC3339 :: string where "RFC3339 = ''2006-01-02T15:04:05Z07:00''"
definition RFC3339Nano :: string where "RFC3339Nano = ''2006-01-02T15:04:05.999999999Z07:00''"

definition jsonTimeParseLayouts :: "string list" where
  "jsonTimeParseLayouts =
     [''2006-01-02 15:04:05'', ''2006-01-02T15:04:05.999999999'', ''2006-01-02 15:04:05.999999999'',
      ''2006-01-02T15:04:05.999999999Z07:00'', ''2006-01-02'', ''2006-01-02T15:04:05.999Z07:00'',
      ''2006-01-02T15:04:05.999999Z07:00'', ''2006-01-02 15:04:05.999'', ''2006-01-02 15:04:05.999999'',
      RFC3339, RFC3339Nano, ''Mon, 02 Jan 2006 15:04:05 MST'', ''Mon, 02 Jan 2006 15:04:05 -0700'',
      ''02 Jan 06 15:04 MST'', ''02 Jan 06 15:04 -0700'', ''Mon Jan _2 15:04:05 2006'']"

definition time_Parse :: "(string \<Rightarrow> string \<Rightarrow> gotime option) \<Rightarrow> string \<Rightarrow> string \<Rightarrow> gotime option" where
  "time_Parse gen layout s =
     (case (if layout = RFC3339 \<or> layout = RFC3339Nano then parse_RFC3339 s else None) of
        Some t \<Rightarrow> Some t
      | None \<Rightarrow> gen layout s)"

fun parse_layouts :: "(string \<Rightarrow> string \<Rightarrow> gotime option) \<Rightarrow> string list \<Rightarrow> string \<Rightarrow> gotime" where
  "parse_layouts gen [] str = zero_time"
| "parse_layouts gen (l # ls) str = (case time_Parse gen l str of Some t \<Rightarrow> t | None \<Rightarrow> parse_layouts gen ls str)"

definition parseInlocation2jsonTime :: "(string \<Rightarrow> string \<Rightarrow> gotime option) \<Rightarrow> string \<Rightarrow> gotime" where
  "parseInlocation2jsonTime gen str0 =
     (let str = trim_space str0
      in if str = [] \<or> to_lower str = ''null'' then zero_time
         else case time_Parse gen RFC3339Nano str of
           Some t \<Rightarrow> t
         | None \<Rightarrow> parse_layouts gen jsonTimeParseLayouts str)"

definition ToDatetime :: "(string \<Rightarrow> string \<Rightarrow> gotime option) \<Rightarrow> string \<Rightarrow> string + gotime" where
  "ToDatetime gen s = Inr (parseInlocation2jsonTime gen s)"

definition ToDatetimeOK :: "(string \<Rightarrow> string \<Rightarrow> gotime option) \<Rightarrow> string \<Rightarrow> gotime" where
  "ToDatetimeOK gen s = parseInlocation2jsonTime gen s"

definition Must2JSONTimeAddr :: "(string \<Rightarrow> string \<Rightarrow> gotime option) \<Rightarrow> string \<Rightarrow> gotime option outcome" where
  "Must2JSONTimeAddr gen s = (case ToDatetime gen s of Inl e \<Rightarrow> Panics e | Inr j \<Rightarrow> Returns (Some j))"


section \<open>JSONTime\<close>

type_synonym json_time = "gotime option"

definition NewJSONTimePtr :: "gotime \<Rightarrow> json_time" where
  "NewJSONTimePtr t = Some t"

definition Convert2Time :: "json_time \<Rightarrow> gotime" where
  "Convert2Time p = (case p of None \<Rightarrow> zero_time | Some t \<Rightarrow> t)"

definition jt_Time :: "json_time \<Rightarrow> gotime" where
  "jt_Time p = (case p of None \<Rightarrow> zero_time | Some t \<Rightarrow> Convert2Time p)"

definition jt_Add :: "json_time \<Rightarrow> int \<Rightarrow> json_time" where
  "jt_Add p d = NewJSONTimePtr (time_Add (jt_Time p) d)"

text \<open>Date: the midnight before, in the local zone.\<close>

definition jt_Date :: "int \<Rightarrow> json_time \<Rightarrow> json_time" where
  "jt_Date z p =
     (case p of
        None \<Rightarrow> None
      | Some t \<Rightarrow>
          (case date_of (local_day z (jt_Time p)) of
             (y, m, d) \<Rightarrow> Some \<lparr>t_sec = days_of y m d * 86400 - z, t_nsec = 0\<rparr>))"

definition jt_Now :: "gotime \<Rightarrow> json_time" where
  "jt_Now now = NewJSONTimePtr now"

definition jt_Today :: "int \<Rightarrow> gotime \<Rightarrow> json_time" where
  "jt_Today z now = jt_Date z (NewJSONTimePtr now)"

definition TodayDate :: "int \<Rightarrow> gotime \<Rightarrow> string" where
  "TodayDate z now = format_date z now"

definition jt_String :: "int \<Rightarrow> json_time \<Rightarrow> string" where
  "jt_String z p = (case p of None \<Rightarrow> [] | Some t \<Rightarrow> format_RFC3339 z (Convert2Time p))"

definition jt_MarshalJSON :: "int \<Rightarrow> json_time \<Rightarrow> string" where
  "jt_MarshalJSON z p =
     (case p of
        None \<Rightarrow> [CHR 0x22, CHR 0x22]
      | Some t \<Rightarrow>
          if IsZero t then [CHR 0x22, CHR 0x22]
          else CHR 0x22 # format_RFC3339 z (Convert2Time p) @ [CHR 0x22])"

definition trim_quotes :: "string \<Rightarrow> string" where
  "trim_quotes s = rev (dropWhile (\<lambda>c. c = CHR 0x22) (rev (dropWhile (\<lambda>c. c = CHR 0x22) s)))"

definition jt_UnmarshalJSON :: "(string \<Rightarrow> string \<Rightarrow> gotime option) \<Rightarrow> string \<Rightarrow> json_time \<Rightarrow> json_time" where
  "jt_UnmarshalJSON gen data p =
     (case p of None \<Rightarrow> None | Some _ \<Rightarrow> Some (parseInlocation2jsonTime gen (trim_quotes data)))"

text \<open>The database side: ToDB, FromDB (xorm), Scan and Value (database/sql).\<close>

definition jt_ToDB :: "int \<Rightarrow> json_time \<Rightarrow> string" where
  "jt_ToDB z p = (case p of None \<Rightarrow> [] | Some t \<Rightarrow> jt_String z p)"

definition jt_FromDB :: "(string \<Rightarrow> string \<Rightarrow> gotime option) \<Rightarrow> string \<Rightarrow> json_time \<Rightarrow> json_time" where
  "jt_FromDB gen data p =
     (if data = [] then p else case p of None \<Rightarrow> None | Some _ \<Rightarrow> Some (parseInlocation2jsonTime gen data))"

datatype scan_value = Scan_nil | Scan_time gotime | Scan_other string

definition jt_Scan :: "scan_value \<Rightarrow> json_time \<Rightarrow> (json_time \<times> string option) outcome" where
  "jt_Scan v p =
     (case v of
        Scan_nil \<Rightarrow> Returns (p, None)
      | Scan_time t \<Rightarrow>
          (case p of
             None \<Rightarrow> Panics ''runtime error: invalid memory address or nil pointer dereference''
           | Some _ \<Rightarrow> Returns (Some t, None))
      | Scan_other s \<Rightarrow> Returns (p, Some (''can not convert '' @ s @ '' to timestamp'')))"

definition jt_SetByTime :: "gotime \<Rightarrow> json_time \<Rightarrow> json_time" where
  "jt_SetByTime t p = (case p of None \<Rightarrow> None | Some _ \<Rightarrow> Some t)"

definition jt_Value :: "json_time \<Rightarrow> gotime option" where
  "jt_Value p =
     (case p of
        None \<Rightarrow> None
      | Some t \<Rightarrow>
          let ti = Convert2Time p
          in if UnixNano ti = UnixNano zero_time then None else Some ti)"


section \<open>Retrying\<close>

definition Clamp :: "'a::linorder \<Rightarrow> 'a \<Rightarrow> 'a \<Rightarrow> 'a" where
  "Clamp val minVal maxVal = (if val < minVal then minVal else if val > maxVal then maxVal else val)"

text \<open>
  The loop of RetryDoTimes.  The function works on a state; the result is the last state and
  error and the seconds slept.
\<close>

function retry_loop :: "int \<Rightarrow> int \<Rightarrow> ('s \<Rightarrow> 's \<times> string option) \<Rightarrow> int \<Rightarrow> int \<Rightarrow> 's \<Rightarrow> 's \<times> string option \<times> int" where
  "retry_loop limit interval fn a slept s =
     (case fn s of
        (s1, err) \<Rightarrow>
          if err = None \<or> a \<ge> limit then (s1, err, slept)
          else retry_loop limit interval fn (a + 1) (slept + interval) s1)"
  by pat_completeness auto
termination by (relation "measure (\<lambda>(limit, _, _, a, _, _). nat (limit - a))") auto

declare retry_loop.simps [simp del]

definition RetryDoTimes :: "int \<Rightarrow> int \<Rightarrow> ('s \<Rightarrow> 's \<times> string option) \<Rightarrow> 's \<Rightarrow> 's \<times> string option \<times> int" where
  "RetryDoTimes n intervalSecond fn s =
     retry_loop (Clamp n 1 20) (Clamp intervalSecond 1 60) fn 1 0 s"

definition RetryDo :: "('s \<Rightarrow> 's \<times> string option) \<Rightarrow> int \<Rightarrow> 's \<Rightarrow> 's \<times> string option \<times> int" where
  "RetryDo fn intervalSecond s = RetryDoTimes 10 intervalSecond fn s"


section \<open>Round trips\<close>

lemma trim_quotes_quoted:
  "CHR 0x22 \<notin> set s \<Longrightarrow> trim_quotes (CHR 0x22 # s @ [CHR 0x22]) = s"
proof -
  assume q: "CHR 0x22 \<notin> set s"
  have keep: "dropWhile (\<lambda>c. c = CHR 0x22) u = u" if "CHR 0x22 \<notin> set u" for u
    using that by (cases u) auto
  show ?thesis
  proof (cases s)
    case (Cons c r)
    then have "dropWhile (\<lambda>c. c = CHR 0x22) (CHR 0x22 # s @ [CHR 0x22]) = s @ [CHR 0x22]" using q by auto
    then show ?thesis using keep [of "rev s"] q by (simp add: trim_quotes_def)
  qed (simp add: trim_quotes_def)
qed

text \<open>The characters of a printed time: none is a quote or white space, and there are more than four.\<close>

definition plain_char :: "char \<Rightarrow> bool" where
  "plain_char c \<longleftrightarrow> is_digit c \<or> c \<in> {CHR ''-'', CHR '':'', CHR ''T'', CHR ''Z'', CHR ''+''}"

lemma pad_plain: "list_all plain_char (pad w n)"
  using pad_digits [of w n] by (auto simp: list_all_iff plain_char_def)

lemma format_plain: "list_all plain_char (format_RFC3339 z t)"
proof -
  have "plain_char CHR ''-''" "plain_char CHR '':''" "plain_char CHR ''T''" "plain_char CHR ''Z''" "plain_char CHR ''+''"
    by (simp_all add: plain_char_def)
  then show ?thesis
    by (simp add: format_RFC3339_def format_date_def format_year_def format_zone_def pad_plain Let_def split: prod.split)
qed

lemma plain_not_space: "plain_char c \<Longrightarrow> \<not> is_space c" "plain_char c \<Longrightarrow> c \<noteq> CHR 0x22"
  by (auto simp: plain_char_def is_space_def is_digit_def)

lemma format_no_quote: "CHR 0x22 \<notin> set (format_RFC3339 z t)"
  using format_plain [of z t] plain_not_space(2) by (auto simp: list_all_iff)

lemma trim_space_plain: "list_all plain_char s \<Longrightarrow> trim_space s = s"
proof -
  assume p: "list_all plain_char s"
  have keep: "dropWhile is_space u = u" if "list_all plain_char u" for u
    using that plain_not_space(1) by (cases u) auto
  show ?thesis using keep [OF p] keep [of "rev s"] p by (simp add: trim_space_def)
qed

lemma format_not_null: "format_RFC3339 z t \<noteq> [] \<and> to_lower (format_RFC3339 z t) \<noteq> ''null''"
proof -
  have "CHR ''T'' \<in> set (format_RFC3339 z t)" by (simp add: format_RFC3339_def Let_def)
  then have "lower_char CHR ''T'' \<in> set (to_lower (format_RFC3339 z t))" by (simp add: to_lower_def)
  moreover have "lower_char CHR ''T'' = CHR ''t''" by code_simp
  ultimately show ?thesis by (auto simp: to_lower_def)
qed

text \<open>The times RFC3339 can print: the local year has four digits, the zone full minutes.\<close>

definition printable :: "int \<Rightarrow> gotime \<Rightarrow> bool" where
  "printable z t \<longleftrightarrow>
     z mod 60 = 0 \<and> \<bar>z\<bar> < 86400 \<and> 0 \<le> fst (date_of (local_day z t)) \<and> fst (date_of (local_day z t)) \<le> 9999"

lemma parse_printed:
  assumes "printable z t"
  shows "parseInlocation2jsonTime gen (format_RFC3339 z t) = t\<lparr>t_nsec := 0\<rparr>"
proof -
  obtain y m d where "date_of (local_day z t) = (y, m, d)" by (cases "date_of (local_day z t)")
  with assms have "parse_RFC3339 (format_RFC3339 z t) = Some (t\<lparr>t_nsec := 0\<rparr>)"
    using parse_format_RFC3339 by (simp add: printable_def)
  then show ?thesis
    using format_not_null [of z t]
    by (simp add: parseInlocation2jsonTime_def trim_space_plain [OF format_plain] time_Parse_def Let_def)
qed


text \<open>UnixNano of a time is that of the zero time after every 2^64 nanoseconds.\<close>

lemma UnixNano_zero:
  "UnixNano t = UnixNano zero_time \<longleftrightarrow> (t_sec t * 10 ^ 9 + int (t_nsec t)) mod 2 ^ 64 = 0"
proof -
  define n where "n = t_sec t * 10 ^ 9 + int (t_nsec t)"
  have "UnixNano t = word_of_int (n - 62135596800 * 10 ^ 9)"
    unfolding UnixNano_def n_def by (rule arg_cong [where f = word_of_int]) simp
  moreover have "UnixNano zero_time = word_of_int (0 - 62135596800 * 10 ^ 9)" by (simp add: UnixNano_def zero_time_def)
  ultimately have "UnixNano t = UnixNano zero_time \<longleftrightarrow> (word_of_int n :: 64 word) = 0" by simp
  also have "\<dots> \<longleftrightarrow> n mod 2 ^ 64 = 0" by (simp add: word_of_int_eq_0_iff mod_eq_0_iff_dvd)
  finally show ?thesis by (simp add: n_def)
qed


section \<open>Retries\<close>

text \<open>The k-th call of a function that keeps its state between calls.\<close>

fun nth_call :: "('s \<Rightarrow> 's \<times> 'r) \<Rightarrow> 's \<Rightarrow> nat \<Rightarrow> 's \<times> 'r" where
  "nth_call fn s 0 = fn s"
| "nth_call fn s (Suc k) = nth_call fn (fst (fn s)) k"

lemma retry_loop_calls:
  assumes "a \<le> limit"
  shows "\<exists>j. int j \<le> limit - a
    \<and> retry_loop limit interval fn a slept s
        = (fst (nth_call fn s j), snd (nth_call fn s j), slept + interval * int j)
    \<and> (\<forall>k < j. snd (nth_call fn s k) \<noteq> None)
    \<and> (snd (nth_call fn s j) = None \<or> int j = limit - a)"
  using assms
proof (induction limit interval fn a slept s rule: retry_loop.induct)
  case (1 limit interval fn a slept s)
  obtain s1 err where f: "fn s = (s1, err)" by (cases "fn s")
  show ?case
  proof (cases "err = None \<or> a \<ge> limit")
    case True
    with 1(2) f show ?thesis by (intro exI [of _ 0]) (auto simp: retry_loop.simps)
  next
    case False
    from 1(1) [OF f [symmetric] False] False obtain j where j: "int j \<le> limit - (a + 1)"
      "retry_loop limit interval fn (a + 1) (slept + interval) s1
        = (fst (nth_call fn s1 j), snd (nth_call fn s1 j), slept + interval + interval * int j)"
      "\<forall>k < j. snd (nth_call fn s1 k) \<noteq> None"
      "snd (nth_call fn s1 j) = None \<or> int j = limit - (a + 1)" by auto
    have "snd (nth_call fn s k) \<noteq> None" if "k < Suc j" for k
      using that j(3) f False by (cases k) auto
    moreover have "retry_loop limit interval fn a slept s = retry_loop limit interval fn (a + 1) (slept + interval) s1"
      using f False by (auto simp: retry_loop.simps [of limit interval fn a])
    ultimately show ?thesis
      using j(1,2,4) f by (intro exI [of _ "Suc j"]) (simp add: distrib_left; arith)
  qed
qed

end
