(* ===== verification/Gin_Handler.thy ===== *)
theory Gin_Handler
  imports Json_Value
begin

text \<open>
  src/g2gin/gin-handler.go: GinHandler turns a Go function into a gin handler; its parameters
  are bound from the request and its results become one JSON response.  Types are what package
  reflect says of them; ShouldBind of gin is a parameter that works on the request (reading the
  body changes it).  Variadic functions are left out.
\<close>

datatype gkind = KPtr | KStruct | KMap | KSlice | KOther

record gin_type =
  gt_name :: string
  gt_kind :: gkind
  gt_is_gin_context :: bool
  gt_implements_error :: bool

text \<open>
  A result: whether it is the zero value, its message when it is an error, and its JSON form
  (None for a nil interface, which JSONResponse omits).
\<close>

record gin_res =
  gr_is_zero :: bool
  gr_error :: "string option"
  gr_json :: "json option"

datatype 'b gin_arg = Arg_context | Arg_pointer 'b | Arg_value 'b

text \<open>A Go value given to GinHandler: no function, or one with its type and its behaviour.\<close>

record ('b, 'r) gin_fn =
  gf_is_func :: bool
  gf_ins :: "gin_type list"
  gf_outs :: "gin_type list"
  gf_call :: "'b gin_arg list \<Rightarrow> 'r \<Rightarrow> 'r \<times> gin_res list outcome"

record 'r gin_context =
  gc_request :: 'r
  gc_errors :: "string list"
  gc_responses :: "(int \<times> json) list"

datatype gin_val = Val_nil | Val_OK | Val_res gin_res

section \<open>Operations\<close>

text \<open>The loop over the parameters: kinds without a case contribute no argument.\<close>

fun bind_params ::
  "(gin_type \<Rightarrow> 'r \<Rightarrow> 'r \<times> (string + 'b)) \<Rightarrow> gin_type list \<Rightarrow> 'b gin_arg list \<Rightarrow> 'r \<Rightarrow> 'r \<times> (string + 'b gin_arg list)" where
  "bind_params bind [] args r = (r, Inr args)"
| "bind_params bind (t # ts) args r =
     (if gt_is_gin_context t then bind_params bind ts (args @ [Arg_context]) r
      else if gt_kind t = KPtr then
        (case bind t r of
           (r1, Inl e) \<Rightarrow> (r1, Inl e)
         | (r1, Inr v) \<Rightarrow> bind_params bind ts (args @ [Arg_pointer v]) r1)
      else if gt_kind t \<in> {KStruct, KMap, KSlice} then
        (case bind t r of
           (r1, Inl e) \<Rightarrow> (r1, Inl e)
         | (r1, Inr v) \<Rightarrow> bind_params bind ts (args @ [Arg_value v]) r1)
      else bind_params bind ts args r)"

definition gin_value2err :: "gin_type \<Rightarrow> gin_res \<Rightarrow> string option" where
  "gin_value2err t v =
     (if \<not> gt_implements_error t then None
      else if gr_is_zero v then None
      else gr_error v)"

text \<open>reflect's Call panics unless there is an argument for every parameter.\<close>

definition reflect_Call :: "('b, 'r) gin_fn \<Rightarrow> 'b gin_arg list \<Rightarrow> 'r \<Rightarrow> 'r \<times> gin_res list outcome" where
  "reflect_Call fn args r =
     (if length args < length (gf_ins fn) then (r, Panics ''reflect: Call with too few input arguments'')
      else gf_call fn args r)"

definition parseArgumentFromContext ::
  "(gin_type \<Rightarrow> 'r \<Rightarrow> 'r \<times> (string + 'b)) \<Rightarrow> ('b, 'r) gin_fn \<Rightarrow> 'r \<Rightarrow> 'r \<times> (string + gin_val) outcome" where
  "parseArgumentFromContext bind fn r =
     (if \<not> gf_is_func fn then (r, Returns (Inl ''need func type''))
      else if length (gf_ins fn) > 2 then (r, Returns (Inl ''too many arguments, want at most 2''))
      else case bind_params bind (gf_ins fn) [] r of
        (r1, Inl e) \<Rightarrow> (r1, Returns (Inl e))
      | (r1, Inr args) \<Rightarrow>
          (case reflect_Call fn args r1 of
             (r2, Panics p) \<Rightarrow> (r2, Panics p)
           | (r2, Returns results) \<Rightarrow>
               (r2, Returns
                  (case results of
                     [v0] \<Rightarrow>
                       if gt_implements_error (gf_outs fn ! 0)
                       then (case gin_value2err (gf_outs fn ! 0) v0 of Some e \<Rightarrow> Inl e | None \<Rightarrow> Inr Val_OK)
                       else Inr (Val_res v0)
                   | [v0, v1] \<Rightarrow>
                       (case gin_value2err (gf_outs fn ! 1) v1 of Some e \<Rightarrow> Inl e | None \<Rightarrow> Inr (Val_res v0))
                   | _ \<Rightarrow> Inr Val_OK))))"

text \<open>JSONResponse with its omitempty members, and JSONP, which writes it with the code as status.\<close>

definition JSONResponse :: "int \<Rightarrow> string \<Rightarrow> json option \<Rightarrow> json" where
  "JSONResponse code msg data =
     JObj ([(''code'', JNum (show_int code))]
       @ (if msg = [] then [] else [(''msg'', JStr msg)])
       @ (case data of None \<Rightarrow> [] | Some d \<Rightarrow> [(''data'', d)]))"

definition add_response :: "int \<Rightarrow> json \<Rightarrow> 'r gin_context \<Rightarrow> 'r gin_context" where
  "add_response code j c = c\<lparr>gc_responses := gc_responses c @ [(code, j)]\<rparr>"

fun val_json :: "gin_val \<Rightarrow> json option" where
  "val_json Val_nil = None"
| "val_json Val_OK = Some (JStr ''OK'')"
| "val_json (Val_res v) = gr_json v"

text \<open>The first value is the message for every code but 200 (cast.ToString of a string is itself).\<close>

definition JSONP_body :: "int \<Rightarrow> string + gin_val \<Rightarrow> json" where
  "JSONP_body code val =
     (if code \<noteq> 200
      then JSONResponse code (case val of Inl s \<Rightarrow> s | Inr _ \<Rightarrow> []) None
      else JSONResponse code [] (case val of Inl s \<Rightarrow> Some (JStr s) | Inr v \<Rightarrow> val_json v))"

definition JSONP :: "int \<Rightarrow> string + gin_val \<Rightarrow> 'r gin_context \<Rightarrow> 'r gin_context" where
  "JSONP code val c = add_response code (JSONP_body code val) c"

definition GinHandler ::
  "(gin_type \<Rightarrow> 'r \<Rightarrow> 'r \<times> (string + 'b)) \<Rightarrow> ('b, 'r) gin_fn \<Rightarrow> 'r gin_context \<Rightarrow> 'r gin_context \<times> unit outcome" where
  "GinHandler bind fn c =
     (case parseArgumentFromContext bind fn (gc_request c) of
        (r, Panics p) \<Rightarrow> (c\<lparr>gc_request := r\<rparr>, Panics p)
      | (r, Returns (Inl err)) \<Rightarrow>
          let c1 = c\<lparr>gc_request := r, gc_errors := gc_errors c @ [err]\<rparr>
          in (JSONP 400 (Inl err) c1, Returns ())
      | (r, Returns (Inr val)) \<Rightarrow> (JSONP 200 (Inr val) (c\<lparr>gc_request := r\<rparr>), Returns ()))"


section \<open>Arguments\<close>

definition bindable :: "gin_type \<Rightarrow> bool" where
  "bindable t \<longleftrightarrow> gt_is_gin_context t \<or> gt_kind t \<noteq> KOther"

lemma bind_params_length:
  "bind_params bind ts args r = (r1, Inr args1) \<Longrightarrow> length args1 = length args + length (filter bindable ts)"
proof (induction bind ts args r rule: bind_params.induct)
  case (2 bind t ts args r)
  then show ?case
    by (cases "gt_kind t"; cases "gt_is_gin_context t")
       (auto simp: bindable_def split: prod.splits sum.splits)
qed simp

text \<open>What the arguments are: the context where it is asked for, bound values elsewhere.\<close>

fun fits :: "gin_type \<Rightarrow> 'b gin_arg \<Rightarrow> bool" where
  "fits t Arg_context = gt_is_gin_context t"
| "fits t (Arg_pointer v) = (\<not> gt_is_gin_context t \<and> gt_kind t = KPtr)"
| "fits t (Arg_value v) = (\<not> gt_is_gin_context t \<and> gt_kind t \<in> {KStruct, KMap, KSlice})"

lemma bind_params_fits:
  "bind_params bind ts args r = (r1, Inr args1) \<Longrightarrow>
     \<exists>new. args1 = args @ new \<and> list_all2 fits (filter bindable ts) new"
proof (induction bind ts args r rule: bind_params.induct)
  case (2 bind t ts args r)
  consider (ctx) "gt_is_gin_context t" | (ptr) "\<not> gt_is_gin_context t" "gt_kind t = KPtr"
    | (val) "\<not> gt_is_gin_context t" "gt_kind t \<in> {KStruct, KMap, KSlice}"
    | (none) "\<not> gt_is_gin_context t" "gt_kind t = KOther" by (cases "gt_kind t") auto
  then show ?case
  proof cases
    case ctx
    with 2 obtain new where "args1 = (args @ [Arg_context]) @ new" "list_all2 fits (filter bindable ts) new" by auto
    moreover have "bindable t" using ctx by (simp add: bindable_def)
    ultimately show ?thesis using ctx by (intro exI [of _ "Arg_context # new"]) simp
  next
    case ptr
    with 2(5) obtain r2 v where b: "bind t r = (r2, Inr v)" "bind_params bind ts (args @ [Arg_pointer v]) r2 = (r1, Inr args1)"
      by (auto split: prod.splits sum.splits)
    with 2(2) ptr obtain new where "args1 = (args @ [Arg_pointer v]) @ new" "list_all2 fits (filter bindable ts) new" by fastforce
    moreover have "bindable t" using ptr by (simp add: bindable_def)
    ultimately show ?thesis using ptr by (intro exI [of _ "Arg_pointer v # new"]) simp
  next
    case val
    then have k: "gt_kind t \<noteq> KPtr" by auto
    with val 2(5) obtain r2 v where b: "bind t r = (r2, Inr v)" "bind_params bind ts (args @ [Arg_value v]) r2 = (r1, Inr args1)"
      by (auto split: prod.splits sum.splits)
    with 2(3) val k obtain new where "args1 = (args @ [Arg_value v]) @ new" "list_all2 fits (filter bindable ts) new" by fastforce
    moreover have "bindable t" using val by (auto simp: bindable_def)
    ultimately show ?thesis using val by (intro exI [of _ "Arg_value v # new"]) simp
  next
    case none
    then have "\<not> bindable t" by (simp add: bindable_def)
    with none 2(4,5) show ?thesis by simp
  qed
qed simp

text \<open>The error the results report, and the value to send.\<close>

definition result_error :: "gin_type list \<Rightarrow> gin_res list \<Rightarrow> string option" where
  "result_error outs results =
     (case results of
        [v0] \<Rightarrow> gin_value2err (outs ! 0) v0
      | [v0, v1] \<Rightarrow> gin_value2err (outs ! 1) v1
      | _ \<Rightarrow> None)"

definition result_value :: "gin_type list \<Rightarrow> gin_res list \<Rightarrow> gin_val" where
  "result_value outs results =
     (case results of
        [v0] \<Rightarrow> if gt_implements_error (outs ! 0) then Val_OK else Val_res v0
      | [v0, v1] \<Rightarrow> Val_res v0
      | _ \<Rightarrow> Val_OK)"

lemma parseArgument_called:
  assumes "gf_is_func fn" "length (gf_ins fn) \<le> 2" "bind_params bind (gf_ins fn) [] r = (r1, Inr args)"
    "list_all bindable (gf_ins fn)" "gf_call fn args r1 = (r2, Returns results)"
  shows "parseArgumentFromContext bind fn r
    = (r2, Returns (case result_error (gf_outs fn) results of Some e \<Rightarrow> Inl e | None \<Rightarrow> Inr (result_value (gf_outs fn) results)))"
proof -
  have "filter bindable (gf_ins fn) = gf_ins fn" using assms(4) by (simp add: filter_id_conv list_all_iff)
  then have "length args = length (gf_ins fn)" using bind_params_length [OF assms(3)] by simp
  moreover have "gin_value2err t v = None" if "\<not> gt_implements_error t" for t v using that by (simp add: gin_value2err_def)
  ultimately show ?thesis
    using assms
    by (auto simp: parseArgumentFromContext_def reflect_Call_def result_error_def result_value_def
        split: list.splits option.splits)
qed

end
