(* ===== verification/Proc_Cmd.thy ===== *)
theory Proc_Cmd
  imports Log_File
begin

text \<open>
  Process control: src/g2util/exec.go and the commands start, stop and restart of src/g2cmd/.
  The process table is what ps prints, a line and the pid in it for each process; the shell
  pipeline greps its lines and prints the pids (names are taken without metacharacters of grep
  and of the shell).  What a command does is recorded as events.
\<close>

section \<open>Finding and killing processes\<close>

record ps_line =
  ps_pid :: nat
  ps_text :: string

definition newline :: char where "newline = CHR 0x0A"

text \<open>ps -ef | grep -v grep | grep name | awk: the pids, a line each.\<close>

definition ps_matches :: "string \<Rightarrow> ps_line \<Rightarrow> bool" where
  "ps_matches name p \<longleftrightarrow> \<not> contains (ps_text p) ''grep'' \<and> contains (ps_text p) name"

definition ps_output :: "string \<Rightarrow> ps_line list \<Rightarrow> string" where
  "ps_output name ps = concat (map (\<lambda>p. show_nat (ps_pid p) @ [newline]) (filter (ps_matches name) ps))"

definition FindPidSliceByProcessName :: "string \<Rightarrow> ps_line list \<Rightarrow> string list" where
  "FindPidSliceByProcessName name ps = go_split newline (trim_space (ps_output name ps))"

definition ProcessIsRunning :: "string \<Rightarrow> ps_line list \<Rightarrow> bool" where
  "ProcessIsRunning name ps =
     (let l = FindPidSliceByProcessName name ps in length l > 0 \<and> length (l ! 0) > 0)"

text \<open>KillProcess looks twice; the kill commands it runs are returned.\<close>

definition KillProcess :: "string \<Rightarrow> ps_line list \<Rightarrow> ps_line list \<Rightarrow> string list \<times> string option" where
  "KillProcess name ps1 ps2 =
     (if \<not> ProcessIsRunning name ps1 then ([], Some (''process['' @ name @ ''] is not running''))
      else (map (\<lambda>pid. ''kill '' @ pid) (FindPidSliceByProcessName name ps2), None))"


section \<open>The commands\<close>

datatype cmd_event =
    Pid_printed | Worker_run | Already_running | Output_truncated | Command_started string
  | Started_ok | Stop_waiting | Command_run string | Stop_error string | Stopped_ok

definition binaryName :: "string \<Rightarrow> string \<Rightarrow> string" where
  "binaryName rootPath arg0 = path_join rootPath (path_base arg0)"

definition daemon_name :: "string \<Rightarrow> string" where
  "daemon_name binary = path_base binary @ '' -s start''"

text \<open>startCmd.Run; \<^verbatim>\<open>worker\<close> says whether a worker is set.\<close>

definition start_Run :: "bool \<Rightarrow> bool \<Rightarrow> string \<Rightarrow> ps_line list \<Rightarrow> cmd_event list" where
  "start_Run daemon worker binary ps =
     (if \<not> daemon then Pid_printed # (if worker then [Worker_run] else [])
      else if ProcessIsRunning (daemon_name binary) ps then [Already_running]
      else [Output_truncated, Command_started (binary @ '' -s start''), Started_ok])"

text \<open>The polling of stopCmd.Run, every 500 ms; None while the process still runs.\<close>

fun stop_poll :: "string \<Rightarrow> ps_line list list \<Rightarrow> cmd_event list option" where
  "stop_poll name [] = None"
| "stop_poll name (ps # polls) =
     (if \<not> ProcessIsRunning name ps then Some [Stopped_ok] else stop_poll name polls)"

definition stop_Run :: "string \<Rightarrow> ps_line list \<Rightarrow> ps_line list \<Rightarrow> ps_line list list \<Rightarrow> cmd_event list option" where
  "stop_Run binary ps1 ps2 polls =
     (case KillProcess (daemon_name binary) ps1 ps2 of
        (cmds, Some err) \<Rightarrow> Some [Stop_waiting, Stop_error err]
      | (cmds, None) \<Rightarrow>
          map_option (\<lambda>es. Stop_waiting # map Command_run cmds @ es) (stop_poll (daemon_name binary) polls))"

text \<open>restartCmd.Run runs the program itself twice, the errors ignored.\<close>

definition restart_Run :: "string \<Rightarrow> string list" where
  "restart_Run binary = [binary @ '' stop'', binary @ '' start -d'']"

text \<open>
  restart with its two child programs: stop must return before start begins; \<^verbatim>\<open>ps3\<close> is the
  table start finds.
\<close>

definition restart_effect ::
  "string \<Rightarrow> ps_line list \<Rightarrow> ps_line list \<Rightarrow> ps_line list list \<Rightarrow> ps_line list \<Rightarrow> cmd_event list option" where
  "restart_effect binary ps1 ps2 polls ps3 =
     map_option (\<lambda>es. es @ start_Run True True binary ps3) (stop_Run binary ps1 ps2 polls)"


section \<open>The pids found\<close>

lemma digit_not_space: "is_digit c \<Longrightarrow> \<not> is_space c" "is_digit c \<Longrightarrow> c \<noteq> newline"
  by (auto simp: is_digit_def is_space_def newline_def)

lemma show_nat_no_newline: "newline \<notin> set (show_nat n)"
  using show_nat_digits [of n] digit_not_space(2) by (auto simp: list_all_iff)

lemma newline_space: "is_space newline"
  by (simp add: newline_def is_space_def)

lemma concat_pids:
  "ns \<noteq> [] \<Longrightarrow> concat (map (\<lambda>n. show_nat n @ [newline]) ns) = go_join (map show_nat ns) [newline] @ [newline]"
proof (induction ns)
  case (Cons n ns)
  then show ?case by (cases ns) auto
qed simp

lemma trim_pids:
  assumes "ns \<noteq> []"
  shows "trim_space (concat (map (\<lambda>n. show_nat n @ [newline]) ns)) = go_join (map show_nat ns) [newline]"
proof -
  let ?j = "go_join (map show_nat ns) [newline]"
  obtain n ms where ns: "ns = n # ms" using assms by (cases ns) auto
  have hd: "\<exists>c r. ?j = c # r \<and> is_digit c"
    using hd_show_nat [of n] by (cases "show_nat n"; cases ms) (auto simp: ns)
  have lst: "\<exists>c r. ?j = r @ [c] \<and> is_digit c"
    using assms
  proof (induction ns)
    case (Cons m ks)
    have "\<exists>c r. show_nat m = r @ [c] \<and> is_digit c"
      using show_nat_digits [of m] by (cases "show_nat m" rule: rev_cases) auto
    then show ?case using Cons.IH by (cases ks) (auto simp: append_assoc [symmetric] simp del: append_assoc)
  qed simp
  from hd have "dropWhile is_space (?j @ [newline]) = ?j @ [newline]" using digit_not_space(1) by auto
  moreover from lst have "dropWhile is_space (rev ?j) = rev ?j" using digit_not_space(1) by auto
  ultimately show ?thesis
    unfolding concat_pids [OF assms] trim_space_def using newline_space by simp
qed

lemma ps_output_map: "ps_output name ps = concat (map (\<lambda>n. show_nat n @ [newline]) (map ps_pid (filter (ps_matches name) ps)))"
  by (simp add: ps_output_def comp_def)

lemma FindPid_map:
  "FindPidSliceByProcessName name ps =
     (if filter (ps_matches name) ps = [] then [[]] else map (\<lambda>p. show_nat (ps_pid p)) (filter (ps_matches name) ps))"
proof (cases "filter (ps_matches name) ps = []")
  case True
  then show ?thesis by (simp add: FindPidSliceByProcessName_def ps_output_def trim_space_def)
next
  case False
  let ?ns = "map ps_pid (filter (ps_matches name) ps)"
  have "FindPidSliceByProcessName name ps = go_split newline (go_join (map show_nat ?ns) [newline])"
    using False unfolding FindPidSliceByProcessName_def ps_output_map by (subst trim_pids) auto
  also have "\<dots> = map show_nat ?ns"
    using False show_nat_no_newline by (subst go_split_go_join) (auto simp: list_all_iff)
  finally show ?thesis using False by (simp add: comp_def)
qed

lemma ProcessIsRunning_iff: "ProcessIsRunning name ps \<longleftrightarrow> (\<exists>p \<in> set ps. ps_matches name p)"
proof (cases "filter (ps_matches name) ps")
  case Nil
  then have "\<not> (\<exists>p \<in> set ps. ps_matches name p)" by (auto simp: filter_empty_conv)
  then show ?thesis using Nil by (simp add: ProcessIsRunning_def FindPid_map)
next
  case (Cons p qs)
  then have "p \<in> set ps \<and> ps_matches name p" by (metis (no_types, lifting) filter_eq_ConsD in_set_conv_decomp)
  then show ?thesis using Cons by (auto simp: ProcessIsRunning_def FindPid_map)
qed

lemma stop_poll_iff:
  "stop_poll name polls = (if \<exists>ps \<in> set polls. \<not> ProcessIsRunning name ps then Some [Stopped_ok] else None)"
  by (induction polls) auto

end
