(* ===== verification/Emq.thy ===== *)
theory Emq
  imports Prelude "HOL-Library.Sublist"
begin

text \<open>
  The MQTT client of src/g2emq/emq.go: the bounded queue PublishC fills and the one worker that
  publishes.  Topics get the application's prefix.  What the broker answers to a publication is
  part of the step; JSONDump of a payload is a parameter.  A full queue that gets a place within
  the 100 ms PublishC waits is a work step before the call.
\<close>

datatype 'j payload = Bytes string | Text string | Value 'j

datatype token_answer = Acknowledged | Refused string | Timed_out

datatype emq_line = Publish_failed string string | Publish_timeout string

record 'j emq =
  eq_prefix :: string
  eq_queue :: "(string \<times> 'j payload) list"
  eq_sent :: "(string \<times> string) list"
  eq_lines :: "emq_line list"

definition ErrTokenTimeout :: string where "ErrTokenTimeout = ''token timeout''"

definition pubC_size :: nat where "pubC_size = 1000"

definition emq_prefix :: "string \<Rightarrow> string" where
  "emq_prefix name = name @ ''/''"

definition emq_dialled :: "string \<Rightarrow> 'j emq" where
  "emq_dialled name = \<lparr>eq_prefix = emq_prefix name, eq_queue = [], eq_sent = [], eq_lines = []\<rparr>"

fun payload_bytes :: "('j \<Rightarrow> string) \<Rightarrow> 'j payload \<Rightarrow> string" where
  "payload_bytes dump (Bytes v) = v"
| "payload_bytes dump (Text v) = v"
| "payload_bytes dump (Value v) = dump v"

fun token_error :: "token_answer \<Rightarrow> string option" where
  "token_error Acknowledged = None"
| "token_error (Refused e) = Some e"
| "token_error Timed_out = Some ErrTokenTimeout"

definition Publish :: "('j \<Rightarrow> string) \<Rightarrow> token_answer \<Rightarrow> string \<Rightarrow> 'j payload \<Rightarrow> 'j emq \<Rightarrow> 'j emq \<times> string option" where
  "Publish dump ans topic payload e =
     (e\<lparr>eq_sent := eq_sent e @ [(eq_prefix e @ topic, payload_bytes dump payload)]\<rparr>, token_error ans)"

definition emq_Subscribe :: "'j emq \<Rightarrow> token_answer \<Rightarrow> string \<Rightarrow> string \<times> string option" where
  "emq_Subscribe e ans topic = (eq_prefix e @ topic, token_error ans)"

definition PublishC :: "string \<Rightarrow> 'j payload \<Rightarrow> 'j emq \<Rightarrow> 'j emq" where
  "PublishC topic payload e =
     (if length (eq_queue e) < pubC_size then e\<lparr>eq_queue := eq_queue e @ [(topic, payload)]\<rparr>
      else e\<lparr>eq_lines := eq_lines e @ [Publish_timeout topic]\<rparr>)"

text \<open>One round of the worker started by Start: it waits while the queue is empty.\<close>

definition emq_work :: "('j \<Rightarrow> string) \<Rightarrow> token_answer \<Rightarrow> 'j emq \<Rightarrow> 'j emq" where
  "emq_work dump ans e =
     (case eq_queue e of
        [] \<Rightarrow> e
      | (topic, payload) # q \<Rightarrow>
          (case Publish dump ans topic payload (e\<lparr>eq_queue := q\<rparr>) of
             (e1, None) \<Rightarrow> e1
           | (e1, Some err) \<Rightarrow> e1\<lparr>eq_lines := eq_lines e1 @ [Publish_failed topic err]\<rparr>))"

datatype 'j emq_event = Ev_publish string "'j payload" | Ev_work token_answer

fun emq_step :: "('j \<Rightarrow> string) \<Rightarrow> 'j emq_event \<Rightarrow> 'j emq \<Rightarrow> 'j emq" where
  "emq_step dump (Ev_publish t p) e = PublishC t p e"
| "emq_step dump (Ev_work ans) e = emq_work dump ans e"

definition emq_run :: "('j \<Rightarrow> string) \<Rightarrow> 'j emq_event list \<Rightarrow> 'j emq \<Rightarrow> 'j emq" where
  "emq_run dump evs e = fold (emq_step dump) evs e"


section \<open>The queue as a specification\<close>

text \<open>
  The abstract view: what was accepted, in order, of which a prefix has been sent, and the calls
  that were dropped.
\<close>

type_synonym 'j emq_spec = "(string \<times> 'j payload) list \<times> nat \<times> string list"

text \<open>Acceptance depends only on how many accepted calls are not sent yet.\<close>

fun spec_step :: "'j emq_event \<Rightarrow> 'j emq_spec \<Rightarrow> 'j emq_spec" where
  "spec_step (Ev_publish t p) (acc, sent, dropped) =
     (if length acc - sent < 1000 then (acc @ [(t, p)], sent, dropped) else (acc, sent, dropped @ [t]))"
| "spec_step (Ev_work ans) (acc, sent, dropped) = (acc, if sent < length acc then Suc sent else sent, dropped)"

definition timeouts :: "emq_line list \<Rightarrow> string list" where
  "timeouts ls = concat (map (\<lambda>l. case l of Publish_timeout t \<Rightarrow> [t] | _ \<Rightarrow> []) ls)"

text \<open>The relation of the client to the specification.\<close>

definition emq_rel :: "('j \<Rightarrow> string) \<Rightarrow> string \<Rightarrow> 'j emq \<Rightarrow> 'j emq_spec \<Rightarrow> bool" where
  "emq_rel dump name e s \<longleftrightarrow>
     (case s of (acc, sent, dropped) \<Rightarrow>
        eq_prefix e = emq_prefix name \<and> sent \<le> length acc \<and> eq_queue e = drop sent acc
        \<and> eq_sent e = map (\<lambda>(t, p). (emq_prefix name @ t, payload_bytes dump p)) (take sent acc)
        \<and> timeouts (eq_lines e) = dropped \<and> length (eq_queue e) \<le> pubC_size)"

lemma timeouts_append [simp]: "timeouts (a @ b) = timeouts a @ timeouts b" "timeouts [] = []"
  "timeouts [Publish_timeout t] = [t]" "timeouts [Publish_failed t err] = []"
  by (simp_all add: timeouts_def)

lemma emq_step_refines:
  assumes "emq_rel dump name e s"
  shows "emq_rel dump name (emq_step dump ev e) (spec_step ev s)"
proof -
  obtain acc sent dropped where s: "s = (acc, sent, dropped)" by (cases s) auto
  note r = assms [unfolded emq_rel_def s prod.case]
  show ?thesis
  proof (cases ev)
    case (Ev_publish t p)
    then show ?thesis using r s by (auto simp: emq_rel_def PublishC_def pubC_size_def)
  next
    case (Ev_work ans)
    show ?thesis
    proof (cases "sent < length acc")
      case True
      obtain t p where tp: "acc ! sent = (t, p)" by (cases "acc ! sent")
      have q: "drop sent acc = (t, p) # drop (Suc sent) acc" using True tp by (metis Cons_nth_drop_Suc)
      have "take (Suc sent) acc = take sent acc @ [(t, p)]" using True tp by (simp add: take_Suc_conv_app_nth)
      then show ?thesis
        using r s q True Ev_work
        by (auto simp: emq_rel_def emq_work_def Publish_def split: option.split)
    next
      case False
      then show ?thesis using r s Ev_work by (simp add: emq_rel_def emq_work_def)
    qed
  qed
qed

lemma emq_run_refines:
  "emq_rel dump name e s \<Longrightarrow> emq_rel dump name (emq_run dump evs e) (fold spec_step evs s)"
proof (induction evs arbitrary: e s)
  case (Cons ev evs)
  from Cons.IH [OF emq_step_refines [OF Cons.prems]] show ?case by (simp add: emq_run_def)
qed (simp add: emq_run_def)

lemma emq_initial: "emq_rel dump name (emq_dialled name) ([], 0, [])"
  by (simp add: emq_rel_def emq_dialled_def)

end
