(* ===== verification/Crypto.thy ===== *)
theory Crypto
  imports Decimal
begin

text \<open>
  src/g2util/crypto.go: the key of a Crypto, and passwords stored in a reversible form.  The AES
  functions of goutil are the parameters \<^verbatim>\<open>enc key text\<close> (hexadecimal text in lower case) and
  \<^verbatim>\<open>dec key text\<close>.
\<close>

definition crypt_key_text :: string where "crypt_key_text = ''3f756b58-1656-11ec-879b-3c7d0a0ab31b''"

definition crypto_Key :: "string \<Rightarrow> string" where
  "crypto_Key k = trim_space (replace_all k ''-'' [])"

definition CryptKey :: string where
  "CryptKey = trim_space (replace_all crypt_key_text ''-'' [])"

text \<open>Encrypt and Decrypt.\<close>

definition crypto_Encrypt :: "(string \<Rightarrow> string \<Rightarrow> string) \<Rightarrow> string \<Rightarrow> string \<Rightarrow> string" where
  "crypto_Encrypt enc k val = enc (crypto_Key k) val"

definition crypto_Decrypt :: "(string \<Rightarrow> string \<Rightarrow> string + string) \<Rightarrow> string \<Rightarrow> string \<Rightarrow> string + string" where
  "crypto_Decrypt dec k ciphertext = (case dec (crypto_Key k) ciphertext of Inl e \<Rightarrow> Inl e | Inr v \<Rightarrow> Inr v)"

definition EncryptPassword :: "(string \<Rightarrow> string \<Rightarrow> string) \<Rightarrow> string \<Rightarrow> string" where
  "EncryptPassword enc p = to_upper (crypto_Encrypt enc (take 16 CryptKey) p)"

definition DecryptPassword :: "(string \<Rightarrow> string \<Rightarrow> string + string) \<Rightarrow> string \<Rightarrow> string + string" where
  "DecryptPassword dec p = crypto_Decrypt dec (take 16 CryptKey) (to_lower p)"

definition ErrPassword :: string where "ErrPassword = ''password error''"

definition CheckPassword :: "(string \<Rightarrow> string \<Rightarrow> string + string) \<Rightarrow> string \<Rightarrow> string \<Rightarrow> string option" where
  "CheckPassword dec p c =
     (case DecryptPassword dec c of
        Inl err \<Rightarrow> Some err
      | Inr s \<Rightarrow> if s \<noteq> p then Some ErrPassword else None)"

text \<open>The documented behaviour of the AES functions.\<close>

definition aes_laws :: "(string \<Rightarrow> string \<Rightarrow> string) \<Rightarrow> (string \<Rightarrow> string \<Rightarrow> string + string) \<Rightarrow> bool" where
  "aes_laws enc dec \<longleftrightarrow>
     (\<forall>k p. dec k (enc k p) = Inr p \<and> list_all (\<lambda>c. \<not> is_upper c) (enc k p))"

lemma decrypt_encrypted:
  assumes "aes_laws enc dec" "to_lower c = to_lower (EncryptPassword enc p)"
  shows "DecryptPassword dec c = Inr p"
proof -
  let ?k = "crypto_Key (take 16 CryptKey)"
  have laws: "dec ?k (enc ?k p) = Inr p" "list_all (\<lambda>c. \<not> is_upper c) (enc ?k p)"
    using assms(1) by (simp_all add: aes_laws_def)
  have "to_lower c = enc ?k p"
    using assms(2) to_lower_to_upper [OF laws(2)] by (simp add: EncryptPassword_def crypto_Encrypt_def)
  then show ?thesis by (simp add: DecryptPassword_def crypto_Decrypt_def laws(1))
qed

text \<open>A pair of functions with these laws: three digits for a character.\<close>

definition digits_enc :: "string \<Rightarrow> string \<Rightarrow> string" where
  "digits_enc k p = concat (map (\<lambda>c. pad 3 (of_char c)) p)"

function digits_loop :: "string \<Rightarrow> string \<Rightarrow> string + string" where
  "digits_loop acc s =
     (if s = [] then Inr acc
      else case take_num 3 0 255 s of
        None \<Rightarrow> Inl ''bad text''
      | Some (n, r) \<Rightarrow> digits_loop (acc @ [char_of n]) r)"
  by pat_completeness auto
termination
proof (relation "measure (\<lambda>(acc, s). length s)")
  fix acc s and x :: "nat \<times> string" and n :: nat and r :: string
  assume "s \<noteq> []" "take_num 3 0 255 s = Some x" "(n, r) = x"
  then show "((acc @ [char_of n], r), acc, s) \<in> measure (\<lambda>(acc, s). length s)"
    by (auto simp: take_num_def Let_def split: if_splits)
qed simp

declare digits_loop.simps [simp del]

definition digits_dec :: "string \<Rightarrow> string \<Rightarrow> string + string" where
  "digits_dec k s = digits_loop [] s"

lemma digits_loop_enc: "digits_loop acc (concat (map (\<lambda>c. pad 3 (of_char c)) p)) = Inr (acc @ p)"
proof (induction p arbitrary: acc)
  case (Cons c p)
  have b: "(of_char c :: nat) < 256" by simp
  have "take_num 3 0 255 (pad 3 (of_char c) @ r) = Some (of_char c, r)" for r
    using b by (intro take_num_pad) (auto simp del: of_char_lt)
  moreover have "pad 3 (of_char c) \<noteq> []" by (simp add: pad_def)
  ultimately show ?case
    using Cons.IH [of "acc @ [c]"] by (simp add: digits_loop.simps [of acc "pad 3 (of_char c) @ _"])
qed (simp add: digits_loop.simps)

lemma digits_laws: "aes_laws digits_enc digits_dec"
proof -
  have "\<not> is_upper c" if "is_digit c" for c using that by (simp add: is_digit_def is_upper_def)
  then have "list_all (\<lambda>c. \<not> is_upper c) (pad 3 n)" for n
    using pad_digits [of 3 n] by (auto simp: list_all_iff)
  then have "list_all (\<lambda>c. \<not> is_upper c) (digits_enc k p)" for k p
    by (induction p) (simp_all add: digits_enc_def)
  then show ?thesis by (simp add: aes_laws_def digits_dec_def digits_enc_def digits_loop_enc)
qed


text \<open>The CBC forms, and a new Crypto with its key.\<close>

definition crypto_EncryptCBC :: "(string \<Rightarrow> string \<Rightarrow> string) \<Rightarrow> string \<Rightarrow> string \<Rightarrow> string" where
  "crypto_EncryptCBC cbc_enc k val = cbc_enc (crypto_Key k) val"

definition crypto_DecryptCBC :: "(string \<Rightarrow> string \<Rightarrow> string + string) \<Rightarrow> string \<Rightarrow> string \<Rightarrow> string + string" where
  "crypto_DecryptCBC cbc_dec k ciphertext = (case cbc_dec (crypto_Key k) ciphertext of Inl e \<Rightarrow> Inl e | Inr v \<Rightarrow> Inr v)"

lemma CBC_roundtrip:
  "aes_laws cbc_enc cbc_dec \<Longrightarrow> crypto_DecryptCBC cbc_dec k (crypto_EncryptCBC cbc_enc k p) = Inr p"
  by (simp add: crypto_EncryptCBC_def crypto_DecryptCBC_def aes_laws_def)

end
