(* ===== verification/App_Properties.thy ===== *)
theory App_Properties
  imports App_Start App_Config Json_Time Gin_Handler Proc_Cmd Emq Crypto
begin

text \<open>
  The properties of the application as a whole (start and shutdown, configuration, process
  control) and of the parts around it: times, retries, gin handlers, the MQTT queue, passwords.
\<close>

section \<open>Start and shutdown\<close>

text \<open>
  C6. A start without errors serves exactly the configured addresses, and the signal that
  ends it shuts down in the right order: first every server, then the goroutine pool, the database
  and Redis in the order they were registered, and last the log files, so that everything the
  others log on their way down still reaches a log; each of them exactly once.
\<close>

theorem start_then_shutdown:
  fixes tables :: "'w table list"
  assumes "healthy env" "list_all (\<lambda>s. \<not> ends_loop s) ss" "s \<in> {SIGINT, SIGQUIT, SIGTERM}"
  shows "\<exists>a tail. RunDefault env tables (ss @ s # rest) Cmd_start (new_app :: 'w app) = (a, Goes_on)
    \<and> gr_events (ap_grace a) = map Listening (servers env) @ unknown_events ss
         @ server_events (ae_shutdown env) (servers env) @ tail
    \<and> notified tail = objects_of env [''Go'', ''Mysql'', ''Redis''] @ logs_of env [''sys'', ''redis'', ''sql'', ''web'']"
proof -
  obtain a :: "'w app" and g where r: "RunDefault env tables (ss @ s # rest) Cmd_start (new_app :: 'w app)
      = (a\<lparr>ap_grace := fst (StartSignal (ae_shutdown env) (ss @ s # rest) g)\<rparr>, Goes_on)"
    and g: "gr_srvList g = servers env" "gr_events g = map Listening (servers env)"
      "gr_processList g = objects_of env [''Go''] @ logs_of env [''sys'', ''redis'', ''sql'']
                           @ objects_of env [''Mysql'', ''Redis''] @ logs_of env [''web'']"
    using start_healthy [OF assms(1), of tables "ss @ s # rest"] by blast
  let ?tail = "processor_events (objects_of env [''Go'', ''Mysql'', ''Redis''])
    @ processor_events (logs_of env [''sys'', ''redis'', ''sql'', ''web''])"
  have "fst (StartSignal (ae_shutdown env) (ss @ s # rest) g) = shutdownAction (ae_shutdown env) (gr_add (unknown_events ss) g)"
    using assms(3) by (auto simp: StartSignal_prefix [OF assms(2)])
  moreover have "filter (\<lambda>p. \<not> pr_is_writer p) (gr_processList g) = objects_of env [''Go'', ''Mysql'', ''Redis'']"
    "filter pr_is_writer (gr_processList g) = logs_of env [''sys'', ''redis'', ''sql'', ''web'']"
    by (simp_all add: g(3) objects_of_def logs_of_def object_processor_def log_processor_def)
  ultimately have "gr_events (fst (StartSignal (ae_shutdown env) (ss @ s # rest) g))
      = map Listening (servers env) @ unknown_events ss @ server_events (ae_shutdown env) (servers env) @ ?tail"
    using g(1,2) by (simp add: shutdownAction_events) (simp add: gr_add_def)
  moreover have "notified ?tail = objects_of env [''Go'', ''Mysql'', ''Redis''] @ logs_of env [''sys'', ''redis'', ''sql'', ''web'']"
    by (simp add: notified_processors)
  ultimately show ?thesis using r by (intro exI [of _ "a\<lparr>ap_grace := _\<rparr>"] exI [of _ ?tail]) simp
qed

definition sample_env :: app_env where
  "sample_env =
     \<lparr>ae_root = ''/app'', ae_open = (\<lambda>p. Inr []), ae_config_error = None, ae_log_level = ''info'',
      ae_engine_error = None, ae_ping_error = None, ae_subscribe_error = None, ae_createdb_error = None,
      ae_dropdb_error = None, ae_sync_error = None, ae_clear_error = None, ae_port = '':80'',
      ae_api_root = ''/api'', ae_pprof_port = [], ae_service_is_router = True, ae_in_time = (\<lambda>n. True),
      ae_shutdown = (\<lambda>s. None)\<rparr>"

lemma sample_env_healthy: "healthy sample_env"
  by (simp add: healthy_def sample_env_def)

theorem start_then_shutdown_witness:
  "\<exists>a tail. RunDefault sample_env ([] :: unit table list) [SIGURG, SIGTERM] Cmd_start new_app = (a, Goes_on)
    \<and> gr_events (ap_grace a) = [Listening '':80'', Shutdown_exited '':80''] @ tail
    \<and> map pr_name (notified tail) = [''Go'', ''Mysql'', ''Redis'', ''/app/logs/sys.log'', ''/app/logs/redis.log'',
        ''/app/logs/sql.log'', ''/app/logs/web.log'']"
proof -
  have "list_all (\<lambda>s. \<not> ends_loop s) [SIGURG]" by (simp add: ends_loop_def)
  from start_then_shutdown [OF sample_env_healthy this, of SIGTERM "[] :: unit table list" "[]"]
  obtain a :: "unit app" and tail where a: "RunDefault sample_env [] [SIGURG, SIGTERM] Cmd_start new_app = (a, Goes_on)"
    "gr_events (ap_grace a) = map Listening (servers sample_env) @ unknown_events [SIGURG]
       @ server_events (ae_shutdown sample_env) (servers sample_env) @ tail"
    "notified tail = objects_of sample_env [''Go'', ''Mysql'', ''Redis''] @ logs_of sample_env [''sys'', ''redis'', ''sql'', ''web'']"
    by auto
  have "servers sample_env = ['':80'']" "ae_shutdown sample_env = (\<lambda>s. None)" by (simp_all add: servers_def sample_env_def)
  moreover have "map pr_name (objects_of sample_env ns) = ns" for ns
    by (simp add: objects_of_def object_processor_def comp_def)
  moreover have "map pr_name (logs_of sample_env ns) = map (\<lambda>n. ''/app/logs/'' @ n @ ''.log'') ns" for ns
    by (simp add: logs_of_def log_processor_def comp_def log_path_def path_join_def sample_env_def)
  ultimately show ?thesis
    using a by (intro exI [of _ a] exI [of _ tail]) (simp add: server_events_def)
qed

text \<open>
  C13. Nothing is served before the parts below work: whatever fails on the way, when a start has
  opened a server then the configuration was read, the database was reached and the Redis
  subscription stands; the one exception is a log level of panic, where the Fatal call of a failed
  subscription is ignored.
\<close>

theorem serves_only_connected:
  fixes tables :: "'w table list"
  assumes "gr_srvList (ap_grace (fst (RunDefault env tables sigs Cmd_start (new_app :: 'w app)))) \<noteq> []"
  shows "ae_config_error env = None \<and> ae_engine_error env = None \<and> ae_ping_error env = None
    \<and> (ae_subscribe_error env = None \<or> ParseLevel (ae_log_level env) = PanicLevel)"
  using start_served [OF assms] .

theorem serves_only_connected_witness:
  "gr_srvList (ap_grace (fst (RunDefault sample_env ([] :: unit table list) [] Cmd_start new_app))) = ['':80'']
   \<and> ae_ping_error sample_env = None"
proof -
  obtain a :: "unit app" and g where "RunDefault sample_env [] [] Cmd_start new_app
      = (a\<lparr>ap_grace := fst (StartSignal (ae_shutdown sample_env) [] g)\<rparr>, Goes_on)" "gr_srvList g = servers sample_env"
    using start_healthy [OF sample_env_healthy, of "[]" "[]"] by blast
  then have s: "gr_srvList (ap_grace (fst (RunDefault sample_env ([] :: unit table list) [] Cmd_start new_app))) = ['':80'']"
    by (simp add: servers_def sample_env_def)
  with serves_only_connected [of sample_env "[] :: unit table list" "[]"] show ?thesis by simp
qed


section \<open>Configuration\<close>


definition sample_conf_files :: "nat conf_files" where
  "sample_conf_files =
     \<lparr>fs_files = [''/app/conf.yml'' \<mapsto> Inr [''port'' \<mapsto> 80, ''limit'' \<mapsto> 5]], fs_subdirs = (\<lambda>d. None), fs_readonly = {}\<rparr>"

definition sample_search :: "string list \<Rightarrow> string \<Rightarrow> string option" where
  "sample_search paths name = (if ''/app'' \<in> set paths then Some (''/app/'' @ name @ ''.yml'') else None)"

definition sample_config :: "nat config" where
  "sample_config = config_Constructor ''/app'' new_config"



section \<open>Times and retries\<close>

text \<open>
  C17. Times survive their JSON and database forms to the second: a time whose local year has four
  digits comes back from MarshalJSON and UnmarshalJSON, and from ToDB and FromDB, without its
  fraction of a second, in every zone of full minutes and whatever the other layouts read; a nil
  time comes back as the zero time.
\<close>

theorem json_time_roundtrip:
  assumes "printable z t"
  shows "jt_UnmarshalJSON gen (jt_MarshalJSON z (Some t)) (Some old) = Some (t\<lparr>t_nsec := 0\<rparr>)
    \<and> jt_FromDB gen (jt_ToDB z (Some t)) (Some old) = Some (t\<lparr>t_nsec := 0\<rparr>)
    \<and> jt_UnmarshalJSON gen (jt_MarshalJSON z None) (Some old) = Some zero_time"
proof -
  have empty: "parseInlocation2jsonTime gen [] = zero_time" by (simp add: parseInlocation2jsonTime_def trim_space_def)
  have quotes: "trim_quotes [CHR 0x22, CHR 0x22] = []" by (simp add: trim_quotes_def)
  have "jt_UnmarshalJSON gen (jt_MarshalJSON z (Some t)) (Some old) = Some (t\<lparr>t_nsec := 0\<rparr>)"
  proof (cases "IsZero t")
    case True
    then have "t\<lparr>t_nsec := 0\<rparr> = zero_time" by (simp add: IsZero_def zero_time_def)
    then show ?thesis using True by (simp add: jt_UnmarshalJSON_def jt_MarshalJSON_def quotes empty)
  next
    case False
    then show ?thesis
      using parse_printed [OF assms] trim_quotes_quoted [OF format_no_quote]
      by (simp add: jt_UnmarshalJSON_def jt_MarshalJSON_def Convert2Time_def)
  qed
  moreover have "jt_FromDB gen (jt_ToDB z (Some t)) (Some old) = Some (t\<lparr>t_nsec := 0\<rparr>)"
    using parse_printed [OF assms] format_not_null by (simp add: jt_FromDB_def jt_ToDB_def jt_String_def Convert2Time_def)
  moreover have "jt_UnmarshalJSON gen (jt_MarshalJSON z None) (Some old) = Some zero_time"
    by (simp add: jt_UnmarshalJSON_def jt_MarshalJSON_def quotes empty)
  ultimately show ?thesis by blast
qed

lemma digit_chars:
  "digit_char 0 = CHR ''0''" "digit_char 1 = CHR ''1''" "digit_char 2 = CHR ''2''" "digit_char 4 = CHR ''4''"
  "digit_char 8 = CHR ''8''"
  by code_simp+

definition sample_time :: gotime where
  "sample_time = \<lparr>t_sec = 63839664000, t_nsec = 5\<rparr>"

lemma sample_time_date: "date_of (local_day 28800 sample_time) = (2024, 1, 1)"
proof -
  have "local_day 28800 sample_time = 738885" by (simp add: sample_time_def local_day_def)
  moreover have "year_of 2001 8400 = (2024, 0)" by (simp add: year_of.simps year_days_def leap_def)
  moreover have "month_of (months 2024) 1 0 = (1, 0)" by (simp add: months_def)
  ultimately show ?thesis by (simp add: date_of_def)
qed

lemma sample_time_text: "format_RFC3339 28800 sample_time = ''2024-01-01T08:00:00+08:00''"
proof -
  have "pad 4 2024 = ''2024''" "pad 2 1 = ''01''" "pad 2 (Suc 0) = ''01''" "pad 2 8 = ''08''" "pad 2 0 = ''00''"
    by (simp_all add: pad_def show_nat.simps digit_chars [simplified])
  moreover have "local_sec 28800 sample_time = 28800" by (simp add: local_sec_def sample_time_def)
  ultimately show ?thesis
    by (simp add: format_RFC3339_def format_date_def sample_time_date format_year_def format_zone_def Let_def)
qed

theorem json_time_roundtrip_witness:
  "jt_MarshalJSON 28800 (Some sample_time) = CHR 0x22 # ''2024-01-01T08:00:00+08:00'' @ [CHR 0x22]
   \<and> jt_UnmarshalJSON (\<lambda>l s. None) (jt_MarshalJSON 28800 (Some sample_time)) (Some zero_time)
       = Some \<lparr>t_sec = 63839664000, t_nsec = 0\<rparr>"
proof
  show "jt_MarshalJSON 28800 (Some sample_time) = CHR 0x22 # ''2024-01-01T08:00:00+08:00'' @ [CHR 0x22]"
    using sample_time_text by (simp add: jt_MarshalJSON_def Convert2Time_def IsZero_def sample_time_def)
  have "printable 28800 sample_time" by (simp add: printable_def sample_time_date)
  from json_time_roundtrip [OF this, of "\<lambda>l s. None" zero_time]
  show "jt_UnmarshalJSON (\<lambda>l s. None) (jt_MarshalJSON 28800 (Some sample_time)) (Some zero_time)
      = Some \<lparr>t_sec = 63839664000, t_nsec = 0\<rparr>" by (simp add: sample_time_def)
qed

text \<open>
  Value writes NULL for every time whose nanoseconds since year 1 are a multiple of 2^64,
  because UnixNano wraps: the zero time, and also August 30 of 1754 (22:43:41.128654848 UTC).
  Between that instant and its next wrap in 2339 every time is written as it is.
\<close>

theorem null_times:
  "(jt_Value (Some t) = None \<longleftrightarrow> (t_sec t * 10 ^ 9 + int (t_nsec t)) mod 2 ^ 64 = 0)
   \<and> jt_Value (Some \<lparr>t_sec = 55340232221, t_nsec = 128654848\<rparr>) = None
   \<and> (3 * 2 ^ 64 < t_sec t * 10 ^ 9 + int (t_nsec t) \<longrightarrow> t_sec t * 10 ^ 9 + int (t_nsec t) < 4 * 2 ^ 64 \<longrightarrow>
        jt_Value (Some t) = Some t)"
proof -
  have iff: "jt_Value (Some u) = (if (t_sec u * 10 ^ 9 + int (t_nsec u)) mod 2 ^ 64 = 0 then None else Some u)" for u
    using UnixNano_zero [of u] by (simp add: jt_Value_def Convert2Time_def)
  have "N mod 2 ^ 64 \<noteq> 0" if "3 * 2 ^ 64 < N" "N < 4 * 2 ^ 64" for N :: int
  proof
    assume "N mod 2 ^ 64 = 0"
    then obtain q where "N = 2 ^ 64 * q" by (auto simp: mod_eq_0_iff_dvd dvd_def)
    then show False using that by simp
  qed
  then show ?thesis unfolding iff by simp
qed

theorem null_times_witness:
  "jt_Value (Some sample_time) = Some sample_time"
  using null_times [of sample_time] by (simp add: sample_time_def)

text \<open>
  C35. RetryDoTimes always returns: it calls the function at least once and at most as often as
  asked (between 1 and 20 times), stops at the first success, returns the result of the last call,
  and sleeps the interval (1 to 60 seconds) between the calls only.
\<close>

theorem retry_bounded:
  "\<exists>j. int j < Clamp n 1 20 \<and> j < 20
    \<and> RetryDoTimes n intervalSecond fn s
        = (fst (nth_call fn s j), snd (nth_call fn s j), Clamp intervalSecond 1 60 * int j)
    \<and> (\<forall>k < j. snd (nth_call fn s k) \<noteq> None)
    \<and> (snd (nth_call fn s j) = None \<or> int (Suc j) = Clamp n 1 20)"
proof -
  have c: "1 \<le> Clamp n 1 20" "Clamp n 1 20 \<le> 20" by (simp_all add: Clamp_def)
  from retry_loop_calls [OF c(1), of "Clamp intervalSecond 1 60" fn 0 s] obtain j where j:
    "int j \<le> Clamp n 1 20 - 1"
    "RetryDoTimes n intervalSecond fn s
        = (fst (nth_call fn s j), snd (nth_call fn s j), 0 + Clamp intervalSecond 1 60 * int j)"
    "\<forall>k < j. snd (nth_call fn s k) \<noteq> None"
    "snd (nth_call fn s j) = None \<or> int j = Clamp n 1 20 - 1"
    unfolding RetryDoTimes_def by blast
  have "int j < Clamp n 1 20" "j < 20" using j(1) c by linarith+
  moreover have "snd (nth_call fn s j) = None \<or> int (Suc j) = Clamp n 1 20" using j(4) by auto
  ultimately show ?thesis using j(2,3) by (intro exI [of _ j]) simp
qed

theorem retry_bounded_witness:
  "RetryDoTimes 3 0 (\<lambda>s :: nat. (Suc s, if s < 2 then Some ''busy'' else None)) 0 = (3, None, 2)"
proof -
  let ?f = "\<lambda>s :: nat. (Suc s, if s < 2 then Some ''busy'' else None)"
  obtain j where j: "RetryDoTimes 3 0 ?f 0 = (fst (nth_call ?f 0 j), snd (nth_call ?f 0 j), int j)"
    "\<forall>k < j. snd (nth_call ?f 0 k) \<noteq> None" "snd (nth_call ?f 0 j) = None \<or> j = 2"
    using retry_bounded [of 3 0 ?f 0] by (auto simp: Clamp_def)
  have call: "nth_call ?f s k = ?f (s + k)" for s k by (induction k arbitrary: s) simp_all
  have "j = 2"
  proof (rule ccontr)
    assume n: "j \<noteq> 2"
    then have "2 < j" using j(3) unfolding call by (auto split: if_splits)
    then show False using j(2) unfolding call by force
  qed
  then show ?thesis using j(1) unfolding call by simp
qed


section \<open>Gin handlers\<close>

text \<open>
  C26. GinHandler calls its function with one fitting argument for every parameter it can bind and
  sends exactly one response: when binding fails the function is not called and status 400 carries
  the error; when the function reports an error, status 400 with it; otherwise status 200 with the
  value.  A function with more than two parameters is refused.  A parameter of any other kind (a
  number, a string, an interface) gets no argument, and the call panics.
\<close>

theorem gin_handler_responds:
  assumes "gf_is_func fn" "length (gf_ins fn) \<le> 2"
  shows "(\<forall>r1 e. bind_params bind (gf_ins fn) [] (gc_request c) = (r1, Inl e) \<longrightarrow>
      GinHandler bind fn c
        = (c\<lparr>gc_request := r1, gc_errors := gc_errors c @ [e],
             gc_responses := gc_responses c @ [(400, JSONResponse 400 e None)]\<rparr>, Returns ()))
    \<and> (\<forall>r1 args. bind_params bind (gf_ins fn) [] (gc_request c) = (r1, Inr args) \<longrightarrow> list_all bindable (gf_ins fn) \<longrightarrow>
      list_all2 fits (gf_ins fn) args
      \<and> (\<forall>r2 results. gf_call fn args r1 = (r2, Returns results) \<longrightarrow>
           GinHandler bind fn c =
             (case result_error (gf_outs fn) results of
                Some e \<Rightarrow> (c\<lparr>gc_request := r2, gc_errors := gc_errors c @ [e],
                    gc_responses := gc_responses c @ [(400, JSONResponse 400 e None)]\<rparr>, Returns ())
              | None \<Rightarrow> (c\<lparr>gc_request := r2,
                    gc_responses := gc_responses c @ [(200, JSONResponse 200 [] (val_json (result_value (gf_outs fn) results)))]\<rparr>,
                  Returns ()))))
    \<and> (\<forall>r1 args. bind_params bind (gf_ins fn) [] (gc_request c) = (r1, Inr args) \<longrightarrow> \<not> list_all bindable (gf_ins fn) \<longrightarrow>
      GinHandler bind fn c = (c\<lparr>gc_request := r1\<rparr>, Panics ''reflect: Call with too few input arguments''))"
proof (intro conjI allI impI)
  fix r1 e
  assume "bind_params bind (gf_ins fn) [] (gc_request c) = (r1, Inl e)"
  then show "GinHandler bind fn c
      = (c\<lparr>gc_request := r1, gc_errors := gc_errors c @ [e],
           gc_responses := gc_responses c @ [(400, JSONResponse 400 e None)]\<rparr>, Returns ())"
    using assms by (simp add: GinHandler_def parseArgumentFromContext_def JSONP_def JSONP_body_def add_response_def)
next
  fix r1 args
  assume b: "bind_params bind (gf_ins fn) [] (gc_request c) = (r1, Inr args)" "list_all bindable (gf_ins fn)"
  have "filter bindable (gf_ins fn) = gf_ins fn" using b(2) by (simp add: filter_id_conv list_all_iff)
  then show "list_all2 fits (gf_ins fn) args" using bind_params_fits [OF b(1)] by auto
  fix r2 results
  assume "gf_call fn args r1 = (r2, Returns results)"
  from parseArgument_called [OF assms b this]
  show "GinHandler bind fn c =
       (case result_error (gf_outs fn) results of
          Some e \<Rightarrow> (c\<lparr>gc_request := r2, gc_errors := gc_errors c @ [e],
              gc_responses := gc_responses c @ [(400, JSONResponse 400 e None)]\<rparr>, Returns ())
        | None \<Rightarrow> (c\<lparr>gc_request := r2,
              gc_responses := gc_responses c @ [(200, JSONResponse 200 [] (val_json (result_value (gf_outs fn) results)))]\<rparr>,
            Returns ()))"
    by (simp add: GinHandler_def JSONP_def JSONP_body_def add_response_def split: option.split)
next
  fix r1 args
  assume b: "bind_params bind (gf_ins fn) [] (gc_request c) = (r1, Inr args)" "\<not> list_all bindable (gf_ins fn)"
  have "length args < length (gf_ins fn)"
    using bind_params_length [OF b(1)] b(2) length_filter_less [of _ "gf_ins fn" bindable]
    by (auto simp: list_all_iff)
  then show "GinHandler bind fn c = (c\<lparr>gc_request := r1\<rparr>, Panics ''reflect: Call with too few input arguments'')"
    using assms b(1) by (simp add: GinHandler_def parseArgumentFromContext_def reflect_Call_def)
qed

definition ctx_type :: gin_type where
  "ctx_type = \<lparr>gt_name = ''*gin.Context'', gt_kind = KPtr, gt_is_gin_context = True, gt_implements_error = False\<rparr>"

definition form_type :: gin_type where
  "form_type = \<lparr>gt_name = ''Form'', gt_kind = KStruct, gt_is_gin_context = False, gt_implements_error = False\<rparr>"

definition error_type :: gin_type where
  "error_type = \<lparr>gt_name = ''error'', gt_kind = KOther, gt_is_gin_context = False, gt_implements_error = True\<rparr>"

definition refusing_fn :: "(nat, nat) gin_fn" where
  "refusing_fn =
     \<lparr>gf_is_func = True, gf_ins = [ctx_type, form_type], gf_outs = [form_type, error_type],
      gf_call = (\<lambda>args r. (r, Returns [\<lparr>gr_is_zero = True, gr_error = None, gr_json = None\<rparr>,
                                        \<lparr>gr_is_zero = False, gr_error = Some ''no'', gr_json = None\<rparr>]))\<rparr>"

theorem gin_handler_responds_witness:
  "GinHandler (\<lambda>t r. (Suc r, Inr r)) refusing_fn \<lparr>gc_request = 0, gc_errors = [], gc_responses = []\<rparr>
     = (\<lparr>gc_request = 1, gc_errors = [''no''], gc_responses = [(400, JSONResponse 400 ''no'' None)]\<rparr>, Returns ())"
proof -
  let ?c = "\<lparr>gc_request = 0 :: nat, gc_errors = [], gc_responses = []\<rparr>"
  have "gf_is_func refusing_fn" "length (gf_ins refusing_fn) \<le> 2" "list_all bindable (gf_ins refusing_fn)"
    by (simp_all add: refusing_fn_def bindable_def ctx_type_def form_type_def)
  moreover have "bind_params (\<lambda>t r. (Suc r, Inr r)) (gf_ins refusing_fn) [] (gc_request ?c) = (1, Inr [Arg_context, Arg_value 0])"
    by (simp add: refusing_fn_def ctx_type_def form_type_def)
  moreover obtain results where "gf_call refusing_fn [Arg_context, Arg_value 0] 1 = (1, Returns results)"
    "result_error (gf_outs refusing_fn) results = Some ''no''"
    by (simp add: refusing_fn_def result_error_def gin_value2err_def error_type_def)
  ultimately show ?thesis
    using gin_handler_responds [of refusing_fn "\<lambda>t r. (Suc r, Inr r)" ?c] by simp
qed


section \<open>Process control\<close>

text \<open>
  stop finds its processes by their text: it kills every process whose line contains the base
  name of the binary followed by -s start, and no other; it returns exactly when one poll finds
  none any more.  So it also kills the daemon of another program whose name only ends in this one's,
  and while that program runs, start -d takes this one for running.
\<close>

theorem stop_by_name:
  assumes "ProcessIsRunning (daemon_name binary) ps1" "\<exists>p \<in> set ps2. ps_matches (daemon_name binary) p"
  shows "(stop_Run binary ps1 ps2 polls =
      (if \<exists>ps \<in> set polls. \<not> ProcessIsRunning (daemon_name binary) ps
       then Some (Stop_waiting # map (\<lambda>p. Command_run (''kill '' @ show_nat (ps_pid p)))
                                     (filter (ps_matches (daemon_name binary)) ps2) @ [Stopped_ok])
       else None))
    \<and> (\<forall>p dir extra. ps_text p = dir @ extra @ daemon_name binary \<and> \<not> contains (ps_text p) ''grep'' \<and> p \<in> set ps2 \<longrightarrow>
         p \<in> set (filter (ps_matches (daemon_name binary)) ps2)
         \<and> start_Run True worker binary ps2 = [Already_running])"
proof -
  have ne: "filter (ps_matches (daemon_name binary)) ps2 \<noteq> []" using assms(2) by (auto simp: filter_empty_conv)
  have "ps_matches (daemon_name binary) p" if "ps_text p = dir @ extra @ daemon_name binary" "\<not> contains (ps_text p) ''grep''"
    for p dir extra
  proof -
    have "contains (ps_text p) (daemon_name binary)"
      unfolding contains_iff by (intro exI [of _ "dir @ extra"] exI [of _ "[]"]) (simp add: that(1))
    then show ?thesis using that(2) by (simp add: ps_matches_def)
  qed
  then show ?thesis
    using assms ne
    by (auto simp: stop_Run_def KillProcess_def FindPid_map stop_poll_iff start_Run_def ProcessIsRunning_iff comp_def)
qed

definition other_daemon :: ps_line where
  "other_daemon = \<lparr>ps_pid = 7, ps_text = ''root 7 1 0 10:00 ? 00:00:01 /opt/myapp -s start''\<rparr>"

theorem stop_by_name_witness:
  "stop_Run ''/srv/app'' [other_daemon] [other_daemon] [[]] = Some [Stop_waiting, Command_run ''kill 7'', Stopped_ok]
   \<and> start_Run True True ''/srv/app'' [other_daemon] = [Already_running]"
proof -
  have m: "ps_matches (daemon_name ''/srv/app'') other_daemon" by code_simp
  have d: "daemon_name ''/srv/app'' = ''app -s start''" by code_simp
  have k: "show_nat (ps_pid other_daemon) = ''7''" by code_simp
  have t: "ps_text other_daemon = ''root 7 1 0 10:00 ? 00:00:01 /opt/'' @ ''my'' @ daemon_name ''/srv/app''"
    by (simp add: other_daemon_def d)
  have r: "ProcessIsRunning (daemon_name ''/srv/app'') [other_daemon]" "\<not> ProcessIsRunning (daemon_name ''/srv/app'') []"
    using m by (simp_all add: ProcessIsRunning_iff)
  have g: "\<not> contains (ps_text other_daemon) ''grep''" by code_simp
  from stop_by_name [OF r(1), of "[other_daemon]" "[[]]" True] m r(2) k t g show ?thesis by auto
qed


section \<open>The MQTT queue\<close>

text \<open>
  C27. The MQTT client refines a bounded queue: whatever calls and answers come, the messages sent
  are, under the application's prefix and in their order, a prefix of the accepted calls, each sent
  once; what is queued is the rest, never more than 1000; a call is dropped only when 1000 accepted
  ones wait, and every dropped call is reported.
\<close>

theorem emq_refines_queue:
  "\<exists>acc sent dropped. fold spec_step evs ([], 0, []) = (acc, sent, dropped)
     \<and> eq_sent (emq_run dump evs (emq_dialled name))
         = map (\<lambda>(t, p). (name @ ''/'' @ t, payload_bytes dump p)) (take sent acc)
     \<and> eq_queue (emq_run dump evs (emq_dialled name)) = drop sent acc
     \<and> length (eq_queue (emq_run dump evs (emq_dialled name))) \<le> 1000
     \<and> timeouts (eq_lines (emq_run dump evs (emq_dialled name))) = dropped"
proof -
  obtain acc sent dropped where s: "fold spec_step evs ([], 0, []) = (acc, sent, dropped)" by (cases "fold spec_step evs ([], 0, [])")
  have "emq_rel dump name (emq_run dump evs (emq_dialled name)) (acc, sent, dropped)"
    using emq_run_refines [OF emq_initial, of dump name evs] s by simp
  with s show ?thesis by (auto simp: emq_rel_def emq_prefix_def pubC_size_def)
qed


section \<open>Passwords\<close>

text \<open>
  A stored password is checked correctly: the text EncryptPassword gives, in any mixture of
  upper and lower case, is accepted with the password it was made from and with no other one, for
  AES functions with the documented behaviour.
\<close>

theorem password_checked:
  assumes "aes_laws enc dec" "to_lower c = to_lower (EncryptPassword enc p)"
  shows "CheckPassword dec q c = (if q = p then None else Some ErrPassword)"
  using decrypt_encrypted [OF assms] by (simp add: CheckPassword_def)

theorem password_checked_witness:
  "CheckPassword digits_dec ''secret'' (EncryptPassword digits_enc ''secret'') = None
   \<and> CheckPassword digits_dec ''Secret'' (EncryptPassword digits_enc ''secret'') = Some ErrPassword"
  using password_checked [OF digits_laws refl, where p = "''secret''" and q = "''secret''"]
    password_checked [OF digits_laws refl, where p = "''secret''" and q = "''Secret''"] by simp

end
