(* ===== verification/Gin_Stack.thy ===== *)
theory Gin_Stack
  imports Example_Fast Gin_Handler Complex_Main
begin

text \<open>
  The handlers in front of the JSON-RPC server (src/g2gin/g2gin.go, src/g2gin/middleware.go):
  the copy of the body, the request id, the rate limiter, the log line of a request, and the
  middleware that tells gin's context the RPC method.  A gin context is an exchange whose state
  has the context's keys and the body the client sends, with the error its reading ends with
  (a server request always has a body).

  Every handler here calls Next last, so a chain is a sequence that an aborting handler ends.
  Parameters: gin's debug mode, Recovery, the CORS handler, the limiter of tollbooth, and what
  the JSON decoder makes of a body that breaks off.
\<close>

record 's gin_state =
  gn_keys :: "string \<rightharpoonup> string"
  gn_body :: "string \<times> string option"
  gn_app :: 's

type_synonym 's gctx = "'s gin_state exchange"
type_synonym 's gin_mid = "'s gctx \<Rightarrow> 's gctx \<times> bool outcome"

definition set_key :: "string \<Rightarrow> string \<Rightarrow> 's gctx \<Rightarrow> 's gctx" where
  "set_key k v x = x\<lparr>ex_app := (ex_app x)\<lparr>gn_keys := (gn_keys (ex_app x))(k \<mapsto> v)\<rparr>\<rparr>"

definition set_body :: "string \<times> string option \<Rightarrow> 's gctx \<Rightarrow> 's gctx" where
  "set_body b x = x\<lparr>ex_app := (ex_app x)\<lparr>gn_body := b\<rparr>\<rparr>"


section \<open>Handlers\<close>

text \<open>The error of ReadAll is dropped; what was read becomes the new body.\<close>

definition copyRequestBody :: "bool \<Rightarrow> 's gin_mid" where
  "copyRequestBody debugging x =
     (if debugging
      then let bodyBytes = fst (gn_body (ex_app x))
           in (set_key ''REQUEST_BODY'' bodyBytes (set_body (bodyBytes, None) x), Returns True)
      else (x, Returns True))"

definition midAddRequestID :: "bool \<Rightarrow> string \<Rightarrow> 's gin_mid" where
  "midAddRequestID debugging uuid x =
     ((if debugging then upd_writer (header_set ''request-id'' uuid) x else x), Returns True)"

text \<open>The limiter answers by itself and aborts; the rate is at least one request per second.\<close>

definition limiter_rate :: "real \<Rightarrow> real" where
  "limiter_rate requestsPerSecond = (if requestsPerSecond < 1 then 5 else requestsPerSecond)"

definition MiddlewareLimiter ::
  "(real \<Rightarrow> 's gctx \<Rightarrow> 's gctx \<times> (int \<times> string) option) \<Rightarrow> ('s gctx \<Rightarrow> 's gctx)
     \<Rightarrow> (int \<Rightarrow> json \<Rightarrow> 's gctx \<Rightarrow> 's gctx) \<Rightarrow> real \<Rightarrow> 's gin_mid" where
  "MiddlewareLimiter limit_by reached jsonp limit x =
     (case limit_by (limiter_rate limit) x of
        (x1, Some (code, msg)) \<Rightarrow> (jsonp code (JSONP_body code (Inl msg)) (reached x1), Returns False)
      | (x1, None) \<Rightarrow> (x1, Returns True))"

definition rpc_codec :: "(string \<Rightarrow> string \<Rightarrow> string + json) \<Rightarrow> codec \<Rightarrow> string option \<Rightarrow> codec" where
  "rpc_codec broken lib err = (case err of None \<Rightarrow> lib | Some e \<Rightarrow> lib\<lparr>lib_scan := broken e\<rparr>)"

definition jsonrpc_route ::
  "type_env \<Rightarrow> matcher \<Rightarrow> codec \<Rightarrow> (string \<Rightarrow> string \<Rightarrow> string + json) \<Rightarrow> 's gctx server \<Rightarrow> http_request \<Rightarrow> 's gin_mid" where
  "jsonrpc_route env mc lib broken s r x =
     (case gn_body (ex_app x) of (b, err) \<Rightarrow>
        (case Handler env mc (rpc_codec broken lib err) s (r\<lparr>rq_body := b\<rparr>) x of
           (x1, Panics p) \<Rightarrow> (x1, Panics p)
         | (x1, Returns _) \<Rightarrow> (x1, Returns True)))"

text \<open>The middleware that stores the method, and the server with it.\<close>

definition method_fn :: "'s gctx mid_fn" where
  "method_fn =
     Func [TPtr (TNamed ''gin.Context''), TNamed ''string'']
       (\<lambda>args x. case args of
          [ArgContext, ArgMethod m] \<Rightarrow> (set_key ''method'' m x, MidNothing)
        | [ArgContext, _] \<Rightarrow> (set_key ''method'' [] x, MidNothing)
        | _ \<Rightarrow> (x, MidPanic ''nil pointer dereference''))"

definition add_method_mid :: "'s gctx rpc_option \<Rightarrow> 's gctx rpc_option" where
  "add_method_mid = AddBeforeMiddleware method_fn [[''^.*$'']]"

text \<open>
  The server of useJ2rpc: the service, if one is set, with its exclusions and its instances, and
  what its J2rpc does to the server if it is an ItfGinRouter.
\<close>

definition rpc_server ::
  "type_env \<Rightarrow> ('s gctx receiver \<Rightarrow> 's gctx receiver) \<Rightarrow> 's gctx rpc_option
     \<Rightarrow> (string list option \<times> 's gctx receiver list \<times> ('s gctx server \<Rightarrow> 's gctx server outcome) option) option
     \<Rightarrow> 's gctx server outcome" where
  "rpc_server env ctor opt service =
     (let jsv = new_server (Some opt);
          jsv1 = jsv\<lparr>srv_opt := add_method_mid (srv_opt jsv)\<rparr>
      in case service of
           None \<Rightarrow> Returns jsv1
         | Some (exclude, instances, router) \<Rightarrow>
             bind_outcome (RegisterForApp env ctor exclude instances jsv1)
               (case router of None \<Rightarrow> Returns | Some f \<Rightarrow> f))"

fun run_chain :: "'s gin_mid list \<Rightarrow> 's gctx \<Rightarrow> 's gctx \<times> unit outcome" where
  "run_chain [] x = (x, Returns ())"
| "run_chain (h # hs) x =
     (case h x of
        (x1, Panics p) \<Rightarrow> (x1, Panics p)
      | (x1, Returns False) \<Rightarrow> (x1, Returns ())
      | (x1, Returns True) \<Rightarrow> run_chain hs x1)"

text \<open>
  One request to the route /jsonrpc behind Recovery: the handlers in the order Run adds them,
  with those the service's Router adds before the request id.
\<close>

definition serve_jsonrpc ::
  "(string \<Rightarrow> 's gctx \<Rightarrow> 's gctx) \<Rightarrow> 's gin_mid \<Rightarrow> 's gin_mid list \<Rightarrow> bool \<Rightarrow> string
     \<Rightarrow> 's gin_mid \<Rightarrow> 's gctx \<Rightarrow> 's gctx" where
  "serve_jsonrpc recover cors router_mids debugging uuid route x =
     (case run_chain ([copyRequestBody debugging, cors] @ router_mids @ [midAddRequestID debugging uuid, route]) x of
        (x1, Panics p) \<Rightarrow> recover p x1
      | (x1, Returns _) \<Rightarrow> x1)"


section \<open>The log line of a request\<close>

record log_params =
  lp_time :: string
  lp_status :: int
  lp_latency :: int
  lp_client_ip :: string
  lp_method :: string
  lp_path :: string
  lp_error :: string
  lp_keys :: "string \<rightharpoonup> string"
  lp_header :: "(string \<times> string list) list"

definition second_ns :: int where "second_ns = 10 ^ 9"

definition key_text :: "log_params \<Rightarrow> string \<Rightarrow> string" where
  "key_text p k = (case lp_keys p k of None \<Rightarrow> [] | Some v \<Rightarrow> v)"

definition pad_left3 :: "string \<Rightarrow> string" where
  "pad_left3 s = replicate (3 - length s) CHR '' '' @ s"

definition log_latency :: "int \<Rightarrow> int" where
  "log_latency d = (if d > 60 * second_ns then d div second_ns * second_ns else d)"

text \<open>The formatter of UseLogger; \<^verbatim>\<open>dur\<close> prints a duration, \<^verbatim>\<open>dump\<close> is JSONDump of a map.\<close>

definition defaultLogFormatter ::
  "(int \<Rightarrow> string) \<Rightarrow> ((string \<rightharpoonup> string) \<Rightarrow> string) \<Rightarrow> bool \<Rightarrow> log_params \<Rightarrow> string" where
  "defaultLogFormatter dur dump debugging p =
     (let nl = [CHR 0x0A];
          line = ''[GIN]| '' @ lp_time p @ '' | '' @ key_text p ''method'' @ '' | ''
            @ pad_left3 (show_int (lp_status p)) @ '' | '' @ dur (log_latency (lp_latency p)) @ '' | ''
            @ lp_client_ip p @ '' | '' @ lp_method p @ '' | '' @ lp_path p @ '' |'' @ nl
            @ (if lp_error p = [] then [] else lp_error p @ nl)
      in if \<not> debugging then line
         else line @ ''[Header] '' @ dump (map_of (map (\<lambda>(k, vs). (k, go_join vs '','')) (lp_header p))) @ nl
           @ ''[Body] '' @ key_text p ''REQUEST_BODY'' @ nl @ nl)"


text \<open>Outside debug mode the log line of a request does not depend on its headers (the
  tokens in them) or on any key of the context but the method's name: neither they nor the body
  reach the log.\<close>

lemma release_log_private:
  assumes "key_text p ''method'' = key_text q ''method''" "lp_time p = lp_time q" "lp_status p = lp_status q"
    and "lp_latency p = lp_latency q" "lp_client_ip p = lp_client_ip q" "lp_method p = lp_method q"
    and "lp_path p = lp_path q" "lp_error p = lp_error q"
  shows "defaultLogFormatter dur dump False p = defaultLogFormatter dur dump False q"
  using assms by (simp add: defaultLogFormatter_def Let_def)


section \<open>The stack of Run\<close>

definition method_info :: "'s gctx middle_info" where
  "method_info = \<lparr>mi_method = [''^.*$''], mi_excludes = [], mi_function = method_fn, mi_all = False\<rparr>"

lemma add_method_mid_opt:
  "BeforeMid (add_method_mid opt) = BeforeMid opt @ [method_info]"
  "SnakeNamespace (add_method_mid opt) = SnakeNamespace opt"
  by (simp_all add: add_method_mid_def AddBeforeMiddleware_def method_info_def)

text \<open>What package reflect says of gin's context: its type, and that a type converts to itself.\<close>

definition gin_types :: "type_env \<Rightarrow> bool" where
  "gin_types env \<longleftrightarrow> dyn_context env = TPtr (TNamed ''gin.Context'') \<and> (\<forall>t. convertible env t t)"

definition knows_method :: "matcher \<Rightarrow> string \<Rightarrow> bool" where
  "knows_method mc m \<longleftrightarrow> (case mc ''^.*$'' of None \<Rightarrow> False | Some f \<Rightarrow> m \<in> {''^.*$'', snakePath ''^.*$''} \<or> f m)"

lemma method_mid_runs:
  assumes "gin_types env" "mc ''^.*$'' = Some f" "BeforeMid opt = [method_info]"
  shows "beforeMiddlewareAction env mc opt (mid_args env m) m x
    = ((if knows_method mc m then set_key ''method'' m x else x), Returns None)"
  using assms
  by (auto simp: beforeMiddlewareAction_def method_info_def getMatchFunction_def methodPathEqual_def
      knows_method_def method_fn_def beforeMiddlewareFuncAction_def mid_args_def convert_args_def gin_types_def)

lemma exchange_parts [simp]:
  "ex_writer (set_key k v x) = ex_writer x" "ex_writer (set_body b x) = ex_writer x"
  "ex_app (upd_writer f x) = ex_app x" "ex_writer (upd_writer f x) = f (ex_writer x)"
  "gn_body (ex_app (set_key k v x)) = gn_body (ex_app x)" "gn_body (ex_app (set_body b x)) = b"
  by (simp_all add: set_key_def set_body_def upd_writer_def)

text \<open>A CORS handler that lets the request pass only adds headers of its own.\<close>

text \<open>useCors: the configuration given to the CORS package.\<close>

record cors_config =
  cc_AllowAllOrigins :: bool
  cc_AllowMethods :: "string list"
  cc_AllowHeaders :: "string list"
  cc_AllowCredentials :: bool
  cc_ExposeHeaders :: "string list"
  cc_MaxAge_hours :: nat
  cc_AllowWildcard :: bool
  cc_AllowBrowserExtensions :: bool
  cc_AllowWebSockets :: bool
  cc_AllowFiles :: bool

definition cors_settings :: cors_config where
  "cors_settings =
     \<lparr>cc_AllowAllOrigins = True,
      cc_AllowMethods = [''GET'', ''POST'', ''PUT'', ''PATCH'', ''DELETE'', ''HEAD'', ''OPTIONS''],
      cc_AllowHeaders = [''Origin'', ''Content-Length'', ''Content-Type'', ''Accept-Encoding'', ''Authorization'', ''X-Request-ID'',
        ''X-Token'', ''X-Server'', ''X-Requested-With'', ''Token''],
      cc_AllowCredentials = True, cc_ExposeHeaders = [''X-Token'', ''X-Server''], cc_MaxAge_hours = 12, cc_AllowWildcard = True,
      cc_AllowBrowserExtensions = True, cc_AllowWebSockets = True, cc_AllowFiles = True\<rparr>"

definition useCors :: "(cors_config \<Rightarrow> 's gin_mid) \<Rightarrow> 's gin_mid list \<Rightarrow> 's gin_mid list" where
  "useCors cors_new mids = mids @ [cors_new cors_settings]"

definition cors_headers :: "(string \<times> string) list \<Rightarrow> 's gin_mid" where
  "cors_headers hs x = (upd_writer (fold (\<lambda>(k, v). header_set k v) hs) x, Returns True)"

definition prepared :: "(string \<times> string) list \<Rightarrow> bool \<Rightarrow> string \<Rightarrow> 's gctx \<Rightarrow> 's gctx" where
  "prepared hs debugging uuid x =
     fst (midAddRequestID debugging uuid (fst (cors_headers hs (fst (copyRequestBody debugging x)))))"

lemma serve_prepared:
  "serve_jsonrpc recover (cors_headers hs) [] debugging uuid route x =
     (case route (prepared hs debugging uuid x) of (x1, Panics p) \<Rightarrow> recover p x1 | (x1, Returns _) \<Rightarrow> x1)"
  by (auto simp: serve_jsonrpc_def prepared_def copyRequestBody_def cors_headers_def midAddRequestID_def Let_def
      split: prod.splits outcome.splits bool.splits)

lemma prepared_body:
  "gn_body (ex_app (prepared hs debugging uuid x)) = (fst (gn_body (ex_app x)), if debugging then None else snd (gn_body (ex_app x)))"
  by (simp add: prepared_def copyRequestBody_def cors_headers_def midAddRequestID_def Let_def)

lemma headers_fold:
  "committed (fold (\<lambda>(k, v). header_set k v) hs w) = committed w"
  "\<forall>(k, v) \<in> set hs. canonical_key k \<noteq> k0 \<Longrightarrow> hdr (fold (\<lambda>(k, v). header_set k v) hs w) k0 = hdr w k0"
  by (induction hs arbitrary: w) (auto simp: header_set_def)

definition cors_ok :: "(string \<times> string) list \<Rightarrow> bool" where
  "cors_ok hs \<longleftrightarrow> list_all (\<lambda>(k, v). canonical_key k \<noteq> ''Status-Written'') hs"

lemma prepared_writer:
  assumes "cors_ok hs"
  shows "status_of (ex_writer (prepared hs debugging uuid x)) = status_of (ex_writer x)"
    "status_written (ex_writer (prepared hs debugging uuid x)) = status_written (ex_writer x)"
proof -
  have k: "canonical_key ''request-id'' = ''Request-Id''" by code_simp
  have "\<forall>(k, v) \<in> set hs. canonical_key k \<noteq> ''Status-Written''" using assms by (auto simp: cors_ok_def list_all_iff)
  then show "status_written (ex_writer (prepared hs debugging uuid x)) = status_written (ex_writer x)"
    by (simp add: status_written_canonical prepared_def copyRequestBody_def cors_headers_def midAddRequestID_def
        Let_def header_set_def k headers_fold(2))
qed (simp add: status_of_def prepared_def copyRequestBody_def cors_headers_def midAddRequestID_def Let_def headers_fold(1))


lemma prepared_resp_body: "resp_body (ex_writer (prepared hs debugging uuid x)) = resp_body (ex_writer x)"
proof -
  have "resp_body (fold (\<lambda>(k, v). header_set k v) hs w) = resp_body w" for w
    by (induction hs arbitrary: w) auto
  then show ?thesis by (simp add: prepared_def copyRequestBody_def cors_headers_def midAddRequestID_def Let_def)
qed

lemma Register_options: "Register env ctor rc names s = Returns s' \<Longrightarrow> srv_opt s' = srv_opt s \<and> srv_run s' = srv_run s"
  by (auto simp: Register_def Let_def split: if_splits option.splits)

lemma register_all_options:
  "register_all env ctor rcs s = Returns s' \<Longrightarrow> srv_opt s' = srv_opt s \<and> srv_run s' = srv_run s"
proof (induction rcs arbitrary: s)
  case (Cons rc rcs)
  from Cons.prems obtain s1 where "Register env ctor rc [] s = Returns s1" "register_all env ctor rcs s1 = Returns s'"
    by (cases "Register env ctor rc [] s") auto
  with Register_options Cons.IH show ?case by metis
qed simp

lemma rpc_server_options:
  assumes "rpc_server env ctor opt (Some (exclude, instances, None)) = Returns s" "BeforeMid opt = []"
  shows "BeforeMid (srv_opt s) = [method_info]" "srv_run s = 1" "SnakeNamespace (srv_opt s) = SnakeNamespace opt"
proof -
  let ?s1 = "new_server (Some opt)\<lparr>srv_opt := add_method_mid opt\<rparr>"
  have "RegisterForApp env ctor exclude instances ?s1 = Returns s"
    using assms(1) by (cases "RegisterForApp env ctor exclude instances ?s1") (auto simp: rpc_server_def new_server_def Let_def)
  then have "srv_opt s = add_method_mid opt \<and> srv_run s = 1"
    by (auto simp: RegisterForApp_def new_server_def dest!: register_all_options split: option.splits)
  with assms(2) show "BeforeMid (srv_opt s) = [method_info]" "srv_run s = 1" "SnakeNamespace (srv_opt s) = SnakeNamespace opt"
    by (simp_all add: add_method_mid_opt)
qed

text \<open>Methods that leave the writer to the server.\<close>

definition quiet_service :: "'s exchange server \<Rightarrow> bool" where
  "quiet_service s \<longleftrightarrow>
     (\<forall>elem c args x. getCallBack s elem = Inr c \<longrightarrow> ex_writer (fst (cb_fn c args x)) = ex_writer x)"

definition quiet_methods :: "'s exchange receiver \<Rightarrow> bool" where
  "quiet_methods rc \<longleftrightarrow> (\<forall>m \<in> set (rc_methods rc). \<forall>args x. ex_writer (fst (rm_fn m args x)) = ex_writer x)"

lemma append_method_fn:
  assumes "append_method env s rc m cbs k = Some c"
  shows "cbs k = Some c \<or> cb_fn c = rm_fn m"
  using assms makeArgTypes_fn unfolding append_method_def
  by (cases "srv_format s (rm_name m) = k") (force split: if_splits option.splits)+

lemma suitable_fn:
  assumes "suitableCallbacks env s rc k = Some c"
  shows "\<exists>m \<in> set (rc_methods rc). cb_fn c = rm_fn m"
proof -
  have "fold (append_method env s rc) ms cbs k = Some c \<Longrightarrow> cbs k = Some c \<or> (\<exists>m \<in> set ms. cb_fn c = rm_fn m)" for ms cbs
    by (induction ms arbitrary: cbs) (auto dest: append_method_fn)
  from this [of "rc_methods rc" Map.empty] assms show ?thesis by (simp add: suitableCallbacks_def)
qed

lemma Register_quiet:
  assumes "Register env ctor rc names s = Returns s'" "quiet_service s" "quiet_methods (ctor rc)"
  shows "quiet_service s'"
proof -
  let ?cbs = "suitableCallbacks env s (ctor rc)"
  have "s' = s \<or> (\<exists>name. s' = s\<lparr>srv_services := (srv_services s)(name \<mapsto> \<lparr>sv_name = name, sv_callbacks = ?cbs\<rparr>)\<rparr>)"
    using assms(1) by (auto simp: Register_def Let_def split: if_splits option.splits)
  moreover have "ex_writer (fst (cb_fn c args x)) = ex_writer x" if "?cbs k = Some c" for k c args x
    using suitable_fn [OF that] assms(3) by (auto simp: quiet_methods_def)
  moreover have "getCallBack (s\<lparr>srv_services := (srv_services s)(name \<mapsto> \<lparr>sv_name = name, sv_callbacks = ?cbs\<rparr>)\<rparr>) elem = Inr c
      \<Longrightarrow> getCallBack s elem = Inr c \<or> ?cbs (elem ! 1) = Some c" for name elem c
    by (cases "elem ! 0 = name") (auto simp: getCallBack_def split: option.splits)
  ultimately show ?thesis using assms(2) unfolding quiet_service_def by metis
qed

lemma register_all_quiet:
  assumes "register_all env ctor rcs s = Returns s'" "quiet_service s" "\<forall>rc \<in> set rcs. quiet_methods (ctor rc)"
  shows "quiet_service s'"
  using assms
proof (induction rcs arbitrary: s)
  case (Cons rc rcs)
  then obtain s1 where "Register env ctor rc [] s = Returns s1" "register_all env ctor rcs s1 = Returns s'"
    by (cases "Register env ctor rc [] s") auto
  with Cons Register_quiet show ?case by (metis list.set_intros(1) list.set_intros(2))
qed simp

lemma rpc_server_quiet:
  assumes "rpc_server env ctor opt (Some (exclude, instances, None)) = Returns s" "\<forall>rc \<in> set instances. quiet_methods (ctor rc)"
  shows "quiet_service s"
proof -
  let ?s1 = "new_server (Some opt)\<lparr>srv_opt := add_method_mid opt\<rparr>"
  let ?s2 = "case exclude of Some ms \<Rightarrow> ?s1\<lparr>srv_excludeMethods := ms\<rparr> | None \<Rightarrow> ?s1"
  have "RegisterForApp env ctor exclude instances ?s1 = Returns s"
    using assms(1) by (cases "RegisterForApp env ctor exclude instances ?s1") (auto simp: rpc_server_def new_server_def Let_def)
  then have "register_all env ctor instances ?s2 = Returns s" by (simp add: RegisterForApp_def split: option.splits)
  moreover have "quiet_service ?s2"
    by (auto simp: quiet_service_def getCallBack_def new_server_def split: option.splits)
  ultimately show ?thesis using register_all_quiet assms(2) by blast
qed

lemma callback_call_state: "fst (callback_call env c args x) = fst (cb_fn c (full_args c args) x)"
  by (auto simp: callback_call_def split: prod.splits call_result.splits list.splits outcome.splits option.splits)

lemma invoke_writer:
  assumes "\<And>args x. ex_writer (fst (cb_fn c args x)) = ex_writer x"
  shows "ex_writer (fst (invoke env lib c msg x)) = ex_writer x"
proof (cases "parsePositionalArguments (lib_dec lib) (mParams msg) (cb_argTypes c)")
  case (Inr args)
  have "fst (invoke env lib c msg x) = fst (callback_call env c args x)"
    using Inr by (auto simp: invoke_def split: prod.splits option.splits outcome.splits sum.splits)
  then show ?thesis by (simp add: callback_call_state assms)
qed (simp add: invoke_def)

lemma handle_quiet:
  assumes "gin_types env" "mc ''^.*$'' = Some f" "BeforeMid (srv_opt s) = [method_info]" "quiet_service s"
  shows "\<exists>x1 msg err. handle env mc lib s r msg0 x = (x1, msg, Returns err) \<and> ex_writer x1 = ex_writer x"
proof (cases "\<exists>msg1 c. accepted_request lib s r msg0 msg1 c")
  case True
  then obtain msg1 c where acc: "accepted_request lib s r msg0 msg1 c" by blast
  let ?x = "if knows_method mc (mMethod msg1) then set_key ''method'' (mMethod msg1) x else x"
  obtain x2 msg2 err where inv: "invoke env lib c msg1 ?x = (x2, msg2, err)" by (cases "invoke env lib c msg1 ?x") auto
  have "\<And>args x. ex_writer (fst (cb_fn c args x)) = ex_writer x"
    using acc assms(4) by (auto simp: accepted_request_def quiet_service_def)
  with invoke_writer [of c env lib msg1 ?x] inv have "ex_writer x2 = ex_writer x" by (simp split: if_splits)
  with handle_accepted [OF acc] method_mid_runs [where opt = "srv_opt s" and mc = mc and env = env and f = f, OF assms(1-3)] inv show ?thesis by simp
next
  case False
  then have "\<nexists>msg1 c. accepted_request lib s r msg0 msg1 c" by simp
  from handle_rejected [OF this, of env mc x] show ?thesis by blast
qed

lemma rpc_codec_render [simp]: "lib_render (rpc_codec broken lib err) = lib_render lib"
  by (simp add: rpc_codec_def split: option.splits)

lemma validate_body [simp]: "validateRequest (r\<lparr>rq_body := b\<rparr>) = validateRequest r"
  by (simp add: validateRequest_def)

lemma writeResponse_outcome:
  assumes "\<not> status_written w" "status_of w = None"
  shows "status_of (writeResponse render m w) = Some (case render (message_json m) of Inl e \<Rightarrow> 500 | Inr t \<Rightarrow> 200)"
    "resp_body (writeResponse render m w) = resp_body w @ (case render (message_json m) of Inl e \<Rightarrow> e | Inr t \<Rightarrow> t)"
  using assms by (simp_all add: writeResponse_def split: sum.splits)


lemma nosniff_kept:
  "status_written (header_set ''x-content-type-options'' v w) = status_written w"
proof -
  have "canonical_key ''x-content-type-options'' = ''X-Content-Type-Options''" by code_simp
  then show ?thesis by (simp add: status_written_canonical header_set_def)
qed

text \<open>The handler of such a server on a fresh response: one status, one body.\<close>

definition rpc_answer :: "codec \<Rightarrow> http_request \<Rightarrow> rpc_message \<Rightarrow> int \<times> string" where
  "rpc_answer lib r m =
     (case validateRequest r of
        Some (code, e) \<Rightarrow> (code, e @ [CHR 0x0A])
      | None \<Rightarrow> (case lib_render lib (message_json m) of Inl e \<Rightarrow> (500, e) | Inr t \<Rightarrow> (200, t)))"

lemma Handler_quiet:
  assumes "gin_types env" "mc ''^.*$'' = Some f" "BeforeMid (srv_opt s) = [method_info]" "quiet_service s"
    and "srv_run s = 1" "status_of (ex_writer x) = None" "\<not> status_written (ex_writer x)"
  shows "\<exists>x1 m. Handler env mc lib s r x = (x1, Returns ()) \<and> mVersion m = ''2.0'' \<and> mMethod m = []
    \<and> status_of (ex_writer x1) = Some (fst (rpc_answer lib r m))
    \<and> resp_body (ex_writer x1) = resp_body (ex_writer x) @ snd (rpc_answer lib r m)"
proof (cases "validateRequest r")
  case (Some ce)
  let ?m = "output_message empty_message"
  from Some assms(5-7) have "Handler env mc lib s r x = (upd_writer (http_Error (snd ce) (fst ce)) x, Returns ())"
    by (simp add: Handler_def split: prod.split)
  with Some assms(6) show ?thesis
    by (intro exI [of _ "upd_writer (http_Error (snd ce) (fst ce)) x"] exI [of _ ?m])
       (auto simp: rpc_answer_def http_Error_simps split: prod.split)
next
  case None
  let ?x = "upd_writer (header_set ''x-content-type-options'' ''nosniff'') x"
  obtain x1 msg err where h: "handle env mc lib s r empty_message ?x = (x1, msg, Returns err)" "ex_writer x1 = ex_writer ?x"
    using handle_quiet [where mc = mc and f = f, OF assms(1-4)] by blast
  let ?m = "output_message (setError err msg)"
  have w: "status_of (ex_writer x1) = None" "\<not> status_written (ex_writer x1)" using h(2) assms(6,7) by (simp_all add: nosniff_kept)
  have "Handler env mc lib s r x = (upd_writer (writeResponse (lib_render lib) ?m) x1, Returns ())"
    using Handler_runs [OF _ assms(7) None h(1)] assms(5) by simp
  with None h(2) writeResponse_outcome [OF w(2,1)] show ?thesis
    by (intro exI [of _ "upd_writer (writeResponse (lib_render lib) ?m) x1"] exI [of _ ?m])
       (auto simp: rpc_answer_def split: sum.split)
qed

text \<open>The context a called method sees.\<close>

definition entered :: "(string \<times> string) list \<Rightarrow> bool \<Rightarrow> string \<Rightarrow> string \<Rightarrow> 's gctx \<Rightarrow> 's gctx" where
  "entered hs debugging uuid m x =
     set_key ''method'' m
       (upd_writer (header_set ''x-content-type-options'' ''nosniff'') (prepared hs debugging uuid x))"

lemma entered_facts:
  "gn_keys (ex_app (entered hs debugging uuid m x)) =
     (if debugging then (gn_keys (ex_app x))(''REQUEST_BODY'' \<mapsto> fst (gn_body (ex_app x))) else gn_keys (ex_app x))(''method'' \<mapsto> m)"
  "gn_app (ex_app (entered hs debugging uuid m x)) = gn_app (ex_app x)"
  by (auto simp: entered_def prepared_def copyRequestBody_def cors_headers_def midAddRequestID_def Let_def
      set_key_def set_body_def upd_writer_def)

text \<open>In debug mode a body that breaks off reaches the server as a complete one.\<close>

lemma debug_completes_body:
  "serve_jsonrpc recover cors mids True uuid route (set_body (b, Some e) x)
     = serve_jsonrpc recover cors mids True uuid route (set_body (b, None) x)"
  by (simp add: serve_jsonrpc_def copyRequestBody_def Let_def set_body_def set_key_def)

text \<open>A limited request is answered by the limiter alone.\<close>

lemma limiter_aborts:
  assumes "limit_by (limiter_rate v) x = (x1, Some (code, msg))"
  shows "run_chain (MiddlewareLimiter limit_by reached jsonp v # hs) x
    = (jsonp code (JSONP_body code (Inl msg)) (reached x1), Returns ())"
  using assms by (simp add: MiddlewareLimiter_def)

lemma limiter_rate_positive: "1 \<le> limiter_rate v"
  by (simp add: limiter_rate_def)


section \<open>The example program behind gin\<close>

text \<open>The service of Example_Fast with the cache as the application's part of the context.\<close>

definition lift_fn ::
  "(garg list \<Rightarrow> 's exchange \<Rightarrow> 's exchange \<times> call_result) \<Rightarrow> garg list \<Rightarrow> 's gctx \<Rightarrow> 's gctx \<times> call_result" where
  "lift_fn f args x =
     (case f args \<lparr>ex_writer = ex_writer x, ex_app = gn_app (ex_app x)\<rparr> of
        (y, res) \<Rightarrow> (\<lparr>ex_writer = ex_writer y, ex_app = (ex_app x)\<lparr>gn_app := ex_app y\<rparr>\<rparr>, res))"

definition lift_method :: "'s exchange rmethod \<Rightarrow> 's gctx rmethod" where
  "lift_method m =
     \<lparr>rm_name = rm_name m, rm_pkg_path = rm_pkg_path m, rm_ins = rm_ins m, rm_outs = rm_outs m, rm_fn = lift_fn (rm_fn m)\<rparr>"

definition lift_receiver :: "'s exchange receiver \<Rightarrow> 's gctx receiver" where
  "lift_receiver rc =
     \<lparr>rc_type_name = rc_type_name rc, rc_methods = map lift_method (rc_methods rc),
      rc_exclude = rc_exclude rc, rc_namespace = rc_namespace rc\<rparr>"

definition any_matcher :: matcher where
  "any_matcher p = Some (\<lambda>m. True)"

definition gin_fast :: "api_state gctx server outcome" where
  "gin_fast = rpc_server fast_env (\<lambda>rc. rc) \<lparr>SnakeNamespace = True, BeforeMid = []\<rparr>
     (Some (None, [lift_receiver api_receiver], None))"

definition gin_start :: "string \<Rightarrow> api_state gctx" where
  "gin_start body = \<lparr>ex_writer = fresh_writer,
     ex_app = \<lparr>gn_keys = Map.empty, gn_body = (body, None), gn_app = [''key'' \<mapsto> ''value'']\<rparr>\<rparr>"

definition gin_server :: "api_state gctx server" where
  "gin_server = (case gin_fast of Returns s \<Rightarrow> s | Panics p \<Rightarrow> new_server None)"

lemma gin_fast_server: "gin_fast = Returns gin_server"
proof -
  have "case gin_fast of Returns s \<Rightarrow> True | Panics p \<Rightarrow> False" by code_simp
  then obtain s where "gin_fast = Returns s" by (auto split: outcome.splits)
  then show ?thesis by (metis gin_server_def outcome.case(1))
qed

lemma gin_types_fast: "gin_types fast_env"
  by (simp add: gin_types_def fast_env_def)

lemma lift_fn_quiet:
  assumes "\<And>args x. ex_writer (fst (f args x)) = ex_writer x"
  shows "ex_writer (fst (lift_fn f args x)) = ex_writer x"
  using assms [of args "\<lparr>ex_writer = ex_writer x, ex_app = gn_app (ex_app x)\<rparr>"]
  by (cases "f args \<lparr>ex_writer = ex_writer x, ex_app = gn_app (ex_app x)\<rparr>") (simp add: lift_fn_def)

lemma gin_methods_quiet: "quiet_methods (lift_receiver api_receiver)"
  unfolding quiet_methods_def lift_receiver_def api_receiver_def lift_method_def
  by (auto intro!: lift_fn_quiet simp: api_AddCache_def api_FlushCache_def api_Get_def api_String_def split: option.splits)

lemma gin_quiet: "quiet_service gin_server"
  using rpc_server_quiet [OF gin_fast_server [unfolded gin_fast_def]] gin_methods_quiet by simp

text \<open>The Get request of the README, found behind gin.\<close>

definition gin_get :: "api_state gctx callback" where
  "gin_get = projr (getCallBack gin_server [''api'', ''get''])"

lemma gin_get: "getCallBack gin_server [''api'', ''get''] = Inr gin_get"
proof -
  have "\<not> isl (getCallBack gin_server [''api'', ''get''])" by code_simp
  then show ?thesis by (simp add: gin_get_def sum.collapse(2))
qed

lemma gin_get_accepted:
  "accepted_request (fast_codec get_doc) gin_server r empty_message get_msg gin_get"
proof -
  have "decode_message (lib_terr (fast_codec get_doc)) get_doc empty_message = (get_msg, None)" by code_simp
  moreover have "methods get_msg = Inr [''api'', ''get'']" "hasValidID get_msg" by code_simp+
  moreover have "map (srv_format gin_server) [''api'', ''get''] = [''api'', ''get'']" by code_simp
  moreover have "get_msg\<lparr>mMethod := go_join [''api'', ''get''] ''.''\<rparr> = get_msg" by code_simp
  ultimately show ?thesis
    using gin_get unfolding accepted_request_def
    by (intro exI [of _ get_doc] exI [of _ get_msg] exI [of _ "[''api'', ''get'']"]) (simp add: fast_codec_def)
qed

definition gin_seen :: "api_state gctx" where
  "gin_seen = entered [(''Vary'', ''Origin'')] True ''id'' (mMethod get_msg) (gin_start ''body'')"

lemma gin_get_call:
  "\<exists>args y. parsePositionalArguments (lib_dec (fast_codec get_doc)) (mParams get_msg) (cb_argTypes gin_get) = Inr args
    \<and> callback_call fast_env gin_get args gin_seen = (y, ResVal (Inr (JStr ''value'')), None)
    \<and> ex_writer y = ex_writer gin_seen"
proof -
  let ?args = "projr (parsePositionalArguments (lib_dec (fast_codec get_doc)) (mParams get_msg) (cb_argTypes gin_get))"
  have "\<not> isl (parsePositionalArguments (lib_dec (fast_codec get_doc)) (mParams get_msg) (cb_argTypes gin_get))" by code_simp
  moreover have "snd (callback_call fast_env gin_get ?args gin_seen) = (ResVal (Inr (JStr ''value'')), None)" by code_simp
  moreover have "ex_writer (fst (callback_call fast_env gin_get ?args gin_seen)) = ex_writer gin_seen"
    using gin_quiet gin_get by (simp add: callback_call_state quiet_service_def)
  ultimately show ?thesis by (metis prod.collapse sum.collapse(2))
qed

end
