(* ===== verification/Gin_Properties.thy ===== *)
theory Gin_Properties
  imports Gin_Stack
begin

text \<open>
  The properties of the HTTP stack of Run around the JSON-RPC server: what a client gets for a
  call of a registered method, that every request is answered once, and what the log keeps.
\<close>

text \<open>A request for a method of the service that goes through the whole stack is called on a
  context that holds the method's name (and, in debug mode, the body), and its value is the
  answer with status 200; the application's state is what the method left.\<close>

theorem rpc_over_gin:
  assumes "gin_types env" "mc ''^.*$'' = Some f" "cors_ok hs"
    and "rpc_server env ctor opt (Some (exclude, instances, None)) = Returns s" "BeforeMid opt = []"
    and "ex_writer x = fresh_writer" "gn_body (ex_app x) = (body, None)" "validateRequest r = None"
    and "accepted_request lib s (r\<lparr>rq_body := body\<rparr>) empty_message msg cbk" "knows_method mc (mMethod msg)"
    and "parsePositionalArguments (lib_dec lib) (mParams msg) (cb_argTypes cbk) = Inr args"
    and "callback_call env cbk args (entered hs debugging uuid (mMethod msg) x) = (y, ResVal (Inr v), None)"
    and "ex_writer y = ex_writer (entered hs debugging uuid (mMethod msg) x)"
    and "lib_render lib (message_json (output_message (msg\<lparr>mResult := Some v\<rparr>))) = Inr bts"
  shows "\<exists>z. serve_jsonrpc recover (cors_headers hs) [] debugging uuid (jsonrpc_route env mc lib broken s r) x = z
    \<and> status_of (ex_writer z) = Some 200 \<and> resp_body (ex_writer z) = bts \<and> ex_app z = ex_app y
    \<and> gn_app (ex_app (entered hs debugging uuid (mMethod msg) x)) = gn_app (ex_app x)
    \<and> gn_keys (ex_app (entered hs debugging uuid (mMethod msg) x)) ''method'' = Some (mMethod msg)
    \<and> (debugging \<longrightarrow> gn_keys (ex_app (entered hs debugging uuid (mMethod msg) x)) ''REQUEST_BODY'' = Some body)"
proof -
  let ?p = "prepared hs debugging uuid x"
  let ?x = "upd_writer (header_set ''x-content-type-options'' ''nosniff'') ?p"
  let ?r = "r\<lparr>rq_body := body\<rparr>"
  note s = rpc_server_options [OF assms(4,5)]
  have w: "status_of (ex_writer ?p) = None" "\<not> status_written (ex_writer ?p)"
    by (simp_all add: prepared_writer [OF assms(3)] assms(6))
  have "invoke env lib cbk msg (entered hs debugging uuid (mMethod msg) x) = (y, msg\<lparr>mResult := Some v\<rparr>, None)"
    by (rule invoke_value [OF assms(11,12)])
  with handle_accepted [OF assms(9)] assms(10) entered_def [of hs debugging uuid "mMethod msg" x]
    method_mid_runs [where opt = "srv_opt s" and mc = mc and env = env and f = f, OF assms(1,2) s(1)]
  have "handle env mc lib s ?r empty_message ?x = (y, msg\<lparr>mResult := Some v\<rparr>, Returns None)" by simp
  then have h: "Handler env mc lib s ?r ?p
      = (upd_writer (writeResponse (lib_render lib) (output_message (msg\<lparr>mResult := Some v\<rparr>))) y, Returns ())"
    using Handler_runs [where r = ?r and x = ?p and err = None] s(2) w(2) assms(8) by (simp add: setError_def)
  have y: "status_of (ex_writer y) = None" "\<not> status_written (ex_writer y)" "resp_body (ex_writer y) = resp_body (ex_writer ?p)"
    using w assms(13) by (simp_all add: entered_def nosniff_kept)
  have "resp_body (ex_writer ?p) = []"
    using assms(6) prepared_resp_body [of hs debugging uuid x] by (simp add: fresh_writer_def)
  with h y writeResponse_ok [where w = "ex_writer y" and render = "lib_render lib", OF y(2,1) assms(14)] show ?thesis
    by (auto simp: serve_prepared jsonrpc_route_def prepared_body assms(7) rpc_codec_def entered_facts)
qed

theorem rpc_over_gin_witness:
  "\<exists>z. serve_jsonrpc (\<lambda>p x. x) (cors_headers [(''Vary'', ''Origin'')]) [] True ''id''
       (jsonrpc_route fast_env any_matcher (fast_codec get_doc) (\<lambda>e b. Inl e) gin_server fast_request) (gin_start ''body'') = z
    \<and> status_of (ex_writer z) = Some 200 \<and> resp_body (ex_writer z) = ''{}''"
proof -
  obtain args y where c:
      "parsePositionalArguments (lib_dec (fast_codec get_doc)) (mParams get_msg) (cb_argTypes gin_get) = Inr args"
      "callback_call fast_env gin_get args gin_seen = (y, ResVal (Inr (JStr ''value'')), None)"
      "ex_writer y = ex_writer gin_seen"
    using gin_get_call by blast
  have v: "validateRequest fast_request = None" and h: "cors_ok [(''Vary'', ''Origin'')]" by code_simp+
  have k: "knows_method any_matcher (mMethod get_msg)" by (simp add: knows_method_def any_matcher_def)
  have w: "ex_writer (gin_start ''body'') = fresh_writer" "gn_body (ex_app (gin_start ''body'')) = (''body'', None)"
    by (simp_all add: gin_start_def)
  have m: "any_matcher ''^.*$'' = Some (\<lambda>m. True)" by (simp add: any_matcher_def)
  have o: "BeforeMid \<lparr>SnakeNamespace = True, BeforeMid = [] :: api_state gctx middle_info list\<rparr> = []" by simp
  have r: "lib_render (fast_codec get_doc) j = Inr ''{}''" for j by (simp add: fast_codec_def)
  show ?thesis
    using rpc_over_gin [where mc = any_matcher and f = "\<lambda>m. True" and lib = "fast_codec get_doc" and bts = "''{}''",
        OF gin_types_fast m h gin_fast_server [unfolded gin_fast_def] o w v gin_get_accepted k c(1) c(2,3) [unfolded gin_seen_def] r]
    by blast
qed



end
