(* ===== verification/Base64.thy ===== *)
theory Base64
  imports Prelude
begin

text \<open>
  src/g2util/json_help.go: JSON texts of values and their base64 form, over Go's encoding/base64
  (StdEncoding: padded, line breaks are skipped when decoding, the position in an error is left
  out).  Marshal and Unmarshal of the JSON package are parameters.
\<close>

section \<open>StdEncoding\<close>

definition b64_alphabet :: string where
  "b64_alphabet = ''ABCDEFGHIJKLMNOPQRSTUVWXYZabcdefghijklmnopqrstuvwxyz0123456789+/''"

definition b64_char :: "nat \<Rightarrow> char" where
  "b64_char n = b64_alphabet ! n"

fun index_of :: "'a \<Rightarrow> 'a list \<Rightarrow> nat option" where
  "index_of x [] = None"
| "index_of x (y # ys) = (if x = y then Some 0 else map_option Suc (index_of x ys))"

definition b64_value :: "char \<Rightarrow> nat option" where
  "b64_value c = index_of c b64_alphabet"

definition byte :: "char \<Rightarrow> nat" where
  "byte c = of_char c"

fun b64_encode :: "string \<Rightarrow> string" where
  "b64_encode (a # b # c # rest) =
     [b64_char (byte a div 4), b64_char (byte a mod 4 * 16 + byte b div 16),
      b64_char (byte b mod 16 * 4 + byte c div 64), b64_char (byte c mod 64)] @ b64_encode rest"
| "b64_encode [a, b] =
     [b64_char (byte a div 4), b64_char (byte a mod 4 * 16 + byte b div 16), b64_char (byte b mod 16 * 4), CHR ''='']"
| "b64_encode [a] = [b64_char (byte a div 4), b64_char (byte a mod 4 * 16), CHR ''='', CHR ''='']"
| "b64_encode [] = []"

definition first_byte :: "nat \<Rightarrow> nat \<Rightarrow> char" where
  "first_byte p q = char_of (p * 4 + q div 16)"

definition second_byte :: "nat \<Rightarrow> nat \<Rightarrow> char" where
  "second_byte q r = char_of (q mod 16 * 16 + r div 4)"

definition third_byte :: "nat \<Rightarrow> nat \<Rightarrow> char" where
  "third_byte r s = char_of (r mod 4 * 64 + s)"

text \<open>Groups of four; padding only ends the text, and bits behind the last byte are ignored.\<close>

fun b64_groups :: "string \<Rightarrow> string option" where
  "b64_groups [] = Some []"
| "b64_groups (a # b # c # d # rest) =
     (case (b64_value a, b64_value b, b64_value c, b64_value d) of
        (Some p, Some q, Some r, Some s) \<Rightarrow>
          map_option (\<lambda>xs. first_byte p q # second_byte q r # third_byte r s # xs) (b64_groups rest)
      | (Some p, Some q, Some r, None) \<Rightarrow>
          if d = CHR ''='' \<and> rest = [] then Some [first_byte p q, second_byte q r] else None
      | (Some p, Some q, None, None) \<Rightarrow>
          if c = CHR ''='' \<and> d = CHR ''='' \<and> rest = [] then Some [first_byte p q] else None
      | _ \<Rightarrow> None)"
| "b64_groups _ = None"

definition line_break :: "char \<Rightarrow> bool" where
  "line_break c \<longleftrightarrow> c = CHR 0x0A \<or> c = CHR 0x0D"

definition b64_decode :: "string \<Rightarrow> string option" where
  "b64_decode s = b64_groups (filter (\<lambda>c. \<not> line_break c) s)"

definition EncodedLen :: "nat \<Rightarrow> nat" where
  "EncodedLen n = (n + 2) div 3 * 4"

definition DecodedLen :: "nat \<Rightarrow> nat" where
  "DecodedLen n = n div 4 * 3"

text \<open>Writing into a fresh buffer of n zero bytes; a text that does not fit panics.\<close>

definition into_buffer :: "nat \<Rightarrow> string \<Rightarrow> string outcome" where
  "into_buffer n s =
     (if length s > n then Panics ''index out of range'' else Returns (s @ replicate (n - length s) (CHR 0x00)))"


section \<open>JSON texts\<close>

definition JsMarshal :: "('v \<Rightarrow> string + string) \<Rightarrow> 'v \<Rightarrow> string" where
  "JsMarshal marshal val = (case marshal val of Inl e \<Rightarrow> [] | Inr bts \<Rightarrow> bts)"

definition JsMarshalIndent :: "('v \<Rightarrow> string + string) \<Rightarrow> 'v \<Rightarrow> string" where
  "JsMarshalIndent indented val = (case indented val of Inl e \<Rightarrow> [] | Inr bts \<Rightarrow> bts)"

text \<open>The first optional argument asks for indentation when it is the boolean true.\<close>

definition JSONDump ::
  "('v \<Rightarrow> string + string) \<Rightarrow> ('v \<Rightarrow> string + string) \<Rightarrow> 'v \<Rightarrow> bool option list \<Rightarrow> string" where
  "JSONDump marshal indented val args =
     (let indent = (case args of [] \<Rightarrow> False | a # as \<Rightarrow> a = Some True)
      in if indent then JsMarshalIndent indented val else JsMarshal marshal val)"

definition JSONMarshalToBase64 :: "('v \<Rightarrow> string + string) \<Rightarrow> 'v \<Rightarrow> (string + string) outcome" where
  "JSONMarshalToBase64 marshal val =
     (case marshal val of
        Inl err \<Rightarrow> Returns (Inl err)
      | Inr bts \<Rightarrow> bind_outcome (into_buffer (EncodedLen (length bts)) (b64_encode bts)) (\<lambda>buf. Returns (Inr buf)))"

definition JSONUnmarshalFromBase64 ::
  "(string \<Rightarrow> 'v \<Rightarrow> 'v \<times> string option) \<Rightarrow> string \<Rightarrow> 'v \<Rightarrow> ('v \<times> string option) outcome" where
  "JSONUnmarshalFromBase64 unmarshal data val =
     (case b64_decode data of
        None \<Rightarrow> Returns (val, Some ''illegal base64 data'')
      | Some dec \<Rightarrow>
          bind_outcome (into_buffer (DecodedLen (length data)) dec) (\<lambda>dbuf. Returns (unmarshal (take (length dec) dbuf) val)))"


section \<open>Facts\<close>

lemma byte_less [simp]: "byte c < 256"
  by (simp add: byte_def)

lemma char_of_byte [simp]: "char_of (byte c) = c"
  by (simp add: byte_def)

lemma b64_value_char [simp]: "n < 64 \<Longrightarrow> b64_value (b64_char n) = Some n"
proof -
  have "\<forall>n \<in> set [0..<64]. b64_value (b64_char n) = Some n" by code_simp
  then show "n < 64 \<Longrightarrow> b64_value (b64_char n) = Some n" by simp
qed

lemma b64_value_special [simp]: "b64_value CHR ''='' = None" "b64_value CHR 0x0A = None" "b64_value CHR 0x0D = None"
  by code_simp+

lemma parts_less [simp]: "byte a div 4 < 64" "byte b div 16 < 16" "byte c div 64 < 4"
  by (simp_all add: less_mult_imp_div_less)

lemma sextets [simp]:
  "byte a mod 4 * 16 + byte b div 16 < 64" "byte b mod 16 * 4 + byte c div 64 < 64"
  "byte c mod 64 < 64" "byte a mod 4 * 16 < 64" "byte b mod 16 * 4 < 64"
proof -
  have "byte a mod 4 < 4" "byte b mod 16 < 16" by simp_all
  with parts_less(2) [of b] parts_less(3) [of c]
  show "byte a mod 4 * 16 + byte b div 16 < 64" "byte b mod 16 * 4 + byte c div 64 < 64"
    "byte c mod 64 < 64" "byte a mod 4 * 16 < 64" "byte b mod 16 * 4 < 64"
    by linarith+
qed

text \<open>Three bytes come back from their four sextets.\<close>

lemma bytes_again [simp]:
  "first_byte (byte a div 4) (byte a mod 4 * 16 + byte b div 16) = a"
  "second_byte (byte a mod 4 * 16 + byte b div 16) (byte b mod 16 * 4 + byte c div 64) = b"
  "third_byte (byte b mod 16 * 4 + byte c div 64) (byte c mod 64) = c"
  "first_byte (byte a div 4) (byte a mod 4 * 16) = a"
  "second_byte (byte a mod 4 * 16 + byte b div 16) (byte b mod 16 * 4) = b"
  by (simp_all add: first_byte_def second_byte_def third_byte_def)

lemma b64_groups_encode: "b64_groups (b64_encode s) = Some s"
  by (induction s rule: b64_encode.induct) simp_all

lemma length_b64_encode: "length (b64_encode s) = EncodedLen (length s)"
proof (induction s rule: b64_encode.induct)
  case (1 a b c rest)
  have "(n + 3 + 2) div 3 = (n + 2) div 3 + 1" for n :: nat using div_add_self2 [of 3 "n + 2"] by simp
  with 1 show ?case by (simp add: EncodedLen_def add.commute)
qed (simp_all add: EncodedLen_def)

lemma b64_char_in [simp]: "n < 64 \<Longrightarrow> b64_char n \<in> set b64_alphabet"
proof -
  have "length b64_alphabet = 64" by (simp add: b64_alphabet_def)
  then show "n < 64 \<Longrightarrow> b64_char n \<in> set b64_alphabet" by (simp add: b64_char_def)
qed

lemma b64_encode_chars: "set (b64_encode s) \<subseteq> insert (CHR ''='') (set b64_alphabet)"
  by (induction s rule: b64_encode.induct) auto

lemma no_line_break: "filter (\<lambda>c. \<not> line_break c) (b64_encode s) = b64_encode s"
proof -
  have "list_all (\<lambda>c. \<not> line_break c) (CHR ''='' # b64_alphabet)" by code_simp
  with b64_encode_chars [of s] show ?thesis by (auto simp: list_all_iff intro!: filter_True)
qed

lemma b64_groups_length: "b64_groups s = Some t \<Longrightarrow> length t \<le> DecodedLen (length s)"
proof (induction s arbitrary: t rule: b64_groups.induct)
  case (2 a b c d rest)
  have "DecodedLen (length (a # b # c # d # rest)) = 3 + DecodedLen (length rest)"
    using div_add_self1 [of 4 "length rest"] by (simp add: DecodedLen_def)
  moreover from "2.prems" have "length t \<le> 2 \<or> (\<exists>xs x y z. b64_groups rest = Some xs \<and> t = x # y # z # xs
      \<and> b64_value a \<noteq> None \<and> b64_value b \<noteq> None \<and> b64_value c \<noteq> None \<and> b64_value d \<noteq> None)"
    by (auto split: option.splits if_splits)
  ultimately show ?case using "2.IH" by fastforce
qed (simp_all add: DecodedLen_def)

lemma DecodedLen_mono: "m \<le> n \<Longrightarrow> DecodedLen m \<le> DecodedLen n"
  by (simp add: DecodedLen_def div_le_mono)

lemma b64_decode_length: "b64_decode s = Some t \<Longrightarrow> length t \<le> DecodedLen (length s)"
  using b64_groups_length DecodedLen_mono [OF length_filter_le] unfolding b64_decode_def by (metis le_trans)

end
