(* ===== verification/Tag_Instances.thy ===== *)
theory Tag_Instances
  imports Prelude
begin

text \<open>
  Reflection helpers (src/g2util/reflect.go, src/g2util/file.go, src/j2rpc/reflect.go): the
  instances of a struct's tagged fields, by which gof.go finds the tables to migrate and the
  JSON-RPC server its services.  A value is what package reflect shows of it: pointers, a struct
  with its fields, or another kind.  What a field points to is an address; allocating takes the
  next free one.
\<close>

record struct_field =
  sf_name :: string
  sf_tags :: "string list"
  sf_exported :: bool
  sf_is_ptr :: bool
  sf_value :: "nat option"

datatype rvalue = RPtr "rvalue option" | RStruct "struct_field list" | ROther | RInvalid

text \<open>Elem of a nil pointer is the invalid value.\<close>

fun ValueIndirect :: "rvalue \<Rightarrow> rvalue" where
  "ValueIndirect (RPtr None) = RInvalid"
| "ValueIndirect (RPtr (Some v)) = ValueIndirect v"
| "ValueIndirect v = v"

definition zero_field :: "struct_field \<Rightarrow> struct_field" where
  "zero_field f = f\<lparr>sf_value := None\<rparr>"

definition NewValue :: "rvalue \<Rightarrow> rvalue outcome" where
  "NewValue bean =
     (case ValueIndirect bean of
        RInvalid \<Rightarrow> Panics ''reflect: call of reflect.Value.Type on zero Value''
      | RStruct fs \<Rightarrow> Returns (RPtr (Some (RStruct (map zero_field fs))))
      | v \<Rightarrow> Returns (RPtr (Some v)))"

text \<open>Only what is reached through a pointer can be set; so can only exported fields.\<close>

definition is_pointer :: "rvalue \<Rightarrow> bool" where
  "is_pointer v \<longleftrightarrow> (case v of RPtr _ \<Rightarrow> True | _ \<Rightarrow> False)"

definition append_field ::
  "string \<Rightarrow> bool \<Rightarrow> struct_field \<Rightarrow> nat \<times> nat list \<Rightarrow> struct_field \<times> nat \<times> nat list" where
  "append_field tagName addressable f st =
     (case st of (free, data) \<Rightarrow>
        if tagName \<notin> set (sf_tags f) then (f, free, data)
        else if \<not> (addressable \<and> sf_exported f \<and> sf_is_ptr f) then (f, free, data)
        else case sf_value f of
          None \<Rightarrow> (f\<lparr>sf_value := Some free\<rparr>, Suc free, data @ [free])
        | Some p \<Rightarrow> (f, free, data @ [p]))"

fun append_fields ::
  "string \<Rightarrow> bool \<Rightarrow> struct_field list \<Rightarrow> nat \<times> nat list \<Rightarrow> struct_field list \<times> nat \<times> nat list" where
  "append_fields tagName addressable [] st = ([], st)"
| "append_fields tagName addressable (f # fs) st =
     (case append_field tagName addressable f st of (f1, st1) \<Rightarrow>
        case append_fields tagName addressable fs st1 of (fs1, st2) \<Rightarrow> (f1 # fs1, st2))"

fun set_struct :: "struct_field list \<Rightarrow> rvalue \<Rightarrow> rvalue" where
  "set_struct fs (RPtr (Some v)) = RPtr (Some (set_struct fs v))"
| "set_struct fs (RStruct _) = RStruct fs"
| "set_struct fs v = v"

text \<open>The object afterwards, the next free address and the instances.\<close>

definition ObjectTagInstances :: "rvalue \<Rightarrow> string \<Rightarrow> nat \<Rightarrow> (rvalue \<times> nat \<times> nat list) outcome" where
  "ObjectTagInstances obj tagName free =
     (case ValueIndirect obj of
        RStruct fs \<Rightarrow>
          (case append_fields tagName (is_pointer obj) fs (free, []) of
             (fs1, free1, data) \<Rightarrow> Returns (set_struct fs1 obj, free1, data))
      | _ \<Rightarrow> Panics ''reflect: call of reflect.Value.NumField on non-struct Value'')"

text \<open>\<^verbatim>\<open>None\<close> is a value that is no slice.\<close>

definition TranslateSlice2Interfaces :: "'a list option \<Rightarrow> 'a list outcome" where
  "TranslateSlice2Interfaces sl =
     (case sl of None \<Rightarrow> Panics ''need slice type'' | Some vs \<Rightarrow> Returns (fold (\<lambda>v v2. v2 @ [v]) vs []))"

text \<open>The name of a function without its package, and without the suffix of a method value.\<close>

definition FuncName :: "string \<Rightarrow> string" where
  "FuncName name = (let sl = go_split CHR ''.'' name in replace_all (sl ! (length sl - 1)) ''-fm'' [])"


section \<open>Facts\<close>

definition tagged :: "string \<Rightarrow> bool \<Rightarrow> struct_field \<Rightarrow> bool" where
  "tagged tagName addressable f \<longleftrightarrow>
     tagName \<in> set (sf_tags f) \<and> addressable \<and> sf_exported f \<and> sf_is_ptr f"

lemma append_field_cases:
  "append_field tagName addressable f (free, data) =
     (if tagged tagName addressable f
      then (case sf_value f of
              None \<Rightarrow> (f\<lparr>sf_value := Some free\<rparr>, Suc free, data @ [free])
            | Some p \<Rightarrow> (f, free, data @ [p]))
      else (f, free, data))"
  by (auto simp: append_field_def tagged_def)

text \<open>How a field may change: a tagged nil pointer gets an address from the given range.\<close>

definition filled :: "string \<Rightarrow> bool \<Rightarrow> nat \<Rightarrow> nat \<Rightarrow> struct_field \<Rightarrow> struct_field \<Rightarrow> bool" where
  "filled tagName addressable lo hi f f1 \<longleftrightarrow>
     (if tagged tagName addressable f \<and> sf_value f = None
      then (\<exists>p. f1 = f\<lparr>sf_value := Some p\<rparr> \<and> lo \<le> p \<and> p < hi) else f1 = f)"

lemma filled_mono: "filled t a lo hi f f1 \<Longrightarrow> lo' \<le> lo \<Longrightarrow> hi \<le> hi' \<Longrightarrow> filled t a lo' hi' f f1"
  by (fastforce simp: filled_def split: if_splits)

lemma append_fields_result:
  assumes "append_fields t a fs (free, data) = (fs1, free1, data1)"
  shows "free \<le> free1 \<and> list_all2 (filled t a free free1) fs fs1
    \<and> data1 = data @ map (\<lambda>f. the (sf_value f)) (filter (tagged t a) fs1)
    \<and> (\<forall>f \<in> set fs1. tagged t a f \<longrightarrow> sf_value f \<noteq> None)"
  using assms
proof (induction fs arbitrary: free data fs1 free1 data1)
  case (Cons f fs)
  obtain f1 m d where f1: "append_field t a f (free, data) = (f1, m, d)" by (cases "append_field t a f (free, data)") auto
  obtain fs2 m2 d2 where fs2: "append_fields t a fs (m, d) = (fs2, m2, d2)" by (cases "append_fields t a fs (m, d)") auto
  have out: "fs1 = f1 # fs2" "free1 = m2" "data1 = d2" using Cons.prems f1 fs2 by simp_all
  have one: "free \<le> m \<and> filled t a free m f f1 \<and> tagged t a f1 = tagged t a f
      \<and> d = data @ (if tagged t a f then [the (sf_value f1)] else []) \<and> (tagged t a f \<longrightarrow> sf_value f1 \<noteq> None)"
    using f1 by (auto simp: append_field_cases filled_def tagged_def split: if_splits option.splits)
  note IH = Cons.IH [OF fs2]
  have "filled t a free m2 f f1" using one IH filled_mono by blast
  moreover have "list_all2 (filled t a free m2) fs fs2"
    using IH one by (auto elim!: list_all2_mono intro: filled_mono)
  ultimately show ?case using one IH out by auto
qed simp

text \<open>The addresses given out are the free ones in order.\<close>

lemma append_fields_fresh:
  assumes "append_fields t a fs (free, data) = (fs1, free1, data1)"
  shows "map (\<lambda>(f, f1). the (sf_value f1)) (filter (\<lambda>(f, f1). tagged t a f \<and> sf_value f = None) (zip fs fs1)) = [free..<free1]"
  using assms
proof (induction fs arbitrary: free data fs1 free1 data1)
  case (Cons f fs)
  obtain f1 m d where f1: "append_field t a f (free, data) = (f1, m, d)" by (cases "append_field t a f (free, data)") auto
  obtain fs2 m2 d2 where fs2: "append_fields t a fs (m, d) = (fs2, m2, d2)" by (cases "append_fields t a fs (m, d)") auto
  have out: "fs1 = f1 # fs2" "free1 = m2" using Cons.prems f1 fs2 by simp_all
  from append_fields_result [OF fs2] have "m \<le> m2" by simp
  with out f1 Cons.IH [OF fs2] show ?case
    by (auto simp: append_field_cases upt_conv_Cons split: if_splits option.splits)
qed simp

text \<open>A second pass finds every tagged field filled and changes nothing.\<close>

lemma append_fields_again:
  "\<forall>f \<in> set fs. tagged t a f \<longrightarrow> sf_value f \<noteq> None \<Longrightarrow>
     append_fields t a fs (free, data) = (fs, free, data @ map (\<lambda>f. the (sf_value f)) (filter (tagged t a) fs))"
  by (induction fs arbitrary: data) (auto simp: append_field_cases)

lemma ValueIndirect_set_struct: "ValueIndirect v = RStruct fs \<Longrightarrow> ValueIndirect (set_struct fs1 v) = RStruct fs1"
  by (induction v rule: ValueIndirect.induct) auto

lemma set_struct_twice: "set_struct fs2 (set_struct fs1 v) = set_struct fs2 v"
  by (induction fs1 v rule: set_struct.induct) auto

lemma set_struct_same: "ValueIndirect v = RStruct fs \<Longrightarrow> set_struct fs v = v"
  by (induction v rule: ValueIndirect.induct) auto

lemma is_pointer_set_struct [simp]: "is_pointer (set_struct fs v) = is_pointer v"
  by (cases v; cases "v = RPtr None") (auto simp: is_pointer_def split: rvalue.splits option.splits)

end
