(* ===== verification/Gob_Time.thy ===== *)
theory Gob_Time
  imports Json_Time
begin

text \<open>
  The gob form of a JSONTime (src/g2util/time.go): the binary form of package time, a version
  byte, 8 bytes of seconds, 4 of nanoseconds, 2 of the zone's minutes and, in version 2, one of
  its seconds.  A time read back is in the local zone or in a fixed one; like everywhere in this
  model only the instant counts.  Also StringFormat and TimeExcWrap.
\<close>

text \<open>The k low bytes of an integer, the highest first, and the number they stand for.\<close>

fun be_bytes :: "nat \<Rightarrow> int \<Rightarrow> string" where
  "be_bytes 0 v = []"
| "be_bytes (Suc k) v = be_bytes k (v div 256) @ [char_of (nat (v mod 256))]"

definition be_value :: "string \<Rightarrow> int" where
  "be_value bs = foldl (\<lambda>a c. a * 256 + int (of_char c)) 0 bs"

definition as_signed :: "nat \<Rightarrow> int \<Rightarrow> int" where
  "as_signed k v = (if v < 2 ^ (8 * k - 1) then v else v - 2 ^ (8 * k))"

text \<open>Go's division truncates.\<close>

definition quot_int :: "int \<Rightarrow> int \<Rightarrow> int" where
  "quot_int a b = sgn a * (\<bar>a\<bar> div b)"

definition rem_int :: "int \<Rightarrow> int \<Rightarrow> int" where
  "rem_int a b = a - quot_int a b * b"

definition MarshalBinary :: "int \<Rightarrow> gotime \<Rightarrow> string + string" where
  "MarshalBinary z t =
     (let offsetSec = rem_int z 60; offset = quot_int z 60
      in if offset < -32768 \<or> offset = -1 \<or> offset > 32767 then Inl ''Time.MarshalBinary: unexpected zone offset''
         else Inr ([char_of (if offsetSec \<noteq> 0 then 2 else 1 :: nat)] @ be_bytes 8 (t_sec t) @ be_bytes 4 (int (t_nsec t))
           @ be_bytes 2 offset @ (if offsetSec \<noteq> 0 then be_bytes 1 offsetSec else [])))"

definition UnmarshalBinary :: "string \<Rightarrow> gotime \<Rightarrow> gotime \<times> string option" where
  "UnmarshalBinary buf t =
     (case buf of
        [] \<Rightarrow> (t, Some ''Time.UnmarshalBinary: no data'')
      | version # rest \<Rightarrow>
          let v = of_char version :: nat
          in if v \<noteq> 1 \<and> v \<noteq> 2 then (t, Some ''Time.UnmarshalBinary: unsupported version'')
             else if length buf \<noteq> (if v = 2 then 16 else 15) then (t, Some ''Time.UnmarshalBinary: invalid length'')
             else (\<lparr>t_sec = as_signed 8 (be_value (take 8 rest)), t_nsec = nat (be_value (take 4 (drop 8 rest)))\<rparr>, None))"

definition GobEncode :: "int \<Rightarrow> json_time \<Rightarrow> string + string" where
  "GobEncode z p = (case p of None \<Rightarrow> Inr [] | Some _ \<Rightarrow> MarshalBinary z (Convert2Time p))"

definition GobDecode :: "string \<Rightarrow> json_time \<Rightarrow> json_time \<times> string option" where
  "GobDecode data p =
     (case p of
        None \<Rightarrow> (None, None)
      | Some _ \<Rightarrow>
          (case UnmarshalBinary data (Convert2Time p) of
             (s, Some err) \<Rightarrow> (p, Some err)
           | (s, None) \<Rightarrow> (Some s, None)))"

text \<open>\<^verbatim>\<open>fmt\<close> is Format of package time with a layout.\<close>

definition StringFormat :: "(string \<Rightarrow> gotime \<Rightarrow> string) \<Rightarrow> string \<Rightarrow> json_time \<Rightarrow> string" where
  "StringFormat fmt layout p = (case p of None \<Rightarrow> [] | Some _ \<Rightarrow> fmt layout (Convert2Time p))"

text \<open>TimeExcWrap: the clock is read before and after the function.\<close>

definition TimeExcWrap :: "('s \<Rightarrow> int) \<Rightarrow> ('s \<Rightarrow> 's) \<Rightarrow> 's \<Rightarrow> 's \<times> int" where
  "TimeExcWrap clock fn s = (let n = clock s; s1 = fn s in (s1, clock s1 - n))"


section \<open>Facts\<close>

lemma length_be_bytes [simp]: "length (be_bytes k v) = k"
  by (induction k arbitrary: v) simp_all

lemma be_value_bytes: "be_value (be_bytes k v) = v mod 256 ^ k"
proof (induction k arbitrary: v)
  case (Suc k)
  have "be_value (be_bytes (Suc k) v) = be_value (be_bytes k (v div 256)) * 256 + v mod 256"
    by (simp add: be_value_def of_char_of take_bit_eq_mod)
  also have "\<dots> = v mod (256 * 256 ^ k)"
    using Suc mod_mult2_eq' [of v 256 "256 ^ k"] by simp
  finally show ?case by simp
qed (simp add: be_value_def)

lemma signed_again:
  assumes "- (2 ^ 63) \<le> v" "v < 2 ^ 63"
  shows "as_signed 8 (v mod 2 ^ 64) = v"
proof (cases "0 \<le> v")
  case True
  with assms show ?thesis by (simp add: as_signed_def)
next
  case False
  have "(v + 2 ^ 64) mod 2 ^ 64 = v + 2 ^ 64"
    using assms False by (intro mod_pos_pos_trivial) simp_all
  then have "v mod 2 ^ 64 = v + 2 ^ 64" by (simp only: mod_add_self2)
  with assms False show ?thesis by (simp add: as_signed_def)
qed

definition zone_fits :: "int \<Rightarrow> bool" where
  "zone_fits z \<longleftrightarrow> (let m = quot_int z 60 in -32768 \<le> m \<and> m \<le> 32767 \<and> m \<noteq> -1)"

definition gob_length :: "int \<Rightarrow> nat" where
  "gob_length z = (if rem_int z 60 = 0 then 15 else 16)"

text \<open>The binary form of a time, and what is read from it.\<close>

lemma MarshalBinary_bytes:
  assumes "zone_fits z"
  shows "\<exists>v b. MarshalBinary z t = Inr (v # b) \<and> length (v # b) = gob_length z
    \<and> of_char v = (if gob_length z = 16 then 2 else 1 :: nat)
    \<and> take 8 b = be_bytes 8 (t_sec t) \<and> take 4 (drop 8 b) = be_bytes 4 (int (t_nsec t))"
  using assms by (auto simp: MarshalBinary_def zone_fits_def gob_length_def Let_def of_char_of)

lemma UnmarshalBinary_short:
  assumes "of_char v = (if n = 16 then 2 else 1 :: nat)" "n \<in> {15, 16}" "k < n" "length b = n - 1"
  shows "\<exists>e. UnmarshalBinary (take k (v # b)) t = (t, Some e)"
  using assms by (cases k) (auto simp: UnmarshalBinary_def Let_def)

lemma nsec_again: "n < 2 ^ 32 \<Longrightarrow> nat (int n mod 256 ^ 4) = n"
  by simp


text \<open>SetTimeZone: the local zone, unless the zone cannot be loaded.\<close>

definition TimeZone :: string where "TimeZone = ''Asia/Shanghai''"

definition SetTimeZone :: "(string \<Rightarrow> string + 'z) \<Rightarrow> 'z \<Rightarrow> 'z \<times> string option" where
  "SetTimeZone load_location time_local =
     (case load_location TimeZone of Inl err \<Rightarrow> (time_local, Some err) | Inr lc \<Rightarrow> (lc, None))"

end
