(* ===== verification/Helper_Properties.thy ===== *)
theory Helper_Properties
  imports Base64 Tag_Instances Gob_Time
begin

text \<open>
  The properties of helpers the other packages build on: base64 texts of values, the instances
  of tagged fields, and the gob form of times.
\<close>

text \<open>
  A value survives its base64 text: when the JSON text of the value is read back by the JSON
  package, JSONUnmarshalFromBase64 gives the same result on the text of JSONMarshalToBase64, and
  on that text with line breaks put in anywhere; the buffer is filled exactly, neither function
  panics, and the text has only letters of the alphabet and padding.
\<close>

theorem base64_json_roundtrip:
  assumes "marshal v = Inr t" "filter (\<lambda>c. \<not> line_break c) data = b64_encode t"
  shows "JSONMarshalToBase64 marshal v = Returns (Inr (b64_encode t))
    \<and> length (b64_encode t) = EncodedLen (length t)
    \<and> set (b64_encode t) \<subseteq> insert (CHR ''='') (set b64_alphabet)
    \<and> JSONUnmarshalFromBase64 unm (b64_encode t) old = Returns (unm t old)
    \<and> JSONUnmarshalFromBase64 unm data old = Returns (unm t old)"
proof -
  have read: "JSONUnmarshalFromBase64 unm d old = Returns (unm t old)"
    if "filter (\<lambda>c. \<not> line_break c) d = b64_encode t" for d
  proof -
    have "b64_decode d = Some t" by (simp add: b64_decode_def that b64_groups_encode)
    with b64_decode_length [OF this] show ?thesis by (simp add: JSONUnmarshalFromBase64_def into_buffer_def)
  qed
  have "JSONMarshalToBase64 marshal v = Returns (Inr (b64_encode t))"
    using assms(1) length_b64_encode [of t] by (simp add: JSONMarshalToBase64_def into_buffer_def)
  with read [OF no_line_break] read [OF assms(2)] b64_encode_chars [of t] length_b64_encode [of t]
  show ?thesis by simp
qed

theorem base64_json_roundtrip_witness:
  "JSONUnmarshalFromBase64 (\<lambda>s old. (s, None)) (''e30'' @ [CHR 0x0A] @ ''='') ''old'' = Returns (''{}'', None)"
proof -
  have "filter (\<lambda>c. \<not> line_break c) (''e30'' @ [CHR 0x0A] @ ''='') = b64_encode ''{}''" by code_simp
  from base64_json_roundtrip [where marshal = "\<lambda>v::string. Inr ''{}''" and v = "[]" and unm = "\<lambda>s old. (s, None)"
      and old = "''old''", OF refl this]
  show ?thesis by simp
qed

text \<open>
  The instances of a tag: for an object given by a pointer they are the values of exactly the
  exported pointer fields with the tag, in the order of the fields; nil ones were allocated at
  the next free addresses in turn, everything else is untouched, and a second call finds the same
  instances and allocates nothing.
\<close>

theorem tag_instances:
  assumes "ValueIndirect obj = RStruct fs" "is_pointer obj"
  shows "\<exists>obj1 free1 ids fs1. ObjectTagInstances obj tag free = Returns (obj1, free1, ids)
    \<and> ValueIndirect obj1 = RStruct fs1 \<and> free \<le> free1 \<and> list_all2 (filled tag True free free1) fs fs1
    \<and> map (\<lambda>(f, f1). the (sf_value f1)) (filter (\<lambda>(f, f1). tagged tag True f \<and> sf_value f = None) (zip fs fs1)) = [free..<free1]
    \<and> ids = map (\<lambda>f. the (sf_value f)) (filter (tagged tag True) fs1)
    \<and> (\<forall>f \<in> set fs1. tagged tag True f \<longrightarrow> sf_value f \<noteq> None)
    \<and> ObjectTagInstances obj1 tag free1 = Returns (obj1, free1, ids)"
proof -
  obtain fs1 free1 ids where f: "append_fields tag True fs (free, []) = (fs1, free1, ids)"
    by (cases "append_fields tag True fs (free, [])") auto
  note r = append_fields_result [OF f] append_fields_fresh [OF f]
  have one: "ObjectTagInstances obj tag free = Returns (set_struct fs1 obj, free1, ids)"
    using assms f by (simp add: ObjectTagInstances_def)
  note v = ValueIndirect_set_struct [OF assms(1), of fs1]
  have "ObjectTagInstances (set_struct fs1 obj) tag free1 = Returns (set_struct fs1 obj, free1, ids)"
    using r v assms(2) append_fields_again [of fs1 tag True free1 "[]"] set_struct_same [OF v]
    by (simp add: ObjectTagInstances_def)
  with one v r show ?thesis
    by (intro exI [of _ "set_struct fs1 obj"] exI [of _ free1] exI [of _ ids] exI [of _ fs1]) auto
qed

definition app_object :: rvalue where
  "app_object = RPtr (Some (RStruct
     [\<lparr>sf_name = ''Users'', sf_tags = [''j2rpc''], sf_exported = True, sf_is_ptr = True, sf_value = None\<rparr>,
      \<lparr>sf_name = ''hidden'', sf_tags = [''j2rpc''], sf_exported = False, sf_is_ptr = True, sf_value = None\<rparr>,
      \<lparr>sf_name = ''Files'', sf_tags = [''j2rpc'', ''migrate''], sf_exported = True, sf_is_ptr = True, sf_value = Some 3\<rparr>]))"

theorem tag_instances_witness:
  "\<exists>obj1. ObjectTagInstances app_object ''j2rpc'' 7 = Returns (obj1, 8, [7, 3])
     \<and> ObjectTagInstances obj1 ''j2rpc'' 8 = Returns (obj1, 8, [7, 3])"
proof -
  have "case ObjectTagInstances app_object ''j2rpc'' 7 of Returns (o1, n, ids) \<Rightarrow> n = 8 \<and> ids = [7, 3] | Panics p \<Rightarrow> False"
    by code_simp
  then obtain o1 where "ObjectTagInstances app_object ''j2rpc'' 7 = Returns (o1, 8, [7, 3])"
    by (auto split: outcome.splits)
  moreover obtain fs where "ValueIndirect app_object = RStruct fs" "is_pointer app_object"
    by (simp add: app_object_def is_pointer_def)
  ultimately show ?thesis using tag_instances [of app_object fs "''j2rpc''" 7] by auto
qed

text \<open>
  The gob form keeps a time to the nanosecond, in every local zone it can be written in: it
  has 15 bytes, or 16 for a zone with seconds, GobDecode reads the same instant from it, and every
  proper prefix of it is refused and leaves the value as it was.
\<close>

theorem gob_time_roundtrip:
  assumes "zone_fits z" "t_nsec t < 10 ^ 9" "- (2 ^ 63) \<le> t_sec t" "t_sec t < 2 ^ 63"
  shows "\<exists>bs. GobEncode z (Some t) = Inr bs \<and> length bs = gob_length z
    \<and> GobDecode bs (Some old) = (Some t, None)
    \<and> (\<forall>k < gob_length z. \<exists>e. GobDecode (take k bs) (Some old) = (Some old, Some e))"
proof -
  obtain v b where m: "MarshalBinary z t = Inr (v # b)" "length (v # b) = gob_length z"
    "of_char v = (if gob_length z = 16 then 2 else 1 :: nat)"
    "take 8 b = be_bytes 8 (t_sec t)" "take 4 (drop 8 b) = be_bytes 4 (int (t_nsec t))"
    using MarshalBinary_bytes [OF assms(1)] by blast
  have n: "gob_length z \<in> {15, 16}" by (simp add: gob_length_def)
  have s: "as_signed 8 (be_value (take 8 b)) = t_sec t"
    using signed_again [OF assms(3,4)] by (simp add: m(4) be_value_bytes)
  have "t_nsec t < 2 ^ 32" using assms(2) by simp
  then have "nat (be_value (take 4 (drop 8 b))) = t_nsec t" by (simp only: m(5) be_value_bytes nsec_again)
  with s m(2,3) n have "GobDecode (v # b) (Some old) = (Some t, None)"
    by (auto simp: GobDecode_def Convert2Time_def UnmarshalBinary_def Let_def)
  moreover have "\<exists>e. GobDecode (take k (v # b)) (Some old) = (Some old, Some e)" if "k < gob_length z" for k
  proof -
    have "length b = gob_length z - 1" using m(2) by simp
    then have "\<exists>e. UnmarshalBinary (take k (v # b)) old = (old, Some e)"
      by (rule UnmarshalBinary_short [OF m(3) n that])
    then show ?thesis by (auto simp: GobDecode_def Convert2Time_def)
  qed
  ultimately show ?thesis using m(1,2)
    by (intro exI [of _ "v # b"]) (simp add: GobEncode_def Convert2Time_def)
qed

theorem gob_time_roundtrip_witness:
  "\<exists>bs. GobEncode 28800 (Some \<lparr>t_sec = -5, t_nsec = 999999999\<rparr>) = Inr bs \<and> length bs = 15
     \<and> GobDecode bs (Some zero_time) = (Some \<lparr>t_sec = -5, t_nsec = 999999999\<rparr>, None)"
proof -
  have z: "zone_fits 28800" and l: "gob_length 28800 = 15" by code_simp+
  show ?thesis
    using gob_time_roundtrip [OF z, of "\<lparr>t_sec = -5, t_nsec = 999999999\<rparr>" zero_time] by (simp add: l) blast
qed

end
