(* ===== verification/Connections.thy ===== *)
theory Connections
  imports Mysql_Schema Emq "HOL-Library.Word"
begin

text \<open>
  How connections are opened (src/g2db/mysql.go, src/g2db/redis.go, src/g2emq/emq.go): the
  options taken from the configuration, xorm engines with their life time, and the dialling of
  the MQTT broker.  The library behind an engine is the record of its calls on a world
  \<^verbatim>\<open>'w\<close>; texts of the configuration are read by package cast, a record of parameters.
\<close>

section \<open>Engines\<close>

record 'w engine_lib =
  el_new :: "string \<Rightarrow> 'w \<Rightarrow> 'w \<times> (string + nat)"
  el_exec :: "nat \<Rightarrow> string \<Rightarrow> 'w \<Rightarrow> 'w \<times> string option"
  el_ping :: "nat \<Rightarrow> 'w \<Rightarrow> 'w \<times> string option"
  el_close :: "nat \<Rightarrow> 'w \<Rightarrow> 'w"

text \<open>The deferred Close runs whether the function returns or panics.\<close>

definition DialWithMysql ::
  "'w engine_lib \<Rightarrow> mysql_config \<Rightarrow> (nat \<Rightarrow> 'w \<Rightarrow> 'w \<times> string option outcome) \<Rightarrow> 'w \<Rightarrow> 'w \<times> string option outcome" where
  "DialWithMysql lib cf fn w =
     (case el_new lib (getDataSource cf [False]) w of
        (w1, Inl err) \<Rightarrow> (w1, Returns (Some err))
      | (w1, Inr dba) \<Rightarrow> (case fn dba w1 of (w2, res) \<Rightarrow> (el_close lib dba w2, res)))"

definition ExecSqOnNewEngine :: "'w engine_lib \<Rightarrow> mysql_config \<Rightarrow> string \<Rightarrow> 'w \<Rightarrow> 'w \<times> string option" where
  "ExecSqOnNewEngine lib cf sq w =
     (case el_new lib (getDataSource cf [False]) w of
        (w1, Inl err) \<Rightarrow> (w1, Some err)
      | (w1, Inr dba) \<Rightarrow> (case el_exec lib dba sq w1 of (w2, err) \<Rightarrow> (el_close lib dba w2, err)))"

definition DropDatabase :: "'w engine_lib \<Rightarrow> mysql_config \<Rightarrow> 'w \<Rightarrow> 'w \<times> string option" where
  "DropDatabase lib cf = ExecSqOnNewEngine lib cf (dropDB_sql cf)"

definition createDB :: "'w engine_lib \<Rightarrow> mysql_config \<Rightarrow> 'w \<Rightarrow> 'w \<times> string option" where
  "createDB lib cf = ExecSqOnNewEngine lib cf (createDB_sql cf)"


section \<open>Options of the database\<close>

record cast_lib =
  ca_bool :: "string \<Rightarrow> bool"
  ca_int :: "string \<Rightarrow> int"
  ca_duration :: "string \<Rightarrow> 64 word"

datatype xorm_level = LOG_DEBUG | LOG_INFO | LOG_WARNING | LOG_ERR | LOG_OFF

record engine_options =
  eo_disable_cache :: bool
  eo_log_level :: xorm_level
  eo_show_sql :: bool
  eo_max_lifetime :: "64 word"
  eo_max_idle :: int
  eo_max_open :: int

definition xorm_log_level :: "string \<Rightarrow> xorm_level" where
  "xorm_log_level lvl =
     (if lvl = ''warn'' \<or> lvl = ''warning'' then LOG_WARNING
      else if lvl = ''error'' then LOG_ERR
      else if lvl = ''debug'' then LOG_DEBUG
      else if lvl = ''info'' then LOG_INFO
      else LOG_OFF)"

text \<open>xorm's levels in their order: an engine logs what is not below its level.\<close>

fun level_rank :: "xorm_level \<Rightarrow> nat" where
  "level_rank LOG_DEBUG = 0"
| "level_rank LOG_INFO = 1"
| "level_rank LOG_WARNING = 2"
| "level_rank LOG_ERR = 3"
| "level_rank LOG_OFF = 4"

lemma level_rank_inj: "level_rank a = level_rank b \<Longrightarrow> a = b"
  by (cases a; cases b) simp_all

instantiation xorm_level :: linorder
begin

definition less_eq_xorm_level :: "xorm_level \<Rightarrow> xorm_level \<Rightarrow> bool" where
  "less_eq_xorm_level a b \<longleftrightarrow> level_rank a \<le> level_rank b"

definition less_xorm_level :: "xorm_level \<Rightarrow> xorm_level \<Rightarrow> bool" where
  "less_xorm_level a b \<longleftrightarrow> level_rank a < level_rank b"

instance
  by standard (auto simp: less_eq_xorm_level_def less_xorm_level_def dest: level_rank_inj)

end

text \<open>A level that is missing or misspelt silences the engine.\<close>

lemma unknown_level_silences:
  "s \<notin> {''warn'', ''warning'', ''error'', ''debug'', ''info''} \<Longrightarrow> l \<le> xorm_log_level s"
  by (cases l) (auto simp: xorm_log_level_def less_eq_xorm_level_def)

definition go_second :: "64 word" where "go_second = 10 ^ 9"

text \<open>A missing key of the map reads as the empty text; the product of durations wraps.\<close>

definition map_text :: "(string \<rightharpoonup> string) \<Rightarrow> string \<Rightarrow> string" where
  "map_text m k = (case m k of None \<Rightarrow> [] | Some v \<Rightarrow> v)"

definition conn_lifetime :: "cast_lib \<Rightarrow> string \<Rightarrow> 64 word" where
  "conn_lifetime ca s = ca_duration ca s * go_second"

definition dial_options :: "cast_lib \<Rightarrow> (string \<rightharpoonup> string) \<Rightarrow> string \<Rightarrow> engine_options" where
  "dial_options ca valMap log_level =
     \<lparr>eo_disable_cache = (\<not> ca_bool ca (map_text valMap ''use_cache'')),
      eo_log_level = xorm_log_level log_level,
      eo_show_sql = ca_bool ca (map_text valMap ''show_sql''),
      eo_max_lifetime = conn_lifetime ca (map_text valMap ''max_conn_lifetime_seconds''),
      eo_max_idle = ca_int ca (map_text valMap ''max_idle_connections''),
      eo_max_open = ca_int ca (map_text valMap ''max_open_connections'')\<rparr>"

text \<open>The field eg of Mysql with the options of its engine.\<close>

record 'w mysql_conn =
  mc_eg :: "(nat \<times> engine_options) option"
  mc_world :: 'w

definition dial ::
  "'w engine_lib \<Rightarrow> cast_lib \<Rightarrow> mysql_config \<Rightarrow> (string \<rightharpoonup> string) \<Rightarrow> string \<Rightarrow> 'w mysql_conn \<Rightarrow> 'w mysql_conn \<times> string option" where
  "dial lib ca cf valMap log_level m =
     (case el_new lib (getDataSource cf []) (mc_world m) of
        (w1, Inl err) \<Rightarrow> (m\<lparr>mc_world := w1\<rparr>, Some err)
      | (w1, Inr e) \<Rightarrow>
          (case el_ping lib e w1 of
             (w2, Some err) \<Rightarrow> (m\<lparr>mc_world := w2\<rparr>, Some err)
           | (w2, None) \<Rightarrow> (m\<lparr>mc_eg := Some (e, dial_options ca valMap log_level), mc_world := w2\<rparr>, None)))"

definition mysql_AfterShutdown :: "'w engine_lib \<Rightarrow> 'w mysql_conn \<Rightarrow> 'w mysql_conn" where
  "mysql_AfterShutdown lib m =
     (case mc_eg m of None \<Rightarrow> m | Some (e, o1) \<Rightarrow> m\<lparr>mc_world := el_close lib e (mc_world m)\<rparr>)"

definition SetEngine :: "nat \<times> engine_options \<Rightarrow> 'w mysql_conn \<Rightarrow> 'w mysql_conn" where
  "SetEngine e m = m\<lparr>mc_eg := Some e\<rparr>"

text \<open>migrate, with the schema's synchronisation as a function on the engine.\<close>

definition mysql_migrate ::
  "'w engine_lib \<Rightarrow> cast_lib \<Rightarrow> mysql_config \<Rightarrow> (string \<rightharpoonup> string) \<Rightarrow> string
     \<Rightarrow> (nat \<Rightarrow> 'w \<Rightarrow> 'w \<times> string option) \<Rightarrow> 'w mysql_conn \<Rightarrow> 'w mysql_conn \<times> string option" where
  "mysql_migrate lib ca cf valMap log_level sync m =
     (case createDB lib cf (mc_world m) of
        (w1, Some err) \<Rightarrow> (m\<lparr>mc_world := w1\<rparr>, Some err)
      | (w1, None) \<Rightarrow>
          (case dial lib ca cf valMap log_level (m\<lparr>mc_world := w1\<rparr>) of
             (m2, Some err) \<Rightarrow> (m2, Some err)
           | (m2, None) \<Rightarrow>
               (case mc_eg m2 of
                  None \<Rightarrow> (m2, None)
                | Some (e, o1) \<Rightarrow>
                    (case sync e (mc_world m2) of
                       (w3, Some err) \<Rightarrow> (m2\<lparr>mc_world := w3\<rparr>, Some err)
                     | (w3, None) \<Rightarrow> (m2\<lparr>mc_world := el_close lib e w3\<rparr>, None)))))"


section \<open>Options of Redis\<close>

record redis_options =
  ro_addr :: string
  ro_password :: string
  ro_db :: int
  ro_max_retries :: int
  ro_min_idle :: int
  ro_max_age :: "64 word"

definition newOption :: "cast_lib \<Rightarrow> (string \<rightharpoonup> string) \<Rightarrow> string \<Rightarrow> int \<Rightarrow> redis_options" where
  "newOption ca cfg svAddr db =
     \<lparr>ro_addr = replace_all (map_text cfg ''host'') ''{host}'' svAddr, ro_password = map_text cfg ''pwd'', ro_db = db,
      ro_max_retries = ca_int ca (map_text cfg ''max_retries''),
      ro_min_idle = ca_int ca (map_text cfg ''min_idle_connections''),
      ro_max_age = conn_lifetime ca (map_text cfg ''max_conn_age_seconds'')\<rparr>"


section \<open>The MQTT broker\<close>

definition hex_digit :: "nat \<Rightarrow> char" where
  "hex_digit n = ''0123456789abcdef'' ! n"

definition hex_encode :: "string \<Rightarrow> string" where
  "hex_encode s = concat (map (\<lambda>c. let n = of_char c in [hex_digit (n div 16), hex_digit (n mod 16)]) s)"

definition EmqSuperAuth :: "(string \<Rightarrow> string) \<Rightarrow> (string \<Rightarrow> string) \<Rightarrow> string \<times> string" where
  "EmqSuperAuth sha256 cfg = (cfg ''emqx.super_username'', hex_encode (sha256 (cfg ''emqx.super_password'')))"

record mqtt_options =
  mo_broker :: string
  mo_connect_retry :: bool
  mo_keep_alive :: int
  mo_ping_timeout :: int
  mo_client_id :: string
  mo_username :: string
  mo_password :: string

text \<open>
  The connection of an Emq: the prefix of its topics, its options, the client built from them and
  whether the worker runs.  \<^verbatim>\<open>cfg\<close> is GetString of the configuration, durations are in seconds.
\<close>

record emq_conn =
  ec_topicPrefix :: string
  ec_opt :: "mqtt_options option"
  ec_client :: "mqtt_options option"
  ec_started :: bool

definition prepareOption :: "(string \<Rightarrow> string) \<Rightarrow> string \<Rightarrow> (string \<Rightarrow> string) \<Rightarrow> emq_conn \<Rightarrow> emq_conn" where
  "prepareOption sha256 uuid cfg e =
     (case EmqSuperAuth sha256 cfg of (username, password) \<Rightarrow>
        let o1 = \<lparr>mo_broker = replace_all (cfg ''emqx.broker'') ''{host}'' (cfg ''global.host''),
              mo_connect_retry = True, mo_keep_alive = 60, mo_ping_timeout = 2,
              mo_client_id = cfg ''name'' @ '':SYS_'' @ uuid, mo_username = username, mo_password = password\<rparr>
        in e\<lparr>ec_topicPrefix := cfg ''name'' @ ''/'', ec_opt := Some o1\<rparr>)"

text \<open>dial and Dial, and how Dial ends.\<close>

datatype dial_end = Dialled | Dial_fatal string

definition emq_dial :: "(string \<Rightarrow> string) \<Rightarrow> string \<Rightarrow> (string \<Rightarrow> string) \<Rightarrow> token_answer \<Rightarrow> emq_conn \<Rightarrow> emq_conn \<times> string option" where
  "emq_dial sha256 uuid cfg ans e =
     (let e1 = prepareOption sha256 uuid cfg e in (e1\<lparr>ec_client := ec_opt e1\<rparr>, token_error ans))"

definition emq_Dial :: "(string \<Rightarrow> string) \<Rightarrow> string \<Rightarrow> (string \<Rightarrow> string) \<Rightarrow> token_answer \<Rightarrow> emq_conn \<Rightarrow> emq_conn \<times> dial_end" where
  "emq_Dial sha256 uuid cfg ans e =
     (case emq_dial sha256 uuid cfg ans e of
        (e1, Some err) \<Rightarrow> (e1, Dial_fatal err)
      | (e1, None) \<Rightarrow> (e1\<lparr>ec_started := True\<rparr>, Dialled))"

end
