(* ===== verification/Resty.thy ===== *)
theory Resty
  imports Prelude
begin

text \<open>
  The HTTP client of src/g2util/resty.go: the settings of the resty client, of its transport and
  of its dialer, and the two setters, each of which installs a transport of its own.  Parsing of
  a proxy's URL, proxy.FromURL and the random choice of a user agent are parameters; durations are
  in milliseconds.
\<close>

record dialer =
  dl_timeout :: int
  dl_fallback_delay :: int
  dl_keep_alive :: int
  dl_local_addr :: "string option"

text \<open>How a transport dials: directly, or through a proxy reached with a dialer.\<close>

datatype 'p dial_context = Direct dialer | Through_proxy 'p dialer

record 'p transport =
  tr_proxy_from_env :: bool
  tr_dial :: "'p dial_context"
  tr_insecure :: bool
  tr_tls_timeout :: int
  tr_max_idle :: nat
  tr_max_idle_per_host :: nat
  tr_max_per_host :: nat
  tr_idle_timeout :: int
  tr_header_timeout :: int
  tr_continue_timeout :: int
  tr_http2 :: bool

record 'p resty_client =
  rs_get_payload :: bool
  rs_headers :: "string \<rightharpoonup> string"
  rs_retry_count :: nat
  rs_retry_wait :: int
  rs_retry_max_wait :: int
  rs_timeout :: int
  rs_transport :: "'p transport"

definition createDialer :: dialer where
  "createDialer = \<lparr>dl_timeout = 20000, dl_fallback_delay = 300, dl_keep_alive = 15000, dl_local_addr = None\<rparr>"

definition createTransport :: "nat \<Rightarrow> string option \<Rightarrow> 'p transport" where
  "createTransport gomaxprocs localAddr =
     (let dialer0 = createDialer;
          dialer1 = (case localAddr of None \<Rightarrow> dialer0 | Some a \<Rightarrow> dialer0\<lparr>dl_local_addr := Some a\<rparr>)
      in \<lparr>tr_proxy_from_env = True, tr_dial = Direct dialer1, tr_insecure = True, tr_tls_timeout = 10000, tr_max_idle = 1000,
          tr_max_idle_per_host = gomaxprocs + 1, tr_max_per_host = 10, tr_idle_timeout = 300000,
          tr_header_timeout = 30000, tr_continue_timeout = 20000, tr_http2 = True\<rparr>)"

text \<open>transport: a new one, never the one the client has.\<close>

definition new_transport :: "nat \<Rightarrow> 'p transport" where
  "new_transport gomaxprocs = createTransport gomaxprocs None"

definition resty_constructor :: "nat \<Rightarrow> 'p resty_client" where
  "resty_constructor gomaxprocs =
     \<lparr>rs_get_payload = True,
      rs_headers = [''Accept'' \<mapsto> ''*/*'', ''Pragma'' \<mapsto> ''no-cache'', ''Cache-Control'' \<mapsto> ''no-cache'',
                    ''Connection'' \<mapsto> ''keep-alive''],
      rs_retry_count = 2, rs_retry_wait = 500, rs_retry_max_wait = 2000, rs_timeout = 30000,
      rs_transport = createTransport gomaxprocs None\<rparr>"

definition SetDialTimeout :: "nat \<Rightarrow> int \<Rightarrow> 'p resty_client \<Rightarrow> 'p resty_client" where
  "SetDialTimeout gomaxprocs d0 a =
     (let d = (if d0 < 1000 then 1000 else d0);
          dialer1 = createDialer\<lparr>dl_timeout := d\<rparr>
      in a\<lparr>rs_transport := (new_transport gomaxprocs)\<lparr>tr_dial := Direct dialer1\<rparr>\<rparr>)"

text \<open>
  SetProxy: \<^verbatim>\<open>parse\<close> is url.Parse, \<^verbatim>\<open>with_user\<close> sets the user of the URL, \<^verbatim>\<open>from_url\<close> is
  proxy.FromURL with what it gives, a proxy and whether it is a ContextDialer.
\<close>

definition SetProxy ::
  "(string \<Rightarrow> 'u option) \<Rightarrow> ('i \<Rightarrow> 'u \<Rightarrow> 'u) \<Rightarrow> ('u \<Rightarrow> ('p \<times> bool) option) \<Rightarrow> nat \<Rightarrow> string \<Rightarrow> 'i
     \<Rightarrow> 'p resty_client \<Rightarrow> 'p resty_client" where
  "SetProxy parse with_user from_url gomaxprocs proxyURL user a =
     (case parse proxyURL of
        None \<Rightarrow> a
      | Some pURL \<Rightarrow>
          (case from_url (with_user user pURL) of
             None \<Rightarrow> a
           | Some (proxyDialer, is_context_dialer) \<Rightarrow>
               if \<not> is_context_dialer then a
               else a\<lparr>rs_transport := (new_transport gomaxprocs)\<lparr>tr_dial := Through_proxy proxyDialer createDialer\<rparr>\<rparr>))"

definition userAgents :: "string list" where
  "userAgents =
     [''Mozilla/5.0 (Macintosh; Intel Mac OS X 10_15_7) AppleWebKit/537.36 (KHTML, like Gecko) Chrome/104.0.0.0 Safari/537.36'',
      ''Mozilla/5.0 (Windows NT 6.1; WOW64) AppleWebKit/535.11 (KHTML, like Gecko) Chrome/17.0.963.56 Safari/535.11'',
      ''Mozilla/5.0 (Macintosh; Intel Mac OS X 10_7_3) AppleWebKit/535.20 (KHTML, like Gecko) Chrome/19.0.1036.7 Safari/535.20'',
      ''Mozilla/5.0 (Windows NT 6.1; WOW64) AppleWebKit/537.1 (KHTML, like Gecko) Chrome/21.0.1180.71 Safari/537.1 LBBROWSER'',
      ''Mozilla/5.0 (Windows NT 6.1; Win64; x64; rv:2.0b13pre) Gecko/20110307 Firefox/4.0b13pre'',
      ''Mozilla/5.0 (Windows NT 10.0; WOW64) AppleWebKit/537.36 (KHTML, like Gecko) Chrome/61.0.3163.100 Safari/537.36'']"

definition RandUseragent :: "(nat \<Rightarrow> nat) \<Rightarrow> string" where
  "RandUseragent rand_int = userAgents ! rand_int (length userAgents)"


text \<open>The hook the constructor sets: every request gets a user agent of its own.\<close>

definition before_request :: "(nat \<Rightarrow> nat) \<Rightarrow> (string \<rightharpoonup> string) \<Rightarrow> (string \<rightharpoonup> string)" where
  "before_request rand_int headers = headers(''User-Agent'' \<mapsto> RandUseragent rand_int)"

section \<open>Facts\<close>

datatype ('i) resty_setting = Set_timeout int | Set_proxy string 'i

fun apply_setting ::
  "(string \<Rightarrow> 'u option) \<Rightarrow> ('i \<Rightarrow> 'u \<Rightarrow> 'u) \<Rightarrow> ('u \<Rightarrow> ('p \<times> bool) option) \<Rightarrow> nat \<Rightarrow> 'i resty_setting
     \<Rightarrow> 'p resty_client \<Rightarrow> 'p resty_client" where
  "apply_setting parse with_user from_url n (Set_timeout d) a = SetDialTimeout n d a"
| "apply_setting parse with_user from_url n (Set_proxy u i) a = SetProxy parse with_user from_url n u i a"

definition dialer_of :: "'p dial_context \<Rightarrow> dialer" where
  "dialer_of c = (case c of Direct d \<Rightarrow> d | Through_proxy p d \<Rightarrow> d)"

definition usable_dialer :: "dialer \<Rightarrow> bool" where
  "usable_dialer d \<longleftrightarrow> 1000 \<le> dl_timeout d \<and> dl_fallback_delay d = 300 \<and> dl_keep_alive d = 15000"

text \<open>Whatever is set, connecting has a time limit of at least a second, and nothing else changes.\<close>

lemma settings_keep:
  "usable_dialer (dialer_of (tr_dial (rs_transport a))) \<Longrightarrow>
     usable_dialer (dialer_of (tr_dial (rs_transport (fold (apply_setting parse with_user from_url n) ss a))))
     \<and> (\<exists>t. fold (apply_setting parse with_user from_url n) ss a = a\<lparr>rs_transport := t\<rparr>)"
proof (induction ss arbitrary: a)
  case Nil
  then show ?case by (auto intro!: exI [of _ "rs_transport a"])
next
  case (Cons s ss)
  let ?a = "apply_setting parse with_user from_url n s a"
  have "(\<exists>t. ?a = a\<lparr>rs_transport := t\<rparr>) \<and> usable_dialer (dialer_of (tr_dial (rs_transport ?a)))"
    using Cons.prems
    by (cases s)
       (auto simp: SetDialTimeout_def SetProxy_def usable_dialer_def dialer_of_def createDialer_def Let_def
         split: option.splits intro: exI [of _ "rs_transport a"])
  then obtain t where t: "?a = a\<lparr>rs_transport := t\<rparr>" "usable_dialer (dialer_of (tr_dial (rs_transport ?a)))" by blast
  from Cons.IH [OF t(2)] t(1) show ?case by auto
qed

end
