(* ===== verification/Connection_Properties.thy ===== *)
theory Connection_Properties
  imports Connections Resty
begin

text \<open>The properties of connections: engines are closed, life times are exact in a range, and what the
  setters of the HTTP client keep and lose.\<close>

text \<open>What xorm documents of engines: \<^verbatim>\<open>opened\<close> are those with open connections.\<close>

definition engines_documented :: "('w \<Rightarrow> nat set) \<Rightarrow> 'w engine_lib \<Rightarrow> bool" where
  "engines_documented opened lib \<longleftrightarrow>
     (\<forall>s w w1 e. el_new lib s w = (w1, Inr e) \<longrightarrow> e \<notin> opened w \<and> opened w1 = insert e (opened w))
   \<and> (\<forall>s w w1 err. el_new lib s w = (w1, Inl err) \<longrightarrow> opened w1 = opened w)
   \<and> (\<forall>e s w. opened (fst (el_exec lib e s w)) = opened w)
   \<and> (\<forall>e w. opened (fst (el_ping lib e w)) = opened w)
   \<and> (\<forall>e w. opened (el_close lib e w) = opened w - {e})"

lemma el_new_cases:
  assumes "engines_documented opened lib"
  shows "(\<exists>w1 err. el_new lib s w = (w1, Inl err) \<and> opened w1 = opened w)
    \<or> (\<exists>w1 e. el_new lib s w = (w1, Inr e) \<and> e \<notin> opened w \<and> opened w1 = insert e (opened w))"
  using assms unfolding engines_documented_def by (metis prod.exhaust sum.exhaust)

lemma engine_calls [simp]:
  assumes "engines_documented opened lib"
  shows "opened (fst (el_exec lib e s w)) = opened w" "opened (fst (el_ping lib e w)) = opened w"
    "opened (el_close lib e w) = opened w - {e}"
  using assms by (simp_all add: engines_documented_def)

lemma DialWithMysql_closes:
  assumes "engines_documented opened lib" "\<forall>e w. opened (fst (fn e w)) = opened w"
  shows "opened (fst (DialWithMysql lib cf fn w)) = opened w"
  using el_new_cases [OF assms(1), of "getDataSource cf [False]" w]
proof (elim disjE exE conjE)
  fix w1 e
  assume o: "el_new lib (getDataSource cf [False]) w = (w1, Inr e)" "e \<notin> opened w" "opened w1 = insert e (opened w)"
  obtain w2 r where f: "fn e w1 = (w2, r)" by fastforce
  with assms(2) have "opened w2 = opened w1" by (metis fst_conv)
  with o f assms(1) show ?thesis by (simp add: DialWithMysql_def)
qed (simp add: DialWithMysql_def)

lemma Exec_closes:
  assumes "engines_documented opened lib"
  shows "opened (fst (ExecSqOnNewEngine lib cf sq w)) = opened w"
  using el_new_cases [OF assms, of "getDataSource cf [False]" w]
proof (elim disjE exE conjE)
  fix w1 e
  assume o: "el_new lib (getDataSource cf [False]) w = (w1, Inr e)" "e \<notin> opened w" "opened w1 = insert e (opened w)"
  obtain w2 r where f: "el_exec lib e sq w1 = (w2, r)" by fastforce
  with engine_calls(1) [OF assms, of e sq w1] have "opened w2 = opened w1" by simp
  with o f assms show ?thesis by (simp add: ExecSqOnNewEngine_def)
qed (simp add: ExecSqOnNewEngine_def)

text \<open>dial: on success the engine of Mysql is the one opened; a failed ping leaves one open.\<close>

lemma dial_outcome:
  assumes "engines_documented opened lib" "dial lib ca cf valMap lvl m = (m1, res)"
  shows "(case res of
      None \<Rightarrow> (\<exists>e. mc_eg m1 = Some (e, dial_options ca valMap lvl) \<and> e \<notin> opened (mc_world m)
                \<and> opened (mc_world m1) = insert e (opened (mc_world m)))
    | Some err \<Rightarrow> mc_eg m1 = mc_eg m
        \<and> (if isl (snd (el_new lib (getDataSource cf []) (mc_world m))) then opened (mc_world m1) = opened (mc_world m)
           else (\<exists>e. e \<notin> opened (mc_world m) \<and> opened (mc_world m1) = insert e (opened (mc_world m)))))"
  using el_new_cases [OF assms(1), of "getDataSource cf []" "mc_world m"]
proof (elim disjE exE conjE)
  fix w1 err
  assume "el_new lib (getDataSource cf []) (mc_world m) = (w1, Inl err)" "opened w1 = opened (mc_world m)"
  with assms(2) show ?thesis by (auto simp: dial_def)
next
  fix w1 e
  assume opened: "el_new lib (getDataSource cf []) (mc_world m) = (w1, Inr e)" "e \<notin> opened (mc_world m)"
    "opened w1 = insert e (opened (mc_world m))"
  obtain w2 r where p: "el_ping lib e w1 = (w2, r)" by fastforce
  with engine_calls(2) [OF assms(1), of e w1] have "opened w2 = insert e (opened (mc_world m))"
    using opened by simp
  with opened p assms(2) show ?thesis by (cases r) (auto simp: dial_def)
qed

text \<open>
  No engine is forgotten: DialWithMysql (whatever its function answers, and if it panics),
  ExecSqOnNewEngine and a successful migrate leave exactly the engines open that were open
  before, and a dial followed by the shutdown does so too; the one exception is a dial whose
  ping fails: it leaves its engine open and unreachable.
\<close>

theorem engines_closed:
  assumes "engines_documented opened lib" "\<forall>e w. opened (fst (fn e w)) = opened w"
    and "\<forall>e w. opened (fst (sync e w)) = opened w"
  shows "opened (fst (DialWithMysql lib cf fn w)) = opened w
    \<and> opened (fst (ExecSqOnNewEngine lib cf sq w)) = opened w
    \<and> (\<forall>m m1. mysql_migrate lib ca cf valMap lvl sync m = (m1, None) \<longrightarrow> opened (mc_world m1) = opened (mc_world m))
    \<and> (\<forall>m m1. dial lib ca cf valMap lvl m = (m1, None) \<longrightarrow>
          opened (mc_world (mysql_AfterShutdown lib m1)) = opened (mc_world m))
    \<and> (\<forall>m m1 err. dial lib ca cf valMap lvl m = (m1, Some err) \<longrightarrow> \<not> isl (snd (el_new lib (getDataSource cf []) (mc_world m))) \<longrightarrow>
          mc_eg m1 = mc_eg m \<and> (\<exists>e. e \<notin> opened (mc_world m) \<and> opened (mc_world m1) = insert e (opened (mc_world m))))"
proof (intro conjI allI impI)
  fix m m1 assume "mysql_migrate lib ca cf valMap lvl sync m = (m1, None)"
  then obtain w1 m2 e o1 w3 where
    "createDB lib cf (mc_world m) = (w1, None)" and d: "dial lib ca cf valMap lvl (m\<lparr>mc_world := w1\<rparr>) = (m2, None)"
    "mc_eg m2 = Some (e, o1)" and s: "sync e (mc_world m2) = (w3, None)" "m1 = m2\<lparr>mc_world := el_close lib e w3\<rparr>"
    using dial_outcome [OF assms(1)]
    by (fastforce simp: mysql_migrate_def split: prod.splits option.splits)
  then have "opened w1 = opened (mc_world m)" using Exec_closes [OF assms(1), of cf "createDB_sql cf" "mc_world m"] by (simp add: createDB_def)
  moreover have "opened (mc_world m2) = insert e (opened w1) \<and> e \<notin> opened w1"
    using dial_outcome [OF assms(1) d(1)] d(2) by auto
  moreover have "opened w3 = opened (mc_world m2)" using assms(3) s(1) by (metis fst_conv)
  ultimately show "opened (mc_world m1) = opened (mc_world m)" using s(2) assms(1) by simp
next
  fix m m1 assume "dial lib ca cf valMap lvl m = (m1, None)"
  from dial_outcome [OF assms(1) this] assms(1)
  show "opened (mc_world (mysql_AfterShutdown lib m1)) = opened (mc_world m)"
    by (auto simp: mysql_AfterShutdown_def)
next
  fix m m1 err
  assume "dial lib ca cf valMap lvl m = (m1, Some err)" "\<not> isl (snd (el_new lib (getDataSource cf []) (mc_world m)))"
  from dial_outcome [OF assms(1) this(1)] this(2)
  show "mc_eg m1 = mc_eg m" "\<exists>e. e \<notin> opened (mc_world m) \<and> opened (mc_world m1) = insert e (opened (mc_world m))"
    by simp_all
qed (simp_all add: DialWithMysql_closes [OF assms(1,2)] Exec_closes [OF assms(1)])

text \<open>A library of engines: a counter and the open ones; the ping fails.\<close>

definition pool_lib :: "string option \<Rightarrow> (nat \<times> nat set) engine_lib" where
  "pool_lib ping =
     \<lparr>el_new = (\<lambda>s (n, open_set). ((Suc n, insert n (Set.filter (\<lambda>k. k < n) open_set)), Inr n)),
      el_exec = (\<lambda>e s w. (w, None)), el_ping = (\<lambda>e w. (w, ping)),
      el_close = (\<lambda>e (n, open_set). (n, open_set - {e}))\<rparr>"

definition pool_open :: "nat \<times> nat set \<Rightarrow> nat set" where
  "pool_open w = Set.filter (\<lambda>k. k < fst w) (snd w)"

lemma pool_documented: "engines_documented pool_open (pool_lib ping)"
  by (auto simp: engines_documented_def pool_lib_def pool_open_def)

definition demo_cfg :: mysql_config where
  "demo_cfg = \<lparr>cf_dsn = ''root:{host}/{db}'', cf_db = ''db1'', cf_app_name = ''app'', cf_host = ''h''\<rparr>"

definition no_cast :: cast_lib where
  "no_cast = \<lparr>ca_bool = (\<lambda>s. s = ''true''), ca_int = (\<lambda>s. 0), ca_duration = (\<lambda>s. 60)\<rparr>"

theorem engines_closed_witness:
  "\<exists>m1 e. dial (pool_lib (Some ''refused'')) no_cast demo_cfg Map.empty ''debug'' \<lparr>mc_eg = None, mc_world = (0, {})\<rparr> = (m1, Some ''refused'')
     \<and> mc_eg m1 = None \<and> pool_open (mc_world m1) = {e}
     \<and> pool_open (fst (DialWithMysql (pool_lib None) demo_cfg (\<lambda>e w. (w, Panics ''p'')) (0, {}))) = {}"
proof -
  let ?m = "\<lparr>mc_eg = None, mc_world = (0, {})\<rparr> :: (nat \<times> nat set) mysql_conn"
  let ?lib = "pool_lib (Some ''refused'')"
  obtain m1 where d: "dial ?lib no_cast demo_cfg Map.empty ''debug'' ?m = (m1, Some ''refused'')"
    by (simp add: dial_def pool_lib_def)
  have n: "\<not> isl (snd (el_new ?lib (getDataSource demo_cfg []) (mc_world ?m)))" by (simp add: pool_lib_def)
  have k: "\<forall>e w. pool_open (fst ((\<lambda>e w. (w, Panics ''p'')) e w)) = pool_open w" "\<forall>e w. pool_open (fst ((\<lambda>e w. (w, None)) e w)) = pool_open w"
    by simp_all
  note t = engines_closed [where fn = "\<lambda>e w. (w, Panics ''p'')" and sync = "\<lambda>e w. (w, None)" and ca = no_cast
      and cf = demo_cfg and valMap = Map.empty and lvl = "''debug''" and w = "(0, {})" and sq = "[]"]
  from t [OF pool_documented [of "Some ''refused''"] k]
  have "\<And>m m1 err. dial ?lib no_cast demo_cfg Map.empty ''debug'' m = (m1, Some err) \<Longrightarrow>
      \<not> isl (snd (el_new ?lib (getDataSource demo_cfg []) (mc_world m))) \<Longrightarrow>
      mc_eg m1 = mc_eg m \<and> (\<exists>e. e \<notin> pool_open (mc_world m) \<and> pool_open (mc_world m1) = insert e (pool_open (mc_world m)))"
    by blast
  from this [OF d n] have "mc_eg m1 = None \<and> (\<exists>e. pool_open (mc_world m1) = insert e (pool_open (0, {})))" by auto
  moreover from t [OF pool_documented [of None] k]
  have "pool_open (fst (DialWithMysql (pool_lib None) demo_cfg (\<lambda>e w. (w, Panics ''p'')) (0, {}))) = pool_open (0, {})" by blast
  moreover have "pool_open (0, {}) = {}" by (simp add: pool_open_def)
  ultimately show ?thesis using d by auto
qed

text \<open>
  The life time of a connection that the options of the database and of Redis carry is the
  configured number of seconds exactly when the duration read from the configuration is between
  -9223372036 and 9223372036 nanoseconds, as it is for a plain number of seconds; otherwise, as
  for a text with a unit, the product wraps.
\<close>

theorem lifetime_exact:
  "(sint (eo_max_lifetime (dial_options ca valMap lvl))
       = sint (ca_duration ca (map_text valMap ''max_conn_lifetime_seconds'')) * 10 ^ 9
     \<longleftrightarrow> \<bar>sint (ca_duration ca (map_text valMap ''max_conn_lifetime_seconds''))\<bar> \<le> 9223372036)
   \<and> (sint (ro_max_age (newOption ca cfg addr db)) = sint (ca_duration ca (map_text cfg ''max_conn_age_seconds'')) * 10 ^ 9
     \<longleftrightarrow> \<bar>sint (ca_duration ca (map_text cfg ''max_conn_age_seconds''))\<bar> \<le> 9223372036)"
proof -
  have "sint go_second = 10 ^ 9" by (simp add: go_second_def)
  then have "sint (conn_lifetime ca s) = signed_take_bit 63 (sint (ca_duration ca s) * 10 ^ 9)" for s
    by (simp add: conn_lifetime_def sint_word_ariths)
  then have "sint (conn_lifetime ca s) = sint (ca_duration ca s) * 10 ^ 9 \<longleftrightarrow> \<bar>sint (ca_duration ca s)\<bar> \<le> 9223372036" for s
    by (simp add: signed_take_bit_int_eq_self_iff) linarith
  then show ?thesis by (simp_all add: dial_options_def newOption_def)
qed

text \<open>
  However the HTTP client is configured, connecting keeps a time limit of at least a second
  (with the fallback delay and keep-alive of its dialer) and no other setting than the transport
  changes; but each setter starts from a fresh transport: a dial timeout set after a proxy drops
  the proxy (the client dials directly), an accepted proxy set after a dial timeout drops the
  timeout, and a proxy that is refused leaves the client as it is.
\<close>

theorem setters_of_client:
  "usable_dialer (dialer_of (tr_dial (rs_transport (fold (apply_setting parse with_user from_url n) ss (resty_constructor n)))))
   \<and> (\<exists>t. fold (apply_setting parse with_user from_url n) ss (resty_constructor n) = (resty_constructor n)\<lparr>rs_transport := t\<rparr>)
   \<and> SetDialTimeout n d (SetProxy parse with_user from_url n u i a) = SetDialTimeout n d a
   \<and> tr_dial (rs_transport (SetDialTimeout n d (SetProxy parse with_user from_url n u i a)))
       = Direct (createDialer\<lparr>dl_timeout := max 1000 d\<rparr>)
   \<and> SetProxy parse with_user from_url n u i (SetDialTimeout n d a)
       = (case Option.bind (parse u) (\<lambda>x. from_url (with_user i x)) of
            Some (p, True) \<Rightarrow> SetProxy parse with_user from_url n u i a
          | _ \<Rightarrow> SetDialTimeout n d a)"
proof -
  have "usable_dialer (dialer_of (tr_dial (rs_transport (resty_constructor n :: 'p resty_client))))" for n :: nat
    by (simp add: usable_dialer_def dialer_of_def resty_constructor_def createTransport_def createDialer_def Let_def)
  from settings_keep [OF this, of parse with_user from_url n ss n]
  show ?thesis
    by (auto simp: SetDialTimeout_def SetProxy_def Let_def max_def split: option.split bool.split)
qed

end
