(* ===== verification/Small_Helpers.thy ===== *)
theory Small_Helpers
  imports Bean_Map Log_File
begin

text \<open>
  Small operations of several packages: the typed getters of Map (src/g2util/map.go), the
  directory of the program (getRoot and TempFile of src/g2util/config.go), scheduled functions
  (src/g2util/time_ticker.go, src/g2util/cron.go), and the registry of commands
  (src/g2cmd/interface.go, src/g2cmd/g2cmd.go, src/g2cmd/cmd_root.go).  Package com's conversions
  of values are parameters.
\<close>

section \<open>Getters of Map\<close>

record com_lib =
  com_ToStr :: "json \<Rightarrow> string"
  com_MustInt :: "string \<Rightarrow> int"
  com_MustInt64 :: "string \<Rightarrow> int"

text \<open>strconv.ParseBool.\<close>

definition ParseBool :: "string \<Rightarrow> bool option" where
  "ParseBool s =
     (if s \<in> {''1'', ''t'', ''T'', ''true'', ''TRUE'', ''True''} then Some True
      else if s \<in> {''0'', ''f'', ''F'', ''false'', ''FALSE'', ''False''} then Some False
      else None)"

definition GetBool :: "com_lib \<Rightarrow> go_map \<Rightarrow> string \<Rightarrow> bool" where
  "GetBool com m key =
     (case map_of m key of
        None \<Rightarrow> False
      | Some val \<Rightarrow> (case ParseBool (com_ToStr com val) of None \<Rightarrow> False | Some a \<Rightarrow> a))"

definition GetInt :: "com_lib \<Rightarrow> go_map \<Rightarrow> string \<Rightarrow> int" where
  "GetInt com m key = (case map_of m key of None \<Rightarrow> 0 | Some val \<Rightarrow> com_MustInt com (com_ToStr com val))"

definition GetInt64 :: "com_lib \<Rightarrow> go_map \<Rightarrow> string \<Rightarrow> int" where
  "GetInt64 com m key = (case map_of m key of None \<Rightarrow> 0 | Some val \<Rightarrow> com_MustInt64 com (com_ToStr com val))"

definition GetString :: "com_lib \<Rightarrow> go_map \<Rightarrow> string \<Rightarrow> string" where
  "GetString com m key = (case map_of m key of None \<Rightarrow> [] | Some val \<Rightarrow> com_ToStr com val)"

text \<open>\<^verbatim>\<open>iter\<close> is the order in which the map is iterated.\<close>

definition map_Keys :: "(go_map \<Rightarrow> go_map) \<Rightarrow> go_map \<Rightarrow> string list" where
  "map_Keys iter m = fold (\<lambda>(k, v) list. list @ [k]) (iter m) []"

definition map_MarshalBinary :: "(json \<Rightarrow> string) \<Rightarrow> go_map \<Rightarrow> string" where
  "map_MarshalBinary print m = print (JObj m)"

definition map_UnmarshalBinary :: "(string \<Rightarrow> string + json) \<Rightarrow> string \<Rightarrow> go_map \<Rightarrow> string + go_map" where
  "map_UnmarshalBinary scan data m = (case scan data of Inl e \<Rightarrow> Inl e | Inr j \<Rightarrow> map_of_json j m)"

definition TransMapStringToMap :: "(string \<times> string) list \<Rightarrow> go_map" where
  "TransMapStringToMap m = fold (\<lambda>(k, v). AList.update k (JStr v)) m []"

lemma map_Keys_complete: "set (iter m) = set m \<Longrightarrow> set (map_Keys iter m) = fst ` set m"
proof -
  have "fold (\<lambda>(k, v) list. list @ [k]) xs acc = acc @ map fst xs" for xs :: go_map and acc
    by (induction xs arbitrary: acc) auto
  then show "set (iter m) = set m \<Longrightarrow> set (map_Keys iter m) = fst ` set m" by (simp add: map_Keys_def)
qed

lemma map_of_rev_distinct: "distinct (map fst m) \<Longrightarrow> map_of (rev m) = map_of m"
proof (induction m)
  case (Cons p m)
  then have "fst p \<notin> dom (map_of m)" by (simp add: dom_map_of_conv_image_fst)
  with Cons show ?case by (cases p) (auto simp: map_add_def fun_eq_iff domIff split: option.split)
qed simp

lemma TransMapStringToMap_values:
  "distinct (map fst m) \<Longrightarrow> map_of (TransMapStringToMap m) k = map_option JStr (map_of m k)"
proof -
  have "map_of (fold (\<lambda>(k, v). AList.update k (JStr v)) xs acc) k
      = (case map_of (rev xs) k of None \<Rightarrow> map_of acc k | Some v \<Rightarrow> Some (JStr v))" for xs :: "(string \<times> string) list" and acc
    by (induction xs arbitrary: acc) (auto simp: update_conv' map_add_def split: option.splits)
  moreover assume "distinct (map fst m)"
  ultimately show ?thesis by (simp add: TransMapStringToMap_def map_of_rev_distinct split: option.split)
qed


section \<open>The directory of the program\<close>

definition getRoot :: "string \<Rightarrow> string" where
  "getRoot ex = (if contains ex ''go-build'' then ''.'' else path_dir ex)"

definition TempFile :: "string \<Rightarrow> string" where
  "TempFile ex = path_join (path_join (getRoot ex) ''data'') ''conf_temp.yml''"


section \<open>Scheduled functions\<close>

text \<open>Ticker never returns; this is its effect on the ticks that have come.\<close>

fun Ticker :: "('s \<Rightarrow> 's) \<Rightarrow> 'tick list \<Rightarrow> 's \<Rightarrow> 's" where
  "Ticker fn [] s = s"
| "Ticker fn (t # ts) s = Ticker fn ts (fn s)"

lemma Ticker_power: "Ticker fn ts s = (fn ^^ length ts) s"
  by (induction ts arbitrary: s) (simp_all add: funpow_swap1)

record 'f g2cron =
  cr_tasks :: "(string \<times> 'f) list"
  cr_lines :: "string list"

definition AddTask :: "(string \<Rightarrow> string option) \<Rightarrow> string \<Rightarrow> 'f \<Rightarrow> 'f g2cron \<Rightarrow> 'f g2cron" where
  "AddTask parse_error spec fn c =
     (case parse_error spec of
        Some err \<Rightarrow> c\<lparr>cr_lines := cr_lines c @ [''[Add] '' @ err]\<rparr>
      | None \<Rightarrow> c\<lparr>cr_tasks := cr_tasks c @ [(spec, fn)]\<rparr>)"


section \<open>The registry of commands\<close>

text \<open>A process of the package, or one of the program with the name of its type.\<close>

datatype ('f, 'u) process = RootCmd | StartCmd "'f option" | StopCmd | RestartCmd | MigrateCmd "'f option"
  | UserCmd string 'u

fun type_name :: "('f, 'u) process \<Rightarrow> string" where
  "type_name RootCmd = ''rootCmd''"
| "type_name (StartCmd w) = ''startCmd''"
| "type_name StopCmd = ''stopCmd''"
| "type_name RestartCmd = ''restartCmd''"
| "type_name (MigrateCmd w) = ''migrateCmd''"
| "type_name (UserCmd n u) = n"

record ('f, 'u) g2cmd =
  gc_cmdMap :: "(string \<times> ('f, 'u) process) list"
  gc_startWorkerFunc :: "'f option"
  gc_migrateWorkerFunc :: "'f option"

definition g2cmd_Constructor :: "('f, 'u) g2cmd \<Rightarrow> ('f, 'u) g2cmd" where
  "g2cmd_Constructor g = g\<lparr>gc_cmdMap := []\<rparr>"

definition RegisterCmd :: "('f, 'u) process \<Rightarrow> ('f, 'u) g2cmd \<Rightarrow> ('f, 'u) g2cmd" where
  "RegisterCmd cmd g = g\<lparr>gc_cmdMap := AList.update (type_name cmd) cmd (gc_cmdMap g)\<rparr>"

definition SetMigrateWorker :: "'f option \<Rightarrow> ('f, 'u) g2cmd \<Rightarrow> ('f, 'u) g2cmd" where
  "SetMigrateWorker fn g = g\<lparr>gc_migrateWorkerFunc := fn\<rparr>"

definition SetStartWorker :: "'f option \<Rightarrow> ('f, 'u) g2cmd \<Rightarrow> ('f, 'u) g2cmd" where
  "SetStartWorker fn g = g\<lparr>gc_startWorkerFunc := fn\<rparr>"

definition BuildInfoInstanceAdd :: "go_map \<Rightarrow> go_map \<Rightarrow> go_map" where
  "BuildInfoInstanceAdd info instance_map = fold (\<lambda>(k, v). AList.update k v) info instance_map"

text \<open>FlagsGetBoolFunc: an unknown flag ends the process (Inl).\<close>

definition FlagsGetBoolFunc :: "(string \<Rightarrow> string + bool) \<Rightarrow> string \<Rightarrow> ('s \<Rightarrow> 's) \<Rightarrow> 's \<Rightarrow> string + 's" where
  "FlagsGetBoolFunc get_bool name fn s =
     (case get_bool name of Inl err \<Rightarrow> Inl err | Inr ok \<Rightarrow> Inr (if ok then fn s else s))"

text \<open>
  Execute registers its own commands after those of the program, so they replace commands of
  the same type name; every registered command, the root's own too, becomes a child of the root.
  \<^verbatim>\<open>iter\<close> is the order of the map, \<^verbatim>\<open>cmd_of\<close> builds the command of a process, \<^verbatim>\<open>run\<close> is
  cobra's Execute (an error ends the process, Inl).
\<close>

definition builtin_commands :: "('f, 'u) g2cmd \<Rightarrow> ('f, 'u) process list" where
  "builtin_commands g =
     [RootCmd, StartCmd (gc_startWorkerFunc g), StopCmd, RestartCmd, MigrateCmd (gc_migrateWorkerFunc g)]"

definition Execute_registers :: "('f, 'u) g2cmd \<Rightarrow> ('f, 'u) g2cmd" where
  "Execute_registers g = fold RegisterCmd (builtin_commands g) g"

definition g2cmd_Execute ::
  "((string \<times> ('f, 'u) process) list \<Rightarrow> (string \<times> ('f, 'u) process) list) \<Rightarrow> (('f, 'u) process \<Rightarrow> 'k)
     \<Rightarrow> ('k \<Rightarrow> 'k list \<Rightarrow> 's \<Rightarrow> 's \<times> string option) \<Rightarrow> string \<Rightarrow> go_map \<Rightarrow> ('f, 'u) g2cmd \<Rightarrow> 's
     \<Rightarrow> go_map \<times> ('f, 'u) g2cmd \<times> (string + 's)" where
  "g2cmd_Execute iter cmd_of run app_name info g s =
     (let info1 = BuildInfoInstanceAdd [(''appName'', JStr app_name)] info;
          g1 = Execute_registers g;
          root = cmd_of RootCmd;
          children = map (\<lambda>(n, process). cmd_of process) (iter (gc_cmdMap g1))
      in case run root children s of
           (s1, Some e) \<Rightarrow> (info1, g1, Inl e)
         | (s1, None) \<Rightarrow> (info1, g1, Inr s1))"

lemma fold_RegisterCmd:
  "gc_cmdMap (fold RegisterCmd cs g) = fold (\<lambda>(n, c). AList.update n c) (map (\<lambda>c. (type_name c, c)) cs) (gc_cmdMap g)"
  by (induction cs arbitrary: g) (auto simp: RegisterCmd_def)

lemma Execute_registers_commands:
  "map_of (gc_cmdMap (Execute_registers g)) =
     map_of (gc_cmdMap g) ++ [''rootCmd'' \<mapsto> RootCmd, ''startCmd'' \<mapsto> StartCmd (gc_startWorkerFunc g), ''stopCmd'' \<mapsto> StopCmd,
       ''restartCmd'' \<mapsto> RestartCmd, ''migrateCmd'' \<mapsto> MigrateCmd (gc_migrateWorkerFunc g)]"
proof -
  have "map_of (rev (map (\<lambda>c. (type_name c, c)) (builtin_commands g))) =
      [''rootCmd'' \<mapsto> RootCmd, ''startCmd'' \<mapsto> StartCmd (gc_startWorkerFunc g), ''stopCmd'' \<mapsto> StopCmd,
       ''restartCmd'' \<mapsto> RestartCmd, ''migrateCmd'' \<mapsto> MigrateCmd (gc_migrateWorkerFunc g)]"
    by (simp add: builtin_commands_def)
  then show ?thesis unfolding Execute_registers_def fold_RegisterCmd map_of_fold_update by simp
qed

end
