(* ===== verification/Token_Race.thy ===== *)
theory Token_Race
  imports Token
begin

text \<open>
  Interleavings of logins, logouts and verifications of one user id in several processes
  (src/g2db/token.go over src/g2db/cache.go and redis.go).  The hash of Redis holds the data of
  the id, every process has a memory cache; a writer changes the hash first and publishes the
  deletion afterwards; every process handles a published deletion twice, at once and delayed.
  Reading and storing in a process happen under the lock of the key, which the deletions take
  too; the refresh and the removal of expired data happen after the lock is released.
\<close>

section \<open>What a verification decides\<close>

datatype verdict =
    Refuse token_error
  | Nil_expiry
  | Expired_data
  | Refresh token_data
  | Accept token_data

definition token_verdict :: "('c, 'w) token_env \<Rightarrow> int \<Rightarrow> string \<Rightarrow> string \<Rightarrow> verdict" where
  "token_verdict te now token dat =
     (if dat = cacheNULL then Refuse UnknownToken
      else case tl_parse (te_lib te) dat of
        Inl e \<Rightarrow> Refuse (TokenFault (DbError e))
      | Inr tt \<Rightarrow>
          if td_Token tt \<noteq> token then Refuse InvalidToken
          else case td_Expire tt of
            None \<Rightarrow> Nil_expiry
          | Some ex \<Rightarrow>
              if now > ex then Expired_data
              else if ex - now < to_MaxRefresh (te_option te) then Refresh tt
              else Accept tt)"

definition refreshed :: "('c, 'w) token_env \<Rightarrow> int \<Rightarrow> token_data \<Rightarrow> token_data" where
  "refreshed te later tt = tt\<lparr>td_Expire := Some (later + to_Timeout (te_option te))\<rparr>"

text \<open>The verification of Token acts on its verdict.\<close>

lemma check_token_verdict:
  "check_token te now later i token dat =
     (case token_verdict te now token dat of
        Refuse e \<Rightarrow> fail e
      | Nil_expiry \<Rightarrow> (\<lambda>st. (st, Crashes ''nil pointer dereference''))
      | Expired_data \<Rightarrow> and_then (removeTokenData te i) (\<lambda>u. fail ExpiredToken)
      | Refresh tt \<Rightarrow> and_then (write_td te (refreshed te later tt)) (\<lambda>u. ok (refreshed te later tt))
      | Accept tt \<Rightarrow> ok tt)"
  by (simp add: check_token_def token_verdict_def refreshed_def Let_def split: sum.split option.split)


section \<open>The system\<close>

text \<open>
  ts_reading: what a process has read under the key's lock and not stored yet; ts_refreshing:
  data about to be refreshed; ts_removing: how many removals of expired data are under way;
  ts_unpublished: how many changes are not yet published; ts_pending: deletions to come.
\<close>

record token_sys =
  ts_hash :: "string option"
  ts_cache :: "nat \<Rightarrow> string option"
  ts_reading :: "nat \<Rightarrow> string option"
  ts_refreshing :: "token_data list"
  ts_removing :: nat
  ts_unpublished :: nat
  ts_pending :: "nat \<Rightarrow> nat"
  ts_log :: "(nat \<times> verdict) list"

definition token_start :: "string option \<Rightarrow> token_sys" where
  "token_start h =
     \<lparr>ts_hash = h, ts_cache = (\<lambda>p. None), ts_reading = (\<lambda>p. None), ts_refreshing = [], ts_removing = 0,
      ts_unpublished = 0, ts_pending = (\<lambda>p. 0), ts_log = []\<rparr>"

text \<open>What the loader of cacheVerify makes of the field.\<close>

definition hash_text :: "string option \<Rightarrow> string" where
  "hash_text h = (case h of None \<Rightarrow> cacheNULL | Some s \<Rightarrow> s)"

definition change_hash :: "string option \<Rightarrow> token_sys \<Rightarrow> token_sys" where
  "change_hash h s = s\<lparr>ts_hash := h, ts_unpublished := Suc (ts_unpublished s)\<rparr>"

definition decide :: "nat \<Rightarrow> verdict \<Rightarrow> token_sys \<Rightarrow> token_sys" where
  "decide p v s =
     (let s1 = s\<lparr>ts_log := ts_log s @ [(p, v)]\<rparr>
      in case v of
           Refresh tt \<Rightarrow> s1\<lparr>ts_refreshing := ts_refreshing s @ [tt]\<rparr>
         | Expired_data \<Rightarrow> s1\<lparr>ts_removing := Suc (ts_removing s)\<rparr>
         | _ \<Rightarrow> s1)"

datatype token_event =
    Login_call int
  | Logout_call
  | Remove_expired
  | Write_refresh nat int
  | Publish_next
  | Deliver nat
  | Evict nat
  | Read_hash nat
  | Store_and_check nat string int
  | Check_cached nat string int

fun token_step :: "('c, 'w) token_env \<Rightarrow> int \<Rightarrow> token_event \<Rightarrow> token_sys \<Rightarrow> token_sys option" where
  "token_step te i (Login_call now) s =
     Some (change_hash (Some (tl_print (te_lib te) (generateTd (te_lib te) (te_option te) now i))) s)"
| "token_step te i Logout_call s = Some (change_hash None s)"
| "token_step te i Remove_expired s =
     (case ts_removing s of 0 \<Rightarrow> None | Suc n \<Rightarrow> Some (change_hash None (s\<lparr>ts_removing := n\<rparr>)))"
| "token_step te i (Write_refresh k later) s =
     (if k < length (ts_refreshing s)
      then Some (change_hash (Some (tl_print (te_lib te) (refreshed te later (ts_refreshing s ! k))))
             (s\<lparr>ts_refreshing := take k (ts_refreshing s) @ drop (Suc k) (ts_refreshing s)\<rparr>))
      else None)"
| "token_step te i Publish_next s =
     (case ts_unpublished s of
        0 \<Rightarrow> None
      | Suc n \<Rightarrow> Some (s\<lparr>ts_unpublished := n, ts_pending := (\<lambda>p. ts_pending s p + 2)\<rparr>))"
| "token_step te i (Deliver p) s =
     (if ts_pending s p = 0 \<or> ts_reading s p \<noteq> None then None
      else Some (s\<lparr>ts_cache := (ts_cache s)(p := None), ts_pending := (ts_pending s)(p := ts_pending s p - 1)\<rparr>))"
| "token_step te i (Evict p) s = Some (s\<lparr>ts_cache := (ts_cache s)(p := None)\<rparr>)"
| "token_step te i (Read_hash p) s =
     (if ts_reading s p \<noteq> None \<or> ts_cache s p \<noteq> None then None
      else Some (s\<lparr>ts_reading := (ts_reading s)(p := Some (hash_text (ts_hash s)))\<rparr>))"
| "token_step te i (Store_and_check p token now) s =
     (case ts_reading s p of
        None \<Rightarrow> None
      | Some dat \<Rightarrow>
          Some (decide p (token_verdict te now token dat)
            (s\<lparr>ts_reading := (ts_reading s)(p := None), ts_cache := (ts_cache s)(p := Some dat)\<rparr>)))"
| "token_step te i (Check_cached p token now) s =
     (if ts_reading s p \<noteq> None then None
      else map_option (\<lambda>dat. decide p (token_verdict te now token dat) s) (ts_cache s p))"

fun token_run :: "('c, 'w) token_env \<Rightarrow> int \<Rightarrow> token_event list \<Rightarrow> token_sys \<Rightarrow> token_sys option" where
  "token_run te i [] s = Some s"
| "token_run te i (ev # evs) s = Option.bind (token_step te i ev s) (token_run te i evs)"

text \<open>A whole verification of a process that is not reading.\<close>

definition verification :: "nat \<Rightarrow> string \<Rightarrow> int \<Rightarrow> token_sys \<Rightarrow> token_event list" where
  "verification p token now s =
     (if ts_cache s p = None then [Read_hash p, Store_and_check p token now] else [Check_cached p token now])"


section \<open>Facts\<close>

text \<open>A copy in a process that is not the hash's has a deletion to come.\<close>

definition covered :: "string option \<Rightarrow> nat \<Rightarrow> nat \<Rightarrow> string option \<Rightarrow> bool" where
  "covered h pending unpublished copy \<longleftrightarrow>
     copy = None \<or> copy = Some (hash_text h) \<or> 0 < pending \<or> 0 < unpublished"

definition copies_covered :: "token_sys \<Rightarrow> bool" where
  "copies_covered s \<longleftrightarrow>
     (\<forall>p. covered (ts_hash s) (ts_pending s p) (ts_unpublished s) (ts_cache s p)
        \<and> covered (ts_hash s) (ts_pending s p) (ts_unpublished s) (ts_reading s p))"

lemma covered_simps [simp]:
  "covered h q n None" "covered h q n (Some (hash_text h))" "covered h (Suc q) n c" "covered h q (Suc n) c"
  by (simp_all add: covered_def)

lemma decide_sel [simp]:
  "ts_hash (decide p v s) = ts_hash s" "ts_cache (decide p v s) = ts_cache s" "ts_reading (decide p v s) = ts_reading s"
  "ts_pending (decide p v s) = ts_pending s" "ts_unpublished (decide p v s) = ts_unpublished s"
  "ts_log (decide p v s) = ts_log s @ [(p, v)]"
  by (auto simp: decide_def Let_def split: verdict.split)

lemma change_hash_sel [simp]:
  "ts_hash (change_hash h s) = h" "ts_unpublished (change_hash h s) = Suc (ts_unpublished s)"
  "ts_cache (change_hash h s) = ts_cache s" "ts_reading (change_hash h s) = ts_reading s"
  "ts_pending (change_hash h s) = ts_pending s" "ts_log (change_hash h s) = ts_log s"
  "ts_refreshing (change_hash h s) = ts_refreshing s"
  by (simp_all add: change_hash_def)

lemma token_step_covered: "token_step te i ev s = Some s1 \<Longrightarrow> copies_covered s \<Longrightarrow> copies_covered s1"
  unfolding copies_covered_def
  by (cases ev) (auto split: if_splits nat.splits option.splits, metis)

lemma token_run_covered: "token_run te i evs s = Some s1 \<Longrightarrow> copies_covered s \<Longrightarrow> copies_covered s1"
  by (induction evs arbitrary: s) (auto simp: bind_eq_Some_conv dest: token_step_covered)

lemma token_start_covered [simp]: "copies_covered (token_start h)"
  by (simp add: copies_covered_def token_start_def)

lemma token_run_append: "token_run te i (xs @ ys) s = Option.bind (token_run te i xs s) (token_run te i ys)"
  by (induction xs arbitrary: s) (auto split: bind_splits)

text \<open>Without a login and without a refresh the field stays empty.\<close>

definition no_refresh :: "(nat \<times> verdict) list \<Rightarrow> bool" where
  "no_refresh xs \<longleftrightarrow> (\<forall>(p, v) \<in> set xs. case v of Refresh tt \<Rightarrow> False | _ \<Rightarrow> True)"

definition is_login :: "token_event \<Rightarrow> bool" where
  "is_login ev \<longleftrightarrow> (case ev of Login_call now \<Rightarrow> True | _ \<Rightarrow> False)"

lemma token_step_log: "token_step te i ev s = Some s1 \<Longrightarrow> \<exists>xs. ts_log s1 = ts_log s @ xs"
  by (induction te i ev s rule: token_step.induct) (auto split: if_splits nat.splits option.splits)

lemma token_run_log: "token_run te i evs s = Some s1 \<Longrightarrow> \<exists>xs. ts_log s1 = ts_log s @ xs"
proof (induction evs arbitrary: s)
  case (Cons ev evs)
  then obtain s2 where "token_step te i ev s = Some s2" "token_run te i evs s2 = Some s1"
    by (auto simp: bind_eq_Some_conv)
  with Cons.IH token_step_log show ?case by (metis append_assoc)
qed simp

lemma decide_quiet [simp]: "no_refresh [(p, v)] \<Longrightarrow> ts_refreshing (decide p v s) = ts_refreshing s"
  by (cases v) (simp_all add: no_refresh_def decide_def)

lemma token_step_empty:
  assumes "token_step te i ev s = Some s1" "ts_hash s = None" "ts_refreshing s = []" "\<not> is_login ev"
    and "ts_log s1 = ts_log s @ xs" "no_refresh xs"
  shows "ts_hash s1 = None \<and> ts_refreshing s1 = []"
  using assms
  by (cases ev)
     (auto simp: is_login_def split: if_splits nat.splits option.splits)

lemma token_run_empty:
  assumes "token_run te i evs s = Some s1" "ts_hash s = None" "ts_refreshing s = []" "\<forall>ev \<in> set evs. \<not> is_login ev"
    and "ts_log s1 = ts_log s @ xs" "no_refresh xs"
  shows "ts_hash s1 = None \<and> ts_refreshing s1 = []"
  using assms
proof (induction evs arbitrary: s xs)
  case (Cons ev evs)
  then obtain s2 where s2: "token_step te i ev s = Some s2" "token_run te i evs s2 = Some s1"
    by (auto simp: bind_eq_Some_conv)
  obtain ys zs where log: "ts_log s2 = ts_log s @ ys" "ts_log s1 = ts_log s2 @ zs"
    using token_step_log [OF s2(1)] token_run_log [OF s2(2)] by blast
  with Cons.prems(5) have "xs = ys @ zs" by simp
  with Cons.prems(6) have n: "no_refresh ys" "no_refresh zs" by (simp_all add: no_refresh_def)
  from token_step_empty [OF s2(1) Cons.prems(2,3) _ log(1) n(1)] Cons.prems(4)
  have "ts_hash s2 = None \<and> ts_refreshing s2 = []" by simp
  with Cons.IH [OF s2(2) _ _ _ log(2) n(2)] Cons.prems(4) show ?case by simp
qed simp

lemma quiet_copy:
  assumes "copies_covered s" "ts_unpublished s = 0" "ts_pending s p = 0" "ts_cache s p = Some dat"
  shows "dat = hash_text (ts_hash s)"
  using assms unfolding copies_covered_def covered_def by (metis less_irrefl option.distinct(1) option.inject)

text \<open>A verification with nothing outstanding decides on what the hash holds.\<close>

lemma verification_quiet:
  assumes "copies_covered s" "ts_unpublished s = 0" "ts_pending s p = 0" "ts_reading s p = None"
  shows "\<exists>s1. token_run te i (verification p token now s) s = Some s1
    \<and> ts_log s1 = ts_log s @ [(p, token_verdict te now token (hash_text (ts_hash s)))] \<and> ts_hash s1 = ts_hash s"
proof (cases "ts_cache s p")
  case None
  with assms(4) show ?thesis by (simp add: verification_def)
next
  case (Some dat)
  from quiet_copy [OF assms(1-3) this] have "dat = hash_text (ts_hash s)" .
  with Some assms(4) show ?thesis by (simp add: verification_def)
qed

end
