(* ===== verification/Token_Session.thy ===== *)
theory Token_Session
  imports Token_Race
begin

text \<open>
  The life of a session: one user's verifications in one process, each of which lets a refresh
  it decides on take effect before the next one.
\<close>

definition settle :: "nat \<Rightarrow> int \<Rightarrow> token_sys \<Rightarrow> token_event list" where
  "settle p now s = (if ts_refreshing s = [] then [] else [Write_refresh 0 now, Publish_next, Deliver p, Deliver p])"

fun visits :: "('c, 'w) token_env \<Rightarrow> int \<Rightarrow> nat \<Rightarrow> string \<Rightarrow> int list \<Rightarrow> token_sys \<Rightarrow> token_sys option" where
  "visits te i p token [] s = Some s"
| "visits te i p token (now # ts) s =
     Option.bind (token_run te i (verification p token now s) s)
       (\<lambda>s1. Option.bind (token_run te i (settle p now s1) s1) (visits te i p token ts))"

text \<open>Times in order, none later than the gap after the one before.\<close>

fun spaced :: "int \<Rightarrow> int \<Rightarrow> int list \<Rightarrow> bool" where
  "spaced gap t [] = True"
| "spaced gap t (now # ts) = (t \<le> now \<and> now - t \<le> gap \<and> spaced gap now ts)"

fun let_in :: "verdict \<Rightarrow> bool" where
  "let_in (Accept tt) = True"
| "let_in (Refresh tt) = True"
| "let_in _ = False"

text \<open>Between two visits: nothing outstanding, and data that last for the gap.\<close>

definition settled :: "('c, 'w) token_env \<Rightarrow> nat \<Rightarrow> string \<Rightarrow> int \<Rightarrow> token_sys \<Rightarrow> bool" where
  "settled te p token t s \<longleftrightarrow>
     copies_covered s \<and> ts_unpublished s = 0 \<and> ts_pending s p = 0 \<and> ts_reading s p = None \<and> ts_refreshing s = []
   \<and> (\<exists>td ex. ts_hash s = Some (tl_print (te_lib te) td) \<and> td_Token td = token \<and> in_int64 (td_ID td)
        \<and> td_Expire td = Some ex \<and> in_int64 ex \<and> t + to_MaxRefresh (te_option te) \<le> ex)"

lemma verification_state:
  assumes "copies_covered s" "ts_unpublished s = 0" "ts_pending s p = 0" "ts_reading s p = None"
  shows "\<exists>c. token_run te i (verification p token now s) s
    = Some (decide p (token_verdict te now token (hash_text (ts_hash s))) (s\<lparr>ts_cache := c\<rparr>))"
proof (cases "ts_cache s p")
  case None
  have "(ts_reading s)(p := None) = ts_reading s" using assms(4) by (auto simp: fun_eq_iff)
  with None assms(4) show ?thesis by (auto simp: verification_def)
next
  case (Some dat)
  from quiet_copy [OF assms(1-3) this] have "dat = hash_text (ts_hash s)" .
  with Some assms(4) show ?thesis by (auto simp: verification_def intro: exI [of _ "ts_cache s"])
qed

lemma visit_settled:
  assumes lib: "token_lib_ok (te_lib te)" and s: "settled te p token t s"
    and opt: "0 \<le> to_MaxRefresh (te_option te)" "to_MaxRefresh (te_option te) \<le> to_Timeout (te_option te)"
    and now: "t \<le> now" "now - t \<le> to_MaxRefresh (te_option te)" "in_int64 (now + to_Timeout (te_option te))"
  shows "\<exists>s1 s2 v. token_run te i (verification p token now s) s = Some s1 \<and> token_run te i (settle p now s1) s1 = Some s2
    \<and> settled te p token now s2 \<and> ts_log s2 = ts_log s @ [(p, v)] \<and> let_in v"
proof -
  from s obtain td ex where c: "copies_covered s" "ts_unpublished s = 0" "ts_pending s p = 0" "ts_reading s p = None"
      "ts_refreshing s = []"
    and td: "ts_hash s = Some (tl_print (te_lib te) td)" "td_Token td = token" "in_int64 (td_ID td)"
      "td_Expire td = Some ex" "in_int64 ex" "t + to_MaxRefresh (te_option te) \<le> ex"
    by (auto simp: settled_def)
  have parse: "tl_parse (te_lib te) (tl_print (te_lib te) td) = Inr td" "tl_print (te_lib te) td \<noteq> cacheNULL"
    using lib td(3-5) by (auto simp: token_lib_ok_def)
  let ?v = "token_verdict te now token (hash_text (ts_hash s))"
  have v: "?v = (if ex - now < to_MaxRefresh (te_option te) then Refresh td else Accept td)"
    using parse td now by (simp add: token_verdict_def hash_text_def)
  obtain cs where run: "token_run te i (verification p token now s) s = Some (decide p ?v (s\<lparr>ts_cache := cs\<rparr>))"
    using verification_state [OF c(1-4)] by blast
  let ?s1 = "decide p ?v (s\<lparr>ts_cache := cs\<rparr>)"
  have cov: "copies_covered ?s1" by (rule token_run_covered [OF run c(1)])
  show ?thesis
  proof (cases "ex - now < to_MaxRefresh (te_option te)")
    case False
    then have r: "ts_refreshing ?s1 = []" using v c(5) by (simp add: decide_def)
    then have "settled te p token now ?s1" using cov c td False by (auto simp: settled_def)
    with run r False v show ?thesis
      by (intro exI [of _ ?s1] exI [of _ "Accept td"]) (simp add: settle_def)
  next
    case True
    then have r: "ts_refreshing ?s1 = [td]" using v c(5) by (simp add: decide_def)
    define s2 where "s2 = the (token_run te i (settle p now ?s1) ?s1)"
    have s2: "token_run te i (settle p now ?s1) ?s1 = Some s2" "ts_unpublished s2 = 0" "ts_pending s2 p = 0" "ts_reading s2 p = None"
      "ts_refreshing s2 = []" "ts_hash s2 = Some (tl_print (te_lib te) (refreshed te now td))" "ts_log s2 = ts_log s @ [(p, ?v)]"
      using c by (simp_all add: s2_def settle_def r change_hash_def)
    have "settled te p token now s2"
      using token_run_covered [OF s2(1) cov] s2 td opt now(3) by (auto simp: settled_def refreshed_def)
    with run s2(1,7) True v show ?thesis
      by (intro exI [of _ ?s1] exI [of _ s2] exI [of _ "Refresh td"]) simp
  qed
qed

lemma visits_settled:
  assumes lib: "token_lib_ok (te_lib te)" and s: "settled te p token t s"
    and opt: "0 \<le> to_MaxRefresh (te_option te)" "to_MaxRefresh (te_option te) \<le> to_Timeout (te_option te)"
    and spaced: "spaced (to_MaxRefresh (te_option te)) t ts" "\<forall>now \<in> set ts. in_int64 (now + to_Timeout (te_option te))"
  shows "\<exists>s1 vs. visits te i p token ts s = Some s1 \<and> ts_log s1 = ts_log s @ map (Pair p) vs
    \<and> length vs = length ts \<and> list_all let_in vs"
  using s spaced
proof (induction ts arbitrary: t s)
  case (Cons now ts)
  from Cons.prems have n: "t \<le> now" "now - t \<le> to_MaxRefresh (te_option te)" "in_int64 (now + to_Timeout (te_option te))"
    by simp_all
  obtain s1 s2 v where one: "token_run te i (verification p token now s) s = Some s1" "token_run te i (settle p now s1) s1 = Some s2"
    "settled te p token now s2" "ts_log s2 = ts_log s @ [(p, v)]" "let_in v"
    using visit_settled [OF lib Cons.prems(1) opt n] by blast
  obtain s3 vs where rest: "visits te i p token ts s2 = Some s3" "ts_log s3 = ts_log s2 @ map (Pair p) vs"
    "length vs = length ts" "list_all let_in vs"
    using Cons.IH [OF one(3)] Cons.prems(2,3) by auto
  with one show ?case by (intro exI [of _ s3] exI [of _ "v # vs"]) simp
qed auto

text \<open>A login whose message has been handled leaves the process settled.\<close>

definition login_events :: "nat \<Rightarrow> int \<Rightarrow> token_event list" where
  "login_events p now = [Login_call now, Publish_next, Deliver p, Deliver p]"

lemma login_settled:
  assumes "token_lib_ok (te_lib te)" "in_int64 i" "in_int64 (now + to_Timeout (te_option te))"
    "to_MaxRefresh (te_option te) \<le> to_Timeout (te_option te)"
  shows "\<exists>s. token_run te i (login_events p now) (token_start h) = Some s \<and> ts_log s = []
    \<and> settled te p (td_Token (generateTd (te_lib te) (te_option te) now i)) now s"
proof -
  define s where "s = the (token_run te i (login_events p now) (token_start h))"
  have s: "token_run te i (login_events p now) (token_start h) = Some s" "ts_unpublished s = 0" "ts_pending s p = 0"
    "ts_reading s p = None" "ts_refreshing s = []" "ts_log s = []"
    "ts_hash s = Some (tl_print (te_lib te) (generateTd (te_lib te) (te_option te) now i))"
    by (simp_all add: s_def login_events_def) (simp_all add: token_start_def change_hash_def)
  have "settled te p (td_Token (generateTd (te_lib te) (te_option te) now i)) now s"
    using token_run_covered [OF s(1) token_start_covered] s assms by (auto simp: settled_def generateTd_def)
  with s show ?thesis by blast
qed

end
