(* ===== verification/Token_Race_Properties.thy ===== *)
theory Token_Race_Properties
  imports Token_Session Token_Properties
begin

text \<open>
  What the interleavings of logins, logouts and verifications guarantee, and the one in which a
  logout is undone.
\<close>

text \<open>
  C8. In every interleaving of logins, logouts, verifications, refreshes and removals by any number
  of processes: once the changes are published and a process has handled its deletions, its
  cached data are those of Redis, and a verification there decides (by the verdict on which
  check_token acts) exactly as one that reads Redis.
\<close>

theorem tokens_coherent:
  assumes "token_run te i evs (token_start h) = Some s" "ts_unpublished s = 0" "ts_pending s p = 0" "ts_reading s p = None"
  shows "(\<forall>dat. ts_cache s p = Some dat \<longrightarrow> dat = hash_text (ts_hash s))
    \<and> (\<exists>s1. token_run te i (verification p token now s) s = Some s1
         \<and> ts_log s1 = ts_log s @ [(p, token_verdict te now token (hash_text (ts_hash s)))])"
proof -
  from token_run_covered [OF assms(1)] have c: "copies_covered s" by simp
  from quiet_copy [OF c assms(2,3)] verification_quiet [OF c assms(2-4)] show ?thesis by blast
qed

definition race_env :: "((string \<Rightarrow> cval option) gocache, hash_world) token_env" where
  "race_env = plain_env gocache_itf"

lemma race_env_sel [simp]:
  "te_lib race_env = plain_lib" "te_option race_env = default_option ''h:token''"
  by (simp_all add: race_env_def)

lemma verdict_ex_td:
  "token_verdict race_env now ''7'' (plain_print ex_td) =
     (if now > 900000000000000 then Expired_data
      else if 900000000000000 - now < 432000000000000 then Refresh ex_td else Accept ex_td)"
  by (simp add: token_verdict_def parse_ex_td ex_td_not_null)

lemma verdict_null: "token_verdict te now token cacheNULL = Refuse UnknownToken"
  by (simp add: token_verdict_def)

text \<open>A process that has verified the token hears of the logout.\<close>

definition logout_run :: "token_event list" where
  "logout_run = [Read_hash 0, Store_and_check 0 ''7'' 5, Logout_call, Publish_next, Deliver 0, Deliver 0]"

lemma logout_run_end:
  "\<exists>s. token_run race_env 7 logout_run (token_start (Some (plain_print ex_td))) = Some s
     \<and> ts_hash s = None \<and> ts_unpublished s = 0 \<and> ts_pending s 0 = 0 \<and> ts_reading s 0 = None \<and> ts_log s = [(0, Accept ex_td)]"
  by (simp add: logout_run_def token_start_def hash_text_def verdict_ex_td decide_def change_hash_def)

theorem tokens_coherent_witness:
  "\<exists>s s1. token_run race_env 7 logout_run (token_start (Some (plain_print ex_td))) = Some s
     \<and> token_run race_env 7 (verification 0 ''7'' 6 s) s = Some s1
     \<and> ts_log s1 = [(0, Accept ex_td), (0, Refuse UnknownToken)]"
proof -
  obtain s where s: "token_run race_env 7 logout_run (token_start (Some (plain_print ex_td))) = Some s"
    "ts_hash s = None" "ts_unpublished s = 0" "ts_pending s 0 = 0" "ts_reading s 0 = None" "ts_log s = [(0, Accept ex_td)]"
    using logout_run_end by blast
  have "token_verdict race_env 6 ''7'' (hash_text (ts_hash s)) = Refuse UnknownToken"
    by (simp add: s(2) hash_text_def verdict_null)
  with tokens_coherent [OF s(1,3,4,5), of "''7''" 6] s(6) have
    "\<exists>s1. token_run race_env 7 (verification 0 ''7'' 6 s) s = Some s1
       \<and> ts_log s1 = [(0, Accept ex_td), (0, Refuse UnknownToken)]" by simp
  with s(1) show ?thesis by blast
qed

text \<open>
  C10. A logout is final unless a refresh is under way: from a logout at which no refresh is
  outstanding, as long as nobody logs in and no verification decides to refresh, every
  verification in a process that has handled its deletions refuses every token of the id.
\<close>

theorem logout_final:
  assumes "token_run te i (evs0 @ [Logout_call]) (token_start h) = Some s0" "ts_refreshing s0 = []"
    and "token_run te i evs s0 = Some s" "\<forall>ev \<in> set evs. \<not> is_login ev"
    and "ts_log s = ts_log s0 @ xs" "no_refresh xs"
    and "ts_unpublished s = 0" "ts_pending s p = 0" "ts_reading s p = None"
  shows "\<exists>s1. token_run te i (verification p token now s) s = Some s1 \<and> ts_log s1 = ts_log s @ [(p, Refuse UnknownToken)]"
proof -
  from assms(1) have "ts_hash s0 = None" by (auto simp: token_run_append bind_eq_Some_conv)
  from token_run_empty [OF assms(3) this assms(2,4-6)] have none: "hash_text (ts_hash s) = cacheNULL" by (simp add: hash_text_def)
  have "token_run te i ((evs0 @ [Logout_call]) @ evs) (token_start h) = Some s"
    using assms(1,3) by (subst token_run_append) simp
  note run = this
  from verification_quiet [OF token_run_covered [OF run token_start_covered] assms(7-9), of te i token now] none
  show ?thesis by (auto simp: verdict_null)
qed

theorem logout_final_witness:
  "\<exists>s s1. token_run race_env 7 logout_run (token_start (Some (plain_print ex_td))) = Some s
     \<and> token_run race_env 7 (verification 0 ''9'' 6 s) s = Some s1
     \<and> ts_log s1 = [(0, Accept ex_td), (0, Refuse UnknownToken)]"
proof -
  let ?te = race_env
  let ?h = "token_start (Some (plain_print ex_td))"
  let ?before = "[Read_hash 0, Store_and_check 0 ''7'' 5]"
  let ?after = "[Publish_next, Deliver 0, Deliver 0]"
  have e: "(?before @ [Logout_call]) @ ?after = logout_run" by (simp add: logout_run_def)
  have "\<exists>s0. token_run ?te 7 (?before @ [Logout_call]) ?h = Some s0 \<and> ts_refreshing s0 = [] \<and> ts_log s0 = [(0, Accept ex_td)]"
    by (simp add: token_start_def hash_text_def verdict_ex_td decide_def change_hash_def)
  then obtain s0 where s0: "token_run ?te 7 (?before @ [Logout_call]) ?h = Some s0" "ts_refreshing s0 = []"
    "ts_log s0 = [(0, Accept ex_td)]" by blast
  obtain s where s: "token_run ?te 7 logout_run ?h = Some s" "ts_unpublished s = 0" "ts_pending s 0 = 0" "ts_reading s 0 = None"
    "ts_log s = [(0, Accept ex_td)]"
    using logout_run_end by blast
  with s0(1) have "token_run ?te 7 ?after s0 = Some s"
    using token_run_append [of ?te 7 "?before @ [Logout_call]" ?after ?h] unfolding e by simp
  note run = this
  have "\<forall>ev \<in> set ?after. \<not> is_login ev" "ts_log s = ts_log s0 @ []" "no_refresh []"
    using s(5) s0(3) by (simp_all add: is_login_def no_refresh_def)
  from logout_final [OF s0(1,2) run this s(2-4), of "''9''" 6] s(5) have
    "\<exists>s1. token_run ?te 7 (verification 0 ''9'' 6 s) s = Some s1 \<and> ts_log s1 = [(0, Accept ex_td), (0, Refuse UnknownToken)]" by simp
  with s(1) show ?thesis by blast
qed

text \<open>
  C22. A logout can be undone: a verification that finds the data close to their expiry writes them
  back after the lock is released, so a logout that completes in between, with every deletion
  handled, is followed by the data in Redis again, and another process accepts the token, for a
  whole further life time.
\<close>

theorem refresh_undoes_logout:
  assumes "token_lib_ok (te_lib te)" "token_verdict te now token dat = Refresh tt"
    and "in_int64 (td_ID tt)" "in_int64 (later + to_Timeout (te_option te))"
    and "0 \<le> to_MaxRefresh (te_option te)" "to_MaxRefresh (te_option te) \<le> later + to_Timeout (te_option te) - now1"
  shows "\<exists>s1 s2. token_run te i
      [Read_hash 0, Store_and_check 0 token now, Logout_call, Publish_next, Deliver 0, Deliver 0, Deliver 1, Deliver 1,
       Write_refresh 0 later, Publish_next, Deliver 0, Deliver 0, Deliver 1, Deliver 1] (token_start (Some dat)) = Some s1
    \<and> ts_unpublished s1 = 0 \<and> ts_pending s1 0 = 0 \<and> ts_pending s1 1 = 0
    \<and> ts_hash s1 = Some (tl_print (te_lib te) (refreshed te later tt))
    \<and> token_run te i (verification 1 token now1 s1) s1 = Some s2
    \<and> ts_log s2 = ts_log s1 @ [(1, Accept (refreshed te later tt))]"
proof -
  let ?tt = "refreshed te later tt"
  have tok: "td_Token tt = token" using assms(2) by (auto simp: token_verdict_def split: if_splits sum.splits option.splits)
  have "tl_parse (te_lib te) (tl_print (te_lib te) ?tt) = Inr ?tt" "tl_print (te_lib te) ?tt \<noteq> cacheNULL"
    using assms(1,3,4) by (simp_all add: token_lib_ok_def refreshed_def)
  with tok assms(5,6) have v: "token_verdict te now1 token (tl_print (te_lib te) ?tt) = Accept ?tt"
    by (simp add: token_verdict_def) (simp add: refreshed_def)
  show ?thesis
    by (simp add: token_start_def hash_text_def assms(2) decide_def change_hash_def v verification_def)
qed

theorem refresh_undoes_logout_witness:
  "\<exists>s1 s2. token_run race_env 7
      [Read_hash 0, Store_and_check 0 ''7'' 500000000000000, Logout_call, Publish_next, Deliver 0, Deliver 0, Deliver 1, Deliver 1,
       Write_refresh 0 500000000000001, Publish_next, Deliver 0, Deliver 0, Deliver 1, Deliver 1]
      (token_start (Some (plain_print ex_td))) = Some s1
    \<and> token_run race_env 7 (verification 1 ''7'' 600000000000000 s1) s1 = Some s2
    \<and> ts_log s2 = ts_log s1 @ [(1, Accept (refreshed race_env 500000000000001 ex_td))]"
proof -
  have v: "token_verdict race_env 500000000000000 ''7'' (plain_print ex_td) = Refresh ex_td"
    by (simp add: verdict_ex_td)
  have side: "token_lib_ok (te_lib race_env)" "in_int64 (td_ID ex_td)"
    "in_int64 (500000000000001 + to_Timeout (te_option race_env))"
    "0 \<le> to_MaxRefresh (te_option race_env)"
    "to_MaxRefresh (te_option race_env) \<le> 500000000000001 + to_Timeout (te_option race_env) - 600000000000000"
    by (simp_all add: in_int64_def)
  from refresh_undoes_logout [OF side(1) v side(2-5), of 7] show ?thesis by blast
qed



end
