(* ===== verification/Log_Race.thy ===== *)
theory Log_Race
  imports Log_File
begin

text \<open>
  One log file of src/g2util/auto_back_file.go used by several goroutines: Write and Close look
  at the closed flag before they take the lock, the goroutine \<^verbatim>\<open>run\<close> flushes at its ticks
  and, when the channel is closed, flushes and closes the file.  The steps are the critical
  sections; \<^verbatim>\<open>faults\<close> says whether the operating system may fail in them.  The deletion of
  old directories is left to Log_File.
\<close>

section \<open>The critical sections\<close>

definition io_Closed :: "inner_io \<Rightarrow> bool" where
  "io_Closed i = io_closed i"

definition write_section :: "answers \<Rightarrow> string \<Rightarrow> string \<Rightarrow> inner_io \<Rightarrow> inner_io \<times> nat \<times> string option" where
  "write_section an day p i =
     (let i1 = i\<lparr>io_buf := io_buf i @ p\<rparr>
      in if int (length (io_buf i1)) < ab_BufferSize (io_opt i1) then (i1, 0, None)
         else (case flush an day i1 of (i2, e) \<Rightarrow> (i2, 0, e)))"

lemma Write_check_section:
  "io_Write an day p i = (if io_Closed i then (i, 0, None) else write_section an day p i)"
  by (simp add: io_Write_def write_section_def io_Closed_def)

definition io_Flush :: "answers \<Rightarrow> string \<Rightarrow> inner_io \<Rightarrow> inner_io \<times> string option" where
  "io_Flush an day i = flush an day i"

record log_race =
  lg_io :: inner_io
  lg_writing :: "string list"
  lg_closing :: nat
  lg_chan_closed :: bool
  lg_finished :: bool
  lg_panicked :: bool
  lg_taken :: string
  lg_late :: string
  lg_closes :: nat

text \<open>
  The last three are ghosts: the bytes of the Writes in the order of their sections, those of
  sections after run has ended, and the Closes that have passed their check.
\<close>

definition log_start :: "inner_io \<Rightarrow> log_race" where
  "log_start i =
     \<lparr>lg_io = i, lg_writing = [], lg_closing = 0, lg_chan_closed = False, lg_finished = False,
      lg_panicked = False, lg_taken = [], lg_late = [], lg_closes = 0\<rparr>"

inductive log_step :: "bool \<Rightarrow> log_race \<Rightarrow> log_race \<Rightarrow> bool" for faults :: bool where
  write_check: "\<not> lg_panicked s \<Longrightarrow> \<not> io_Closed (lg_io s) \<Longrightarrow>
     log_step faults s (s\<lparr>lg_writing := p # lg_writing s\<rparr>)"
| write_locked: "\<not> lg_panicked s \<Longrightarrow> lg_writing s = ps @ p # qs \<Longrightarrow> faults \<or> an = no_faults \<Longrightarrow>
     log_step faults s (s\<lparr>lg_io := fst (write_section an day p (lg_io s)), lg_writing := ps @ qs,
        lg_taken := lg_taken s @ p, lg_late := (if lg_finished s then lg_late s @ p else lg_late s)\<rparr>)"
| close_check: "\<not> lg_panicked s \<Longrightarrow> \<not> io_Closed (lg_io s) \<Longrightarrow>
     log_step faults s (s\<lparr>lg_closing := Suc (lg_closing s), lg_closes := Suc (lg_closes s)\<rparr>)"
| close_locked: "\<not> lg_panicked s \<Longrightarrow> lg_closing s = Suc n \<Longrightarrow> \<not> lg_chan_closed s \<Longrightarrow>
     log_step faults s (s\<lparr>lg_closing := n, lg_io := (lg_io s)\<lparr>io_closed := True\<rparr>, lg_chan_closed := True\<rparr>)"
| close_again: "\<not> lg_panicked s \<Longrightarrow> lg_closing s = Suc n \<Longrightarrow> lg_chan_closed s \<Longrightarrow>
     log_step faults s (s\<lparr>lg_closing := n, lg_panicked := True\<rparr>)"
| tick: "\<not> lg_panicked s \<Longrightarrow> \<not> lg_finished s \<Longrightarrow> faults \<or> an = no_faults \<Longrightarrow>
     log_step faults s (s\<lparr>lg_io := fst (io_Flush an day (lg_io s))\<rparr>)"
| finish: "\<not> lg_panicked s \<Longrightarrow> \<not> lg_finished s \<Longrightarrow> lg_chan_closed s \<Longrightarrow> faults \<or> an = no_faults \<Longrightarrow>
     log_step faults s (s\<lparr>lg_io := fst (flushAndCloseFile an day (lg_io s)), lg_finished := True\<rparr>)"

abbreviation log_reach :: "bool \<Rightarrow> inner_io \<Rightarrow> log_race \<Rightarrow> bool" where
  "log_reach faults i s \<equiv> (log_step faults)\<^sup>*\<^sup>* (log_start i) s"

text \<open>The bytes that have left the buffer.\<close>

definition disk_bytes :: "inner_io \<Rightarrow> string" where
  "disk_bytes i = concat (map snd (io_disk i)) @ io_file i"

lemma log_bytes_disk: "log_bytes i = disk_bytes i @ io_buf i"
  by (simp add: log_bytes_def disk_bytes_def)


section \<open>Sections of an open and of a closed file\<close>

lemma write_section_keeps:
  assumes "io_wf i"
  shows "io_wf (fst (write_section an day p i))
    \<and> subseq (log_bytes i @ p) (log_bytes (fst (write_section an day p i)))
    \<and> (an = no_faults \<longrightarrow> log_bytes (fst (write_section an day p i)) = log_bytes i @ p)"
proof -
  let ?j = "i\<lparr>io_buf := io_buf i @ p\<rparr>"
  have j: "io_wf ?j" "log_bytes ?j = log_bytes i @ p" using assms by (simp_all add: io_wf_def log_bytes_def)
  from flush_keeps [OF j(1), of an day] j show ?thesis
    by (cases "flush an day ?j") (auto simp: write_section_def Let_def subseq_order.order_refl)
qed

lemma closed_file_flush: "io_file_closed i \<Longrightarrow> fst (flush an day i) = i"
  by (simp add: flush_def)

lemma closed_file_write: "io_file_closed i \<Longrightarrow> fst (write_section an day p i) = i\<lparr>io_buf := io_buf i @ p\<rparr>"
  by (simp add: write_section_def Let_def split_beta closed_file_flush)

lemma no_fault_flush:
  assumes "\<not> io_file_closed i" "flush no_faults day i = (j, e)"
  shows "io_buf j = [] \<and> e = None \<and> io_file_closed j = io_file_closed i"
proof -
  have copy: "io_buf k = [] \<Longrightarrow> fileCopyWithIndex no_faults day k = (j, e) \<Longrightarrow>
      io_buf j = [] \<and> e = None \<and> io_file_closed j = io_file_closed k" for k
    by (auto simp: fileCopyWithIndex_def no_faults_def Let_def)
  from assms show ?thesis
    using copy [of "i\<lparr>io_file := io_file i @ io_buf i, io_buf := []\<rparr>"]
    by (auto simp: flush_def Let_def no_faults_def split: if_splits)
qed

lemma write_section_open:
  assumes "\<not> io_file_closed i"
  shows "\<not> io_file_closed (fst (write_section no_faults day p i))"
proof (cases "flush no_faults day (i\<lparr>io_buf := io_buf i @ p\<rparr>)")
  case (Pair j e)
  from no_fault_flush [OF _ Pair] assms have "\<not> io_file_closed j" by simp
  with Pair assms show ?thesis by (simp add: write_section_def Let_def)
qed

lemma finish_no_faults:
  assumes "\<not> io_file_closed i"
  shows "io_buf (fst (flushAndCloseFile no_faults day i)) = []" "io_file_closed (fst (flushAndCloseFile no_faults day i))"
  using no_fault_flush [OF assms, of day]
  by (cases "flush no_faults day i"; auto simp: flushAndCloseFile_def split: option.splits)+

lemma finish_keeps:
  assumes "io_wf i"
  shows "io_wf (fst (flushAndCloseFile an day i)) \<and> subseq (log_bytes i) (log_bytes (fst (flushAndCloseFile an day i)))
    \<and> (an = no_faults \<longrightarrow> log_bytes (fst (flushAndCloseFile an day i)) = log_bytes i)"
  using flush_keeps [OF assms, of an day]
  by (cases "flush an day i"; cases "snd (flush an day i)") (auto simp: flushAndCloseFile_def io_wf_def log_bytes_def)

lemma flush_keeps_fst:
  assumes "io_wf i"
  shows "io_wf (fst (flush an day i)) \<and> subseq (log_bytes i) (log_bytes (fst (flush an day i)))
    \<and> (an = no_faults \<longrightarrow> log_bytes (fst (flush an day i)) = log_bytes i)"
  using flush_keeps [OF assms, of an day] by (cases "flush an day i") auto


section \<open>What holds in every interleaving\<close>

text \<open>The bytes, the flags of the file and of the channel, and the Closes.\<close>

definition log_inv :: "bool \<Rightarrow> string \<Rightarrow> log_race \<Rightarrow> bool" where
  "log_inv faults content s \<longleftrightarrow>
     io_wf (lg_io s)
     \<and> subseq (content @ lg_taken s) (log_bytes (lg_io s))
     \<and> (\<not> faults \<longrightarrow> log_bytes (lg_io s) = content @ lg_taken s)
     \<and> io_Closed (lg_io s) = lg_chan_closed s
     \<and> (\<not> faults \<longrightarrow> io_file_closed (lg_io s) = lg_finished s)
     \<and> (\<not> faults \<longrightarrow> lg_finished s \<longrightarrow> io_buf (lg_io s) = lg_late s)
     \<and> (lg_closes s = lg_closing s + of_bool (lg_chan_closed s) + of_bool (lg_panicked s))
     \<and> (lg_panicked s \<longrightarrow> lg_chan_closed s)
     \<and> (\<not> lg_finished s \<longrightarrow> lg_late s = [])"

lemma write_section_closed_flag: "io_closed (fst (write_section an day p i)) = io_closed i"
proof -
  have "io_closed (fst (flush an day j)) = io_closed j" for j
    by (auto simp: flush_def fileCopyWithIndex_def Let_def split: option.split)
  then show ?thesis by (simp add: write_section_def Let_def split_beta)
qed

lemma flush_closed_flag: "io_closed (fst (flush an day i)) = io_closed i"
  by (auto simp: flush_def fileCopyWithIndex_def Let_def split: option.split)

lemma finish_closed_flag: "io_closed (fst (flushAndCloseFile an day i)) = io_closed i"
  using flush_closed_flag [of an day i]
  by (cases "flush an day i"; cases "snd (flush an day i)") (auto simp: flushAndCloseFile_def)

lemma flush_file_flag: "io_file_closed (fst (flush an day i)) = io_file_closed i"
  by (auto simp: flush_def fileCopyWithIndex_def Let_def split: option.split)

lemma log_inv_start: "io_wf i \<Longrightarrow> \<not> io_closed i \<Longrightarrow> \<not> io_file_closed i \<Longrightarrow> log_inv faults (log_bytes i) (log_start i)"
  by (simp add: log_inv_def log_start_def io_Closed_def subseq_order.order_refl)

lemma subseq_extend: "subseq xs ys \<Longrightarrow> subseq (ys @ p) zs \<Longrightarrow> subseq (xs @ p) zs"
  by (rule subseq_order.order_trans [OF list_emb_append_mono]) (auto simp: subseq_order.order_refl)

lemma log_inv_step: "log_step faults s t \<Longrightarrow> log_inv faults content s \<Longrightarrow> log_inv faults content t"
proof (induction rule: log_step.induct)
  case (write_locked s ps p qs an day)
  let ?i = "lg_io s" and ?j = "fst (write_section an day p (lg_io s))"
  have i: "io_wf ?i" "subseq (content @ lg_taken s) (log_bytes ?i)"
    "\<not> faults \<Longrightarrow> log_bytes ?i = content @ lg_taken s" "io_Closed ?i = lg_chan_closed s"
    "\<not> faults \<Longrightarrow> io_file_closed ?i = lg_finished s" "\<not> faults \<Longrightarrow> lg_finished s \<Longrightarrow> io_buf ?i = lg_late s"
    using write_locked.prems by (auto simp: log_inv_def)
  note k = write_section_keeps [OF i(1), of an day p]
  have nf: "\<not> faults \<Longrightarrow> an = no_faults" using write_locked.hyps by blast
  have sub: "subseq (content @ lg_taken s @ p) (log_bytes ?j)"
    using subseq_extend [OF i(2)] k by simp
  have flag: "io_file_closed ?j = lg_finished s" if "\<not> faults"
    using that i(5) nf closed_file_write [of ?i an day p] write_section_open [of ?i day p] by (cases "lg_finished s") auto
  have late: "io_buf ?j = lg_late s @ p" if "\<not> faults" "lg_finished s"
    using that i(5,6) closed_file_write [of ?i an day p] by simp
  show ?case
    using write_locked.prems k i nf sub flag late
    by (auto simp: log_inv_def io_Closed_def write_section_closed_flag)
next
  case (tick s an day)
  then have w: "io_wf (lg_io s)" by (simp add: log_inv_def)
  have nf: "\<not> faults \<Longrightarrow> an = no_faults" using tick.hyps by blast
  show ?case
    using tick flush_keeps_fst [OF w, of an day] nf
    by (auto simp: log_inv_def io_Closed_def io_Flush_def flush_closed_flag flush_file_flag intro: subseq_order.order_trans)
next
  case (finish s an day)
  then have w: "io_wf (lg_io s)" by (simp add: log_inv_def)
  have nf: "\<not> faults \<Longrightarrow> an = no_faults" using finish.hyps by blast
  have f: "\<not> faults \<Longrightarrow> \<not> io_file_closed (lg_io s)" using finish by (simp add: log_inv_def)
  show ?case
    using finish finish_keeps [OF w, of an day] nf f finish_no_faults [of "lg_io s" day]
    by (auto simp: log_inv_def io_Closed_def finish_closed_flag intro: subseq_order.order_trans)
qed (auto simp: log_inv_def io_Closed_def io_wf_def log_bytes_def)

lemma log_inv_reach:
  assumes "log_reach faults i s" "io_wf i" "\<not> io_closed i" "\<not> io_file_closed i"
  shows "log_inv faults (log_bytes i) s"
  using assms(1)
proof (induction rule: rtranclp_induct)
  case base
  show ?case by (rule log_inv_start [OF assms(2-4)])
next
  case (step s t)
  then show ?case by (blast intro: log_inv_step)
qed

text \<open>After run has ended nothing leaves the buffer any more.\<close>

lemma finished_step: "log_step False s t \<Longrightarrow> log_inv False c s \<Longrightarrow> lg_finished s \<Longrightarrow>
    lg_finished t \<and> disk_bytes (lg_io t) = disk_bytes (lg_io s)"
proof (induction rule: log_step.induct)
  case (write_locked s ps p qs an day)
  then have "io_file_closed (lg_io s)" by (simp add: log_inv_def)
  then show ?case using write_locked by (simp add: closed_file_write disk_bytes_def)
qed (auto simp: disk_bytes_def)

lemma finished_for_ever:
  assumes "(log_step False)\<^sup>*\<^sup>* s t" "log_inv False c s" "lg_finished s"
  shows "lg_finished t \<and> disk_bytes (lg_io t) = disk_bytes (lg_io s) \<and> log_inv False c t"
  using assms(1)
proof (induction rule: rtranclp_induct)
  case (step t u)
  then show ?case using finished_step [OF step.hyps(2), of c] log_inv_step [OF step.hyps(2), of c] by simp
qed (simp add: assms)

end
