(* ===== verification/Log_Race_Properties.thy ===== *)
theory Log_Race_Properties
  imports Log_Race G2util_Properties
begin

text \<open>
  A log file used by several goroutines (Log_Race): what its bytes are in every interleaving,
  and the Write that is lost.
\<close>

lemma open_io_ready:
  assumes "wf_ext (path_ext path)"
  shows "io_wf (open_io path content opt)" "\<not> io_closed (open_io path content opt)"
    "\<not> io_file_closed (open_io path content opt)" "log_bytes (open_io path content opt) = content"
  using assms by (simp_all add: io_wf_def open_io_def numbered_def log_bytes_def)


text \<open>A Write and a Close that both find the file open; run ends before the Write takes the lock.\<close>

definition lost_write_state :: "inner_io \<Rightarrow> string \<Rightarrow> log_race" where
  "lost_write_state i p =
     (log_start i)\<lparr>lg_io := i\<lparr>io_closed := True, io_file_closed := True, io_buf := p\<rparr>, lg_chan_closed := True,
        lg_finished := True, lg_taken := p, lg_late := p, lg_closes := 1\<rparr>"

lemma lost_write_reached:
  assumes "io_buf i = []" "\<not> io_closed i"
  shows "log_reach False i (lost_write_state i p)"
proof -
  let ?s1 = "(log_start i)\<lparr>lg_writing := [p]\<rparr>"
  let ?s2 = "?s1\<lparr>lg_closing := 1, lg_closes := 1\<rparr>"
  let ?s3 = "?s2\<lparr>lg_closing := 0, lg_io := i\<lparr>io_closed := True\<rparr>, lg_chan_closed := True\<rparr>"
  let ?s4 = "?s3\<lparr>lg_io := i\<lparr>io_closed := True, io_file_closed := True\<rparr>, lg_finished := True\<rparr>"
  have 1: "log_step False (log_start i) ?s1"
    using log_step.write_check [of "log_start i" False p] assms by (simp add: log_start_def io_Closed_def)
  have 2: "log_step False ?s1 ?s2"
    using log_step.close_check [of ?s1 False] assms by (simp add: log_start_def io_Closed_def)
  have 3: "log_step False ?s2 ?s3"
    using log_step.close_locked [of ?s2 0 False] by (simp add: log_start_def)
  have 4: "log_step False ?s3 ?s4"
    using log_step.finish [of ?s3 False no_faults "''''"] assms
    by (simp add: log_start_def flushAndCloseFile_def flush_def)
  have 5: "log_step False ?s4 (lost_write_state i p)"
    using log_step.write_locked [of ?s4 "[]" p "[]" False no_faults "''''"] assms
    by (simp add: log_start_def lost_write_state_def closed_file_write)
  from 1 2 3 4 5 show ?thesis by (meson converse_rtranclp_into_rtranclp rtranclp.rtrancl_refl)
qed

text \<open>C31. The check of Write and its section are two steps, so a text that Write takes, and
  whose bytes it neither refuses nor reports, can be lost: for every text there is a run without
  any failure in which the text is in the buffer of the file whose goroutine has ended, and
  whatever happens from then on the disk holds only what it held before.\<close>

theorem late_write_lost:
  assumes "wf_ext (path_ext path)"
  shows "\<exists>s :: log_race. log_reach False (open_io path content opt) s \<and> lg_taken s = p
    \<and> (\<forall>t. (log_step False)\<^sup>*\<^sup>* s t \<longrightarrow> disk_bytes (lg_io t) = content)"
proof -
  let ?i = "open_io path content opt"
  note ready = open_io_ready [OF assms, of content opt]
  have r: "log_reach False ?i (lost_write_state ?i p)"
    by (rule lost_write_reached) (simp_all add: open_io_def)
  have fin: "lg_finished (lost_write_state ?i p)" "disk_bytes (lg_io (lost_write_state ?i p)) = content"
    "lg_taken (lost_write_state ?i p) = p"
    by (simp_all add: lost_write_state_def disk_bytes_def open_io_def)
  from finished_for_ever [OF _ log_inv_reach [OF r ready(1,2,3)] fin(1)] fin(2,3) r show ?thesis by metis
qed


theorem late_write_lost_witness:
  "\<exists>s :: log_race. log_reach False (open_io app_log ''x'' (Some small_opt)) s \<and> lg_taken s = ''ab''
    \<and> (\<forall>t. (log_step False)\<^sup>*\<^sup>* s t \<longrightarrow> disk_bytes (lg_io t) = ''x'')"
  by (rule late_write_lost [OF app_log_ext(2)])

text \<open>Two Closes that have both found the file open: the second closes the channel again.\<close>

lemma double_close_panics:
  assumes "\<not> io_closed i"
  shows "\<exists>s :: log_race. log_reach False i s \<and> lg_panicked s"
proof -
  let ?s1 = "(log_start i)\<lparr>lg_closing := 1, lg_closes := 1\<rparr>"
  let ?s2 = "(log_start i)\<lparr>lg_closing := 2, lg_closes := 2\<rparr>"
  let ?s3 = "?s2\<lparr>lg_closing := 1, lg_io := i\<lparr>io_closed := True\<rparr>, lg_chan_closed := True\<rparr>"
  let ?s4 = "?s3\<lparr>lg_closing := 0, lg_panicked := True\<rparr>"
  have 1: "log_step False (log_start i) ?s1" "log_step False ?s1 ?s2"
    using log_step.close_check [of "log_start i" False] log_step.close_check [of ?s1 False] assms
    by (simp_all add: log_start_def io_Closed_def numeral_2_eq_2)
  have 2: "log_step False ?s2 ?s3" using log_step.close_locked [of ?s2 1 False] by (simp add: log_start_def numeral_2_eq_2)
  have 3: "log_step False ?s3 ?s4" using log_step.close_again [of ?s3 0 False] by (simp add: log_start_def)
  from 1 2 3 have "log_reach False i ?s4" by (meson converse_rtranclp_into_rtranclp rtranclp.rtrancl_refl)
  then show ?thesis by (intro exI [of _ ?s4]) simp
qed

end
