(* ===== verification/Go_Template.thy ===== *)
theory Go_Template
  imports Bean_Map
begin

text \<open>
  TextTemplateMustParse of src/g2util/template.go over the part of text/template its callers
  use: literal text and actions \<^verbatim>\<open>{{.name}}\<close> on a Map.  A text is read left to right; at two
  opening braces a name and two closing braces must follow.  Texts with any other action are
  left to the parameter \<^verbatim>\<open>other\<close>, what the library does with them.
\<close>

section \<open>Reading a template\<close>

datatype piece = Literal string | Field_of string

definition name_char :: "char \<Rightarrow> bool" where
  "name_char c \<longleftrightarrow> is_upper c \<or> is_lower c \<or> is_digit c \<or> c = CHR ''_''"

text \<open>A name starts with no digit.\<close>

definition field_name :: "string \<Rightarrow> bool" where
  "field_name n \<longleftrightarrow> n \<noteq> [] \<and> \<not> is_digit (hd n) \<and> list_all name_char n"

fun add_char :: "char \<Rightarrow> piece list \<Rightarrow> piece list" where
  "add_char c (Literal s # ps) = Literal (c # s) # ps"
| "add_char c ps = Literal [c] # ps"

function template_parse :: "string \<Rightarrow> piece list option" where
  "template_parse [] = Some []"
| "template_parse (c # cs) =
     (if has_prefix (c # cs) ''{{'' then
        (if has_prefix (c # cs) ''{{.'' then
           let r = drop 3 (c # cs); n = takeWhile name_char r; r1 = drop (length n) r
           in if field_name n \<and> has_prefix r1 ''}}''
              then map_option (\<lambda>ps. Field_of n # ps) (template_parse (drop 2 r1)) else None
         else None)
      else map_option (add_char c) (template_parse cs))"
  by pat_completeness auto
termination
  by (relation "measure length") (auto simp: Let_def)


section \<open>Executing it\<close>

text \<open>A field that the map lacks, or that holds nil, is printed as no value.\<close>

definition print_value :: "(json \<Rightarrow> string) \<Rightarrow> json option \<Rightarrow> string" where
  "print_value show_val v =
     (case v of
        None \<Rightarrow> ''<no value>''
      | Some JNull \<Rightarrow> ''<no value>''
      | Some (JStr s) \<Rightarrow> s
      | Some (JNum s) \<Rightarrow> s
      | Some (JBool b) \<Rightarrow> (if b then ''true'' else ''false'')
      | Some u \<Rightarrow> show_val u)"

fun execute_piece :: "(json \<Rightarrow> string) \<Rightarrow> go_map \<Rightarrow> piece \<Rightarrow> string" where
  "execute_piece show_val data (Literal s) = s"
| "execute_piece show_val data (Field_of n) = print_value show_val (map_of data n)"

definition template_execute :: "(json \<Rightarrow> string) \<Rightarrow> go_map \<Rightarrow> piece list \<Rightarrow> string" where
  "template_execute show_val data ps = concat (map (execute_piece show_val data) ps)"

definition TextTemplateMustParse :: "(string \<Rightarrow> go_map \<Rightarrow> string) \<Rightarrow> (json \<Rightarrow> string) \<Rightarrow> string \<Rightarrow> go_map \<Rightarrow> string" where
  "TextTemplateMustParse other show_val text data =
     (case template_parse text of
        Some ps \<Rightarrow> template_execute show_val data ps
      | None \<Rightarrow> other text data)"


section \<open>Texts of pieces\<close>

fun piece_text :: "piece \<Rightarrow> string" where
  "piece_text (Literal s) = s"
| "piece_text (Field_of n) = ''{{.'' @ n @ ''}}''"

definition template_text :: "piece list \<Rightarrow> string" where
  "template_text ps = concat (map piece_text ps)"

fun piece_ok :: "piece \<Rightarrow> bool" where
  "piece_ok (Literal s) = (CHR ''{'' \<notin> set s)"
| "piece_ok (Field_of n) = field_name n"

lemma name_char_brace: "\<not> name_char CHR ''}''" "\<not> name_char CHR ''{''"
  by (simp_all add: name_char_def is_upper_def is_lower_def is_digit_def)

lemma parse_field:
  assumes "field_name n"
  shows "template_parse (''{{.'' @ n @ ''}}'' @ t) = map_option (\<lambda>ps. Field_of n # ps) (template_parse t)"
proof -
  have tw: "takeWhile name_char (n @ CHR ''}'' # CHR ''}'' # t) = n"
    using assms name_char_brace by (simp add: field_name_def list_all_iff takeWhile_append)
  show ?thesis
    using assms by (simp add: has_prefix_def Let_def tw)
qed

lemma execute_add_char:
  "template_execute show_val data (add_char c ps) = c # template_execute show_val data ps"
  by (cases "(c, ps)" rule: add_char.cases) (auto simp: template_execute_def)

lemma parse_literal:
  "CHR ''{'' \<notin> set s \<Longrightarrow> template_parse (s @ t) = map_option (\<lambda>ps. foldr add_char s ps) (template_parse t)"
proof (induction s)
  case (Cons c s)
  then have "\<not> has_prefix (c # s @ t) ''{{''" by (auto simp: has_prefix_def)
  with Cons show ?case by (simp add: option.map_comp comp_def)
qed (simp add: option.map_id)

lemma execute_literal:
  "template_execute show_val data (foldr add_char s ps) = s @ template_execute show_val data ps"
  by (induction s) (simp_all add: execute_add_char)

lemma execute_Cons:
  "template_execute show_val data (p # ps) = execute_piece show_val data p @ template_execute show_val data ps"
  by (simp add: template_execute_def)

lemma text_Cons: "template_text (p # ps) = piece_text p @ template_text ps"
  by (simp add: template_text_def)

text \<open>Reading a text made of pieces and executing it is executing the pieces.\<close>

lemma parse_pieces:
  "list_all piece_ok ps \<Longrightarrow>
   \<exists>qs. template_parse (template_text ps) = Some qs
      \<and> template_execute show_val data qs = template_execute show_val data ps"
proof (induction ps)
  case Nil
  then show ?case by (simp add: template_text_def)
next
  case (Cons p ps)
  then obtain qs where qs: "template_parse (template_text ps) = Some qs"
    "template_execute show_val data qs = template_execute show_val data ps" by auto
  show ?case
  proof (cases p)
    case (Literal s)
    with Cons.prems qs show ?thesis by (simp add: text_Cons parse_literal execute_literal execute_Cons)
  next
    case (Field_of n)
    with Cons.prems qs show ?thesis
      using parse_field [of n "template_text ps"] by (simp add: text_Cons execute_Cons)
  qed
qed

lemma template_of_pieces:
  assumes "list_all piece_ok ps"
  shows "TextTemplateMustParse other show_val (template_text ps) data = template_execute show_val data ps"
  using parse_pieces [OF assms, of show_val data] by (auto simp: TextTemplateMustParse_def)

end
