(* ===== verification/Sql_Templates.thy ===== *)
theory Sql_Templates
  imports Go_Template Query_Rows Small_Helpers
begin

text \<open>
  The texts the program builds with TextTemplateMustParse: the statements of execCreate
  (src/g2db/mysql.go) and of paged queries (src/g2db/mysql_query_rows.go) with the maps they are
  filled from, and the version of the program (src/g2cmd/version.go).  The statements of
  Mysql_Schema and Query_Rows are what executing these templates gives.
\<close>

section \<open>Compound indexes\<close>

definition index_params :: "compound_index \<Rightarrow> string \<Rightarrow> string list \<Rightarrow> go_map" where
  "index_params c table cs1 =
     [(''table'', JStr table), (''unique'', JStr (if ci_unique c then ''UNIQUE '' else [])),
      (''index_name'', JStr (index_name c table cs1)), (''indexes'', JStr (go_join cs1 '',''))]"

definition sq1_template :: string where
  "sq1_template = ''SHOW INDEX FROM {{.table}} WHERE Key_name = '' @ quote @ ''{{.index_name}}'' @ quote"

definition sq2_template :: string where
  "sq2_template = ''ALTER TABLE {{.table}} ADD {{.unique}}INDEX {{.index_name}} ({{.indexes}})''"

lemma template_fields:
  "field_name ''table''" "field_name ''unique''" "field_name ''index_name''" "field_name ''indexes''"
  "field_name ''condition''" "field_name ''orderBy''" "field_name ''sort''" "field_name ''offsetX''"
  "field_name ''pageCount''" "field_name ''appName''" "field_name ''version''" "field_name ''buildTime''"
  "field_name ''goVersion''" "field_name ''gitBranch''" "field_name ''gitHash''"
  by (simp_all add: field_name_def name_char_def is_upper_def is_lower_def is_digit_def)

lemma sq1_pieces:
  "sq1_template = template_text [Literal ''SHOW INDEX FROM '', Field_of ''table'',
     Literal ('' WHERE Key_name = '' @ quote), Field_of ''index_name'', Literal quote]"
  by (simp add: sq1_template_def template_text_def)

lemma sq2_pieces:
  "sq2_template = template_text [Literal ''ALTER TABLE '', Field_of ''table'', Literal '' ADD '',
     Field_of ''unique'', Literal ''INDEX '', Field_of ''index_name'', Literal '' ('',
     Field_of ''indexes'', Literal '')'']"
  by (simp add: sq2_template_def template_text_def)

lemmas execute_simps = template_execute_def print_value_def

lemma show_index_template:
  "TextTemplateMustParse other show_val sq1_template (index_params c table cs1)
     = show_index_sql table (index_name c table cs1)"
  unfolding sq1_pieces
  by (subst template_of_pieces)
     (simp_all add: template_fields execute_simps index_params_def show_index_sql_def quote_def)

lemma add_index_template:
  "TextTemplateMustParse other show_val sq2_template (index_params c table cs1)
     = add_index_sql c table (index_name c table cs1) cs1"
  unfolding sq2_pieces
  by (subst template_of_pieces)
     (simp_all add: template_fields execute_simps index_params_def add_index_sql_def)


section \<open>Paged queries\<close>

definition query_template :: string where
  "query_template =
     ''SELECT * FROM {{.table}} WHERE ({{.condition}}) ''
       @ ''ORDER BY {{.orderBy}} {{.sort}} LIMIT {{.offsetX}},{{.pageCount}}''"

definition query_map :: "'row engine \<Rightarrow> string \<Rightarrow> query_params \<Rightarrow> go_map" where
  "query_map en tableStr p =
     (let tpl = [(''orderBy'', JStr (en_quote en (qp_OrderBy p))), (''sort'', JStr ''DESC''),
                 (''offsetX'', JNum (show_int (offsetX p))), (''pageCount'', JNum (show_int (qp_PageCount p)))];
          tpl1 = (if qp_Asc p then AList.update ''sort'' (JStr ''ASC'') tpl else tpl);
          tpl2 = AList.update ''table'' (JStr (en_quote en tableStr)) tpl1
      in AList.update ''condition'' (JStr (condition_str p)) tpl2)"

lemma query_pieces:
  "query_template = template_text [Literal ''SELECT * FROM '', Field_of ''table'', Literal '' WHERE ('',
     Field_of ''condition'', Literal '') ORDER BY '', Field_of ''orderBy'', Literal '' '',
     Field_of ''sort'', Literal '' LIMIT '', Field_of ''offsetX'', Literal '','', Field_of ''pageCount'']"
  by (simp add: query_template_def template_text_def)

lemma select_template:
  "TextTemplateMustParse other show_val query_template (query_map en tableStr p) = select_sql en tableStr p"
  unfolding query_pieces
  by (subst template_of_pieces)
     (simp_all add: template_fields execute_simps query_map_def select_sql_def Let_def)


section \<open>The version\<close>

definition version_heading :: string where
  "version_heading =
     replicate 30 CHR ''-''
     @ [CHR 0xE7, CHR 0x89, CHR 0x88, CHR 0xE6, CHR 0x9C, CHR 0xAC, CHR 0xE4, CHR 0xBF, CHR 0xA1, CHR 0xE6, CHR 0x81, CHR 0xAF]
     @ replicate 30 CHR ''-''"

definition verStr :: string where
  "verStr =
     (let nl = [CHR 0x0A]
      in version_heading @ nl @ ''Application: {{.appName}}'' @ nl @ ''Version: {{.version}}'' @ nl
           @ ''BuildTime: {{.buildTime}}'' @ nl @ ''{{.goVersion}}'' @ nl @ ''git: {{.gitBranch}} - {{.gitHash}}'')"

text \<open>What is printed, without the line break of Println.\<close>

definition showVersion :: "(string \<Rightarrow> go_map \<Rightarrow> string) \<Rightarrow> (json \<Rightarrow> string) \<Rightarrow> go_map \<Rightarrow> string" where
  "showVersion other show_val info = TextTemplateMustParse other show_val verStr info"

lemma version_pieces:
  "verStr = template_text
     [Literal (version_heading @ CHR 0x0A # ''Application: ''), Field_of ''appName'', Literal (CHR 0x0A # ''Version: ''),
      Field_of ''version'', Literal (CHR 0x0A # ''BuildTime: ''), Field_of ''buildTime'', Literal [CHR 0x0A],
      Field_of ''goVersion'', Literal (CHR 0x0A # ''git: ''), Field_of ''gitBranch'', Literal '' - '', Field_of ''gitHash'']"
  by (simp add: verStr_def template_text_def)

lemma showVersion_text:
  "showVersion other show_val info =
     (let f = (\<lambda>n. print_value show_val (map_of info n))
      in version_heading @ CHR 0x0A # ''Application: '' @ f ''appName'' @ CHR 0x0A # ''Version: '' @ f ''version''
           @ CHR 0x0A # ''BuildTime: '' @ f ''buildTime'' @ CHR 0x0A # f ''goVersion''
           @ CHR 0x0A # ''git: '' @ f ''gitBranch'' @ '' - '' @ f ''gitHash'')"
  unfolding showVersion_def version_pieces
  by (subst template_of_pieces) (simp_all add: template_fields template_execute_def version_heading_def)

end
