(* ===== verification/Shell_Exec.thy ===== *)
theory Shell_Exec
  imports Proc_Cmd
begin

text \<open>
  Commands of the shell: ItfExec and execInner of src/g2util/exec.go over a model of os/exec.  A
  command can be started once; Output and CombinedOutput collect what it prints and refuse a
  command whose outputs are already set.  The shell is a record: starting a text, and running a
  started process to its end with what it printed on which descriptor.  Writing to a writer
  (a file descriptor of the process) is recorded in order.
\<close>

section \<open>Commands of package os/exec\<close>

datatype fd = Fd_out | Fd_err

datatype sink = To_writer nat | To_buffer

record ('p, 'w) shell =
  sh_start :: "string \<Rightarrow> 'w \<Rightarrow> 'w \<times> (string + 'p)"
  sh_wait :: "'p \<Rightarrow> 'w \<Rightarrow> 'w \<times> (fd \<times> string) list \<times> string option"

record 'p exec_cmd =
  ec_text :: string
  ec_Stdout :: "sink option"
  ec_Stderr :: "sink option"
  ec_Process :: "'p option"

text \<open>execInner, and the world with what was written to each writer.\<close>

record 'p execInner =
  ei_cmd :: "'p exec_cmd"
  ei_out :: nat

record 'w exec_world =
  ew_world :: 'w
  ew_written :: "nat \<Rightarrow> string"

definition NewExecInner :: "string \<Rightarrow> nat \<Rightarrow> 'p execInner" where
  "NewExecInner s out =
     \<lparr>ei_cmd = \<lparr>ec_text = s, ec_Stdout = None, ec_Stderr = None, ec_Process = None\<rparr>, ei_out = out\<rparr>"

definition StdExec :: "nat \<Rightarrow> string \<Rightarrow> 'p execInner" where
  "StdExec os_stdout s = NewExecInner s os_stdout"

definition cmd_sink :: "fd \<Rightarrow> 'p exec_cmd \<Rightarrow> sink option" where
  "cmd_sink d c = (case d of Fd_out \<Rightarrow> ec_Stdout c | Fd_err \<Rightarrow> ec_Stderr c)"

definition write_to :: "nat \<Rightarrow> string \<Rightarrow> 'w exec_world \<Rightarrow> 'w exec_world" where
  "write_to n s w = w\<lparr>ew_written := (ew_written w)(n := ew_written w n @ s)\<rparr>"

text \<open>What a process printed goes to the writers, to the buffer (the result), or nowhere.\<close>

fun deliver :: "'p exec_cmd \<Rightarrow> (fd \<times> string) list \<Rightarrow> 'w exec_world \<Rightarrow> 'w exec_world \<times> string" where
  "deliver c [] w = (w, [])"
| "deliver c ((d, s) # chunks) w =
     (case cmd_sink d c of
        Some (To_writer n) \<Rightarrow> deliver c chunks (write_to n s w)
      | Some To_buffer \<Rightarrow> (case deliver c chunks w of (w1, b) \<Rightarrow> (w1, s @ b))
      | None \<Rightarrow> deliver c chunks w)"

definition cmd_Start :: "('p, 'w) shell \<Rightarrow> 'p exec_cmd \<Rightarrow> 'w exec_world \<Rightarrow> 'p exec_cmd \<times> 'w exec_world \<times> string option" where
  "cmd_Start sh c w =
     (case ec_Process c of
        Some p \<Rightarrow> (c, w, Some ''exec: already started'')
      | None \<Rightarrow>
          (case sh_start sh (ec_text c) (ew_world w) of
             (v, Inl err) \<Rightarrow> (c, w\<lparr>ew_world := v\<rparr>, Some err)
           | (v, Inr p) \<Rightarrow> (c\<lparr>ec_Process := Some p\<rparr>, w\<lparr>ew_world := v\<rparr>, None)))"

text \<open>Run with the bytes that went to the buffer.\<close>

definition cmd_Run :: "('p, 'w) shell \<Rightarrow> 'p exec_cmd \<Rightarrow> 'w exec_world \<Rightarrow> 'p exec_cmd \<times> 'w exec_world \<times> string \<times> string option" where
  "cmd_Run sh c w =
     (case cmd_Start sh c w of
        (c1, w1, Some err) \<Rightarrow> (c1, w1, [], Some err)
      | (c1, w1, None) \<Rightarrow>
          (case sh_wait sh (the (ec_Process c1)) (ew_world w1) of
             (v, chunks, err) \<Rightarrow>
               (case deliver c1 chunks (w1\<lparr>ew_world := v\<rparr>) of (w2, b) \<Rightarrow> (c1, w2, b, err))))"

definition cmd_Output :: "('p, 'w) shell \<Rightarrow> 'p exec_cmd \<Rightarrow> 'w exec_world \<Rightarrow> 'p exec_cmd \<times> 'w exec_world \<times> string \<times> string option" where
  "cmd_Output sh c w =
     (if ec_Stdout c \<noteq> None then (c, w, [], Some ''exec: Stdout already set'')
      else cmd_Run sh (c\<lparr>ec_Stdout := Some To_buffer\<rparr>) w)"

definition cmd_CombinedOutput :: "('p, 'w) shell \<Rightarrow> 'p exec_cmd \<Rightarrow> 'w exec_world \<Rightarrow> 'p exec_cmd \<times> 'w exec_world \<times> string \<times> string option" where
  "cmd_CombinedOutput sh c w =
     (if ec_Stdout c \<noteq> None then (c, w, [], Some ''exec: Stdout already set'')
      else if ec_Stderr c \<noteq> None then (c, w, [], Some ''exec: Stderr already set'')
      else cmd_Run sh (c\<lparr>ec_Stdout := Some To_buffer, ec_Stderr := Some To_buffer\<rparr>) w)"


section \<open>execInner\<close>

definition setOut :: "'p execInner \<Rightarrow> 'p execInner" where
  "setOut e = e\<lparr>ei_cmd := (ei_cmd e)\<lparr>ec_Stdout := Some (To_writer (ei_out e)), ec_Stderr := Some (To_writer (ei_out e))\<rparr>\<rparr>"

type_synonym ('p, 'w) exec_op =
  "('p, 'w) shell \<Rightarrow> 'p execInner \<Rightarrow> 'w exec_world \<Rightarrow> 'p execInner \<times> 'w exec_world \<times> string \<times> string option"

definition exec_CombinedOutput :: "('p, 'w) exec_op" where
  "exec_CombinedOutput sh e w =
     (case cmd_CombinedOutput sh (ei_cmd e) w of (c, w1, b, err) \<Rightarrow> (e\<lparr>ei_cmd := c\<rparr>, w1, b, err))"

definition exec_Output :: "('p, 'w) exec_op" where
  "exec_Output sh e w = (case cmd_Output sh (ei_cmd e) w of (c, w1, b, err) \<Rightarrow> (e\<lparr>ei_cmd := c\<rparr>, w1, b, err))"

definition exec_Run :: "('p, 'w) exec_op" where
  "exec_Run sh e w =
     (let e1 = setOut e in case cmd_Run sh (ei_cmd e1) w of (c, w1, b, err) \<Rightarrow> (e1\<lparr>ei_cmd := c\<rparr>, w1, [], err))"

definition exec_Start :: "('p, 'w) exec_op" where
  "exec_Start sh e w =
     (let e1 = setOut e in case cmd_Start sh (ei_cmd e1) w of (c, w1, err) \<Rightarrow> (e1\<lparr>ei_cmd := c\<rparr>, w1, [], err))"

text \<open>The methods of ItfExec, and a sequence of calls on one command.\<close>

datatype exec_method = Call_Start | Call_Run | Call_Output | Call_CombinedOutput

fun exec_call :: "exec_method \<Rightarrow> ('p, 'w) exec_op" where
  "exec_call Call_Start = exec_Start"
| "exec_call Call_Run = exec_Run"
| "exec_call Call_Output = exec_Output"
| "exec_call Call_CombinedOutput = exec_CombinedOutput"

fun exec_calls :: "exec_method list \<Rightarrow> ('p, 'w) shell \<Rightarrow> 'p execInner \<Rightarrow> 'w exec_world \<Rightarrow> 'p execInner \<times> 'w exec_world \<times> string option list" where
  "exec_calls [] sh e w = (e, w, [])"
| "exec_calls (k # ks) sh e w =
     (case exec_call k sh e w of (e1, w1, b, err) \<Rightarrow>
        (case exec_calls ks sh e1 w1 of (e2, w2, errs) \<Rightarrow> (e2, w2, err # errs)))"


section \<open>A command runs once\<close>

lemmas exec_defs = exec_Start_def exec_Run_def exec_Output_def exec_CombinedOutput_def setOut_def
  cmd_Run_def cmd_Output_def cmd_CombinedOutput_def cmd_Start_def

text \<open>A started command refuses every further call and leaves the world alone.\<close>

lemma started_refuses:
  assumes "ec_Process (ei_cmd e) = Some p"
  shows "\<exists>e1 err. exec_call k sh e w = (e1, w, [], Some err) \<and> ec_Process (ei_cmd e1) = Some p"
  using assms by (cases k) (auto simp: exec_defs Let_def split: option.splits)

lemma started_refuses_all:
  "ec_Process (ei_cmd e) = Some p \<Longrightarrow>
   \<exists>e1 errs. exec_calls ks sh e w = (e1, w, errs) \<and> None \<notin> set errs \<and> length errs = length ks"
proof (induction ks arbitrary: e)
  case (Cons k ks)
  obtain e1 err where k: "exec_call k sh e w = (e1, w, [], Some err)" "ec_Process (ei_cmd e1) = Some p"
    using started_refuses [OF Cons.prems] by blast
  from Cons.IH [OF k(2)] k(1) show ?case by auto
qed simp

text \<open>A call that succeeds has started the command.\<close>

lemma success_started:
  "exec_call k sh e w = (e1, w1, b, None) \<Longrightarrow> \<exists>p. ec_Process (ei_cmd e1) = Some p"
  by (cases k) (auto simp: exec_defs Let_def split: option.splits prod.splits sum.splits if_splits)

text \<open>What Output returns, and that it writes nothing.\<close>

lemma deliver_Output:
  "ec_Stdout c = Some To_buffer \<Longrightarrow> ec_Stderr c = None \<Longrightarrow>
   deliver c chunks w = (w, concat (map snd (filter (\<lambda>x. fst x = Fd_out) chunks)))"
proof (induction chunks arbitrary: w)
  case (Cons x xs)
  then show ?case by (cases x) (auto simp: cmd_sink_def split: fd.splits)
qed simp


section \<open>Looking for processes\<close>

definition find_pid_text :: "string \<Rightarrow> string" where
  "find_pid_text name =
     replace_all (''ps -ef|grep -v grep|grep '' @ [CHR 0x27] @ ''{name}'' @ [CHR 0x27] @ ''|awk '' @ [CHR 0x27]
       @ ''{print $2}'' @ [CHR 0x27] @ ''|tr -s '' @ [CHR 0x27, CHR 0x5C] @ ''n'' @ [CHR 0x27]) ''{name}'' name"

text \<open>FindPidSliceByProcessName with the shell it runs; the error of Output is dropped.\<close>

definition shell_find :: "('p, 'w) shell \<Rightarrow> nat \<Rightarrow> string \<Rightarrow> 'w exec_world \<Rightarrow> 'w exec_world \<times> string list" where
  "shell_find sh os_stdout name w =
     (case exec_Output sh (StdExec os_stdout (find_pid_text name)) w of
        (e, w1, p, err) \<Rightarrow> (w1, go_split newline (trim_space p)))"

definition shell_running :: "('p, 'w) shell \<Rightarrow> nat \<Rightarrow> string \<Rightarrow> 'w exec_world \<Rightarrow> 'w exec_world \<times> bool" where
  "shell_running sh os_stdout name w =
     (case shell_find sh os_stdout name w of (w1, ps) \<Rightarrow> (w1, length ps > 0 \<and> length (ps ! 0) > 0))"

text \<open>KillProcess: the kills are run one after the other, their errors dropped.\<close>

fun run_texts :: "('p, 'w) shell \<Rightarrow> nat \<Rightarrow> string list \<Rightarrow> 'w exec_world \<Rightarrow> 'w exec_world" where
  "run_texts sh os_stdout [] w = w"
| "run_texts sh os_stdout (s # texts) w =
     run_texts sh os_stdout texts (fst (snd (exec_Run sh (StdExec os_stdout s) w)))"

definition shell_kill :: "('p, 'w) shell \<Rightarrow> nat \<Rightarrow> string \<Rightarrow> 'w exec_world \<Rightarrow> 'w exec_world \<times> string option" where
  "shell_kill sh os_stdout name w =
     (case shell_running sh os_stdout name w of
        (w1, False) \<Rightarrow> (w1, Some (''process['' @ name @ ''] is not running''))
      | (w1, True) \<Rightarrow>
          (case shell_find sh os_stdout name w1 of
             (w2, ps) \<Rightarrow> (run_texts sh os_stdout (map (\<lambda>pid. ''kill '' @ pid) ps) w2, None)))"

text \<open>
  A shell that runs the pipeline: started on its text it prints the pids that ps, grep and awk
  find in the process table of the world, and changes nothing.
\<close>

definition runs_pipeline :: "('p, 'w) shell \<Rightarrow> ('w \<Rightarrow> ps_line list) \<Rightarrow> string \<Rightarrow> bool" where
  "runs_pipeline sh table name \<longleftrightarrow>
     (\<forall>v. \<exists>p chunks err. sh_start sh (find_pid_text name) v = (v, Inr p) \<and> sh_wait sh p v = (v, chunks, err)
        \<and> concat (map snd (filter (\<lambda>x. fst x = Fd_out) chunks)) = ps_output name (table v))"

lemma StdExec_Output:
  assumes "sh_start sh s (ew_world w) = (v, Inr p)" "sh_wait sh p v = (u, chunks, err)"
  shows "\<exists>e. exec_Output sh (StdExec os_stdout s) w =
    (e, w\<lparr>ew_world := u\<rparr>, concat (map snd (filter (\<lambda>x. fst x = Fd_out) chunks)), err)"
  using assms by (simp add: exec_defs StdExec_def NewExecInner_def deliver_Output)

lemma shell_find_table:
  assumes "runs_pipeline sh table name"
  shows "shell_find sh os_stdout name w = (w, FindPidSliceByProcessName name (table (ew_world w)))"
proof -
  obtain p chunks err where p: "sh_start sh (find_pid_text name) (ew_world w) = (ew_world w, Inr p)"
    "sh_wait sh p (ew_world w) = (ew_world w, chunks, err)"
    "concat (map snd (filter (\<lambda>x. fst x = Fd_out) chunks)) = ps_output name (table (ew_world w))"
    using assms unfolding runs_pipeline_def by blast
  from StdExec_Output [OF p(1,2), of os_stdout] p(3)
  show ?thesis by (auto simp: shell_find_def FindPidSliceByProcessName_def)
qed

lemma shell_running_table:
  "runs_pipeline sh table name \<Longrightarrow>
   shell_running sh os_stdout name w = (w, ProcessIsRunning name (table (ew_world w)))"
  by (simp add: shell_running_def shell_find_table ProcessIsRunning_def Let_def)

text \<open>A search whose shell cannot be started reports that nothing runs.\<close>

lemma shell_running_start_fails:
  "sh_start sh (find_pid_text name) (ew_world w) = (v, Inl err) \<Longrightarrow>
   shell_running sh os_stdout name w = (w\<lparr>ew_world := v\<rparr>, False)"
  by (simp add: shell_running_def shell_find_def exec_defs StdExec_def NewExecInner_def trim_space_def)

text \<open>The name stands between quotes in the command as it is: a quote in it ends them.\<close>

lemma find_pid_text_name:
  "find_pid_text name =
     ''ps -ef|grep -v grep|grep '' @ [CHR 0x27] @ name @ [CHR 0x27] @ ''|awk '' @ [CHR 0x27]
       @ ''{print $2}'' @ [CHR 0x27] @ ''|tr -s '' @ [CHR 0x27, CHR 0x5C] @ ''n'' @ [CHR 0x27]"
  by (simp add: find_pid_text_def has_prefix_def)

end
