(* ===== verification/Captcha.thy ===== *)
theory Captcha
  imports Prelude
begin

text \<open>
  Captchas: src/g2util/captcha.go over base64Captcha, whose drawing and memory store are the
  record \<^verbatim>\<open>captcha_lib\<close> on an explicit world.  Captcha holds the library's object; before
  Constructor or SetCap it is nil and using it panics.
\<close>

record string_driver =
  sd_height :: int
  sd_width :: int
  sd_noise :: int
  sd_show_line :: int
  sd_length :: int
  sd_source :: string
  sd_bg :: "nat \<times> nat \<times> nat \<times> nat"
  sd_fonts :: "string list"

text \<open>Generate gives id, picture, answer and error; Verify takes id, answer and whether to forget.\<close>

record ('c, 'w) captcha_lib =
  cl_new :: "string_driver \<Rightarrow> 'c"
  cl_Generate :: "'c \<Rightarrow> 'w \<Rightarrow> 'w \<times> string \<times> string \<times> string \<times> string option"
  cl_Verify :: "'c \<Rightarrow> string \<Rightarrow> string \<Rightarrow> bool \<Rightarrow> 'w \<Rightarrow> 'w \<times> bool"
  cl_OptionShowHollowLine :: int

record 'c captcha =
  cp_cap :: "'c option"

definition captcha_driver :: "int \<Rightarrow> string_driver" where
  "captcha_driver hollow =
     \<lparr>sd_height = 60, sd_width = 150, sd_noise = 0, sd_show_line = hollow, sd_length = 4,
      sd_source = ''1234567890'', sd_bg = (0, 0, 0, 0), sd_fonts = [''wqy-microhei.ttc'']\<rparr>"

definition captcha_Constructor :: "('c, 'w) captcha_lib \<Rightarrow> 'c captcha \<Rightarrow> 'c captcha" where
  "captcha_Constructor lib c = c\<lparr>cp_cap := Some (cl_new lib (captcha_driver (cl_OptionShowHollowLine lib)))\<rparr>"

definition Cap :: "'c captcha \<Rightarrow> 'c option" where
  "Cap c = cp_cap c"

definition SetCap :: "'c option \<Rightarrow> 'c captcha \<Rightarrow> 'c captcha" where
  "SetCap v c = c\<lparr>cp_cap := v\<rparr>"

text \<open>Generate keeps the answer to itself.\<close>

definition captcha_Generate ::
  "('c, 'w) captcha_lib \<Rightarrow> 'c captcha \<Rightarrow> 'w \<Rightarrow> ('w \<times> string \<times> string \<times> string option) outcome" where
  "captcha_Generate lib c w =
     (case cp_cap c of
        None \<Rightarrow> Panics ''nil pointer dereference''
      | Some v \<Rightarrow> (case cl_Generate lib v w of (w1, cid, b64s, answer, err) \<Rightarrow> Returns (w1, cid, b64s, err)))"

definition captcha_Verify :: "('c, 'w) captcha_lib \<Rightarrow> 'c captcha \<Rightarrow> string \<Rightarrow> string \<Rightarrow> 'w \<Rightarrow> ('w \<times> bool) outcome" where
  "captcha_Verify lib c cid answer w =
     (case cp_cap c of
        None \<Rightarrow> Panics ''nil pointer dereference''
      | Some v \<Rightarrow> Returns (cl_Verify lib v cid answer True w))"


section \<open>One attempt\<close>

text \<open>
  The store of the library: a captcha is remembered with its answer, Verify compares and, when
  told to, forgets it, whatever the comparison says; what is not remembered never matches.
\<close>

definition store_law :: "('c, 'w) captcha_lib \<Rightarrow> ('w \<Rightarrow> string \<rightharpoonup> string) \<Rightarrow> bool" where
  "store_law lib pending \<longleftrightarrow>
     (\<forall>v cid answer clear w.
        snd (cl_Verify lib v cid answer clear w) = (pending w cid = Some answer)
        \<and> pending (fst (cl_Verify lib v cid answer clear w)) = (if clear then (pending w)(cid := None) else pending w))"

text \<open>Verifications one after the other, with their answers.\<close>

fun verify_all :: "('c, 'w) captcha_lib \<Rightarrow> 'c captcha \<Rightarrow> (string \<times> string) list \<Rightarrow> 'w \<Rightarrow> ('w \<times> bool list) outcome" where
  "verify_all lib c [] w = Returns (w, [])"
| "verify_all lib c ((cid, answer) # tries) w =
     bind_outcome (captcha_Verify lib c cid answer w)
       (\<lambda>(w1, match). bind_outcome (verify_all lib c tries w1) (\<lambda>(w2, ms). Returns (w2, match # ms)))"

lemma verify_all_Cons:
  assumes "verify_all lib c ((k, a) # tries) w = Returns (w1, ms)"
  obtains v ms1 where "cp_cap c = Some v"
    "verify_all lib c tries (fst (cl_Verify lib v k a True w)) = Returns (w1, ms1)"
    "ms = snd (cl_Verify lib v k a True w) # ms1"
proof (cases "cp_cap c")
  case None
  with assms show ?thesis by (simp add: captcha_Verify_def)
next
  case (Some v)
  obtain w2 m where m: "cl_Verify lib v k a True w = (w2, m)" by force
  from assms Some m obtain p where "verify_all lib c tries w2 = Returns p" "(fst p, m # snd p) = (w1, ms)"
    by (cases "verify_all lib c tries w2") (auto simp: captcha_Verify_def)
  with Some m show ?thesis by (intro that [of v "snd p"]) auto
qed

lemma forgotten_refused:
  assumes "store_law lib pending"
  shows "\<lbrakk>pending w cid = None; verify_all lib c tries w = Returns (w1, ms); i < length tries; fst (tries ! i) = cid\<rbrakk>
    \<Longrightarrow> \<not> ms ! i"
proof (induction tries arbitrary: w ms i)
  case (Cons t tries)
  obtain k a where t: "t = (k, a)" by force
  from Cons.prems(2) obtain v ms1 where v: "cp_cap c = Some v"
    "verify_all lib c tries (fst (cl_Verify lib v k a True w)) = Returns (w1, ms1)"
    "ms = snd (cl_Verify lib v k a True w) # ms1"
    unfolding t by (rule verify_all_Cons)
  from assms have law: "snd (cl_Verify lib v k a True w) = (pending w k = Some a)"
    "pending (fst (cl_Verify lib v k a True w)) = (pending w)(k := None)"
    by (auto simp: store_law_def)
  show ?case
  proof (cases i)
    case 0
    with Cons.prems law(1) v(3) t show ?thesis by simp
  next
    case (Suc j)
    with Cons.prems v law(2) t show ?thesis
      using Cons.IH [OF _ v(2), of j] by simp
  qed
qed simp

end
