(* ===== verification/Module_Parts.thy ===== *)
theory Module_Parts
  imports Sql_Templates Shell_Exec Captcha Connections Log_Race Gob_Time Complex_Main
begin

text \<open>
  Small parts of several packages that complete their components: the table of locks
  (src/g2db/atomic.go), the base columns, the session of an index and the Migrate command of
  src/g2db/mysql.go, the periodic deletion of src/g2util/auto_back_file.go, the servers
  of src/g2gin/g2gin.go, the scheduler of src/g2util/cron.go, and numbers
  (src/g2util/math.go, number.go, rand.go).
\<close>

section \<open>The table of locks\<close>

text \<open>sync.Map of mutexes, each a number; a new key gets a new one.\<close>

record lock_table =
  lt_mp :: "string \<rightharpoonup> nat"
  lt_next :: nat

definition Locker :: lock_table where
  "Locker = \<lparr>lt_mp = Map.empty, lt_next = 0\<rparr>"

definition lock_Load :: "string \<Rightarrow> lock_table \<Rightarrow> lock_table \<times> nat" where
  "lock_Load key l =
     (case lt_mp l key of
        Some mu \<Rightarrow> (l, mu)
      | None \<Rightarrow> (l\<lparr>lt_mp := (lt_mp l)(key \<mapsto> lt_next l), lt_next := Suc (lt_next l)\<rparr>, lt_next l))"

definition lock_Loads :: "string list \<Rightarrow> lock_table \<Rightarrow> lock_table" where
  "lock_Loads keys l = fold (\<lambda>k l. fst (lock_Load k l)) keys l"

definition locks_ok :: "lock_table \<Rightarrow> bool" where
  "locks_ok l \<longleftrightarrow> inj_on (lt_mp l) (dom (lt_mp l)) \<and> (\<forall>mu \<in> ran (lt_mp l). mu < lt_next l)"

lemma locks_ok_Locker: "locks_ok Locker"
  by (simp add: locks_ok_def Locker_def)

lemma lock_Load_ok:
  assumes "locks_ok l"
  shows "locks_ok (fst (lock_Load key l))"
proof (cases "lt_mp l key")
  case None
  then have "lt_mp l k \<noteq> Some (lt_next l)" for k using assms by (auto simp: locks_ok_def ran_def)
  then show ?thesis using assms None
    by (force simp: locks_ok_def lock_Load_def inj_on_def ran_def)
qed (use assms in \<open>simp add: lock_Load_def\<close>)

lemma lock_Load_keeps: "lt_mp l k = Some mu \<Longrightarrow> lt_mp (fst (lock_Load key l)) k = Some mu"
  by (auto simp: lock_Load_def split: option.split)

lemma lock_Load_holds: "lt_mp (fst (lock_Load key l)) key = Some (snd (lock_Load key l))"
  by (auto simp: lock_Load_def split: option.split)

lemma lock_Loads_keep: "lt_mp l k = Some mu \<Longrightarrow> lt_mp (lock_Loads keys l) k = Some mu"
  unfolding lock_Loads_def by (induction keys arbitrary: l) (auto simp: lock_Load_keeps)

lemma lock_Loads_ok: "locks_ok l \<Longrightarrow> locks_ok (lock_Loads keys l)"
  unfolding lock_Loads_def by (induction keys arbitrary: l) (auto simp: lock_Load_ok)

text \<open>One key has one mutex for ever, and two keys never share one.\<close>

lemma same_key_same_lock:
  assumes "locks_ok l"
  shows "snd (lock_Load k2 (lock_Loads keys (fst (lock_Load k1 l)))) = snd (lock_Load k1 l) \<longleftrightarrow> k2 = k1"
proof -
  let ?m = "lock_Loads keys (fst (lock_Load k1 l))" and ?mu = "snd (lock_Load k1 l)"
  have m: "lt_mp ?m k1 = Some ?mu" by (intro lock_Loads_keep lock_Load_holds)
  have ok: "locks_ok (fst (lock_Load k2 ?m))" by (intro lock_Load_ok lock_Loads_ok assms)
  have "lt_mp (fst (lock_Load k2 ?m)) k1 = Some ?mu" by (rule lock_Load_keeps [OF m])
  moreover have "lt_mp (fst (lock_Load k2 ?m)) k2 = Some (snd (lock_Load k2 ?m))" by (rule lock_Load_holds)
  ultimately show ?thesis using ok by (metis domI inj_on_def locks_ok_def option.inject)
qed


section \<open>Models and indexes\<close>

record my_base1 =
  mb_ID :: int
  mb_Created :: json_time

record my_base = my_base1 +
  mb_Updated :: json_time
  mb_Version :: int

definition ClearColumns :: "my_base \<Rightarrow> my_base" where
  "ClearColumns m = m\<lparr>mb_Version := 0, mb_Created := None, mb_Updated := None\<rparr>"

text \<open>An index with its session; execCreate without one panics.\<close>

record 'w session_index =
  si_index :: compound_index
  si_sn :: "'w schema_calls option"

definition SetSn :: "'w schema_calls option \<Rightarrow> 'w session_index \<Rightarrow> 'w session_index" where
  "SetSn sn c = c\<lparr>si_sn := sn\<rparr>"

definition index_execCreate :: "key_env \<Rightarrow> 'w session_index \<Rightarrow> string \<Rightarrow> 'w \<Rightarrow> ('w \<times> string option) outcome" where
  "index_execCreate ke c table w =
     (case si_sn c of
        None \<Rightarrow> Panics ''orm Session is nil!''
      | Some sc \<Rightarrow> Returns (execCreate ke sc (si_index c) table w))"

definition CacheGetWrapSession where
  "CacheGetWrapSession me bn arg condition = cacheGet me bn arg condition"

text \<open>Migrate ends the process (Inl) on an error and reports how long it took otherwise.\<close>

definition Mysql_Migrate_timed ::
  "('w mysql_conn \<Rightarrow> int) \<Rightarrow> ('w mysql_conn \<Rightarrow> 'w mysql_conn \<times> string option) \<Rightarrow> 'w mysql_conn
     \<Rightarrow> 'w mysql_conn \<times> (string + int)" where
  "Mysql_Migrate_timed clock migrate m =
     (case TimeExcWrap (\<lambda>(m1, e). clock m1) (\<lambda>(m1, e). migrate m1) (m, None) of
        ((m1, Some err), d) \<Rightarrow> (m1, Inl err)
      | ((m1, None), d) \<Rightarrow> (m1, Inr d))"

text \<open>gubrak's sort and whether what it returns is a Slice; an error and another type panic.\<close>

definition Slice_Asc :: "('call \<Rightarrow> 'a list \<Rightarrow> string + 'a list option) \<Rightarrow> 'call \<Rightarrow> 'a list \<Rightarrow> 'a list outcome" where
  "Slice_Asc order_by call s =
     (case order_by call s of
        Inl err \<Rightarrow> Panics err
      | Inr None \<Rightarrow> Panics ''interface conversion''
      | Inr (Some rs) \<Rightarrow> Returns rs)"


section \<open>The periodic deletion of a log file\<close>

datatype stat_answer = Stat_ok | Stat_not_exist | Stat_other_error

definition fileExists :: "(string \<Rightarrow> stat_answer) \<Rightarrow> string \<Rightarrow> bool" where
  "fileExists os_stat name = (case os_stat name of Stat_ok \<Rightarrow> True | Stat_not_exist \<Rightarrow> False | Stat_other_error \<Rightarrow> True)"

definition getCurrentFileSize :: "inner_io \<Rightarrow> int" where
  "getCurrentFileSize i = int (length (io_file i))"

text \<open>\<^verbatim>\<open>abs_error\<close> is what filepath.Abs reports for the directory of the file.\<close>

definition lockDelDir :: "(string \<Rightarrow> stat_answer) \<Rightarrow> string option \<Rightarrow> (nat \<Rightarrow> string) \<Rightarrow> inner_io \<Rightarrow> inner_io \<times> string option" where
  "lockDelDir os_stat abs_error day_of i =
     (if \<not> fileExists os_stat (io_name i) then (i, None)
      else case abs_error of
        Some err \<Rightarrow> (i, Some err)
      | None \<Rightarrow> (autoDelDir day_of i, None))"

text \<open>One round of the loop of run; the second result is the line it logs.\<close>

datatype run_event = Run_del | Run_flush | Run_close

definition io_run_round ::
  "(string \<Rightarrow> stat_answer) \<Rightarrow> string option \<Rightarrow> (nat \<Rightarrow> string) \<Rightarrow> answers \<Rightarrow> string \<Rightarrow> run_event \<Rightarrow> inner_io
     \<Rightarrow> inner_io \<times> string option \<times> bool" where
  "io_run_round os_stat abs_error day_of an day ev i =
     (case ev of
        Run_close \<Rightarrow> (fst (flushAndCloseFile an day i), None, True)
      | Run_del \<Rightarrow> (case lockDelDir os_stat abs_error day_of i of (i1, e) \<Rightarrow> (i1, map_option (\<lambda>e. ''abio error: '' @ e) e, False))
      | Run_flush \<Rightarrow> (case io_Flush an day i of (i1, e) \<Rightarrow> (i1, map_option (\<lambda>e. ''abio error: '' @ e) e, False)))"

lemma flush_size:
  "getCurrentFileSize (i\<lparr>io_file := io_file i @ io_buf i, io_buf := []\<rparr>) \<ge> ab_FileMaxSize (io_opt i) \<longleftrightarrow>
     int (length (io_file i)) + int (length (io_buf i)) \<ge> ab_FileMaxSize (io_opt i)"
  by (simp add: getCurrentFileSize_def)


section \<open>HTTP servers\<close>

text \<open>The fields of http.Server that are set, times in nanoseconds, 0 for none.\<close>

record http_server =
  hs_Addr :: string
  hs_ReadTimeout :: int
  hs_ReadHeaderTimeout :: int
  hs_WriteTimeout :: int
  hs_IdleTimeout :: int

definition seconds :: "int \<Rightarrow> int" where
  "seconds n = n * 10 ^ 9"

definition gin_http_server :: "string \<Rightarrow> http_server" where
  "gin_http_server port =
     \<lparr>hs_Addr = port, hs_ReadTimeout = seconds 10, hs_ReadHeaderTimeout = seconds 10,
      hs_WriteTimeout = seconds 10, hs_IdleTimeout = seconds 30\<rparr>"

definition prof_http_server :: "string \<Rightarrow> http_server option" where
  "prof_http_server port1 =
     (if port1 = [] then None
      else Some \<lparr>hs_Addr = port1, hs_ReadTimeout = 0, hs_ReadHeaderTimeout = 0, hs_WriteTimeout = 0, hs_IdleTimeout = 0\<rparr>)"


section \<open>Starting things\<close>

text \<open>The scheduler; tasks are added while it runs.\<close>

record 'f scheduler =
  sch_started :: bool
  sch_cron :: "'f g2cron"

definition OnProcessStart :: "'f scheduler \<Rightarrow> 'f scheduler" where
  "OnProcessStart c = c\<lparr>sch_started := True\<rparr>"

definition cron_Constructor :: "'f scheduler \<Rightarrow> 'f scheduler" where
  "cron_Constructor c = OnProcessStart (c\<lparr>sch_cron := (sch_cron c)\<lparr>cr_tasks := []\<rparr>\<rparr>)"

definition InjectPopulate :: "('v list \<Rightarrow> 'w \<Rightarrow> 'w \<times> string option) \<Rightarrow> 'v list \<Rightarrow> 'w \<Rightarrow> 'w \<times> (string + unit)" where
  "InjectPopulate populate vals w =
     (case populate vals w of (w1, Some err) \<Rightarrow> (w1, Inl err) | (w1, None) \<Rightarrow> (w1, Inr ()))"

definition validatorRegValidation :: "(string \<Rightarrow> string option) \<Rightarrow> (string \<Rightarrow> string \<Rightarrow> string option) \<Rightarrow> string \<Rightarrow> string \<Rightarrow> string option" where
  "validatorRegValidation reg_validation reg_translation tagName text =
     (case reg_validation tagName of Some err \<Rightarrow> Some err | None \<Rightarrow> reg_translation tagName text)"

text \<open>filepath.Abs with its error dropped; WriteFile with its error dropped.\<close>

definition FileAbsPath :: "(string \<Rightarrow> string \<times> string option) \<Rightarrow> string \<Rightarrow> string" where
  "FileAbsPath filepath_Abs path = fst (filepath_Abs path)"

definition Write2file :: "(string \<Rightarrow> string \<Rightarrow> nat \<Rightarrow> 'w \<Rightarrow> 'w \<times> string option) \<Rightarrow> string \<Rightarrow> string \<Rightarrow> 'w \<Rightarrow> 'w" where
  "Write2file os_WriteFile fileName content w = fst (os_WriteFile fileName content 493 w)"


section \<open>Numbers\<close>

text \<open>Floating-point arithmetic is the record of the operations used.\<close>

record 'f float_ops =
  fo_mul :: "'f \<Rightarrow> 'f \<Rightarrow> 'f"
  fo_div :: "'f \<Rightarrow> 'f \<Rightarrow> 'f"
  fo_Pow10 :: "int \<Rightarrow> 'f"
  fo_Ceil :: "'f \<Rightarrow> 'f"
  fo_Floor :: "'f \<Rightarrow> 'f"
  fo_Round :: "'f \<Rightarrow> 'f"
  fo_Format :: "int \<Rightarrow> 'f \<Rightarrow> string"
  fo_Parse :: "string \<Rightarrow> 'f option"
  fo_zero :: 'f

definition CeilFloat64 :: "'f float_ops \<Rightarrow> 'f \<Rightarrow> int \<Rightarrow> 'f" where
  "CeilFloat64 fo val precision =
     (let out = fo_Pow10 fo precision in fo_div fo (fo_Ceil fo (fo_mul fo val out)) out)"

definition FloorFloat64 :: "'f float_ops \<Rightarrow> 'f \<Rightarrow> int \<Rightarrow> 'f" where
  "FloorFloat64 fo val precision =
     (let out = fo_Pow10 fo precision in fo_div fo (fo_Floor fo (fo_mul fo val out)) out)"

definition RoundFloat64 :: "'f float_ops \<Rightarrow> 'f \<Rightarrow> int \<Rightarrow> 'f" where
  "RoundFloat64 fo val precision =
     (let out = fo_Pow10 fo precision in fo_div fo (fo_Round fo (fo_mul fo val out)) out)"

definition MustParsePreFloat64 :: "'f float_ops \<Rightarrow> 'f \<Rightarrow> int \<Rightarrow> 'f" where
  "MustParsePreFloat64 fo val pre =
     (case fo_Parse fo (fo_Format fo pre val) of None \<Rightarrow> fo_zero fo | Some v \<Rightarrow> v)"

text \<open>The value is replaced by what its text is read as.\<close>

definition FloatPrecision :: "'f float_ops \<Rightarrow> 'f \<Rightarrow> int \<Rightarrow> 'f" where
  "FloatPrecision fo f p = (case fo_Parse fo (fo_Format fo p f) of None \<Rightarrow> fo_zero fo | Some v \<Rightarrow> v)"

text \<open>rand.Intn panics unless its argument is positive; \<^verbatim>\<open>src\<close> is its source.\<close>

definition MathRandInt :: "(int \<Rightarrow> int) \<Rightarrow> int \<Rightarrow> int outcome" where
  "MathRandInt src n = (if n \<le> 0 then Panics ''invalid argument to Intn'' else Returns (src n))"

text \<open>crypto/rand's Int panics unless its argument is positive and may fail (nil).\<close>

definition CryptoRandInt :: "(int \<Rightarrow> string + int) \<Rightarrow> int \<Rightarrow> int option outcome" where
  "CryptoRandInt src n =
     (if n \<le> 0 then Panics ''crypto/rand: argument to Int is <= 0''
      else Returns (case src n of Inl err \<Rightarrow> None | Inr b \<Rightarrow> Some b))"

text \<open>Identifiers: \<^verbatim>\<open>new_uuid\<close> is what uuid.NewUUID returned; an error panics.\<close>

definition ShortUUID :: "('u \<Rightarrow> string) \<Rightarrow> string + 'u \<Rightarrow> string outcome" where
  "ShortUUID encode new_uuid = (case new_uuid of Inl err \<Rightarrow> Panics err | Inr u \<Rightarrow> Returns (encode u))"

definition UUIDString :: "('u \<Rightarrow> string) \<Rightarrow> string + 'u \<Rightarrow> string outcome" where
  "UUIDString to_string new_uuid = (case new_uuid of Inl err \<Rightarrow> Panics err | Inr u \<Rightarrow> Returns (to_string u))"

text \<open>Exact arithmetic: Ceil and Floor enclose the value and are less than a unit apart from it.\<close>

definition exact_ops :: "real float_ops" where
  "exact_ops =
     \<lparr>fo_mul = (*), fo_div = (/), fo_Pow10 = (\<lambda>p. 10 powr of_int p), fo_Ceil = (\<lambda>x. of_int \<lceil>x\<rceil>),
      fo_Floor = (\<lambda>x. of_int \<lfloor>x\<rfloor>), fo_Round = (\<lambda>x. sgn x * of_int \<lfloor>\<bar>x\<bar> + 1 / 2\<rfloor>),
      fo_Format = (\<lambda>p x. []), fo_Parse = (\<lambda>s. None), fo_zero = 0\<rparr>"

lemma exact_enclosure:
  "FloorFloat64 exact_ops v p \<le> v \<and> v \<le> CeilFloat64 exact_ops v p
   \<and> CeilFloat64 exact_ops v p - FloorFloat64 exact_ops v p \<le> 10 powr (- of_int p)"
proof -
  define u :: real where "u = 10 powr of_int p"
  have u: "0 < u" by (simp add: u_def)
  have inv: "10 powr (- of_int p) = 1 / u" by (simp add: u_def powr_minus_divide)
  have f: "FloorFloat64 exact_ops v p = of_int \<lfloor>v * u\<rfloor> / u" "CeilFloat64 exact_ops v p = of_int \<lceil>v * u\<rceil> / u"
    by (simp_all add: FloorFloat64_def CeilFloat64_def exact_ops_def u_def Let_def)
  have "of_int \<lceil>v * u\<rceil> - of_int \<lfloor>v * u\<rfloor> \<le> (1 :: real)"
    using ceiling_diff_floor_le_1 [of "v * u"] by (simp add: of_int_diff [symmetric] del: of_int_diff)
  then show ?thesis
    using u by (simp add: f inv divide_le_eq le_divide_eq ceiling_correct diff_divide_distrib [symmetric] divide_right_mono)
qed

end
