(* ===== verification/Rpc_Log.thy ===== *)
theory Rpc_Log
  imports Gin_Stack Level_Logger Base64
begin

text \<open>
  The logger of a JSON-RPC server (src/j2rpc/j2rpc.go): the server record of J2rpc_Server with
  its logger, the accessors, and Handler and Stop with the lines they print at level Debug.  The
  line of a crashed method (its stack is text of the runtime) is left out.
\<close>

record 'w logged_server =
  ls_server :: "'w server"
  ls_logger :: "string logger"

definition logged_New :: "'w rpc_option option \<Rightarrow> 'w logged_server" where
  "logged_New opts = \<lparr>ls_server = new_server opts, ls_logger = NewLevelLogger ''[STDOUT]''\<rparr>"

definition server_Logger :: "'w logged_server \<Rightarrow> string logger" where
  "server_Logger s = ls_logger s"

definition server_Opt :: "'w logged_server \<Rightarrow> 'w rpc_option" where
  "server_Opt s = srv_opt (ls_server s)"

definition SetLogger :: "string logger \<Rightarrow> 'w logged_server \<Rightarrow> 'w logged_server" where
  "SetLogger l s = s\<lparr>ls_logger := l\<rparr>"

definition logged_Stop :: "'w logged_server \<Rightarrow> 'w logged_server" where
  "logged_Stop s =
     (if srv_run (ls_server s) = 1
      then s\<lparr>ls_server := Stop (ls_server s),
             ls_logger := fst (log_method (Debugf ''RPC server shutting down'' []) (ls_logger s))\<rparr>
      else s)"

text \<open>The end of Handler: the message is dumped as it was sent, if the response has a request id.\<close>

definition debug_response :: "codec \<Rightarrow> response_writer \<Rightarrow> rpc_message \<Rightarrow> string logger \<Rightarrow> string logger" where
  "debug_response lib w msg l =
     (let requestID = header_get w ''request-id''
      in if requestID = [] then l
         else fst (log_method (Debugf ''[Request-ID:%s] %s''
                [requestID, JSONDump (\<lambda>m. lib_render lib (message_json m)) (\<lambda>m. lib_render lib (message_json m)) msg []]) l))"

definition logged_Handler ::
  "type_env \<Rightarrow> matcher \<Rightarrow> codec \<Rightarrow> 's exchange logged_server \<Rightarrow> http_request \<Rightarrow> 's exchange
     \<Rightarrow> 's exchange logged_server \<times> 's exchange \<times> unit outcome" where
  "logged_Handler env mc lib s r x =
     (if srv_run (ls_server s) = 0 then (s, x, Returns ())
      else if status_written (ex_writer x) then (s, x, Returns ())
      else case validateRequest r of
        Some (code, e) \<Rightarrow> (s, upd_writer (http_Error e code) x, Returns ())
      | None \<Rightarrow>
          (case handle env mc lib (ls_server s) r empty_message
                  (upd_writer (header_set ''x-content-type-options'' ''nosniff'') x) of
             (x1, msg, Panics p) \<Rightarrow> (s, x1, Panics p)
           | (x1, msg, Returns err) \<Rightarrow>
               let m = output_message (setError err msg);
                   x2 = upd_writer (writeResponse (lib_render lib) m) x1
               in (s\<lparr>ls_logger := debug_response lib (ex_writer x2) m (ls_logger s)\<rparr>, x2, Returns ())))"

lemma logged_Handler_answers:
  "logged_Handler env mc lib s r x = (s1, x1, out) \<Longrightarrow>
   Handler env mc lib (ls_server s) r x = (x1, out) \<and> ls_server s1 = ls_server s"
  by (auto simp: logged_Handler_def Handler_def Let_def split: if_splits option.splits prod.splits outcome.splits)

text \<open>At most one line is printed for a request, and none below level Debug.\<close>

lemma debug_response_lines:
  "\<exists>new. lg_lines (debug_response lib w msg l) = lg_lines l @ new \<and> length new \<le> 1
     \<and> (lg_lvl l < DebugLevel \<longrightarrow> new = []) \<and> lg_lvl (debug_response lib w msg l) = lg_lvl l"
  by (simp add: debug_response_def Let_def logger_out_def add_line_def)

lemma logged_Handler_lines:
  assumes "logged_Handler env mc lib s r x = (s1, x1, out)"
  shows "\<exists>new. lg_lines (ls_logger s1) = lg_lines (ls_logger s) @ new \<and> length new \<le> 1
     \<and> (lg_lvl (ls_logger s) < DebugLevel \<longrightarrow> new = [])"
proof -
  have "ls_logger s1 = ls_logger s \<or> (\<exists>w m. ls_logger s1 = debug_response lib w m (ls_logger s))"
    using assms
    by (auto simp: logged_Handler_def Let_def split: if_splits option.splits prod.splits outcome.splits) blast
  then show ?thesis using debug_response_lines [of lib _ _ "ls_logger s"] by fastforce
qed

text \<open>The dump of the line is the body the client gets, if the message can be printed.\<close>

lemma dump_is_body:
  assumes "lib_render lib (message_json m) = Inr t" "\<not> status_written w"
  shows "JSONDump (\<lambda>m. lib_render lib (message_json m)) (\<lambda>m. lib_render lib (message_json m)) m [] = t"
    "resp_body (writeResponse (lib_render lib) m w) = resp_body w @ t"
  using assms by (simp_all add: JSONDump_def JsMarshal_def writeResponse_def write_body_def AbortWriteHeader_def
      header_set_def write_header_def Let_def split: option.splits)

end
