(* ===== verification/Part_Properties.thy ===== *)
theory Part_Properties
  imports Module_Parts Rpc_Log
begin

text \<open>
  Properties of the smaller parts: commands of the shell (Shell_Exec), statements made from
  templates (Sql_Templates), captchas (Captcha), the table of locks (Module_Parts) and the log
  of the JSON-RPC server (Rpc_Log).
\<close>

section \<open>Commands of the shell\<close>


text \<open>A shell over a process table: it prints the table's pids for app, and kills nothing.\<close>

definition table_shell :: "(string, ps_line list) shell" where
  "table_shell = \<lparr>sh_start = (\<lambda>s v. (v, Inr s)),
     sh_wait = (\<lambda>p v. (v, [(Fd_err, ''warning''), (Fd_out, ps_output ''app'' v)], None))\<rparr>"

definition sample_world :: "ps_line list exec_world" where
  "sample_world = \<lparr>ew_world = [\<lparr>ps_pid = 7, ps_text = ''/bin/app -s start''\<rparr>], ew_written = (\<lambda>n. [])\<rparr>"


text \<open>A command of the shell runs once: after a call of Start, Run, Output or CombinedOutput
  has succeeded, every further call of any of them returns an error and changes nothing.\<close>

theorem command_runs_once:
  assumes "exec_call k sh e w = (e1, w1, b, None)"
  shows "\<exists>e2 errs. exec_calls ks sh e1 w1 = (e2, w1, errs) \<and> None \<notin> set errs \<and> length errs = length ks"
proof -
  obtain p where "ec_Process (ei_cmd e1) = Some p" using success_started [OF assms] by blast
  then show ?thesis by (rule started_refuses_all)
qed

theorem command_runs_once_witness:
  "\<exists>e2 errs. exec_calls [Call_Start, Call_Output] table_shell
       (fst (exec_Run table_shell (NewExecInner ''ls'' 1) sample_world))
       (fst (snd (exec_Run table_shell (NewExecInner ''ls'' 1) sample_world)))
     = (e2, fst (snd (exec_Run table_shell (NewExecInner ''ls'' 1) sample_world)), errs)
     \<and> None \<notin> set errs \<and> length errs = 2"
proof -
  obtain e1 w1 b where r: "exec_Run table_shell (NewExecInner ''ls'' 1) sample_world = (e1, w1, b, None)"
    by (auto simp: exec_defs NewExecInner_def table_shell_def cmd_sink_def Let_def split: prod.splits)
  from command_runs_once [of Call_Run, simplified, OF r, of "[Call_Start, Call_Output]"] r
  show ?thesis by (simp add: numeral_2_eq_2)
qed


section \<open>Statements from templates\<close>

text \<open>The statements of the migration and of paged queries are what TextTemplateMustParse
  gives for the templates of the source and the maps they are filled from; nothing depends on how
  the library treats other templates.\<close>

theorem statements_from_templates:
  "TextTemplateMustParse other show_val sq1_template (index_params c table cs1)
     = show_index_sql table (index_name c table cs1)
   \<and> TextTemplateMustParse other show_val sq2_template (index_params c table cs1)
     = add_index_sql c table (index_name c table cs1) cs1
   \<and> TextTemplateMustParse other show_val query_template (query_map en tableStr p) = select_sql en tableStr p"
  by (simp add: show_index_template add_index_template select_template)


section \<open>Captchas\<close>

text \<open>A captcha can be tried once: among any verifications, in any order and mixed with those
  of other captchas, only the first of an id can match, and it matches exactly the answer that is
  remembered for it.\<close>

theorem captcha_one_attempt:
  assumes "store_law lib pending" "verify_all lib c tries w = Returns (w1, ms)"
    and "i < j" "j < length tries" "fst (tries ! i) = fst (tries ! j)"
  shows "\<not> ms ! j"
  using assms(2-5)
proof (induction tries arbitrary: w ms i j)
  case (Cons t tries)
  obtain k a where t: "t = (k, a)" by force
  from Cons.prems(1) obtain v ms1 where v: "cp_cap c = Some v"
    "verify_all lib c tries (fst (cl_Verify lib v k a True w)) = Returns (w1, ms1)"
    "ms = snd (cl_Verify lib v k a True w) # ms1"
    unfolding t by (rule verify_all_Cons)
  obtain j1 where j: "j = Suc j1" using Cons.prems(2) by (cases j) auto
  show ?case
  proof (cases i)
    case 0
    have "pending (fst (cl_Verify lib v k a True w)) k = None" using assms(1) by (simp add: store_law_def)
    from forgotten_refused [OF assms(1) this v(2), of j1] show ?thesis
      using Cons.prems 0 j t v(3) by simp
  next
    case (Suc i1)
    from Cons.IH [OF v(2), of i1 j1] show ?thesis using Cons.prems Suc j v(3) by simp
  qed
qed simp

text \<open>A library whose world is its store.\<close>

definition store_lib :: "(string_driver, string \<rightharpoonup> string) captcha_lib" where
  "store_lib = \<lparr>cl_new = (\<lambda>d. d), cl_Generate = (\<lambda>d m. (m(''1'' \<mapsto> ''4242''), ''1'', ''png'', ''4242'', None)),
     cl_Verify = (\<lambda>d k a clear m. (if clear then m(k := None) else m, m k = Some a)),
     cl_OptionShowHollowLine = 2\<rparr>"

definition sample_captcha :: "string_driver captcha" where
  "sample_captcha = captcha_Constructor store_lib \<lparr>cp_cap = None\<rparr>"

theorem captcha_one_attempt_witness:
  "verify_all store_lib sample_captcha [(''1'', ''0000''), (''1'', ''4242'')] [''1'' \<mapsto> ''4242'']
     = Returns (Map.empty, [False, False])"
proof -
  have law: "store_law store_lib (\<lambda>m. m)" by (auto simp: store_law_def store_lib_def)
  have r: "verify_all store_lib sample_captcha [(''1'', ''0000''), (''1'', ''4242'')] [''1'' \<mapsto> ''4242'']
     = Returns (Map.empty, [False, False])"
    by (simp add: sample_captcha_def captcha_Constructor_def captcha_Verify_def store_lib_def fun_eq_iff)
  from captcha_one_attempt [OF law r, of 0 1] r show ?thesis by simp
qed


section \<open>Locks\<close>

text \<open>The table of locks gives one key one mutex for ever, and two keys never share one,
  whatever keys are loaded in between.\<close>

theorem one_lock_per_key:
  "snd (lock_Load k2 (lock_Loads keys (fst (lock_Load k1 (lock_Loads earlier Locker)))))
     = snd (lock_Load k1 (lock_Loads earlier Locker)) \<longleftrightarrow> k2 = k1"
  by (rule same_key_same_lock [OF lock_Loads_ok [OF locks_ok_Locker]])


section \<open>The log of the server\<close>

text \<open>The logging Handler answers as Handler does and prints at most one line, none below level
  Debug or when the response carries no request id.\<close>

theorem logging_changes_nothing:
  assumes "logged_Handler env mc lib s r x = (s1, x1, out)"
  shows "Handler env mc lib (ls_server s) r x = (x1, out) \<and> ls_server s1 = ls_server s
    \<and> (\<exists>new. lg_lines (ls_logger s1) = lg_lines (ls_logger s) @ new \<and> length new \<le> 1
         \<and> (lg_lvl (ls_logger s) < DebugLevel \<longrightarrow> new = []))"
  using logged_Handler_answers [OF assms] logged_Handler_lines [OF assms] by blast

end
