(* ===== verification/Cache_Steady.thy ===== *)
theory Cache_Steady
  imports Cache_Registry
begin

text \<open>
  Caches whose reads leave the stored values alone: go-cache and ledis, as they are, behind the
  registry and behind the forwarding Instance of src/g2cache/cache.go.  A client of such a cache
  sees a map as long as the writes it made reported no error.
\<close>

locale steady_cache = exact_cache +
  assumes get_keeps: "inv c \<Longrightarrow> ic_Get ic k c = Returns (c', d, e) \<Longrightarrow> view c' = view c"
begin

text \<open>One lemma for each operation, as a map sees it.\<close>

lemma get_map:
  assumes "inv c"
  shows "\<exists>c' d e. ic_Get ic k c = Returns (c', d, e) \<and> inv c' \<and> view c' = view c
    \<and> (case view c k of Some v \<Rightarrow> d = v \<and> e = None | None \<Rightarrow> e \<noteq> None)"
proof -
  obtain c' d e where g: "ic_Get ic k c = Returns (c', d, e)" using get_returns [OF assms] by blast
  have "view c k = Some v \<Longrightarrow> d = v \<and> e = None" for v using get_exact [OF assms, of k v] g by auto
  moreover have "view c k = None \<Longrightarrow> e \<noteq> None" using get_absent [OF assms _ g] by blast
  ultimately show ?thesis
    using g get_keeps [OF assms g] get_sound(1) [OF assms g] by (auto split: option.split)
qed

lemma set_map:
  assumes "inv c"
  shows "\<exists>c' e. ic_Set ic k d c = Returns (c', e) \<and> inv c' \<and> (e = None \<longrightarrow> view c' = (view c)(k \<mapsto> d))"
  using set_law [OF assms, of k d] set_exact [OF assms, of k d] by fastforce

lemma reset_map:
  assumes "inv c"
  shows "\<exists>c' e. ic_Reset ic c = Returns (c', e) \<and> inv c' \<and> (e = None \<longrightarrow> view c' = Map.empty)"
  using reset_law [OF assms] by blast

end

interpretation steady_go: steady_cache gocache_itf gocache_documented gocache_view
  by unfold_locales (auto simp: gocache_itf_def GoCache_Get_def split: option.splits)

interpretation steady_ledis: steady_cache ledis_itf ledis_ok ledis_view
proof unfold_locales
  fix c c' :: "('a, 'b, 'c) ledis" and k d e
  assume "ledis_ok c" "ic_Get ledis_itf k c = Returns (c', d, e)"
  with LeDis_Get_cases [of c k] show "ledis_view c' = ledis_view c" by (auto simp: ledis_itf_def)
qed


section \<open>Behind the registry and the Instance\<close>

fun store_steady :: "('b, 'g, 'f, 'i, 'l, 'r) store_cache \<Rightarrow> bool" where
  "store_steady (InGo c) = gocache_documented c"
| "store_steady (InLedis c) = ledis_ok c"
| "store_steady _ = False"

text \<open>Forwarding keeps the contract.\<close>

context steady_cache begin

lemma forwards_steady: "steady_cache (instance_itf ic) (instance_ok inv) (instance_view view)"
proof (rule steady_cache.intro [OF exact_cache.intro [OF forwards]]; unfold_locales)
  fix i c' :: "'a option" and k d e
  show "\<exists>c'. ic_Get (instance_itf ic) k i = Returns (c', d, None) \<and> instance_view view c' = instance_view view i"
    if i: "instance_ok inv i" "instance_view view i k = Some d"
  proof -
    obtain c where c: "i = Some c" "inv c" using i(1) by (auto simp: instance_ok_def split: option.splits)
    with get_exact [OF c(2), of k d] i(2) show ?thesis by (auto simp: Instance_defs instance_view_def)
  qed
  show "instance_view view c' = (instance_view view i)(k \<mapsto> d)"
    if i: "instance_ok inv i" "ic_Set (instance_itf ic) k d i = Returns (c', None)"
  proof -
    obtain c where c: "i = Some c" "inv c" using i(1) by (auto simp: instance_ok_def split: option.splits)
    obtain c1 e1 where s: "ic_Set ic k d c = Returns (c1, e1)" using set_returns [OF c(2)] by blast
    with i(2) c(1) have "c' = Some c1" "e1 = None" by (auto simp: Instance_defs)
    with set_exact [OF c(2)] s c(1) show ?thesis by (simp add: instance_view_def)
  qed
  show "instance_view view c' = instance_view view i"
    if i: "instance_ok inv i" "ic_Get (instance_itf ic) k i = Returns (c', d, e)"
  proof -
    obtain c where c: "i = Some c" "inv c" using i(1) by (auto simp: instance_ok_def split: option.splits)
    obtain c1 d1 e1 where g: "ic_Get ic k c = Returns (c1, d1, e1)" using get_returns [OF c(2)] by blast
    with i(2) c(1) have "c' = Some c1" by (auto simp: Instance_defs)
    with get_keeps [OF c(2) g] c(1) show ?thesis by (simp add: instance_view_def)
  qed
qed

end

lemma store_steady_cases:
  assumes "store_steady c"
  shows "(\<exists>x. c = InGo x \<and> gocache_documented x) \<or> (\<exists>x. c = InLedis x \<and> ledis_ok x)"
  using assms by (cases c) auto

interpretation steady_store: steady_cache store_itf store_steady store_view
proof unfold_locales
  fix c c' :: "('a, 'b, 'c, 'd, 'e, 'f) store_cache" and k d :: string and e
  assume c: "store_steady c"
  note cs = store_steady_cases [OF c]
  show "\<exists>c' d e. ic_Get store_itf k c = Returns (c', d, e) \<and> store_steady c' \<and> store_view c' \<subseteq>\<^sub>m store_view c
      \<and> (e = None \<longrightarrow> store_view c k = Some d)"
    using cs gocache.get_law [of _ k] ledis.get_law [of _ k] by fastforce
  show "\<exists>c' e. ic_Set store_itf k d c = Returns (c', e) \<and> store_steady c'
        \<and> (store_view c' \<subseteq>\<^sub>m (store_view c)(k \<mapsto> d) \<or> e \<noteq> None \<and> store_view c' \<subseteq>\<^sub>m store_view c)"
    using cs gocache.set_law [of _ k d] ledis.set_law [of _ k d] by fastforce
  show "\<exists>c' e. ic_Delete store_itf k c = Returns (c', e) \<and> store_steady c' \<and> store_view c' \<subseteq>\<^sub>m store_view c
      \<and> (e = None \<longrightarrow> store_view c' k = None)"
    using cs gocache.delete_law [of _ k] ledis.delete_law [of _ k] by fastforce
  show "\<exists>c' e. ic_Reset store_itf c = Returns (c', e) \<and> store_steady c' \<and> store_view c' \<subseteq>\<^sub>m store_view c
      \<and> (e = None \<longrightarrow> store_view c' = Map.empty)"
    using cs gocache.reset_law ledis.reset_law by fastforce
  show "\<exists>c'. ic_Get store_itf k c = Returns (c', d, None) \<and> store_view c' = store_view c" if "store_view c k = Some d"
    using cs that gocache.get_exact [of _ k d] ledis.get_exact [of _ k d] by fastforce
  show "store_view c' = (store_view c)(k \<mapsto> d)" if "ic_Set store_itf k d c = Returns (c', None)"
    using cs that gocache.set_exact [of _ k d] ledis.set_exact [of _ k d] by (auto elim!: in_cache.elims)
  show "store_view c' = store_view c" if "ic_Get store_itf k c = Returns (c', d, e)"
    using cs that steady_go.get_keeps [of _ k] steady_ledis.get_keeps [of _ k] by (fastforce elim!: in_cache.elims)
qed

interpretation steady_inst: steady_cache "instance_itf store_itf" "instance_ok store_steady" "instance_view store_view"
  by (rule steady_store.forwards_steady)

end
