(* ===== verification/Example_Store.thy ===== *)
theory Example_Store
  imports Example_Fast Cache_Steady
begin

text \<open>
  The service of src/examples/fast/main.go over the program's cache: the methods of api call the
  forwarding Instance of src/g2cache/cache.go, whatever adapter it holds.  A session of requests
  through the JSON-RPC server answers as a map would (the service of Example_Fast is the one on a
  map).  The cache is the state of the application; \<^verbatim>\<open>object_name\<close> is goutil's ObjectName.
\<close>

section \<open>The methods\<close>


fun cache_error_text :: "cache_error \<Rightarrow> string" where
  "cache_error_text ErrNotFound = ''item not found''"
| "cache_error_text (CacheError s) = s"

definition error_result :: "cache_error option \<Rightarrow> gres" where
  "error_result e = (case e of None \<Rightarrow> ResNil | Some er \<Rightarrow> ResErr (OtherError (cache_error_text er)))"

definition svc_AddCache :: "'c itf_cache \<Rightarrow> garg list \<Rightarrow> 'c option exchange \<Rightarrow> 'c option exchange \<times> call_result" where
  "svc_AddCache ic args x =
     (case Instance_Set ic (arg_string (args ! 1)) (arg_string (args ! 2)) (ex_app x) of
        Panics p \<Rightarrow> (x, CallPanic p)
      | Returns (i, e) \<Rightarrow> (x\<lparr>ex_app := i\<rparr>, CallReturns [error_result e]))"

definition svc_FlushCache :: "'c itf_cache \<Rightarrow> garg list \<Rightarrow> 'c option exchange \<Rightarrow> 'c option exchange \<times> call_result" where
  "svc_FlushCache ic args x =
     (case Instance_Reset ic (ex_app x) of
        Panics p \<Rightarrow> (x, CallPanic p)
      | Returns (i, e) \<Rightarrow> (x\<lparr>ex_app := i\<rparr>, CallReturns [error_result e]))"

definition svc_Get :: "'c itf_cache \<Rightarrow> garg list \<Rightarrow> 'c option exchange \<Rightarrow> 'c option exchange \<times> call_result" where
  "svc_Get ic args x =
     (case Instance_Get ic (arg_string (args ! 1)) (ex_app x) of
        Panics p \<Rightarrow> (x, CallPanic p)
      | Returns (i, bts, Some e) \<Rightarrow> (x\<lparr>ex_app := i\<rparr>, CallReturns [ResNil, error_result (Some e)])
      | Returns (i, bts, None) \<Rightarrow> (x\<lparr>ex_app := i\<rparr>, CallReturns [res_string bts, ResNil]))"

definition svc_Name :: "('c \<Rightarrow> string) \<Rightarrow> garg list \<Rightarrow> 'c option exchange \<Rightarrow> 'c option exchange \<times> call_result" where
  "svc_Name object_name args x =
     (case Instance_CacheInstance (ex_app x) of
        Panics p \<Rightarrow> (x, CallPanic p)
      | Returns c \<Rightarrow> (x, CallReturns [res_string (object_name c)]))"

definition svc_String :: "'c itf_cache \<Rightarrow> garg list \<Rightarrow> 'c option exchange \<Rightarrow> 'c option exchange \<times> call_result" where
  "svc_String ic args x =
     (case Instance_String ic (ex_app x) of
        Panics p \<Rightarrow> (x, CallPanic p)
      | Returns n \<Rightarrow> (x, CallReturns [res_string n]))"

definition svc_receiver :: "'c itf_cache \<Rightarrow> ('c \<Rightarrow> string) \<Rightarrow> 'c option exchange receiver" where
  "svc_receiver ic object_name =
     \<lparr>rc_type_name = ''api'',
      rc_methods =
        [\<lparr>rm_name = ''AddCache'', rm_pkg_path = [], rm_ins = [t_api, t_string, t_string], rm_outs = [t_error],
          rm_fn = svc_AddCache ic\<rparr>,
         \<lparr>rm_name = ''FlushCache'', rm_pkg_path = [], rm_ins = [t_api], rm_outs = [t_error], rm_fn = svc_FlushCache ic\<rparr>,
         \<lparr>rm_name = ''Get'', rm_pkg_path = [], rm_ins = [t_api, t_string], rm_outs = [t_any, t_error], rm_fn = svc_Get ic\<rparr>,
         \<lparr>rm_name = ''Name'', rm_pkg_path = [], rm_ins = [t_api], rm_outs = [t_any], rm_fn = svc_Name object_name\<rparr>,
         \<lparr>rm_name = ''String'', rm_pkg_path = [], rm_ins = [t_api], rm_outs = [t_string], rm_fn = svc_String ic\<rparr>],
      rc_exclude = None, rc_namespace = None\<rparr>"

definition svc_server :: "'c itf_cache \<Rightarrow> ('c \<Rightarrow> string) \<Rightarrow> 'c option exchange server" where
  "svc_server ic object_name =
     (case RegisterForApp fast_env (\<lambda>rc. rc) None [svc_receiver ic object_name] (new_server None) of
        Returns s \<Rightarrow> s | Panics p \<Rightarrow> new_server None)"

text \<open>The callback of a method, with the fields makeArgTypes computes.\<close>

definition svc_callback :: "'c option exchange rmethod \<Rightarrow> gtype list \<Rightarrow> int \<Rightarrow> 'c option exchange callback" where
  "svc_callback m argTypes errPos =
     \<lparr>cb_methodName = rm_name m, cb_rcv_valid = True, cb_ins = rm_ins m, cb_outs = rm_outs m, cb_fn = rm_fn m,
      cb_argTypes = argTypes, cb_hasCtx = False, cb_errPos = errPos\<rparr>"

text \<open>One request for a method, and the message handle makes of it.\<close>

datatype api_call = Add_cache string string | Flush_cache | Get_cache string

fun call_method :: "api_call \<Rightarrow> string" where
  "call_method (Add_cache k v) = ''add_cache''"
| "call_method Flush_cache = ''flush_cache''"
| "call_method (Get_cache k) = ''get''"

fun call_params :: "api_call \<Rightarrow> json list" where
  "call_params (Add_cache k v) = [JStr k, JStr v]"
| "call_params Flush_cache = []"
| "call_params (Get_cache k) = [JStr k]"

definition call_doc :: "api_call \<Rightarrow> json" where
  "call_doc c = JObj [(''id'', JNum ''1''), (''method'', JStr (''api.'' @ call_method c)), (''params'', JArr (call_params c))]"

definition call_msg :: "api_call \<Rightarrow> rpc_message" where
  "call_msg c = \<lparr>mID = Some (JNum ''1''), mVersion = [], mMethod = ''api.'' @ call_method c,
     mParams = Some (JArr (call_params c)), mResult = None, mError = None\<rparr>"

definition svc_call ::
  "'c itf_cache \<Rightarrow> ('c \<Rightarrow> string) \<Rightarrow> api_call \<Rightarrow> 'c option exchange \<Rightarrow> 'c option exchange \<times> rpc_message \<times> go_error option outcome" where
  "svc_call ic object_name c x =
     handle fast_env no_matcher (fast_codec (call_doc c)) (svc_server ic object_name) fast_request empty_message x"

text \<open>An answer: the result and whether an error is reported.\<close>

definition call_answer :: "rpc_message \<times> go_error option outcome \<Rightarrow> json option \<times> bool" where
  "call_answer out = (mResult (fst out), snd out \<noteq> Returns None)"

fun svc_session ::
  "'c itf_cache \<Rightarrow> ('c \<Rightarrow> string) \<Rightarrow> api_call list \<Rightarrow> 'c option exchange \<Rightarrow> 'c option exchange \<times> (json option \<times> bool) list" where
  "svc_session ic object_name [] x = (x, [])"
| "svc_session ic object_name (c # cs) x =
     (case svc_call ic object_name c x of (x1, out) \<Rightarrow>
        (case svc_session ic object_name cs x1 of (x2, answers) \<Rightarrow> (x2, call_answer out # answers)))"

text \<open>The same on a map: the empty string is a zero value, which is not sent.\<close>

definition string_result :: "string \<Rightarrow> json option" where
  "string_result s = (if s = [] then None else Some (JStr s))"

fun map_call :: "api_call \<Rightarrow> (string \<rightharpoonup> string) \<Rightarrow> (string \<rightharpoonup> string) \<times> json option \<times> bool" where
  "map_call (Add_cache k v) m = (m(k \<mapsto> v), None, False)"
| "map_call Flush_cache m = (Map.empty, None, False)"
| "map_call (Get_cache k) m = (m, case m k of None \<Rightarrow> (None, True) | Some s \<Rightarrow> (string_result s, False))"

fun map_session :: "api_call list \<Rightarrow> (string \<rightharpoonup> string) \<Rightarrow> (string \<rightharpoonup> string) \<times> (json option \<times> bool) list" where
  "map_session [] m = (m, [])"
| "map_session (c # cs) m =
     (case map_call c m of (m1, a) \<Rightarrow> (case map_session cs m1 of (m2, answers) \<Rightarrow> (m2, a # answers)))"

fun is_get :: "api_call \<Rightarrow> bool" where
  "is_get (Get_cache k) = True"
| "is_get c = False"


section \<open>The registered methods\<close>

lemma svc_registered:
  "Register fast_env (\<lambda>rc. rc) (svc_receiver ic nm) [] (new_server None) = Returns (svc_server ic nm)"
proof -
  have "case RegisterForApp fast_env (\<lambda>rc. rc) None [svc_receiver ic nm] (new_server None) of
      Returns s \<Rightarrow> True | Panics p \<Rightarrow> False" by code_simp
  then show ?thesis
    unfolding svc_server_def RegisterForApp_def
    by (cases "Register fast_env (\<lambda>rc. rc) (svc_receiver ic nm) [] (new_server None)") auto
qed

fun call_index :: "api_call \<Rightarrow> nat" where
  "call_index (Add_cache k v) = 0"
| "call_index Flush_cache = 1"
| "call_index (Get_cache k) = 2"

definition call_callback :: "'c itf_cache \<Rightarrow> ('c \<Rightarrow> string) \<Rightarrow> api_call \<Rightarrow> 'c option exchange callback" where
  "call_callback ic nm c =
     svc_callback (rc_methods (svc_receiver ic nm) ! call_index c) (replicate (length (call_params c)) t_string)
       (if is_get c then 1 else 0)"

lemma call_makeArgTypes:
  "makeArgTypes fast_env (svc_callback (rc_methods (svc_receiver ic nm) ! call_index c) [] (-1)) = Some (call_callback ic nm c)"
  by (cases c)
     (simp_all add: makeArgTypes_def out_err_pos_def svc_callback_def svc_receiver_def isErrorType_def fast_env_def
        t_error_def t_string_def t_any_def call_callback_def Let_def numeral_2_eq_2)

lemma call_found:
  fixes ic :: "'c itf_cache"
  shows "getCallBack (svc_server ic nm) [''api'', call_method c] = Inr (call_callback ic nm c)"
proof -
  let ?s = "new_server None :: 'c option exchange server" and ?m = "rc_methods (svc_receiver ic nm) ! call_index c"
  have m: "?m \<in> set (rc_methods (svc_receiver ic nm))" by (cases c) (simp_all add: svc_receiver_def)
  have ok: "rm_pkg_path ?m = []" "rm_name ?m \<notin> set (skip_methods ?s (svc_receiver ic nm))"
    by (cases c; simp add: svc_receiver_def skip_methods_def new_server_def numeral_2_eq_2)+
  have d: "distinct (map (\<lambda>m. srv_format ?s (rm_name m)) (rc_methods (svc_receiver ic nm)))" by code_simp
  have n: "service_name ?s (svc_receiver ic nm) [] = ''api''" by code_simp
  have f: "srv_format ?s (rm_name ?m) = call_method c"
  proof (cases c)
    case (Add_cache k v)
    have "srv_format ?s (rm_name (rc_methods (svc_receiver ic nm) ! 0)) = ''add_cache''" by code_simp
    with Add_cache show ?thesis by simp
  next
    case Flush_cache
    have "srv_format ?s (rm_name (rc_methods (svc_receiver ic nm) ! 1)) = ''flush_cache''" by code_simp
    with Flush_cache show ?thesis by simp
  next
    case (Get_cache k)
    have "srv_format ?s (rm_name (rc_methods (svc_receiver ic nm) ! 2)) = ''get''" by code_simp
    with Get_cache show ?thesis by simp
  qed
  from Register_finds [OF svc_registered m ok call_makeArgTypes [unfolded svc_callback_def] d] n f
  show ?thesis by simp
qed

lemma call_accepted:
  fixes ic :: "'c itf_cache"
  shows "accepted_request (fast_codec (call_doc c)) (svc_server ic nm) fast_request empty_message (call_msg c) (call_callback ic nm c)"
proof -
  have dec: "decode_message (lib_terr (fast_codec (call_doc c))) (call_doc c) empty_message = (call_msg c, None)"
    by (cases c; simp only: call_doc_def call_msg_def call_method.simps call_params.simps; code_simp)
  have meth: "methods (call_msg c) = Inr [''api'', call_method c]"
    by (cases c; simp only: call_msg_def call_method.simps call_params.simps; code_simp)
  have opt: "SnakeNamespace (srv_opt (svc_server ic nm))" by code_simp
  have fmt: "map (srv_format (svc_server ic nm)) [''api'', call_method c] = [''api'', call_method c]"
  proof -
    have "SnakeString ''api'' = ''api''" "SnakeString ''add_cache'' = ''add_cache''"
      "SnakeString ''flush_cache'' = ''flush_cache''" "SnakeString ''get'' = ''get''" by code_simp+
    then show ?thesis using opt by (cases c) (simp_all add: srv_format_def formatName_def)
  qed
  have same: "(call_msg c)\<lparr>mMethod := go_join [''api'', call_method c] ''.''\<rparr> = call_msg c"
    by (simp add: call_msg_def)
  have i: "hasValidID (call_msg c)" by (simp add: hasValidID_def call_msg_def)
  show ?thesis
    unfolding accepted_request_def
    by (intro exI [of _ "call_doc c"] exI [of _ "call_msg c"] exI [of _ "[''api'', call_method c]"])
       (use dec meth fmt same i call_found [of ic nm c] in \<open>simp add: fast_codec_def\<close>)
qed

lemma svc_no_middleware: "BeforeMid (srv_opt (svc_server ic nm)) = []"
proof -
  have "length (BeforeMid (srv_opt (svc_server ic nm))) = 0" by code_simp
  then show ?thesis by simp
qed

lemma svc_call_invoke:
  "svc_call ic nm c x =
     (case invoke fast_env (fast_codec (call_doc c)) (call_callback ic nm c) (call_msg c) x of
        (x1, msg, err) \<Rightarrow> (x1, msg, Returns err))"
  unfolding svc_call_def handle_accepted [OF call_accepted]
  by (simp add: beforeMiddlewareAction_def svc_no_middleware)

text \<open>The arguments the method gets.\<close>

lemma call_arguments:
  "parsePositionalArguments (lib_dec (fast_codec (call_doc c))) (mParams (call_msg c)) (cb_argTypes (call_callback ic nm c))
     = Inr (map (ArgDecoded t_string) (call_params c))"
  by (cases c)
     (simp_all add: parsePositionalArguments_def call_msg_def call_callback_def svc_callback_def fast_codec_def
        dec_string_def reflect_New_is_nil_def numeral_2_eq_2)

text \<open>What one call does, method by method.\<close>

lemmas call_run_simps = full_args_def call_callback_def svc_callback_def
  svc_receiver_def value2err_def isErrorType_def fast_env_def t_error_def t_any_def error_result_def
  res_string_def res_is_zero_def

lemma add_call:
  assumes "Instance_Set ic k v (ex_app x) = Returns (i, e)"
  shows "svc_call ic nm (Add_cache k v) x =
    (x\<lparr>ex_app := i\<rparr>, call_msg (Add_cache k v), Returns (map_option (\<lambda>er. OtherError (cache_error_text er)) e))"
  using assms unfolding svc_call_invoke invoke_def call_arguments sum.case callback_call_def
  by (cases e) (simp_all add: call_run_simps svc_AddCache_def)

lemma flush_call:
  assumes "Instance_Reset ic (ex_app x) = Returns (i, e)"
  shows "svc_call ic nm Flush_cache x =
    (x\<lparr>ex_app := i\<rparr>, call_msg Flush_cache, Returns (map_option (\<lambda>er. OtherError (cache_error_text er)) e))"
  using assms unfolding svc_call_invoke invoke_def call_arguments sum.case callback_call_def
  by (cases e) (simp_all add: call_run_simps svc_FlushCache_def)

lemma get_call:
  assumes "Instance_Get ic k (ex_app x) = Returns (i, d, e)"
  shows "svc_call ic nm (Get_cache k) x =
    (case e of
       Some er \<Rightarrow> (x\<lparr>ex_app := i\<rparr>, call_msg (Get_cache k), Returns (Some (OtherError (cache_error_text er))))
     | None \<Rightarrow> (x\<lparr>ex_app := i\<rparr>, (call_msg (Get_cache k))\<lparr>mResult := string_result d\<rparr>, Returns None))"
  using assms unfolding svc_call_invoke invoke_def call_arguments sum.case callback_call_def
  by (cases e) (simp_all add: call_run_simps svc_Get_def string_result_def call_msg_def numeral_2_eq_2)


section \<open>A session is a session on a map\<close>

context steady_cache begin

lemma svc_call_map:
  assumes "instance_ok inv (ex_app x)"
  shows "\<exists>i out. svc_call ic nm c x = (x\<lparr>ex_app := i\<rparr>, out) \<and> instance_ok inv i
    \<and> (is_get c \<or> \<not> snd (call_answer out) \<longrightarrow>
         map_call c (instance_view view (ex_app x)) = (instance_view view i, call_answer out))"
proof -
  obtain s where s: "ex_app x = Some s" "inv s" using assms by (auto simp: instance_ok_def split: option.splits)
  show ?thesis
  proof (cases c)
    case (Add_cache k v)
    obtain s1 e where o1: "ic_Set ic k v s = Returns (s1, e)" "inv s1" "e = None \<longrightarrow> view s1 = (view s)(k \<mapsto> v)"
      using set_map [OF s(2), of k v] by blast
    then have "Instance_Set ic k v (ex_app x) = Returns (Some s1, e)" by (simp add: s Instance_defs)
    from add_call [OF this, of nm] o1 Add_cache show ?thesis
      by (intro exI [of _ "Some s1"]) (cases e; simp add: s instance_ok_def instance_view_def call_answer_def call_msg_def)
  next
    case Flush_cache
    obtain s1 e where o1: "ic_Reset ic s = Returns (s1, e)" "inv s1" "e = None \<longrightarrow> view s1 = Map.empty"
      using reset_map [OF s(2)] by blast
    then have "Instance_Reset ic (ex_app x) = Returns (Some s1, e)" by (simp add: s Instance_defs)
    from flush_call [OF this, of nm] o1 Flush_cache show ?thesis
      by (intro exI [of _ "Some s1"]) (cases e; simp add: s instance_ok_def instance_view_def call_answer_def call_msg_def)
  next
    case (Get_cache k)
    obtain s1 d e where o1: "ic_Get ic k s = Returns (s1, d, e)" "inv s1" "view s1 = view s"
      "case view s k of Some v \<Rightarrow> d = v \<and> e = None | None \<Rightarrow> e \<noteq> None"
      using get_map [OF s(2), of k] by blast
    then have "Instance_Get ic k (ex_app x) = Returns (Some s1, d, e)" by (simp add: s Instance_defs)
    from get_call [OF this, of nm] o1 Get_cache show ?thesis
      by (intro exI [of _ "Some s1"])
        (cases e; auto simp: s instance_ok_def instance_view_def call_answer_def call_msg_def split: option.splits)
  qed
qed

lemma svc_session_map:
  assumes "instance_ok inv (ex_app x)" "svc_session ic nm cs x = (x1, answers)"
    and "\<forall>(c, a) \<in> set (zip cs answers). is_get c \<or> \<not> snd a"
  shows "map_session cs (instance_view view (ex_app x)) = (instance_view view (ex_app x1), answers)
    \<and> instance_ok inv (ex_app x1)"
  using assms
proof (induction cs arbitrary: x answers)
  case (Cons c cs)
  obtain i out where c: "svc_call ic nm c x = (x\<lparr>ex_app := i\<rparr>, out)" "instance_ok inv i"
    "is_get c \<or> \<not> snd (call_answer out) \<longrightarrow>
       map_call c (instance_view view (ex_app x)) = (instance_view view i, call_answer out)"
    using svc_call_map [OF Cons.prems(1), of nm c] by blast
  obtain x2 as where r: "svc_session ic nm cs (x\<lparr>ex_app := i\<rparr>) = (x2, as)" by force
  have eq: "x1 = x2" "answers = call_answer out # as" using Cons.prems(2) c(1) r by auto
  from Cons.IH [of "x\<lparr>ex_app := i\<rparr>" as] c(2) r Cons.prems(3) eq
  have "map_session cs (instance_view view i) = (instance_view view (ex_app x1), as) \<and> instance_ok inv (ex_app x1)" by simp
  moreover have "map_call c (instance_view view (ex_app x)) = (instance_view view i, call_answer out)"
    using c(3) Cons.prems(3) eq by auto
  ultimately show ?case using eq by simp
qed simp

end

end
