(* ===== verification/Store_Properties.thy ===== *)
theory Store_Properties
  imports Example_Store
begin

text \<open>
  The example program over its cache: requests to the JSON-RPC server, the methods of its
  service, the forwarding Instance, the registry and the ledis adapter together.
\<close>

lemma default_instance: "Instance_Constructor (init_stores b g l r) = Some (InLedis l)"
proof -
  have "init_stores b g l r ''ledis'' = Some (InLedis l)"
    by (simp only: init_stores_def fold_Register_first)
      (simp add: BigCache_String_def GoCache_String_def LeDis_String_def)
  then show ?thesis by (simp add: GetStore_def Instance_Constructor_def)
qed

text \<open>C3. The example program answers a session as a map: requests for AddCache, FlushCache and Get
  in any order, decoded, dispatched and called by the JSON-RPC server, on the Instance the
  registry constructs, are answered with the results and errors of the same operations on a map
  that starts with what ledis holds, and leave that map in ledis, as long as no write of the
  session was answered with an error.\<close>

theorem service_is_a_map:
  assumes "ledis_ok l" "ex_app x = Instance_Constructor (init_stores b g l r)"
    and "svc_session (store_itf :: ('b, 'g, 'f, 'i, 'd, 'r) store_cache itf_cache) object_name calls x = (x1, answers)"
    and "\<forall>(c, a) \<in> set (zip calls answers). is_get c \<or> \<not> snd a"
  shows "answers = snd (map_session calls (ledis_view l))
    \<and> instance_view store_view (ex_app x1) = fst (map_session calls (ledis_view l))"
proof -
  have x: "ex_app x = Some (InLedis l)" using assms(2) by (simp add: default_instance)
  have "instance_ok store_steady (ex_app x)" using assms(1) x by (simp add: instance_ok_def)
  from steady_store.svc_session_map [OF this assms(3,4)] x show ?thesis by (simp add: instance_view_def)
qed

text \<open>A ledis that is a map, and a session on it.\<close>

definition map_ledis :: "(unit, unit, string \<Rightarrow> string option) ledis" where
  "map_ledis =
     \<lparr>ll_default = (), ll_open = Inr, ll_select0 = (\<lambda>i. Inr [''k'' \<mapsto> ''v'']),
      ll_get = (\<lambda>k d. (d k, None)), ll_set = (\<lambda>k v d. (d(k \<mapsto> v), None)), ll_del = (\<lambda>k d. (d(k := None), None)),
      ll_flush_all = (\<lambda>d. (Map.empty, None)), ld_cfg = None, ld_inc = None, ld_db = None, ld_once = False\<rparr>"

type_synonym map_store = "(unit, unit, unit, unit, string \<Rightarrow> string option, unit) store_cache"

definition session_start :: "map_store option exchange" where
  "session_start = \<lparr>ex_writer = fresh_writer, ex_app = Some (InLedis map_ledis)\<rparr>"

definition sample_calls :: "api_call list" where
  "sample_calls = [Get_cache ''k'', Add_cache ''a'' ''b'', Get_cache ''a'', Flush_cache, Get_cache ''k'']"

lemma map_ledis_ok: "ledis_ok map_ledis" "ledis_view map_ledis = [''k'' \<mapsto> ''v'']"
proof -
  have c: "ledis_content map_ledis d = d" for d
    by (auto simp: ledis_content_def map_ledis_def fun_eq_iff split: option.splits)
  have "ledis_documented map_ledis"
    by (simp add: ledis_documented_def c) (simp add: map_ledis_def)
  moreover have "ledis_db map_ledis = Some [''k'' \<mapsto> ''v'']" by (simp add: ledis_db_def map_ledis_def)
  ultimately show "ledis_ok map_ledis" "ledis_view map_ledis = [''k'' \<mapsto> ''v'']"
    by (simp_all add: ledis_ok_def ledis_view_def c)
qed

lemma sample_answers:
  "snd (svc_session store_itf (\<lambda>c. ''store'') sample_calls session_start) =
     [(Some (JStr ''v''), False), (None, False), (Some (JStr ''b''), False), (None, False), (None, True)]"
  by code_simp

theorem service_is_a_map_witness:
  "snd (svc_session store_itf (\<lambda>c. ''store'') sample_calls session_start) = snd (map_session sample_calls [''k'' \<mapsto> ''v''])"
proof -
  let ?s = "svc_session store_itf (\<lambda>c. ''store'') sample_calls session_start"
  obtain x1 answers where r: "?s = (x1, answers)" by force
  have a: "answers = [(Some (JStr ''v''), False), (None, False), (Some (JStr ''b''), False), (None, False), (None, True)]"
    using sample_answers r by simp
  have e: "\<forall>(c, a) \<in> set (zip sample_calls answers). is_get c \<or> \<not> snd a"
    by (simp add: a sample_calls_def)
  have i: "ex_app session_start = Instance_Constructor (init_stores b g map_ledis q)" for b g q
    by (simp add: session_start_def default_instance)
  from service_is_a_map [OF map_ledis_ok(1) i r e] r map_ledis_ok(2) show ?thesis by simp
qed

end
