(* ===== verification/Spec2Isabelle.thy ===== *)
theory Spec2Isabelle
  imports J2rpc_Properties G2db_Properties Token_Properties G2util_Properties App_Properties Gin_Properties
    Helper_Properties Connection_Properties Small_Helpers Token_Race_Properties
    Log_Race_Properties Part_Properties Store_Properties
begin

text \<open>
  Verification development of gof (src/, module github.com/atcharles/gof/v2), a Go application
  framework: a JSON-RPC server over gin, a database layer whose rows are cached in memory and
  kept coherent through Redis messages, login tokens, log files, and the start and the orderly
  shutdown of the whole.

  \<^bold>\<open>The program and its parts.\<close>  gof.go builds an App of four services; its Run loads the
  configuration (g2util/config.go), opens the log files (auto_back_file.go, level_logger.go),
  connects database and Redis (g2db), and serves HTTP (g2gin, j2rpc) until four signals have
  come (graceful.go).  A request reaches j2rpc.Server.Handler, is decoded, dispatched by name
  to a registered method and answered.  Methods read rows through the memory cache
  (g2db/cache.go over one of the adapters of g2cache) and write them in transactions whose
  sessions publish the keys to delete (g2db/mysql.go, session.go, redis.go) to every process.

  \<^bold>\<open>Theories and the code they model.\<close>
  \<^item> Prelude: Go strings and the functions of package strings, outcomes that may panic.
    Decimal: strconv.  Json_Value: JSON values.  Go_Reflect: package reflect.  Http_Writer:
    http.ResponseWriter.  Go_Mime: mime.ParseMediaType.  Go_Time: package time.
  \<^item> J2rpc_Names, J2rpc_Message, J2rpc_Middleware, J2rpc_Callback, J2rpc_Server: src/j2rpc/,
    file by file; J2rpc_Dispatch and J2rpc_Requests hold the lemmas that follow a name and a
    request through the server; Example_Fast is the service of src/examples/fast/main.go on a
    map, Example_Store the same over the program's cache.
  \<^item> Cache_Store: the adapters of src/g2cache/ over their libraries' objects, with the locale
    \<^verbatim>\<open>cache\<close> (the contract of ItfCache) interpreted for each; Cache_Registry: store.go and
    cache.go of g2cache; Cache_Steady: the stores that behave as a map; Cache_Mem and Cache_Race: cache.go of src/g2db/, first step by step,
    then as a step relation of readers, writers and deletion handlers.
  \<^item> Redis_Bus (redis.go), Cache_Bind (cache keys), Mysql_Cache and Mysql_Facts (mysql.go,
    session.go), Write_Announce (what a write publishes), Key_Change (which copies a deletion
    spares), Mysql_Schema (tables and migrations), Query_Rows (mysql_query_rows.go), Token,
    Token_Race and Token_Session (token.go: in one process, in interleavings of several, and over
    time), Bean_Map (g2util/map.go and merge_bean.go): src/g2db/.
  \<^item> Log_File, Level_Logger, Go_Pool, Graceful, Validator_Rules, Json_Time, App_Config, Crypto,
    Proc_Cmd: auto_back_file.go, level_logger.go, goroutine.go, graceful.go, validator.go,
    time.go, config.go, crypto.go and exec.go of src/g2util/, the last with src/g2cmd/.
  \<^item> Log_Race: one log file used by several goroutines, as interleavings of its critical sections.
    Shell_Exec: the commands of exec.go over a model of os/exec, and the search for processes
    through the shell.  Captcha: captcha.go.  Go_Template and Sql_Templates: template.go, and the
    SQL and version texts made with it.  Rpc_Log: the logger of a JSON-RPC server.  Module_Parts:
    the table of locks, base columns, the servers, the scheduler, numbers and identifiers.
  \<^item> Byte_Sink: the contract of io.Writer, with log file and response body as its
    implementations; Log_Output: a logger writing to a log file.
  \<^item> Gin_Handler: src/g2gin/gin-handler.go; Gin_Stack: the handlers in front of the JSON-RPC
    server, g2gin.go and middleware.go; Emq: src/g2emq/emq.go; App_Start: gof.go, Run of
    g2gin.go, Dial and Migrate of mysql.go, and the root, start and migrate commands.
  \<^item> Connections: engines, their options, the options of Redis and the MQTT broker (mysql.go,
    redis.go, emq.go); Resty: the HTTP client of g2util/resty.go.
  \<^item> Base64 (json_help.go), Tag_Instances (reflect.go, file.go), Gob_Time (the gob form of
    time.go), Small_Helpers (getters of map.go, config.go, cron.go, and the registry of
    commands of src/g2cmd/): helpers of src/g2util/.

  A struct is a record with the fields of the source that the operations use, an interface a
  record of its methods on an explicit world, an error a value of a sum or option type.  A panic
  is \<^verbatim>\<open>Panics\<close>; code that ends the process (log.Fatal) is a step of \<^verbatim>\<open>App_Start\<close> with its own
  outcome.  Machine integers that can overflow are words (query offsets, the pool's
  size, levels) or ints with the wrap-around written out (nanoseconds).

  \<^bold>\<open>What the lemmas show.\<close>  The theories of properties hold one group each:
  \<^item> J2rpc_Properties: names survive their conversions; registration keeps the server
    well-formed and its methods reachable; a request that is not acceptable runs nothing; an
    acceptable one is called once, and answered once.
  \<^item> G2db_Properties: reads through the cache return what the loader returned; a committed
    write announces its row and every reader then loads afresh, but not one by an old key; in
    which interleavings a stale copy can stay; failed transactions leave the database as it was;
    the pages of a query partition its rows.
  \<^item> Token_Properties: what an accepted token proves, and that login and logout take effect.
    Token_Race_Properties: the same for interleavings, how a logout can be undone, and that a
    session in use goes on.
  \<^item> G2util_Properties: the log file as an append-only byte stream and its sizes, old
    archives, the order of the shutdown, the counter of the pool, the levels, the rules.
  \<^item> App_Properties: a start followed by the shutdown, what has succeeded before anything is
    served, changes of the configuration, times, retries, handlers, the MQTT queue, passwords.
  \<^item> Gin_Properties: a call through the whole HTTP stack, and that every request is answered.
  \<^item> Connection_Properties: engines are closed, life times, the setters of the HTTP client.
  \<^item> Store_Properties: a session of the example program is a session on a map.
  \<^item> Helper_Properties: base64 texts, the instances of a tag, the gob form of times.
  \<^item> Log_Race_Properties: what a log file holds in every interleaving, and the Write that is lost.
  \<^item> Part_Properties: commands of the shell and the process table, statements and their
    templates, one attempt for a captcha, one lock for a key, the log of the server.

  \<^bold>\<open>Loops and bounds.\<close>  No definition runs on fuel.  Loops over data are structural recursions;
  the others (replacement in strings, the year of a day, retries) carry a measure.  Loops of
  the program that never end by themselves (signal loop, subscription, worker, log writer,
  poll of ps) consume a finite list of the events that reach them, and the statements hold for
  every such list.  Interleavings are the reachable states of a step relation.

  \<^bold>\<open>Parameters.\<close>  What third-party code does is an argument: regular expressions, JSON text,
  AES, the clients of Redis, MQTT and the cache libraries, xorm's engine and sessions, viper's
  search, gin's binding, the shell's ps, the clock, answers of the operating system.  Where a
  property needs documented behaviour of one of them, it is a hypothesis, and the witness
  instantiates the parameter by a concrete function.

  \<^bold>\<open>Not modelled.\<close>  The JSON aliases chosen by a build tag, the command-line parser,
  and templates with other actions than fields: they select or configure third-party code and
  keep no state of their own.  What the cache libraries do with their options, the rounding of
  floating-point arithmetic, the stack in the log line of a crashed method, and the end of the
  process when a server cannot listen are left out too.
\<close>

end
